(* ===== verification/Prelude.thy ===== *)
theory Prelude
  imports Main "HOL-Library.Word" "HOL-Library.Signed_Division"
begin

text \<open>
  Shared vocabulary of the development: the machine types of the C sources, byte strings in
  little and big endian order, bounded reads and in-place writes of a byte buffer (the model of
  \<^verbatim>\<open>memcpy\<close> into an array), and the lemmas on them that every component uses. A buffer is a
  \<open>byte list\<close>; an access outside it is a value of the component's result type, never an
  unspecified list element.
\<close>

unbundle bit_operations_syntax

type_synonym byte = "8 word"
type_synonym u8 = "8 word"
type_synonym u16 = "16 word"
type_synonym u32 = "32 word"
type_synonym u64 = "64 word"

named_theorems byte_simps \<open>reading back what was written to a buffer\<close>
named_theorems unfold_defs \<open>definitions a component's case analyses unfold\<close>

section \<open>Numbers as byte strings\<close>

primrec le_nat :: "byte list \<Rightarrow> nat" where
  "le_nat [] = 0"
| "le_nat (b # bs) = unat b + 256 * le_nat bs"

primrec le_bytes :: "nat \<Rightarrow> nat \<Rightarrow> byte list" where
  "le_bytes 0 v = []"
| "le_bytes (Suc n) v = of_nat v # le_bytes n (v div 256)"

definition be_nat :: "byte list \<Rightarrow> nat" where
  "be_nat bs = le_nat (rev bs)"

definition be_bytes :: "nat \<Rightarrow> nat \<Rightarrow> byte list" where
  "be_bytes n v = rev (le_bytes n v)"

text \<open>The same on words, as the machine computes them.\<close>

primrec le_word :: "byte list \<Rightarrow> 'a::len word" where
  "le_word [] = 0"
| "le_word (b # bs) = ucast b + 256 * le_word bs"

primrec word_bytes :: "nat \<Rightarrow> 'a::len word \<Rightarrow> byte list" where
  "word_bytes 0 w = []"
| "word_bytes (Suc n) w = ucast w # word_bytes n (drop_bit 8 w)"

lemma length_le_bytes [simp]: "length (le_bytes n v) = n"
  by (induction n arbitrary: v) auto

lemma length_be_bytes [simp]: "length (be_bytes n v) = n"
  by (simp add: be_bytes_def)

lemma unat_byte_of_nat [simp]: "unat (of_nat v :: byte) = v mod 256"
  by (simp add: unat_of_nat)

lemma unat_byte_less [simp]: "unat (b :: byte) < 256"
  using unsigned_less [of b] by simp

lemma le_word_eq: "le_word bs = of_nat (le_nat bs)"
  by (induction bs) simp_all

lemma word_bytes_eq: "word_bytes n w = le_bytes n (unat w)"
proof (induction n arbitrary: w)
  case (Suc n)
  have "unat (drop_bit 8 w) = unat w div 256"
    by (simp add: unat_drop_bit_eq drop_bit_nat_def)
  with Suc show ?case by simp
qed simp

lemma le_nat_bound: "le_nat bs < 256 ^ length bs"
proof (induction bs)
  case (Cons b bs)
  have "unat b < 256" by simp
  with Cons.IH have "unat b + 256 * le_nat bs < 256 + 256 * (256 ^ length bs - 1)" by linarith
  also have "\<dots> = 256 * 256 ^ length bs" by (simp add: algebra_simps)
  finally show ?case by simp
qed simp

lemma le_nat_le_bytes: "le_nat (le_bytes n v) = v mod 256 ^ n"
proof (induction n arbitrary: v)
  case (Suc n)
  have "v mod 256 ^ Suc n = v mod 256 + 256 * (v div 256 mod 256 ^ n)"
    by (simp add: mod_mult2_eq)
  with Suc show ?case by simp
qed simp

lemma le_bytes_le_nat: "le_bytes (length bs) (le_nat bs) = bs"
proof (induction bs)
  case (Cons b bs)
  have small: "unat b < 256" by simp
  then have "(unat b + 256 * le_nat bs) div 256 = le_nat bs" by simp
  moreover have "(of_nat (unat b + 256 * le_nat bs) :: byte) = b"
    by (rule word_unat_eq_iff [THEN iffD2]) (use small in \<open>simp only: unat_byte_of_nat, simp\<close>)
  ultimately show ?case using Cons.IH by simp
qed simp

lemma be_nat_be_bytes: "be_nat (be_bytes n v) = v mod 256 ^ n"
  by (simp add: be_nat_def be_bytes_def le_nat_le_bytes)

lemma be_bytes_be_nat: "be_bytes (length bs) (be_nat bs) = bs"
  using le_bytes_le_nat [of "rev bs"] by (simp add: be_nat_def be_bytes_def)

lemma be_nat_bound: "be_nat bs < 256 ^ length bs"
  using le_nat_bound [of "rev bs"] by (simp add: be_nat_def)

section \<open>Buffers\<close>

text \<open>\<open>bytes_at off n xs\<close> is the part of a buffer a reader of \<open>n\<close> bytes at \<open>off\<close> sees;
  \<open>put_at off bs xs\<close> is the buffer after \<^verbatim>\<open>memcpy(xs + off, bs, n)\<close>.\<close>

definition bytes_at :: "nat \<Rightarrow> nat \<Rightarrow> 'a list \<Rightarrow> 'a list" where
  "bytes_at off n xs = take n (drop off xs)"

definition put_at :: "nat \<Rightarrow> 'a list \<Rightarrow> 'a list \<Rightarrow> 'a list" where
  "put_at off bs xs = take off xs @ bs @ drop (off + length bs) xs"

definition disjoint_range :: "nat \<Rightarrow> nat \<Rightarrow> nat \<Rightarrow> nat \<Rightarrow> bool" where
  "disjoint_range a m b n \<longleftrightarrow> a + m \<le> b \<or> b + n \<le> a"

lemma length_bytes_at [simp]: "length (bytes_at off n xs) = min n (length xs - off)"
  by (simp add: bytes_at_def)

lemma length_put_at [simp]:
  "off + length bs \<le> length xs \<Longrightarrow> length (put_at off bs xs) = length xs"
  by (simp add: put_at_def)

lemma nth_bytes_at: "off + i < length xs \<Longrightarrow> i < n \<Longrightarrow> bytes_at off n xs ! i = xs ! (off + i)"
  by (simp add: bytes_at_def)

lemma nth_put_at:
  assumes "off + length bs \<le> length xs" and "i < length xs"
  shows "put_at off bs xs ! i =
    (if off \<le> i \<and> i < off + length bs then bs ! (i - off) else xs ! i)"
  using assms by (auto simp: put_at_def nth_append)

lemma bytes_at_eqI:
  assumes "length xs = length ys"
    and "\<And>i. off \<le> i \<Longrightarrow> i < off + n \<Longrightarrow> i < length xs \<Longrightarrow> xs ! i = ys ! i"
  shows "bytes_at off n xs = bytes_at off n ys"
proof (rule nth_equalityI)
  show "length (bytes_at off n xs) = length (bytes_at off n ys)" using assms(1) by simp
next
  fix i assume "i < length (bytes_at off n xs)"
  then have "i < n" "off + i < length xs" by auto
  with assms show "bytes_at off n xs ! i = bytes_at off n ys ! i"
    by (simp add: nth_bytes_at)
qed

lemma bytes_at_eqD:
  assumes "bytes_at off n xs = bytes_at off n ys" and "length xs = length ys"
    and "off \<le> i" "i < off + n" "i < length xs"
  shows "xs ! i = ys ! i"
proof -
  from assms(3-5) have "xs ! i = bytes_at off n xs ! (i - off)"
    using nth_bytes_at [of off "i - off" xs n] by auto
  also have "\<dots> = ys ! i"
    using assms nth_bytes_at [of off "i - off" ys n] by auto
  finally show ?thesis .
qed

lemma bytes_at_put_at_same [byte_simps]:
  "off + length bs \<le> length xs \<Longrightarrow> n = length bs \<Longrightarrow> bytes_at off n (put_at off bs xs) = bs"
  by (simp add: bytes_at_def put_at_def)

lemma bytes_at_put_at_disjoint [byte_simps]:
  assumes "off + length bs \<le> length xs" and "disjoint_range off (length bs) a n"
  shows "bytes_at a n (put_at off bs xs) = bytes_at a n xs"
proof (rule bytes_at_eqI)
  show "length (put_at off bs xs) = length xs" using assms(1) by simp
next
  fix i assume i: "a \<le> i" "i < a + n" "i < length (put_at off bs xs)"
  with assms(1) have "i < length xs" by simp
  with i assms(2) show "put_at off bs xs ! i = xs ! i"
    unfolding nth_put_at [OF assms(1) \<open>i < length xs\<close>] disjoint_range_def by auto
qed

lemma put_at_bytes_at: "off + n \<le> length xs \<Longrightarrow> put_at off (bytes_at off n xs) xs = xs"
  by (simp add: put_at_def bytes_at_def min_def)
     (metis append_take_drop_id drop_drop add.commute)

lemma bytes_at_sub:
  assumes "bytes_at a m xs = bytes_at a m ys" "length xs = length ys" "a \<le> b" "b + n \<le> a + m"
  shows "bytes_at b n xs = bytes_at b n ys"
proof (rule bytes_at_eqI [OF assms(2)])
  fix i assume "b \<le> i" "i < b + n" "i < length xs"
  with assms(3,4) show "xs ! i = ys ! i"
    by (intro bytes_at_eqD [OF assms(1,2)]) auto
qed

lemma disjoint_range_sym: "disjoint_range a m b n \<longleftrightarrow> disjoint_range b n a m"
  by (auto simp: disjoint_range_def)

lemma disjoint_range_sub:
  "disjoint_range a m b n \<Longrightarrow> b \<le> c \<Longrightarrow> c + k \<le> b + n \<Longrightarrow> disjoint_range a m c k"
  by (auto simp: disjoint_range_def)

end
