(* ===== verification/JumpLabel.thy ===== *)
theory JumpLabel
  imports Prelude
begin

text \<open>
  The kernel build's jump-label patcher, \<^verbatim>\<open>src/packages/linux/files/x86-jump-label-patch.c\<close>.
  It reads ELF64 objects, and for every enabled-by-default jump-table entry replaces the jump at
  the branch site by a NOP of the same length and turns the relocations of that site into
  \<^verbatim>\<open>R_X86_64_NONE\<close>. The object is one byte buffer that the C code views through overlaid
  structs, so the model keeps one \<open>byte list\<close> and decodes every field at each access: a write
  through one view is seen by the others, as in C. An access outside the buffer is \<open>Oob\<close>
  (undefined behaviour of the C code); each \<^verbatim>\<open>return -1\<close> is a constructor of \<open>patch_error\<close>.
\<close>

section \<open>Results\<close>

datatype patch_error =
    BadSectionTable | BadShstrtab | BadJumpRela | BadSymtab
  | MissingOrigin | BadSymIndex | BadSymSection | InsnOutOfFile | NopTruncated
  | UnexpectedOpcode byte | BadTextRela | WriteFailed

datatype 'a run = Done 'a | Fail patch_error | Oob

fun bindR :: "'a run \<Rightarrow> ('a \<Rightarrow> 'b run) \<Rightarrow> 'b run" where
  "bindR (Done x) f = f x"
| "bindR (Fail e) f = Fail e"
| "bindR Oob f = Oob"

lemma bindR_cong [fundef_cong]:
  "m = m' \<Longrightarrow> (\<And>x. m' = Done x \<Longrightarrow> f x = g x) \<Longrightarrow> bindR m f = bindR m' g"
  by (cases m') auto

lemma bindR_eq_Done: "bindR m f = Done y \<longleftrightarrow> (\<exists>x. m = Done x \<and> f x = Done y)"
  by (cases m) auto

lemma bindR_eq_Oob: "bindR m f = Oob \<longleftrightarrow> m = Oob \<or> (\<exists>x. m = Done x \<and> f x = Oob)"
  by (cases m) auto

lemma bindR_Done_right [simp]: "bindR m Done = m"
  by (cases m) auto

section \<open>The ELF64 structures of elf.h\<close>

record Elf64_Ehdr =
  e_shoff :: u64
  e_shentsize :: u16
  e_shnum :: u16
  e_shstrndx :: u16

record Elf64_Shdr =
  sh_name :: u32
  sh_type :: u32
  sh_offset :: u64
  sh_size :: u64
  sh_link :: u32
  sh_info :: u32
  sh_entsize :: u64

record Elf64_Sym =
  st_shndx :: u16
  st_value :: u64

record Elf64_Rela =
  r_offset :: u64
  r_info :: u64
  r_addend :: u64

definition fld :: "nat \<Rightarrow> nat \<Rightarrow> byte list \<Rightarrow> 'a::len word" where
  "fld off n bs = le_word (bytes_at off n bs)"

definition dec_ehdr :: "byte list \<Rightarrow> Elf64_Ehdr" where
  "dec_ehdr bs = \<lparr>e_shoff = fld 40 8 bs, e_shentsize = fld 58 2 bs, e_shnum = fld 60 2 bs,
     e_shstrndx = fld 62 2 bs\<rparr>"

definition dec_shdr :: "byte list \<Rightarrow> Elf64_Shdr" where
  "dec_shdr bs = \<lparr>sh_name = fld 0 4 bs, sh_type = fld 4 4 bs, sh_offset = fld 24 8 bs,
     sh_size = fld 32 8 bs, sh_link = fld 40 4 bs, sh_info = fld 44 4 bs, sh_entsize = fld 56 8 bs\<rparr>"

definition dec_sym :: "byte list \<Rightarrow> Elf64_Sym" where
  "dec_sym bs = \<lparr>st_shndx = fld 6 2 bs, st_value = fld 8 8 bs\<rparr>"

definition dec_rela :: "byte list \<Rightarrow> Elf64_Rela" where
  "dec_rela bs = \<lparr>r_offset = fld 0 8 bs, r_info = fld 8 8 bs, r_addend = fld 16 8 bs\<rparr>"

text \<open>\<open>rec_at sz dec d base i\<close> is the access \<^verbatim>\<open>p[i]\<close> for a pointer \<open>p\<close> to structs of \<open>sz\<close>
  bytes that starts \<open>base\<close> bytes into the buffer.\<close>

definition rec_at :: "nat \<Rightarrow> (byte list \<Rightarrow> 'r) \<Rightarrow> byte list \<Rightarrow> nat \<Rightarrow> nat \<Rightarrow> 'r run" where
  "rec_at sz dec d base i =
     (if base + sz * i + sz \<le> length d then Done (dec (bytes_at (base + sz * i) sz d)) else Oob)"

abbreviation "ehdr_at d \<equiv> rec_at 64 dec_ehdr d 0 0"
abbreviation "shdr_at \<equiv> rec_at 64 dec_shdr"
abbreviation "sym_at \<equiv> rec_at 24 dec_sym"
abbreviation "rela_at \<equiv> rec_at 24 dec_rela"

definition byte_at :: "byte list \<Rightarrow> nat \<Rightarrow> byte run" where
  "byte_at d i = (if i < length d then Done (d ! i) else Oob)"

definition SHT_RELA :: u32 where "SHT_RELA = 4"

definition ELF64_R_SYM :: "u64 \<Rightarrow> u32" where
  "ELF64_R_SYM i = ucast (drop_bit 32 i)"

definition ELF64_R_INFO :: "u32 \<Rightarrow> u32 \<Rightarrow> u64" where
  "ELF64_R_INFO s t = push_bit 32 (ucast s) + ucast t"

section \<open>The patcher\<close>

definition has_at :: "byte list \<Rightarrow> nat \<Rightarrow> byte list \<Rightarrow> bool" where
  "has_at d off bs =
     (if off > length d \<or> length bs > length d - off then False
      else bytes_at off (length bs) d = bs)"

definition write_at :: "byte list \<Rightarrow> nat \<Rightarrow> byte list \<Rightarrow> byte list option" where
  "write_at d off bs =
     (if off > length d \<or> length bs > length d - off then None else Some (put_at off bs d))"

text \<open>\<^verbatim>\<open>section_name\<close> yields a pointer into the buffer, or the empty literal.\<close>

definition section_name :: "nat \<Rightarrow> nat \<Rightarrow> u32 \<Rightarrow> nat option" where
  "section_name names names_size off =
     (if unat off \<ge> names_size then None else Some (names + unat off))"

text \<open>\<^verbatim>\<open>strcmp(d + k, lit) == 0\<close>: it reads the buffer up to the first difference or the NUL.\<close>

fun strcmp_eq :: "byte list \<Rightarrow> nat \<Rightarrow> byte list \<Rightarrow> bool run" where
  "strcmp_eq d k [] = bindR (byte_at d k) (\<lambda>b. Done (b = 0))"
| "strcmp_eq d k (c # cs) =
     bindR (byte_at d k) (\<lambda>b. if b = c then strcmp_eq d (Suc k) cs else Done False)"

definition jump_table_name :: "byte list" where
  "jump_table_name = map (\<lambda>c. of_nat (of_char c)) ''.rela__jump_table''"

definition name_is_jump_table :: "byte list \<Rightarrow> nat \<Rightarrow> nat \<Rightarrow> u32 \<Rightarrow> bool run" where
  "name_is_jump_table d names names_size off =
     (case section_name names names_size off of
        None \<Rightarrow> Done False
      | Some p \<Rightarrow> strcmp_eq d p jump_table_name)"

fun find_jump_rela :: "byte list \<Rightarrow> nat \<Rightarrow> nat \<Rightarrow> nat \<Rightarrow> nat \<Rightarrow> nat \<Rightarrow> nat option run" where
  "find_jump_rela d shoff names names_size i 0 = Done None"
| "find_jump_rela d shoff names names_size i (Suc n) =
     bindR (shdr_at d shoff i) (\<lambda>s.
       if sh_type s = SHT_RELA
       then bindR (name_is_jump_table d names names_size (sh_name s)) (\<lambda>hit.
              if hit then Done (Some i)
              else find_jump_rela d shoff names names_size (Suc i) n)
       else find_jump_rela d shoff names names_size (Suc i) n)"

text \<open>The locals of \<^verbatim>\<open>patch_object\<close> that the loops use: three pointers into the buffer and
  two element counts, all computed before the first write.\<close>

record ctx =
  sh_base :: nat
  sym_base :: nat
  sym_count :: nat
  rela_base :: nat
  rela_count :: nat

definition nop5 :: "byte list" where "nop5 = [0x0f, 0x1f, 0x44, 0x00, 0x00]"
definition nop2 :: "byte list" where "nop2 = [0x66, 0x90]"

definition addend_mod :: "u64 \<Rightarrow> int" where
  "addend_mod a = (let m = sint a smod 4 in if m < 0 then m + 4 else m)"

fun find_orig :: "byte list \<Rightarrow> nat \<Rightarrow> u64 \<Rightarrow> nat \<Rightarrow> nat \<Rightarrow> Elf64_Rela option run" where
  "find_orig d base off j 0 = Done None"
| "find_orig d base off j (Suc n) =
     bindR (rela_at d base j) (\<lambda>r.
       if r_offset r = off then Done (Some r) else find_orig d base off (Suc j) n)"

definition patch_insn :: "byte list \<Rightarrow> nat \<Rightarrow> (byte list \<times> nat) run" where
  "patch_insn d off =
     bindR (byte_at d off) (\<lambda>op.
       if op = 0xe9 then
         (case write_at d off nop5 of None \<Rightarrow> Fail NopTruncated | Some d' \<Rightarrow> Done (d', 1))
       else if op = 0xeb then
         (case write_at d off nop2 of None \<Rightarrow> Fail NopTruncated | Some d' \<Rightarrow> Done (d', 1))
       else if \<not> has_at d off nop5 \<and> \<not> has_at d off nop2 then Fail (UnexpectedOpcode op)
       else Done (d, 0))"

definition clear_type :: "byte list \<Rightarrow> nat \<Rightarrow> nat \<Rightarrow> Elf64_Rela \<Rightarrow> byte list" where
  "clear_type d base ri rl =
     put_at (base + 24 * ri + 8)
       (word_bytes 8 (ELF64_R_INFO (ELF64_R_SYM (r_info rl)) 0)) d"

fun clear_relocs :: "nat \<Rightarrow> u64 \<Rightarrow> byte list \<Rightarrow> nat \<Rightarrow> nat \<Rightarrow> byte list run" where
  "clear_relocs base insn_off d ri 0 = Done d"
| "clear_relocs base insn_off d ri (Suc n) =
     bindR (rela_at d base ri) (\<lambda>rl.
       clear_relocs base insn_off
         (if r_offset rl = insn_off then clear_type d base ri rl else d) (Suc ri) n)"

definition fix_section :: "ctx \<Rightarrow> nat \<Rightarrow> u64 \<Rightarrow> byte list \<Rightarrow> nat \<Rightarrow> byte list run" where
  "fix_section c si insn_off d r =
     bindR (shdr_at d (sh_base c) r) (\<lambda>s.
     bindR (sym_at d (sym_base c) si) (\<lambda>sym.
       if sh_type s \<noteq> SHT_RELA \<or> sh_info s \<noteq> ucast (st_shndx sym) \<or> unat (sh_entsize s) < 24
       then Done d
       else if unat (sh_offset s) > length d \<or> unat (sh_size s) > length d - unat (sh_offset s)
       then Fail BadTextRela
       else clear_relocs (unat (sh_offset s)) insn_off d 0
              (unat (sh_size s) div unat (sh_entsize s))))"

text \<open>\<^verbatim>\<open>for (r = 0; r < eh->e_shnum; r++)\<close>: the bound is read from the buffer each time round.\<close>

function (sequential) fix_relocs :: "ctx \<Rightarrow> nat \<Rightarrow> u64 \<Rightarrow> byte list \<Rightarrow> nat \<Rightarrow> byte list run" where
  "fix_relocs c si insn_off d r =
     bindR (ehdr_at d) (\<lambda>eh.
       if r < unat (e_shnum eh)
       then bindR (fix_section c si insn_off d r) (\<lambda>d'. fix_relocs c si insn_off d' (Suc r))
       else Done d)"
  by pat_completeness auto
termination
proof (relation "measure (\<lambda>(c, si, insn_off, d, r). 65536 - r)")
  fix c si insn_off d r eh d'
  assume "r < unat (e_shnum (eh :: Elf64_Ehdr))"
  moreover have "unat (e_shnum eh) < 65536" using unsigned_less [of "e_shnum eh"] by simp
  ultimately show "((c, si, insn_off, d', Suc r), (c, si, insn_off, d, r))
      \<in> measure (\<lambda>(c, si, insn_off, d, r). 65536 - r)" by simp
qed simp

declare fix_relocs.simps [simp del]

text \<open>The first half of the relocation loop's body, up to the first write: \<open>None\<close> where the
  code continues with the next entry, otherwise the symbol index, the section index, the offset of
  the branch in its section and its offset in the file. The three additions wrap at 64 bits.\<close>

record site =
  s_sym :: nat
  s_sec :: nat
  s_insn :: u64
  s_file :: nat

definition resolve_site :: "ctx \<Rightarrow> byte list \<Rightarrow> nat \<Rightarrow> site option run" where
  "resolve_site c d i =
     bindR (rela_at d (rela_base c) i) (\<lambda>rl.
       if unat (r_offset rl) mod 16 \<noteq> 8 then Done None
       else if addend_mod (r_addend rl) < 2 then Done None
       else bindR (find_orig d (rela_base c) (r_offset rl - 8) 0 (rela_count c)) (\<lambda>orig.
         case orig of
           None \<Rightarrow> Fail MissingOrigin
         | Some rl0 \<Rightarrow>
             (let si = unat (ELF64_R_SYM (r_info rl0)) in
              if si \<ge> sym_count c then Fail BadSymIndex
              else bindR (sym_at d (sym_base c) si) (\<lambda>sym.
                   bindR (ehdr_at d) (\<lambda>eh.
                     if st_shndx sym = 0 \<or> st_shndx sym \<ge> e_shnum eh then Fail BadSymSection
                     else bindR (shdr_at d (sh_base c) (unat (st_shndx sym))) (\<lambda>text.
                       let insn_off = st_value sym + r_addend rl0;
                           file_off = unat (sh_offset text + insn_off) in
                       if file_off \<ge> length d then Fail InsnOutOfFile
                       else Done (Some \<lparr>s_sym = si, s_sec = unat (st_shndx sym),
                              s_insn = insn_off, s_file = file_off\<rparr>)))))))"

text \<open>The whole body for entry \<open>i\<close>: the new buffer and the increment of \<^verbatim>\<open>changed\<close>.\<close>

definition patch_entry :: "ctx \<Rightarrow> byte list \<Rightarrow> nat \<Rightarrow> (byte list \<times> nat) run" where
  "patch_entry c d i =
     bindR (resolve_site c d i) (\<lambda>found. case found of
       None \<Rightarrow> Done (d, 0)
     | Some s \<Rightarrow>
         bindR (patch_insn d (s_file s)) (\<lambda>(d1, n).
         bindR (fix_relocs c (s_sym s) (s_insn s) d1 0) (\<lambda>d2. Done (d2, n))))"

fun patch_loop :: "ctx \<Rightarrow> byte list \<Rightarrow> nat \<Rightarrow> nat \<Rightarrow> nat \<Rightarrow> (byte list \<times> nat) run" where
  "patch_loop c d changed i 0 = Done (d, changed)"
| "patch_loop c d changed i (Suc n) =
     bindR (patch_entry c d i) (\<lambda>(d', k). patch_loop c d' (changed + k) (Suc i) n)"

text \<open>The head of \<^verbatim>\<open>patch_object\<close>: \<open>None\<close> when the buffer is not a 64-bit little-endian ELF
  object or has no jump table (both return 0), otherwise the locals.\<close>

definition is_elf64_lsb :: "byte list \<Rightarrow> bool" where
  "is_elf64_lsb d \<longleftrightarrow>
     \<not> (length d < 64 \<or> take 4 d \<noteq> [0x7f, 0x45, 0x4c, 0x46] \<or> d ! 4 \<noteq> 2 \<or> d ! 5 \<noteq> 1)"

definition find_tables :: "byte list \<Rightarrow> nat \<Rightarrow> nat \<Rightarrow> nat \<Rightarrow> nat \<Rightarrow> ctx option run" where
  "find_tables d shoff shnum names names_size =
     bindR (find_jump_rela d shoff names names_size 0 shnum) (\<lambda>jump_rela. case jump_rela of
       None \<Rightarrow> Done None
     | Some j \<Rightarrow> bindR (shdr_at d shoff j) (\<lambda>jr.
         if unat (sh_entsize jr) < 24 \<or> unat (sh_offset jr) > length d
            \<or> unat (sh_size jr) > length d - unat (sh_offset jr)
            \<or> unat (sh_link jr) \<ge> shnum
         then Fail BadJumpRela
         else bindR (shdr_at d shoff (unat (sh_link jr))) (\<lambda>symsec.
           if unat (sh_entsize symsec) < 24 \<or> unat (sh_offset symsec) > length d
              \<or> unat (sh_size symsec) > length d - unat (sh_offset symsec)
           then Fail BadSymtab
           else Done (Some \<lparr>sh_base = shoff, sym_base = unat (sh_offset symsec),
                  sym_count = unat (sh_size symsec) div unat (sh_entsize symsec),
                  rela_base = unat (sh_offset jr),
                  rela_count = unat (sh_size jr) div unat (sh_entsize jr)\<rparr>))))"

definition locate :: "byte list \<Rightarrow> ctx option run" where
  "locate d =
    (if \<not> is_elf64_lsb d then Done None
     else bindR (ehdr_at d) (\<lambda>eh.
       let shoff = unat (e_shoff eh); shnum = unat (e_shnum eh) in
       if shoff > length d \<or> unat (e_shentsize eh) < 64 \<or> shnum = 0
          \<or> shnum * unat (e_shentsize eh) > length d - shoff \<or> unat (e_shstrndx eh) \<ge> shnum
       then Fail BadSectionTable
       else bindR (shdr_at d shoff (unat (e_shstrndx eh))) (\<lambda>shstr.
         if unat (sh_offset shstr) > length d
            \<or> unat (sh_size shstr) > length d - unat (sh_offset shstr)
         then Fail BadShstrtab
         else find_tables d shoff shnum (unat (sh_offset shstr)) (unat (sh_size shstr)))))"

definition patch_bytes :: "byte list \<Rightarrow> (byte list \<times> nat) run" where
  "patch_bytes d =
     bindR (locate d) (\<lambda>loc. case loc of
       None \<Rightarrow> Done (d, 0)
     | Some c \<Rightarrow> patch_loop c d 0 0 (rela_count c))"

section \<open>Files and the command\<close>

text \<open>The file system as the stdio calls see it: file contents, and for each path whether each
  call of \<^verbatim>\<open>read_file\<close> and \<^verbatim>\<open>write_file\<close> succeeds. \<open>wb_room\<close> is how many bytes a failing
  \<^verbatim>\<open>fwrite\<close> still gets into the file, which \<^verbatim>\<open>fopen(path, "wb")\<close> has truncated by then.\<close>

record stdio =
  files :: "string \<rightharpoonup> byte list"
  fstat_ok :: "string \<Rightarrow> bool"
  malloc_ok :: "string \<Rightarrow> bool"
  fread_ok :: "string \<Rightarrow> bool"
  wb_open_ok :: "string \<Rightarrow> bool"
  wb_room :: "string \<Rightarrow> nat option"
  fclose_ok :: "string \<Rightarrow> bool"

definition read_file :: "stdio \<Rightarrow> string \<Rightarrow> byte list option" where
  "read_file w path =
     (case files w path of
        None \<Rightarrow> None
      | Some data \<Rightarrow>
          if \<not> fstat_ok w path then None
          else if \<not> malloc_ok w path then None
          else if length data > 0 \<and> \<not> fread_ok w path then None
          else Some data)"

definition write_file :: "stdio \<Rightarrow> string \<Rightarrow> byte list \<Rightarrow> bool \<times> stdio" where
  "write_file w path data =
     (if \<not> wb_open_ok w path then (False, w)
      else case wb_room w path of
        Some n \<Rightarrow>
          if length data > 0 \<and> n < length data
          then (False, w\<lparr>files := (files w)(path \<mapsto> take n data)\<rparr>)
          else (fclose_ok w path, w\<lparr>files := (files w)(path \<mapsto> data)\<rparr>)
      | None \<Rightarrow> (fclose_ok w path, w\<lparr>files := (files w)(path \<mapsto> data)\<rparr>))"

record tally =
  patched_objects :: nat
  patches :: nat

definition patch_object :: "stdio \<Rightarrow> string \<Rightarrow> tally \<Rightarrow> tally run \<times> stdio" where
  "patch_object w path t =
     (case read_file w path of
        None \<Rightarrow> (Done t, w)
      | Some d \<Rightarrow>
          (case patch_bytes d of
             Oob \<Rightarrow> (Oob, w)
           | Fail e \<Rightarrow> (Fail e, w)
           | Done (d', changed) \<Rightarrow>
               if changed > 0 then
                 (case write_file w path d' of
                    (ok, w') \<Rightarrow>
                      if \<not> ok then (Fail WriteFailed, w')
                      else (Done (t\<lparr>patched_objects := patched_objects t + 1,
                                    patches := patches t + changed\<rparr>), w'))
               else (Done t, w)))"

text \<open>\<^verbatim>\<open>main\<close>: the exit status, the number of objects scanned and the totals it prints
  (\<open>None\<close> when it exits with 2 before printing), and the file system it leaves.\<close>

fun scan_objects :: "stdio \<Rightarrow> string list \<Rightarrow> nat \<Rightarrow> tally \<Rightarrow> (nat \<times> tally) run \<times> stdio" where
  "scan_objects w [] scanned t = (Done (scanned, t), w)"
| "scan_objects w (path # paths) scanned t =
     (case patch_object w path t of
        (Done t', w') \<Rightarrow> scan_objects w' paths (Suc scanned) t'
      | (Fail e, w') \<Rightarrow> (Fail e, w')
      | (Oob, w') \<Rightarrow> (Oob, w'))"

definition patch_main :: "stdio \<Rightarrow> string list \<Rightarrow> (int \<times> (nat \<times> tally) option) option \<times> stdio" where
  "patch_main w paths =
     (case scan_objects w paths 0 \<lparr>patched_objects = 0, patches = 0\<rparr> of
        (Done (n, t), w') \<Rightarrow> (Some (0, Some (n, t)), w')
      | (Fail e, w') \<Rightarrow> (Some (2, None), w')
      | (Oob, w') \<Rightarrow> (None, w'))"

end
