(* ===== verification/JumpLabelAccess.thy ===== *)
theory JumpLabelAccess
  imports JumpLabel
begin

text \<open>
  Facts on the jump-label patcher that need no assumption on how the sections of the object lie:
  which bytes the relocation loops clear, that no step changes the length of the buffer, and what
  the header, section table and name table of an object determine.
\<close>

section \<open>Accesses and writes\<close>

lemma rec_at_Done:
  "rec_at sz dec d base i = Done r \<longleftrightarrow>
     base + sz * i + sz \<le> length d \<and> r = dec (bytes_at (base + sz * i) sz d)"
  by (auto simp: rec_at_def)

lemma rec_at_not_Fail [simp]: "rec_at sz dec d base i \<noteq> Fail e"
  by (simp add: rec_at_def)

lemma rec_at_Oob: "rec_at sz dec d base i = Oob \<longleftrightarrow> \<not> base + sz * i + sz \<le> length d"
  by (auto simp: rec_at_def)

lemma rec_at_array:
  "base + sz * n \<le> length d \<Longrightarrow> i < n \<Longrightarrow> base + sz * i + sz \<le> length d"
proof -
  assume "base + sz * n \<le> length d" "i < n"
  then have "sz * Suc i \<le> sz * n" by (intro mult_le_mono) auto
  with \<open>base + sz * n \<le> length d\<close> show ?thesis by simp
qed

lemma rec_at_agree:
  assumes "bytes_at a (sz * n) d = bytes_at a (sz * n) d0" "length d = length d0" "i < n"
  shows "rec_at sz dec d a i = rec_at sz dec d0 a i"
proof -
  have "sz * Suc i \<le> sz * n" using assms(3) by (intro mult_le_mono) auto
  then have "bytes_at (a + sz * i) sz d = bytes_at (a + sz * i) sz d0"
    by (intro bytes_at_sub [OF assms(1,2)]) auto
  then show ?thesis using assms(2) by (simp add: rec_at_def)
qed

lemma le_bytes_8:
  "le_bytes 8 v = [of_nat v, of_nat (v div 256), of_nat (v div 65536), of_nat (v div 16777216),
     of_nat (v div 4294967296), of_nat (v div 1099511627776), of_nat (v div 281474976710656),
     of_nat (v div 72057594037927936)]"
proof -
  have eight: "(8::nat) = Suc (Suc (Suc (Suc (Suc (Suc (Suc (Suc 0)))))))" by simp
  show ?thesis
    unfolding eight le_bytes.simps by (simp add: div_mult2_eq [symmetric])
qed

lemma le_bytes_clear:
  "le_bytes 8 (unat (ELF64_R_INFO (ELF64_R_SYM w) 0)) = replicate 4 0 @ drop 4 (le_bytes 8 (unat w))"
proof -
  have lt: "unat w div 4294967296 < 4294967296"
    using unsigned_less [of w, where ?'a = nat] by simp
  have a: "unat (ucast (drop_bit 32 w :: u64) :: u32) = unat w div 4294967296"
    unfolding unsigned_ucast_eq unsigned_drop_bit_eq
    using lt by (simp add: drop_bit_nat_def take_bit_nat_def)
  have b: "unat (push_bit 32 (ucast s) :: u64) = unat s * 4294967296" for s :: u32
    using unsigned_less [of s, where ?'a = nat]
    unfolding unsigned_push_bit_eq unsigned_ucast_eq
    by (simp add: push_bit_nat_def take_bit_nat_def)
  have "unat (ELF64_R_INFO (ELF64_R_SYM w) 0) = unat w div 4294967296 * 4294967296"
    unfolding ELF64_R_INFO_def ELF64_R_SYM_def
    using b [of "ucast (drop_bit 32 w :: u64)"] unfolding a by simp
  moreover have z: "(4294967296 :: byte) = 0" "(16777216 :: byte) = 0" "(65536 :: byte) = 0"
    "(256 :: byte) = 0" by simp_all
  moreover have "replicate 4 (0 :: byte) = [0, 0, 0, 0]" by (simp add: numeral_eq_Suc)
  ultimately show ?thesis by (simp add: le_bytes_8 z div_mult2_eq [symmetric])
qed


definition info_bytes :: "nat \<Rightarrow> nat \<Rightarrow> nat \<Rightarrow> bool" where
  "info_bytes base j p \<longleftrightarrow> base + 24 * j + 8 \<le> p \<and> p < base + 24 * j + 12"

lemma clear_type_length [simp]:
  "base + 24 * ri + 24 \<le> length d \<Longrightarrow> length (clear_type d base ri rl) = length d"
  by (simp add: clear_type_def word_bytes_eq)

lemma clear_type_nth:
  assumes "rela_at d base ri = Done rl" and "p < length d"
  shows "clear_type d base ri rl ! p = (if info_bytes base ri p then 0 else d ! p)"
proof -
  from assms(1) have len: "base + 24 * ri + 24 \<le> length d"
    and rl: "rl = dec_rela (bytes_at (base + 24 * ri) 24 d)" by (auto simp: rec_at_Done)
  let ?w = "bytes_at (base + 24 * ri + 8) 8 d"
  have lw: "length ?w = 8" using len by simp
  have "bytes_at 8 8 (bytes_at (base + 24 * ri) 24 d) = ?w"
    by (simp add: bytes_at_def take_drop ac_simps)
  then have "r_info rl = of_nat (le_nat ?w)" by (simp add: rl dec_rela_def fld_def le_word_eq)
  moreover have "le_nat ?w < 2 ^ 64" using le_nat_bound [of ?w] unfolding lw by simp
  ultimately have "unat (r_info rl) = le_nat ?w" by (simp add: unat_of_nat)
  then have "le_bytes 8 (unat (r_info rl)) = ?w" using le_bytes_le_nat [of ?w] unfolding lw by simp
  then have ct: "clear_type d base ri rl = put_at (base + 24 * ri + 8) (replicate 4 0 @ drop 4 ?w) d"
    by (simp add: clear_type_def word_bytes_eq le_bytes_clear)
  have nth: "(replicate 4 0 @ drop 4 ?w) ! k = (if k < 4 then 0 else d ! (base + 24 * ri + 8 + k))"
    if "k < 8" for k
    using that len by (auto simp: nth_append nth_bytes_at)
  show ?thesis
  proof (cases "base + 24 * ri + 8 \<le> p \<and> p < base + 24 * ri + 16")
    case True
    then have "p - (base + 24 * ri + 8) < 8" by arith
    from nth [OF this] True len lw assms(2) show ?thesis
      unfolding ct by (subst nth_put_at) (auto simp: info_bytes_def)
  next
    case False
    with len lw assms(2) show ?thesis
      unfolding ct by (subst nth_put_at) (auto simp: info_bytes_def)
  qed
qed


section \<open>The relocation loops\<close>

definition entry_off :: "byte list \<Rightarrow> nat \<Rightarrow> nat \<Rightarrow> u64" where
  "entry_off d base j = of_nat (le_nat (bytes_at (base + 24 * j) 8 d))"

lemma r_offset_entry: "r_offset (dec_rela (bytes_at (base + 24 * j) 24 d)) = entry_off d base j"
  by (simp add: dec_rela_def fld_def le_word_eq entry_off_def bytes_at_def)

lemma entry_off_cong:
  assumes "length d' = length d"
    and "\<And>p. base + 24 * j \<le> p \<Longrightarrow> p < base + 24 * j + 8 \<Longrightarrow> p < length d \<Longrightarrow> d' ! p = d ! p"
  shows "entry_off d' base j = entry_off d base j"
  unfolding entry_off_def
  using bytes_at_eqI [of d' d "base + 24 * j" 8] assms by simp

definition cleared :: "byte list \<Rightarrow> nat \<Rightarrow> u64 \<Rightarrow> nat \<Rightarrow> nat \<Rightarrow> nat \<Rightarrow> bool" where
  "cleared d base io lo n p \<longleftrightarrow>
     (\<exists>j\<in>{lo..<lo + n}. entry_off d base j = io \<and> info_bytes base j p)"

lemma info_bytes_apart: "info_bytes base j p \<Longrightarrow> base + 24 * i \<le> p \<Longrightarrow> p < base + 24 * i + 8 \<Longrightarrow> False"
  unfolding info_bytes_def by presburger

lemma clear_relocs_spec:
  assumes "base + 24 * (ri + n) \<le> length d"
  shows "\<exists>d'. clear_relocs base io d ri n = Done d' \<and> length d' = length d \<and>
    (\<forall>p<length d. d' ! p = (if cleared d base io ri n p then 0 else d ! p))"
  using assms
proof (induction n arbitrary: d ri)
  case 0
  then show ?case by (simp add: cleared_def)
next
  case (Suc n)
  then have len: "base + 24 * ri + 24 \<le> length d" by simp
  define rl where "rl = dec_rela (bytes_at (base + 24 * ri) 24 d)"
  have at: "rela_at d base ri = Done rl" using len by (simp add: rec_at_def rl_def)
  define e where "e = (if r_offset rl = io then clear_type d base ri rl else d)"
  have le: "length e = length d" using len by (simp add: e_def)
  have en: "e ! p = (if entry_off d base ri = io \<and> info_bytes base ri p then 0 else d ! p)"
    if "p < length d" for p
    using clear_type_nth [OF at that] by (simp add: e_def rl_def r_offset_entry)
  have eo: "entry_off e base j = entry_off d base j" for j
    by (rule entry_off_cong [OF le]) (auto simp: en dest: info_bytes_apart)
  from Suc.IH [of "Suc ri" e] Suc.prems le obtain d' where d': "clear_relocs base io e (Suc ri) n = Done d'"
    "length d' = length d" "\<forall>p<length d. d' ! p = (if cleared e base io (Suc ri) n p then 0 else e ! p)"
    by auto
  have split: "{ri..<ri + Suc n} = insert ri {Suc ri..<Suc ri + n}" by auto
  have "cleared d base io ri (Suc n) p \<longleftrightarrow>
      (entry_off d base ri = io \<and> info_bytes base ri p) \<or> cleared e base io (Suc ri) n p" for p
    unfolding cleared_def eo split by blast
  moreover have "clear_relocs base io d ri (Suc n) = clear_relocs base io e (Suc ri) n"
    by (simp add: at e_def)
  ultimately show ?case using d' en by auto
qed

lemma clear_relocs_length:
  assumes "clear_relocs base io d ri n = Done d'"
  shows "length d' = length d"
  using assms
proof (induction n arbitrary: d ri)
  case (Suc n)
  then obtain rl where at: "rela_at d base ri = Done rl"
    and rec: "clear_relocs base io (if r_offset rl = io then clear_type d base ri rl else d) (Suc ri) n = Done d'"
    by (auto simp: bindR_eq_Done)
  from at have "base + 24 * ri + 24 \<le> length d" by (simp add: rec_at_Done)
  with Suc.IH [OF rec] show ?case by (simp split: if_splits)
qed simp

lemma fix_section_length: "fix_section c si io d r = Done d' \<Longrightarrow> length d' = length d"
  by (auto simp: fix_section_def bindR_eq_Done dest: clear_relocs_length split: if_splits)

lemma fix_relocs_length: "fix_relocs c si io d r = Done d' \<Longrightarrow> length d' = length d"
proof (induction c si io d r arbitrary: d' rule: fix_relocs.induct)
  case (1 c si io d r)
  from "1.prems" obtain eh where eh: "ehdr_at d = Done eh"
    and rest: "(if r < unat (e_shnum eh)
       then bindR (fix_section c si io d r) (\<lambda>d'. fix_relocs c si io d' (Suc r)) else Done d) = Done d'"
    by (subst (asm) fix_relocs.simps) (auto simp: bindR_eq_Done)
  show ?case
  proof (cases "r < unat (e_shnum eh)")
    case True
    with rest obtain d1 where "fix_section c si io d r = Done d1" "fix_relocs c si io d1 (Suc r) = Done d'"
      by (auto simp: bindR_eq_Done)
    with "1.IH" [OF eh True] show ?thesis by (auto dest: fix_section_length)
  qed (use rest in simp)
qed

lemma patch_insn_length: "patch_insn d off = Done (d', n) \<Longrightarrow> length d' = length d"
  by (auto simp: patch_insn_def bindR_eq_Done write_at_def split: if_splits)

lemma patch_entry_length: "patch_entry c d i = Done (d', n) \<Longrightarrow> length d' = length d"
  by (auto simp: patch_entry_def bindR_eq_Done dest!: fix_relocs_length patch_insn_length
      split: option.splits)

lemma patch_loop_length: "patch_loop c d k i n = Done (d', m) \<Longrightarrow> length d' = length d"
  by (induction n arbitrary: d k i) (auto simp: bindR_eq_Done dest!: patch_entry_length)


section \<open>Locating the tables\<close>

definition shnum :: "byte list \<Rightarrow> nat" where
  "shnum d = (case ehdr_at d of Done eh \<Rightarrow> unat (e_shnum eh) | _ \<Rightarrow> 0)"

text \<open>The section-name table of an object, as a region of the file.\<close>

definition names_of :: "byte list \<Rightarrow> nat \<times> nat" where
  "names_of d =
     (case bindR (ehdr_at d) (\<lambda>eh. shdr_at d (unat (e_shoff eh)) (unat (e_shstrndx eh))) of
        Done s \<Rightarrow> (unat (sh_offset s), unat (sh_size s))
      | _ \<Rightarrow> (0, 0))"

text \<open>The ELF specification requires the last byte of a string table to be NUL.\<close>

definition names_terminated :: "byte list \<Rightarrow> bool" where
  "names_terminated d =
     (case names_of d of (off, n) \<Rightarrow> n = 0 \<or> off + n > length d \<or> d ! (off + n - 1) = 0)"

definition ctx_ok :: "ctx \<Rightarrow> byte list \<Rightarrow> bool" where
  "ctx_ok c d \<longleftrightarrow> sh_base c + 64 * shnum d \<le> length d
     \<and> sym_base c + 24 * sym_count c \<le> length d
     \<and> rela_base c + 24 * rela_count c \<le> length d \<and> 64 \<le> length d"

lemma strcmp_eq_agree:
  assumes "length d' = length d" "\<And>p. k \<le> p \<Longrightarrow> p \<le> q \<Longrightarrow> d' ! p = d ! p"
    and "d ! q = 0" "k \<le> q" "q < length d" "0 \<notin> set lit"
  shows "strcmp_eq d' k lit = strcmp_eq d k lit \<and> strcmp_eq d k lit \<noteq> Oob \<and> (\<forall>e. strcmp_eq d k lit \<noteq> Fail e)"
  using assms
proof (induction lit arbitrary: k)
  case Nil
  then show ?case by (auto simp: byte_at_def)
next
  case (Cons x lit)
  have bytes: "byte_at d' k = Done (d ! k)" "byte_at d k = Done (d ! k)"
    using Cons.prems by (auto simp: byte_at_def)
  show ?case
  proof (cases "d ! k = x")
    case True
    with Cons.prems have "k \<noteq> q" by auto
    with Cons.prems have "Suc k \<le> q" by simp
    with Cons show ?thesis using True bytes by simp
  qed (use bytes in simp)
qed

lemma jump_table_name_nonzero: "0 \<notin> set jump_table_name"
  by (simp add: jump_table_name_def)

lemma name_is_jump_table_agree:
  assumes "length d' = length d" "names + n \<le> length d" "n = 0 \<or> d ! (names + n - 1) = 0"
    and "bytes_at names n d' = bytes_at names n d"
  shows "name_is_jump_table d' names n off = name_is_jump_table d names n off
    \<and> name_is_jump_table d names n off \<noteq> Oob \<and> (\<forall>e. name_is_jump_table d names n off \<noteq> Fail e)"
proof (cases "unat off < n")
  case True
  have same: "d' ! p = d ! p" if "names + unat off \<le> p" "p \<le> names + n - 1" for p
    using that True assms(1,2) by (intro bytes_at_eqD [OF assms(4,1)]) auto
  have "strcmp_eq d' (names + unat off) jump_table_name = strcmp_eq d (names + unat off) jump_table_name
      \<and> strcmp_eq d (names + unat off) jump_table_name \<noteq> Oob
      \<and> (\<forall>e. strcmp_eq d (names + unat off) jump_table_name \<noteq> Fail e)"
    using True assms(2,3)
    by (intro strcmp_eq_agree [OF assms(1) same _ _ _ jump_table_name_nonzero]) auto
  with True show ?thesis by (simp add: name_is_jump_table_def section_name_def)
qed (simp add: name_is_jump_table_def section_name_def)

lemma find_jump_rela_agree:
  assumes len: "length d' = length d" and "names + nn \<le> length d" "nn = 0 \<or> d ! (names + nn - 1) = 0"
    and "bytes_at names nn d' = bytes_at names nn d"
    and "bytes_at shoff (64 * N) d' = bytes_at shoff (64 * N) d" "shoff + 64 * N \<le> length d"
  shows "i + n \<le> N \<Longrightarrow> find_jump_rela d' shoff names nn i n = find_jump_rela d shoff names nn i n
    \<and> find_jump_rela d shoff names nn i n \<noteq> Oob \<and> (\<forall>e. find_jump_rela d shoff names nn i n \<noteq> Fail e)
    \<and> (\<forall>j. find_jump_rela d shoff names nn i n = Done (Some j) \<longrightarrow> j < N)"
proof (induction n arbitrary: i)
  case (Suc n)
  then have i: "i < N" by simp
  have sh: "shdr_at d' shoff i = shdr_at d shoff i"
    by (rule rec_at_agree [OF assms(5) len i])
  obtain s where s: "shdr_at d shoff i = Done s"
    using rec_at_array [OF assms(6) i] by (auto simp: rec_at_def)
  have nm: "name_is_jump_table d' names nn (sh_name s) = name_is_jump_table d names nn (sh_name s)"
    and nm': "name_is_jump_table d names nn (sh_name s) \<noteq> Oob"
      "\<And>e. name_is_jump_table d names nn (sh_name s) \<noteq> Fail e"
    using name_is_jump_table_agree [OF len assms(2,3,4), of "sh_name s"] by auto
  then obtain b where b: "name_is_jump_table d names nn (sh_name s) = Done b"
    by (cases "name_is_jump_table d names nn (sh_name s)") auto
  show ?case using Suc.IH [of "Suc i"] Suc.prems i by (simp add: sh s nm b)
qed simp


definition table_of :: "byte list \<Rightarrow> nat" where
  "table_of d = (case ehdr_at d of Done eh \<Rightarrow> unat (e_shoff eh) | _ \<Rightarrow> 0)"

definition same_tables :: "byte list \<Rightarrow> byte list \<Rightarrow> bool" where
  "same_tables d' d \<longleftrightarrow> length d' = length d \<and> bytes_at 0 64 d' = bytes_at 0 64 d
     \<and> bytes_at (table_of d) (64 * shnum d) d' = bytes_at (table_of d) (64 * shnum d) d
     \<and> bytes_at (fst (names_of d)) (snd (names_of d)) d' = bytes_at (fst (names_of d)) (snd (names_of d)) d"

lemma same_tables_refl [simp]: "same_tables d d"
  by (simp add: same_tables_def)

lemma is_elf64_lsb_agree:
  assumes "length d' = length d" "bytes_at 0 64 d' = bytes_at 0 64 d"
  shows "is_elf64_lsb d' \<longleftrightarrow> is_elf64_lsb d"
proof (cases "length d < 64")
  case False
  have "d' ! p = d ! p" if "p < 64" for p
    using bytes_at_eqD [OF assms(2,1)] that False assms(1) by auto
  moreover have "take 4 d' = take 4 d"
    using bytes_at_sub [OF assms(2,1), of 0 4] by (simp add: bytes_at_def)
  ultimately show ?thesis using assms(1) by (simp add: is_elf64_lsb_def)
qed (use assms in \<open>simp add: is_elf64_lsb_def\<close>)

lemma table_fits:
  assumes "a + b \<le> n" "sz \<le> e" shows "a + sz * (b div e) \<le> (n :: nat)"
proof -
  have "sz * (b div e) \<le> e * (b div e)" using assms(2) by (intro mult_le_mono) auto
  also have "\<dots> \<le> b" by simp
  finally show ?thesis using assms(1) by simp
qed

lemma find_tables_agree:
  assumes len: "length d' = length d" and nfit: "names + nn \<le> length d"
    and nz: "nn = 0 \<or> d ! (names + nn - 1) = 0" and nb: "bytes_at names nn d' = bytes_at names nn d"
    and sht: "bytes_at shoff (64 * N) d' = bytes_at shoff (64 * N) d" and fits: "shoff + 64 * N \<le> length d"
  shows "find_tables d' shoff N names nn = find_tables d shoff N names nn
    \<and> find_tables d shoff N names nn \<noteq> Oob
    \<and> (\<forall>c. find_tables d shoff N names nn = Done (Some c) \<longrightarrow> sh_base c = shoff
        \<and> sym_base c + 24 * sym_count c \<le> length d \<and> rela_base c + 24 * rela_count c \<le> length d)"
proof -
  note at = rec_at_agree [OF sht len, where dec = dec_shdr]
  have shat: "\<exists>s. shdr_at d shoff i = Done s" if "i < N" for i
    using rec_at_array [OF fits that] by (auto simp: rec_at_def)
  note fj = find_jump_rela_agree [OF len nfit nz nb sht fits, of 0 N]
  then obtain r where r: "find_jump_rela d shoff names nn 0 N = Done r"
    by (cases "find_jump_rela d shoff names nn 0 N") auto
  show ?thesis
  proof (cases r)
    case None
    then show ?thesis using fj r by (simp add: find_tables_def)
  next
    case (Some j)
    with fj r have j: "j < N" by simp
    obtain jr where jr: "shdr_at d shoff j = Done jr" using shat [OF j] by auto
    show ?thesis
    proof (cases "unat (sh_link jr) < N")
      case False
      then show ?thesis using fj r Some at [OF j] jr by (simp add: find_tables_def)
    next
      case l: True
      obtain sy where "shdr_at d shoff (unat (sh_link jr)) = Done sy" using shat [OF l] by auto
      with fj r Some at [OF j] at [OF l] jr show ?thesis
        by (auto simp: find_tables_def len intro!: table_fits)
    qed
  qed
qed

lemma locate_agree:
  assumes same: "same_tables d' d" and nt: "names_terminated d"
  shows "locate d' = locate d \<and> locate d \<noteq> Oob
    \<and> (\<forall>c. locate d = Done (Some c) \<longrightarrow> ctx_ok c d \<and> sh_base c = table_of d)"
proof (cases "is_elf64_lsb d")
  case False
  then show ?thesis using same is_elf64_lsb_agree [of d' d]
    by (simp add: locate_def same_tables_def)
next
  case True
  from same have len: "length d' = length d" and hd: "bytes_at 0 64 d' = bytes_at 0 64 d"
    by (auto simp: same_tables_def)
  from True have big: "64 \<le> length d" by (simp add: is_elf64_lsb_def)
  obtain eh where eh: "ehdr_at d = Done eh" "ehdr_at d' = Done eh"
    using big len hd by (auto simp: rec_at_def)
  define shoff N where "shoff = unat (e_shoff eh)" and "N = unat (e_shnum eh)"
  have tab: "table_of d = shoff" "shnum d = N"
    using eh by (simp_all add: table_of_def shnum_def shoff_def N_def)
  have sht: "bytes_at shoff (64 * N) d' = bytes_at shoff (64 * N) d"
    using same by (simp add: same_tables_def tab)
  define bad where "bad \<longleftrightarrow> shoff > length d \<or> unat (e_shentsize eh) < 64 \<or> N = 0
    \<or> N * unat (e_shentsize eh) > length d - shoff \<or> unat (e_shstrndx eh) \<ge> N"
  have elf: "is_elf64_lsb d'" using True is_elf64_lsb_agree [OF len hd] by simp
  note simps = locate_def bad_def len shoff_def [symmetric] N_def [symmetric] Let_def ctx_ok_def tab
  show ?thesis
  proof (cases bad)
    case True
    then show ?thesis using eh elf \<open>is_elf64_lsb d\<close> by (auto simp: simps)
  next
    case ok: False
    have "N * 64 \<le> N * unat (e_shentsize eh)" using ok by (intro mult_le_mono) (auto simp: bad_def)
    also have "\<dots> \<le> length d - shoff" using ok by (auto simp: bad_def)
    finally have fits: "shoff + 64 * N \<le> length d" using ok by (auto simp: bad_def)
    have str: "unat (e_shstrndx eh) < N" using ok by (auto simp: bad_def)
    obtain s where s: "shdr_at d shoff (unat (e_shstrndx eh)) = Done s"
      using rec_at_array [OF fits str] by (auto simp: rec_at_def)
    have s': "shdr_at d' shoff (unat (e_shstrndx eh)) = Done s"
      using rec_at_agree [OF sht len str, where dec = dec_shdr] s by simp
    have nof: "names_of d = (unat (sh_offset s), unat (sh_size s))"
      using eh s by (simp add: names_of_def shoff_def)
    show ?thesis
    proof (cases "unat (sh_offset s) > length d \<or> unat (sh_size s) > length d - unat (sh_offset s)")
      case True
      then show ?thesis using eh elf ok s s' \<open>is_elf64_lsb d\<close> by (auto simp: simps)
    next
      case False
      with nt nof have nz: "unat (sh_size s) = 0 \<or> d ! (unat (sh_offset s) + unat (sh_size s) - 1) = 0"
        by (auto simp: names_terminated_def)
      have nb: "bytes_at (unat (sh_offset s)) (unat (sh_size s)) d'
          = bytes_at (unat (sh_offset s)) (unat (sh_size s)) d"
        using same nof by (simp add: same_tables_def)
      from False have nfit: "unat (sh_offset s) + unat (sh_size s) \<le> length d" by auto
      from False find_tables_agree [OF len nfit nz nb sht fits] eh elf ok s s' \<open>is_elf64_lsb d\<close> fits big
      show ?thesis by (auto simp: simps)
    qed
  qed
qed

end
