(* ===== verification/JumpLabelImage.thy ===== *)
theory JumpLabelImage
  imports JumpLabelAccess
begin

text \<open>
  Correctness of the jump-label patcher: the in-place routine of theory JumpLabel against a
  declarative description of the patched object. \<open>layout_ok\<close> is the section layout the code
  relies on but does not check: branch sites and text relocations lie apart from the tables
  the loops keep reading, and apart from each other. Under it the routine computes \<open>patched_image\<close>.
\<close>

section \<open>The layout and the image\<close>

definition sites_upto :: "ctx \<Rightarrow> byte list \<Rightarrow> nat \<Rightarrow> site list" where
  "sites_upto c d n =
     concat (map (\<lambda>i. case resolve_site c d i of Done (Some s) \<Rightarrow> [s] | _ \<Rightarrow> []) [0..<n])"

abbreviation "sites c d \<equiv> sites_upto c d (rela_count c)"

text \<open>The relocation sections for section \<open>sec\<close>, as a file offset and an entry count.\<close>

definition relevant :: "Elf64_Shdr \<Rightarrow> nat \<Rightarrow> bool" where
  "relevant s sec \<longleftrightarrow> sh_type s = SHT_RELA \<and> unat (sh_info s) = sec \<and> \<not> unat (sh_entsize s) < 24"

definition relas_from :: "ctx \<Rightarrow> byte list \<Rightarrow> nat \<Rightarrow> nat \<Rightarrow> nat \<Rightarrow> (nat \<times> nat) list" where
  "relas_from c d sec r n =
     concat (map (\<lambda>i. case shdr_at d (sh_base c) i of
        Done s \<Rightarrow> if relevant s sec
          then [(unat (sh_offset s), unat (sh_size s) div unat (sh_entsize s))] else []
      | _ \<Rightarrow> []) [r..<n])"

abbreviation "text_relas c d sec \<equiv> relas_from c d sec 0 (shnum d)"

definition win_len :: "byte list \<Rightarrow> nat \<Rightarrow> nat" where
  "win_len d off = (if d ! off = 0xe9 \<or> d ! off = 0x0f then 5 else 2)"

definition win_nop :: "nat \<Rightarrow> byte list" where
  "win_nop n = (if n = 5 then nop5 else nop2)"

definition prot :: "ctx \<Rightarrow> byte list \<Rightarrow> (nat \<times> nat) list" where
  "prot c d = [(0, 64), (sh_base c, 64 * shnum d), (sym_base c, 24 * sym_count c),
     (rela_base c, 24 * rela_count c), names_of d]"

definition windows :: "ctx \<Rightarrow> byte list \<Rightarrow> (nat \<times> nat) list" where
  "windows c d = map (\<lambda>s. (s_file s, win_len d (s_file s))) (sites c d)"

definition all_relas :: "ctx \<Rightarrow> byte list \<Rightarrow> (nat \<times> nat) list" where
  "all_relas c d = concat (map (\<lambda>s. text_relas c d (s_sec s)) (sites c d))"

definition apart :: "(nat \<times> nat) list \<Rightarrow> (nat \<times> nat) list \<Rightarrow> bool" where
  "apart xs ys = list_all (\<lambda>(a, m). list_all (\<lambda>(b, n). disjoint_range a m b n) ys) xs"

definition apart_or_equal :: "(nat \<times> nat) list \<Rightarrow> bool" where
  "apart_or_equal xs =
     list_all (\<lambda>(a, m). list_all (\<lambda>(b, n). a = b \<or> disjoint_range a m b n) xs) xs"

abbreviation "rela_bytes xs \<equiv> map (\<lambda>(a, k). (a, 24 * k)) xs"

definition layout_ok :: "ctx \<Rightarrow> byte list \<Rightarrow> bool" where
  "layout_ok c d \<longleftrightarrow>
     apart (windows c d) (prot c d) \<and> apart (rela_bytes (all_relas c d)) (prot c d)
     \<and> apart (windows c d) (rela_bytes (all_relas c d))
     \<and> apart_or_equal (windows c d) \<and> apart_or_equal (rela_bytes (all_relas c d))"

text \<open>What the object looks like when the branch sites \<open>ss\<close> have been processed: NOPs over
  the jumps, relocation type zero for the relocations of the sites, every other byte as before.\<close>

definition zeroed :: "ctx \<Rightarrow> byte list \<Rightarrow> site \<Rightarrow> nat \<Rightarrow> bool" where
  "zeroed c d s p =
     list_ex (\<lambda>(a, k). list_ex (\<lambda>j. entry_off d a j = s_insn s \<and> info_bytes a j p) [0..<k])
       (text_relas c d (s_sec s))"

definition in_window :: "byte list \<Rightarrow> nat \<Rightarrow> site \<Rightarrow> bool" where
  "in_window d p s \<longleftrightarrow> s_file s \<le> p \<and> p < s_file s + win_len d (s_file s)"

definition image_byte :: "ctx \<Rightarrow> byte list \<Rightarrow> site list \<Rightarrow> nat \<Rightarrow> byte" where
  "image_byte c d ss p =
     (if list_ex (\<lambda>s. zeroed c d s p) ss then 0
      else case find (in_window d p) ss of
        Some s \<Rightarrow> win_nop (win_len d (s_file s)) ! (p - s_file s)
      | None \<Rightarrow> d ! p)"

definition patched_image :: "ctx \<Rightarrow> byte list \<Rightarrow> site list \<Rightarrow> byte list" where
  "patched_image c d ss = map (image_byte c d ss) [0..<length d]"

definition is_jump :: "byte list \<Rightarrow> site \<Rightarrow> bool" where
  "is_jump d s \<longleftrightarrow> d ! s_file s = 0xe9 \<or> d ! s_file s = 0xeb"

definition jump_count :: "byte list \<Rightarrow> site list \<Rightarrow> nat" where
  "jump_count d ss = length (remdups (map s_file (filter (is_jump d) ss)))"

text \<open>When the code accepts a site: a jump or a NOP that fits in the file, whose relocation
  sections lie in the file.\<close>

definition section_in_file :: "byte list \<Rightarrow> Elf64_Shdr \<Rightarrow> bool" where
  "section_in_file d s \<longleftrightarrow> \<not> (unat (sh_offset s) > length d \<or> unat (sh_size s) > length d - unat (sh_offset s))"

definition relas_in_file :: "ctx \<Rightarrow> byte list \<Rightarrow> nat \<Rightarrow> nat \<Rightarrow> bool" where
  "relas_in_file c d sec r =
     list_all (\<lambda>i. case shdr_at d (sh_base c) i of
        Done s \<Rightarrow> relevant s sec \<longrightarrow> section_in_file d s | _ \<Rightarrow> False) [r..<shnum d]"

definition site_ok :: "byte list \<Rightarrow> site \<Rightarrow> bool" where
  "site_ok d s \<longleftrightarrow> s_file s + win_len d (s_file s) \<le> length d
     \<and> (is_jump d s \<or> has_at d (s_file s) (win_nop (win_len d (s_file s))))"

definition patchable :: "ctx \<Rightarrow> byte list \<Rightarrow> bool" where
  "patchable c d =
     (list_all (\<lambda>i. case resolve_site c d i of Done _ \<Rightarrow> True | _ \<Rightarrow> False) [0..<rela_count c]
      \<and> list_all (\<lambda>s. site_ok d s \<and> relas_in_file c d (s_sec s) 0) (sites c d))"

section \<open>Reading a processed object\<close>

lemma apartD: "apart xs ys \<Longrightarrow> (a, m) \<in> set xs \<Longrightarrow> (b, n) \<in> set ys \<Longrightarrow> disjoint_range a m b n"
  by (auto simp: apart_def list_all_iff)

lemma apart_or_equalD:
  "apart_or_equal xs \<Longrightarrow> (a, m) \<in> set xs \<Longrightarrow> (b, n) \<in> set xs \<Longrightarrow> a = b \<or> disjoint_range a m b n"
  by (auto simp: apart_or_equal_def list_all_iff)

lemma length_image [simp]: "length (patched_image c d ss) = length d"
  by (simp add: patched_image_def)

lemma image_nth: "p < length d \<Longrightarrow> patched_image c d ss ! p = image_byte c d ss p"
  by (simp add: patched_image_def)

lemma zeroed_iff:
  "zeroed c d s p \<longleftrightarrow>
     (\<exists>(a, k)\<in>set (text_relas c d (s_sec s)). cleared d a (s_insn s) 0 k p)"
  by (fastforce simp: zeroed_def list_ex_iff cleared_def)

lemma zeroed_in_relas:
  assumes "zeroed c d s p" "s \<in> set (sites c d)"
  obtains a k j where "(a, k) \<in> set (all_relas c d)" "j < k" "info_bytes a j p"
    "entry_off d a j = s_insn s"
  using assms by (fastforce simp: zeroed_iff cleared_def all_relas_def)

lemma info_bytes_range: "info_bytes a j p \<Longrightarrow> j < k \<Longrightarrow> a \<le> p \<and> p < a + 24 * k"
  by (auto simp: info_bytes_def)

lemma windowI: "s \<in> set (sites c d) \<Longrightarrow> (s_file s, win_len d (s_file s)) \<in> set (windows c d)"
  by (auto simp: windows_def)

lemma rela_bytesI: "(a, k) \<in> set (all_relas c d) \<Longrightarrow> (a, 24 * k) \<in> set (rela_bytes (all_relas c d))"
  by force

lemma image_byte_untouched:
  assumes "\<And>s. s \<in> set ss \<Longrightarrow> \<not> zeroed c d s p" "\<And>s. s \<in> set ss \<Longrightarrow> \<not> in_window d p s"
  shows "image_byte c d ss p = d ! p"
proof -
  have "find (in_window d p) ss = None" using assms(2) by (simp add: find_None_iff)
  moreover have "\<not> list_ex (\<lambda>s. zeroed c d s p) ss" using assms(1) by (auto simp: list_ex_iff)
  ultimately show ?thesis by (simp add: image_byte_def)
qed

text \<open>The tables read by the loops are the same in a partly processed object.\<close>

lemma image_protected:
  assumes ok: "layout_ok c d" and sub: "set ss \<subseteq> set (sites c d)" and "(b, m) \<in> set (prot c d)"
  shows "bytes_at b m (patched_image c d ss) = bytes_at b m d"
proof (rule bytes_at_eqI)
  fix p assume p: "b \<le> p" "p < b + m" "p < length (patched_image c d ss)"
  have "\<not> in_window d p s" if "s \<in> set ss" for s
  proof -
    have "disjoint_range (s_file s) (win_len d (s_file s)) b m"
      using ok sub that assms(3) by (auto simp: layout_ok_def intro: apartD windowI)
    with p show ?thesis by (auto simp: disjoint_range_def in_window_def)
  qed
  moreover have "\<not> zeroed c d s p" if "s \<in> set ss" for s
  proof
    assume "zeroed c d s p"
    with sub that obtain a k j where "(a, k) \<in> set (all_relas c d)" and j: "j < k" "info_bytes a j p"
      by (meson subsetD zeroed_in_relas)
    then have "disjoint_range a (24 * k) b m"
      using ok assms(3) by (auto simp: layout_ok_def intro: apartD rela_bytesI)
    with p info_bytes_range [OF j(2,1)] show False by (auto simp: disjoint_range_def)
  qed
  ultimately show "patched_image c d ss ! p = d ! p"
    using p by (simp add: image_nth image_byte_untouched)
qed simp


definition agrees :: "ctx \<Rightarrow> byte list \<Rightarrow> byte list \<Rightarrow> bool" where
  "agrees c e d \<longleftrightarrow> length e = length d \<and> (\<forall>(b, m)\<in>set (prot c d). bytes_at b m e = bytes_at b m d)"

lemma image_agrees: "layout_ok c d \<Longrightarrow> set ss \<subseteq> set (sites c d) \<Longrightarrow> agrees c (patched_image c d ss) d"
  using image_protected by (fastforce simp: agrees_def)

lemma agrees_tables:
  assumes "agrees c e d"
  shows "ehdr_at e = ehdr_at d"
    and "i < shnum d \<Longrightarrow> shdr_at e (sh_base c) i = shdr_at d (sh_base c) i"
    and "i < sym_count c \<Longrightarrow> sym_at e (sym_base c) i = sym_at d (sym_base c) i"
    and "i < rela_count c \<Longrightarrow> rela_at e (rela_base c) i = rela_at d (rela_base c) i"
proof -
  from assms have len: "length e = length d"
    and reg: "\<And>b m. (b, m) \<in> set (prot c d) \<Longrightarrow> bytes_at b m e = bytes_at b m d"
    by (auto simp: agrees_def)
  show "ehdr_at e = ehdr_at d" using rec_at_agree [of 0 64 1 e d 0 dec_ehdr] reg [of 0 64] len
    by (simp add: prot_def)
  show "i < shnum d \<Longrightarrow> shdr_at e (sh_base c) i = shdr_at d (sh_base c) i"
    by (rule rec_at_agree [OF reg len]) (simp_all add: prot_def)
  show "i < sym_count c \<Longrightarrow> sym_at e (sym_base c) i = sym_at d (sym_base c) i"
    by (rule rec_at_agree [OF reg len]) (simp_all add: prot_def)
  show "i < rela_count c \<Longrightarrow> rela_at e (rela_base c) i = rela_at d (rela_base c) i"
    by (rule rec_at_agree [OF reg len]) (simp_all add: prot_def)
qed

lemma ctx_ok_reads:
  assumes "ctx_ok c d"
  shows "\<exists>eh. ehdr_at d = Done eh"
    and "i < shnum d \<Longrightarrow> \<exists>s. shdr_at d (sh_base c) i = Done s"
    and "i < sym_count c \<Longrightarrow> \<exists>s. sym_at d (sym_base c) i = Done s"
    and "i < rela_count c \<Longrightarrow> \<exists>s. rela_at d (rela_base c) i = Done s"
  using assms rec_at_array [of "sh_base c" 64 "shnum d" d i]
    rec_at_array [of "sym_base c" 24 "sym_count c" d i]
    rec_at_array [of "rela_base c" 24 "rela_count c" d i]
  by (auto simp: ctx_ok_def rec_at_def)

lemma find_orig_agrees:
  assumes "agrees c e d" "ctx_ok c d"
  shows "j + n \<le> rela_count c \<Longrightarrow>
    find_orig e (rela_base c) off j n = find_orig d (rela_base c) off j n
    \<and> (\<exists>r. find_orig d (rela_base c) off j n = Done r)"
proof (induction n arbitrary: j)
  case (Suc n)
  then have j: "j < rela_count c" by simp
  from ctx_ok_reads(4) [OF assms(2) j] obtain r where r: "rela_at d (rela_base c) j = Done r" by auto
  show ?case using Suc.IH [of "Suc j"] Suc.prems by (simp add: r agrees_tables(4) [OF assms(1) j])
qed simp

lemma resolve_site_agrees:
  assumes ag: "agrees c e d" and ok: "ctx_ok c d" and i: "i < rela_count c"
  shows "resolve_site c e i = resolve_site c d i \<and> resolve_site c d i \<noteq> Oob
    \<and> (\<forall>s. resolve_site c d i = Done (Some s) \<longrightarrow> s_file s < length d \<and> s_sym s < sym_count c
         \<and> (\<exists>sy. sym_at d (sym_base c) (s_sym s) = Done sy \<and> unat (st_shndx sy) = s_sec s))"
proof -
  from ctx_ok_reads(4) [OF ok i] obtain rl where rl: "rela_at d (rela_base c) i = Done rl" by auto
  from ctx_ok_reads(1) [OF ok] obtain eh where eh: "ehdr_at d = Done eh" by auto
  from find_orig_agrees [OF ag ok, of 0 "rela_count c"] obtain orig where
    fo: "find_orig d (rela_base c) (r_offset rl - 8) 0 (rela_count c) = Done orig"
    and fe: "find_orig e (rela_base c) (r_offset rl - 8) 0 (rela_count c) = Done orig" by auto
  note same = agrees_tables [OF ag]
  show ?thesis
  proof (cases orig)
    case None
    then show ?thesis by (simp add: resolve_site_def rl same i fo fe)
  next
    case (Some rl0)
    define si where "si = unat (ELF64_R_SYM (r_info rl0))"
    show ?thesis
    proof (cases "si < sym_count c")
      case False
      then show ?thesis using Some by (simp add: resolve_site_def rl same i fo fe si_def)
    next
      case si: True
      from ctx_ok_reads(3) [OF ok si] obtain sy where sy: "sym_at d (sym_base c) si = Done sy" by auto
      show ?thesis
      proof (cases "st_shndx sy = 0 \<or> st_shndx sy \<ge> e_shnum eh")
        case True
        then show ?thesis using Some si
          by (auto simp: resolve_site_def rl same i fo fe eh sy si_def [symmetric] Let_def)
      next
        case False
        then have sec: "unat (st_shndx sy) < shnum d"
          using eh by (auto simp: shnum_def word_le_nat_alt)
        from ctx_ok_reads(2) [OF ok sec] obtain tx where
          "shdr_at d (sh_base c) (unat (st_shndx sy)) = Done tx" by auto
        then show ?thesis using Some si False same(2) [OF sec] ag
          by (auto simp: resolve_site_def rl same(1,3,4) i fo fe eh sy si_def [symmetric] Let_def agrees_def)
      qed
    qed
  qed
qed


section \<open>The relocation fix-up\<close>

definition same_offs :: "ctx \<Rightarrow> byte list \<Rightarrow> byte list \<Rightarrow> bool" where
  "same_offs c e d \<longleftrightarrow> (\<forall>(a, k)\<in>set (all_relas c d). \<forall>j<k. entry_off e a j = entry_off d a j)"

lemma cleared_same_offs:
  "same_offs c e d \<Longrightarrow> (a, k) \<in> set (all_relas c d) \<Longrightarrow> cleared e a io 0 k = cleared d a io 0 k"
proof (rule ext)
  fix p assume "same_offs c e d" "(a, k) \<in> set (all_relas c d)"
  then have "\<forall>j<k. entry_off e a j = entry_off d a j" by (auto simp: same_offs_def)
  then show "cleared e a io 0 k p = cleared d a io 0 k p" by (auto simp: cleared_def)
qed

text \<open>Writes to the type bytes of relocations of the sites keep the tables and the offsets.\<close>

lemma type_writes_keep:
  assumes ok: "layout_ok c d" and ag: "agrees c e d" and so: "same_offs c e d"
    and len: "length e' = length e"
    and wr: "\<And>p. p < length e \<Longrightarrow> e' ! p \<noteq> e ! p \<Longrightarrow>
      \<exists>(a, k)\<in>set (all_relas c d). \<exists>j<k. info_bytes a j p"
  shows "agrees c e' d \<and> same_offs c e' d"
proof
  have le: "length e = length d" using ag by (simp add: agrees_def)
  show "agrees c e' d"
    unfolding agrees_def
  proof (intro conjI ballI, goal_cases)
    case 1
    show ?case using len le by simp
  next
    case (2 reg)
    obtain b m where reg: "reg = (b, m)" by force
    have "bytes_at b m e' = bytes_at b m e"
    proof (rule bytes_at_eqI [OF len], rule ccontr)
      fix p assume p: "b \<le> p" "p < b + m" "p < length e'" "e' ! p \<noteq> e ! p"
      with wr [of p] len obtain a k j where ak: "(a, k) \<in> set (all_relas c d)" and j: "j < k" "info_bytes a j p"
        by auto
      then have "disjoint_range a (24 * k) b m"
        using ok 2 reg by (auto simp: layout_ok_def intro: apartD rela_bytesI)
      with p info_bytes_range [OF j(2,1)] show False by (auto simp: disjoint_range_def)
    qed
    then show ?case using ag 2 reg by (auto simp: agrees_def)
  qed
  show "same_offs c e' d"
    unfolding same_offs_def
  proof (intro ballI, clarify)
    fix b n i assume bn: "(b, n) \<in> set (all_relas c d)" and i: "i < n"
    have "entry_off e' b i = entry_off e b i"
    proof (rule entry_off_cong [OF len], rule ccontr)
      fix p assume p: "b + 24 * i \<le> p" "p < b + 24 * i + 8" "p < length e" "e' ! p \<noteq> e ! p"
      with wr [of p] obtain a k j where ak: "(a, k) \<in> set (all_relas c d)" and j: "j < k" "info_bytes a j p"
        by auto
      have "a = b \<or> disjoint_range a (24 * k) b (24 * n)"
        using ok apart_or_equalD [OF _ rela_bytesI [OF ak] rela_bytesI [OF bn]]
        by (simp add: layout_ok_def)
      then show False
      proof
        assume "a = b"
        then show False using info_bytes_apart [OF j(2), of i] p by simp
      next
        assume "disjoint_range a (24 * k) b (24 * n)"
        with p i info_bytes_range [OF j(2,1)] show False by (auto simp: disjoint_range_def)
      qed
    qed
    with so bn i show "entry_off e' b i = entry_off d b i" by (auto simp: same_offs_def)
  qed
qed

lemma relas_from_Suc:
  assumes "r < n" "shdr_at d (sh_base c) r = Done s"
  shows "relas_from c d sec r n =
    (if relevant s sec then [(unat (sh_offset s), unat (sh_size s) div unat (sh_entsize s))] else [])
    @ relas_from c d sec (Suc r) n"
  using assms by (simp add: relas_from_def upt_conv_Cons)

lemma sh_info_ucast: "(x :: u32) = ucast (y :: u16) \<longleftrightarrow> unat x = unat y"
proof -
  have "unat (ucast y :: u32) = unat y" 
    using unsigned_less [of y, where ?'a = nat] unfolding unsigned_ucast_eq
    by (simp add: take_bit_nat_def)
  then show ?thesis by (metis word_unat_eq_iff)
qed

lemma fix_section_spec:
  assumes ok: "layout_ok c d" and ag: "agrees c e d" and so: "same_offs c e d"
    and cok: "ctx_ok c d" and r: "r < shnum d" and sh: "shdr_at d (sh_base c) r = Done s"
    and sy: "sym_at d (sym_base c) si = Done sy" "si < sym_count c" "unat (st_shndx sy) = sec"
    and sub: "relevant s sec \<longrightarrow>
      (unat (sh_offset s), unat (sh_size s) div unat (sh_entsize s)) \<in> set (all_relas c d)"
  shows "(\<exists>err. fix_section c si io e r = Fail err \<and> \<not> (relevant s sec \<longrightarrow> section_in_file d s)) \<or> (\<exists>e'. fix_section c si io e r = Done e'
    \<and> length e' = length e \<and> (\<forall>p<length d. e' ! p =
        (if relevant s sec \<and> cleared d (unat (sh_offset s)) io 0 (unat (sh_size s) div unat (sh_entsize s)) p
         then 0 else e ! p)))"
proof -
  let ?a = "unat (sh_offset s)" and ?k = "unat (sh_size s) div unat (sh_entsize s)"
  have le: "length e = length d" using ag by (simp add: agrees_def)
  have shs: "shdr_at e (sh_base c) r = Done s" "sym_at e (sym_base c) si = Done sy"
    using agrees_tables [OF ag] r sh sy by simp_all
  have cond: "(sh_type s \<noteq> SHT_RELA \<or> sh_info s \<noteq> ucast (st_shndx sy) \<or> unat (sh_entsize s) < 24)
      \<longleftrightarrow> \<not> relevant s sec"
    using sy(3) by (auto simp: relevant_def sh_info_ucast)
  have fs: "fix_section c si io e r =
      (if \<not> relevant s sec then Done e
       else if ?a > length e \<or> unat (sh_size s) > length e - ?a then Fail BadTextRela
       else clear_relocs ?a io e 0 ?k)"
    by (simp only: fix_section_def shs bindR.simps cond)
  show ?thesis
  proof (cases "relevant s sec \<and> \<not> (?a > length e \<or> unat (sh_size s) > length e - ?a)")
    case False
    then show ?thesis by (cases "relevant s sec") (simp_all add: fs section_in_file_def le)
  next
    case True
    then have "?a + 24 * (0 + ?k) \<le> length e"
      using table_fits [of ?a "unat (sh_size s)" "length e" 24 "unat (sh_entsize s)"]
      by (auto simp: relevant_def)
    from clear_relocs_spec [OF this, of io] obtain e' where
      "clear_relocs ?a io e 0 ?k = Done e'" "length e' = length e"
      "\<forall>p<length e. e' ! p = (if cleared e ?a io 0 ?k p then 0 else e ! p)" by auto
    with True show ?thesis
      using cleared_same_offs [OF so sub [rule_format], of io] le by (auto simp: fs)
  qed
qed


lemma cleared_info: "cleared d a io 0 k p \<Longrightarrow> \<exists>j<k. info_bytes a j p"
  by (auto simp: cleared_def)

lemma fix_relocs_spec:
  assumes ok: "layout_ok c d" and cok: "ctx_ok c d"
    and sy: "sym_at d (sym_base c) si = Done sy" "si < sym_count c" "unat (st_shndx sy) = sec"
  shows "agrees c e d \<Longrightarrow> same_offs c e d \<Longrightarrow> set (relas_from c d sec r (shnum d)) \<subseteq> set (all_relas c d) \<Longrightarrow>
    (\<exists>err. fix_relocs c si io e r = Fail err \<and> \<not> relas_in_file c d sec r) \<or> (\<exists>e'. fix_relocs c si io e r = Done e'
      \<and> length e' = length e \<and> (\<forall>p<length d. e' ! p =
         (if \<exists>(a, k)\<in>set (relas_from c d sec r (shnum d)). cleared d a io 0 k p then 0 else e ! p)))"
proof (induction "shnum d - r" arbitrary: r e)
  case 0
  obtain eh where eh: "ehdr_at e = Done eh" "shnum d = unat (e_shnum eh)"
    using ctx_ok_reads(1) [OF cok] agrees_tables(1) [OF 0(2)] by (auto simp: shnum_def)
  with 0 show ?case by (subst (1 2) fix_relocs.simps) (simp add: relas_from_def)
next
  case (Suc n)
  then have r: "r < shnum d" by simp
  obtain eh where eh: "ehdr_at e = Done eh" "shnum d = unat (e_shnum eh)"
    using ctx_ok_reads(1) [OF cok] agrees_tables(1) [OF Suc(3)] by (auto simp: shnum_def)
  obtain s where s: "shdr_at d (sh_base c) r = Done s" using ctx_ok_reads(2) [OF cok r] by auto
  let ?a = "unat (sh_offset s)" and ?k = "unat (sh_size s) div unat (sh_entsize s)"
  have split: "relas_from c d sec r (shnum d) =
      (if relevant s sec then [(?a, ?k)] else []) @ relas_from c d sec (Suc r) (shnum d)"
    by (rule relas_from_Suc [OF r s])
  have inf: "relas_in_file c d sec r \<longleftrightarrow>
      (relevant s sec \<longrightarrow> section_in_file d s) \<and> relas_in_file c d sec (Suc r)"
    using r s by (simp add: relas_in_file_def upt_conv_Cons)
  have unf: "fix_relocs c si io e r =
      bindR (fix_section c si io e r) (\<lambda>d'. fix_relocs c si io d' (Suc r))"
    using r eh by (subst fix_relocs.simps) simp
  have mem: "relevant s sec \<longrightarrow> (?a, ?k) \<in> set (all_relas c d)" using Suc(5) split by auto
  from fix_section_spec [OF ok Suc(3,4) cok r s sy mem, of io] show ?case
  proof (elim disjE exE conjE)
    fix err assume "fix_section c si io e r = Fail err" "\<not> (relevant s sec \<longrightarrow> section_in_file d s)"
    then show ?thesis by (simp add: unf inf)
  next
    fix e1 assume e1: "fix_section c si io e r = Done e1" "length e1 = length e"
      "\<forall>p<length d. e1 ! p = (if relevant s sec \<and> cleared d ?a io 0 ?k p then 0 else e ! p)"
    have keep: "agrees c e1 d \<and> same_offs c e1 d"
    proof (rule type_writes_keep [OF ok Suc(3,4) e1(2)])
      fix p assume "p < length e" "e1 ! p \<noteq> e ! p"
      with e1(3) Suc(3) have "relevant s sec" "cleared d ?a io 0 ?k p"
        by (auto simp: agrees_def split: if_splits)
      with mem cleared_info show "\<exists>(a, k)\<in>set (all_relas c d). \<exists>j<k. info_bytes a j p" by fastforce
    qed
    let ?C = "\<lambda>r p. \<exists>(a, k)\<in>set (relas_from c d sec r (shnum d)). cleared d a io 0 k p"
    have C: "?C r p \<longleftrightarrow> (relevant s sec \<and> cleared d ?a io 0 ?k p) \<or> ?C (Suc r) p" for p
      unfolding split by (cases "relevant s sec") simp_all
    have sub: "set (relas_from c d sec (Suc r) (shnum d)) \<subseteq> set (all_relas c d)"
      using Suc(5) split by simp
    have "n = shnum d - Suc r" using Suc(2) by simp
    from Suc.hyps(1) [OF this conjunct1 [OF keep] conjunct2 [OF keep] sub] show ?thesis
    proof (elim disjE exE conjE)
      fix err assume "fix_relocs c si io e1 (Suc r) = Fail err" "\<not> relas_in_file c d sec (Suc r)"
      then show ?thesis by (simp add: unf e1(1) inf)
    next
      fix e2 assume e2: "fix_relocs c si io e1 (Suc r) = Done e2" "length e2 = length e1"
        "\<forall>p<length d. e2 ! p = (if ?C (Suc r) p then 0 else e1 ! p)"
      have "\<forall>p<length d. e2 ! p = (if ?C r p then 0 else e ! p)"
        unfolding C using e2(3) e1(3) by simp
      then show ?thesis using e1(1,2) e2(1,2) by (simp add: unf)
    qed
  qed
qed

section \<open>One branch site\<close>

lemma win_len_pos: "0 < win_len d off" "win_len d off \<le> 5"
  by (simp_all add: win_len_def)

lemma length_win_nop: "n = 5 \<or> n = 2 \<Longrightarrow> length (win_nop n) = n"
  by (auto simp: win_nop_def nop5_def nop2_def)

lemma window_not_zeroed:
  assumes "layout_ok c d" "s \<in> set (sites c d)" "t \<in> set (sites c d)" "in_window d p s"
  shows "\<not> zeroed c d t p"
proof
  assume "zeroed c d t p"
  then obtain a k j where ak: "(a, k) \<in> set (all_relas c d)" and j: "j < k" "info_bytes a j p"
    using assms(3) by (meson zeroed_in_relas)
  have "disjoint_range (s_file s) (win_len d (s_file s)) a (24 * k)"
    using assms(1) apartD [OF _ windowI [OF assms(2)] rela_bytesI [OF ak]] by (simp add: layout_ok_def)
  with info_bytes_range [OF j(2,1)] assms(4) show False
    by (auto simp: disjoint_range_def in_window_def)
qed

lemma same_window:
  assumes "layout_ok c d" "s \<in> set (sites c d)" "t \<in> set (sites c d)"
    and "in_window d p s" "in_window d p t"
  shows "s_file s = s_file t"
proof -
  have "s_file s = s_file t \<or> disjoint_range (s_file s) (win_len d (s_file s)) (s_file t) (win_len d (s_file t))"
    using assms(1) apart_or_equalD [OF _ windowI [OF assms(2)] windowI [OF assms(3)]]
    by (simp add: layout_ok_def)
  with assms(4,5) show ?thesis by (auto simp: disjoint_range_def in_window_def)
qed

lemma image_byte_window:
  assumes ok: "layout_ok c d" and ss: "set ss \<subseteq> set (sites c d)" and s: "s \<in> set ss"
    and w: "in_window d p s"
  shows "image_byte c d ss p = win_nop (win_len d (s_file s)) ! (p - s_file s)"
proof -
  have "\<not> list_ex (\<lambda>t. zeroed c d t p) ss"
    using window_not_zeroed [OF ok _ _ w] ss s by (auto simp: list_ex_iff)
  moreover obtain t where t: "find (in_window d p) ss = Some t"
    using s w by (cases "find (in_window d p) ss") (auto simp: find_None_iff)
  then have "t \<in> set ss" "in_window d p t" by (auto simp: find_Some_iff)
  with same_window [OF ok _ _ w] ss s have "s_file s = s_file t" by blast
  ultimately show ?thesis using t by (simp add: image_byte_def)
qed

lemma image_byte_snoc:
  assumes ok: "layout_ok c d" and ss: "set ss \<subseteq> set (sites c d)" and s: "s \<in> set (sites c d)"
  shows "image_byte c d (ss @ [s]) p =
    (if zeroed c d s p then 0
     else if in_window d p s then win_nop (win_len d (s_file s)) ! (p - s_file s)
     else image_byte c d ss p)"
proof (cases "in_window d p s")
  case True
  have "set (ss @ [s]) \<subseteq> set (sites c d)" using ss s by simp
  from image_byte_window [OF ok this _ True] window_not_zeroed [OF ok s s True] True
  show ?thesis by simp
next
  case False
  then have "find (in_window d p) (ss @ [s]) = find (in_window d p) ss"
    by (induction ss) auto
  with False show ?thesis by (simp add: image_byte_def)
qed

lemma image_same_offs:
  assumes ok: "layout_ok c d" and ss: "set ss \<subseteq> set (sites c d)"
  shows "same_offs c (patched_image c d ss) d"
  unfolding same_offs_def
proof (intro ballI, clarify)
  fix b n i assume bn: "(b, n) \<in> set (all_relas c d)" and i: "i < n"
  show "entry_off (patched_image c d ss) b i = entry_off d b i"
  proof (rule entry_off_cong)
    fix p assume p: "b + 24 * i \<le> p" "p < b + 24 * i + 8" "p < length d"
    have "\<not> in_window d p s" if "s \<in> set ss" for s
    proof -
      have sd: "s \<in> set (sites c d)" using ss that by auto
      have "disjoint_range (s_file s) (win_len d (s_file s)) b (24 * n)"
        using ok apartD [OF _ windowI [OF sd] rela_bytesI [OF bn]] by (simp add: layout_ok_def)
      with p i show ?thesis by (auto simp: disjoint_range_def in_window_def)
    qed
    moreover have "\<not> zeroed c d s p" if "s \<in> set ss" for s
    proof
      assume "zeroed c d s p"
      with ss that obtain a k j where ak: "(a, k) \<in> set (all_relas c d)" and j: "j < k" "info_bytes a j p"
        by (meson subsetD zeroed_in_relas)
      have "a = b \<or> disjoint_range a (24 * k) b (24 * n)"
        using ok apart_or_equalD [OF _ rela_bytesI [OF ak] rela_bytesI [OF bn]]
        by (simp add: layout_ok_def)
      with p i info_bytes_range [OF j(2,1)] info_bytes_apart [OF j(2), of i] show False
        by (auto simp: disjoint_range_def)
    qed
    ultimately show "patched_image c d ss ! p = d ! p" using p by (simp add: image_nth image_byte_untouched)
  qed simp
qed


lemma has_atD:
  assumes "has_at e off bs"
  shows "off + length bs \<le> length e" "k < length bs \<Longrightarrow> e ! (off + k) = bs ! k"
proof -
  from assms show l: "off + length bs \<le> length e" by (auto simp: has_at_def split: if_splits)
  from assms have eq: "bytes_at off (length bs) e = bs" by (auto simp: has_at_def split: if_splits)
  assume k: "k < length bs"
  with l have "e ! (off + k) = bytes_at off (length bs) e ! k" by (simp add: nth_bytes_at)
  then show "e ! (off + k) = bs ! k" using eq by simp
qed

lemma has_atI:
  assumes "off + length bs \<le> length e" "\<And>k. k < length bs \<Longrightarrow> e ! (off + k) = bs ! k"
  shows "has_at e off bs"
proof -
  have "bytes_at off (length bs) e = bs"
    using assms by (intro nth_equalityI) (auto simp: nth_bytes_at)
  then show ?thesis using assms(1) by (auto simp: has_at_def)
qed

lemma has_at_window:
  assumes "has_at e (s_file s) (win_nop (win_len d (s_file s)))" "in_window d p s"
  shows "e ! p = win_nop (win_len d (s_file s)) ! (p - s_file s)"
proof -
  have "length (win_nop (win_len d (s_file s))) = win_len d (s_file s)"
    by (rule length_win_nop) (simp add: win_len_def)
  then show ?thesis
    using has_atD(2) [OF assms(1), of "p - s_file s"] assms(2) by (auto simp: in_window_def)
qed

lemma nop_facts:
  "nop5 ! 0 = 0x0f" "nop2 ! 0 = 0x66" "length nop5 = 5" "length nop2 = 2"
  "length (win_nop (win_len d off)) = win_len d off"
  "win_nop (win_len d off) = nop5 \<or> win_nop (win_len d off) = nop2"
  by (simp_all add: nop5_def nop2_def win_nop_def win_len_def)

lemma write_at_alt:
  "write_at d off bs = (if off + length bs \<le> length d then Some (put_at off bs d) else None)"
  by (auto simp: write_at_def)

text \<open>The effect of \<^verbatim>\<open>patch_insn\<close> on a buffer whose window at the site is still the object's,
  and on one whose window an earlier entry for the same site has already replaced.\<close>

definition insn_result :: "byte list \<Rightarrow> byte list \<Rightarrow> site \<Rightarrow> (byte list \<times> nat) run \<Rightarrow> nat \<Rightarrow> bool" where
  "insn_result d e s res n \<longleftrightarrow>
     (\<exists>err. res = Fail err \<and> \<not> site_ok d s) \<or> (\<exists>e1. res = Done (e1, n) \<and> length e1 = length d
       \<and> (\<forall>p<length d. e1 ! p =
         (if in_window d p s then win_nop (win_len d (s_file s)) ! (p - s_file s) else e ! p)))"

lemma patch_insn_fresh:
  assumes le: "length e = length d" and f: "s_file s < length d"
    and same: "\<And>p. in_window d p s \<Longrightarrow> p < length d \<Longrightarrow> e ! p = d ! p"
  shows "insn_result d e s (patch_insn e (s_file s)) (if is_jump d s then 1 else 0)"
proof -
  let ?N = "win_nop (win_len d (s_file s))"
  have op: "byte_at e (s_file s) = Done (e ! s_file s)" using f le by (simp add: byte_at_def)
  have opd: "e ! s_file s = d ! s_file s"
    by (rule same) (simp_all add: in_window_def win_len_pos f)
  show ?thesis
  proof (cases "is_jump d s")
    case True
    then have "patch_insn e (s_file s) = (case write_at e (s_file s) ?N of
        None \<Rightarrow> Fail NopTruncated | Some d' \<Rightarrow> Done (d', 1))"
      using opd by (auto simp: patch_insn_def op is_jump_def win_nop_def win_len_def)
    then show ?thesis using True le
      by (auto simp: insn_result_def write_at_alt nop_facts site_ok_def nth_put_at in_window_def)
  next
    case no: False
    have pin: "patch_insn e (s_file s) = (if has_at e (s_file s) ?N then Done (e, 0)
        else Fail (UnexpectedOpcode (e ! s_file s)))"
      using no opd has_atD(2) [of e "s_file s" nop5 0] has_atD(2) [of e "s_file s" nop2 0]
      by (auto simp: patch_insn_def op is_jump_def win_nop_def win_len_def nop_facts)
    have "has_at e (s_file s) ?N" if "site_ok d s"
      using that no le has_atD [of d "s_file s" ?N] same
      by (intro has_atI) (auto simp: site_ok_def in_window_def nop_facts)
    then show ?thesis using has_at_window [of e s d] no le by (auto simp: insn_result_def pin)
  qed
qed

lemma patch_insn_again:
  assumes le: "length e = length d" and f: "s_file s < length d"
    and win: "\<And>p. in_window d p s \<Longrightarrow> p < length d \<Longrightarrow> e ! p = win_nop (win_len d (s_file s)) ! (p - s_file s)"
  shows "insn_result d e s (patch_insn e (s_file s)) 0"
proof -
  have op: "byte_at e (s_file s) = Done (e ! s_file s)" using f le by (simp add: byte_at_def)
  have "e ! s_file s = win_nop (win_len d (s_file s)) ! 0"
    using win [of "s_file s"] f by (simp add: in_window_def win_len_pos)
  then have "e ! s_file s \<noteq> 0xe9 \<and> e ! s_file s \<noteq> 0xeb" by (simp add: win_nop_def nop_facts)
  moreover have "has_at e (s_file s) (win_nop (win_len d (s_file s)))" if "site_ok d s"
    using that win le by (intro has_atI) (auto simp: site_ok_def in_window_def nop_facts)
  then have "site_ok d s \<Longrightarrow> has_at e (s_file s) nop5 \<or> has_at e (s_file s) nop2"
    using nop_facts(6) [of d "s_file s"] by auto
  ultimately show ?thesis using le win by (auto simp: insn_result_def patch_insn_def op)
qed

lemma patch_insn_image:
  assumes ok: "layout_ok c d" and ss: "set ss \<subseteq> set (sites c d)" and s: "s \<in> set (sites c d)"
    and f: "s_file s < length d"
  shows "insn_result d (patched_image c d ss) s (patch_insn (patched_image c d ss) (s_file s))
    (if s_file s \<notin> s_file ` set ss \<and> is_jump d s then 1 else 0)"
proof (cases "s_file s \<in> s_file ` set ss")
  case True
  then obtain t where t: "t \<in> set ss" "s_file t = s_file s" by force
  have "insn_result d (patched_image c d ss) s (patch_insn (patched_image c d ss) (s_file s)) 0"
    using image_byte_window [OF ok ss t(1)] t(2) f
    by (intro patch_insn_again) (simp_all add: image_nth in_window_def)
  then show ?thesis using True by simp
next
  case new: False
  have "insn_result d (patched_image c d ss) s (patch_insn (patched_image c d ss) (s_file s)) (if is_jump d s then 1 else 0)"
  proof (rule patch_insn_fresh [OF _ f])
    fix p assume p: "in_window d p s" "p < length d"
    show "patched_image c d ss ! p = d ! p"
      unfolding image_nth [OF p(2)]
    proof (rule image_byte_untouched)
      fix t assume t: "t \<in> set ss"
      then show "\<not> zeroed c d t p" using window_not_zeroed [OF ok s _ p(1)] ss by auto
      show "\<not> in_window d p t" using same_window [OF ok s _ p(1)] ss t new by auto
    qed
  qed simp
  then show ?thesis using new by simp
qed


lemma window_write_keeps:
  assumes ok: "layout_ok c d" and ag: "agrees c e d" and so: "same_offs c e d"
    and s: "s \<in> set (sites c d)" and len: "length e1 = length e"
    and wr: "\<And>p. p < length e \<Longrightarrow> e1 ! p \<noteq> e ! p \<Longrightarrow> in_window d p s"
  shows "agrees c e1 d \<and> same_offs c e1 d"
proof
  have apart: "disjoint_range (s_file s) (win_len d (s_file s)) b m"
    if "(b, m) \<in> set (prot c d) \<or> (b, m) \<in> set (rela_bytes (all_relas c d))" for b m
    using ok that apartD [OF _ windowI [OF s]] unfolding layout_ok_def by blast
  have region: "bytes_at b m e1 = bytes_at b m e"
    if "disjoint_range (s_file s) (win_len d (s_file s)) b m" for b m
    using that wr len
    by (intro bytes_at_eqI [OF len]) (fastforce simp: disjoint_range_def in_window_def)
  show "agrees c e1 d"
    using ag len region [OF apart] by (fastforce simp: agrees_def)
  show "same_offs c e1 d"
    unfolding same_offs_def
  proof (intro ballI, clarify)
    fix b n i assume bn: "(b, n) \<in> set (all_relas c d)" and i: "i < n"
    have "disjoint_range (s_file s) (win_len d (s_file s)) (b + 24 * i) 8"
      using disjoint_range_sub [OF apart [OF disjI2 [OF rela_bytesI [OF bn]]], of "b + 24 * i" 8] i by simp
    then have "entry_off e1 b i = entry_off e b i" using region by (simp add: entry_off_def)
    with so bn i show "entry_off e1 b i = entry_off d b i" by (auto simp: same_offs_def)
  qed
qed

lemma sites_upto_Suc:
  "sites_upto c d (Suc i) = sites_upto c d i @
     (case resolve_site c d i of Done (Some s) \<Rightarrow> [s] | _ \<Rightarrow> [])"
  by (simp add: sites_upto_def)

lemma sites_upto_mono: "i \<le> n \<Longrightarrow> set (sites_upto c d i) \<subseteq> set (sites_upto c d n)"
  by (fastforce simp: sites_upto_def)

lemma text_relas_sub: "s \<in> set (sites c d) \<Longrightarrow> set (text_relas c d (s_sec s)) \<subseteq> set (all_relas c d)"
  by (auto simp: all_relas_def)

lemma jump_count_snoc:
  "jump_count d (ss @ [s]) =
     jump_count d ss + (if s_file s \<notin> s_file ` set ss \<and> is_jump d s then 1 else 0)"
proof -
  have "is_jump d t" if "s_file t = s_file s" "is_jump d s" for t
    using that by (simp add: is_jump_def)
  then show ?thesis
    by (auto simp: jump_count_def length_remdups_card_conv insert_absorb intro!: card_insert_disjoint)
qed

lemma patch_site_image:
  assumes ok: "layout_ok c d" and cok: "ctx_ok c d" and i: "i < rela_count c"
    and rs: "resolve_site c d i = Done (Some s)"
  defines "e \<equiv> patched_image c d (sites_upto c d i)"
  shows "(\<exists>err. patch_entry c e i = Fail err \<and> \<not> (site_ok d s \<and> relas_in_file c d (s_sec s) 0))
    \<or> patch_entry c e i = Done (patched_image c d (sites_upto c d (Suc i)),
         if s_file s \<notin> s_file ` set (sites_upto c d i) \<and> is_jump d s then 1 else 0)"
proof -
  let ?ss = "sites_upto c d i"
  have sub: "set ?ss \<subseteq> set (sites c d)" using i by (intro sites_upto_mono) simp
  have suc: "sites_upto c d (Suc i) = ?ss @ [s]" by (simp add: sites_upto_Suc rs)
  have s: "s \<in> set (sites c d)" using sites_upto_mono [of "Suc i" "rela_count c" c d] i suc by auto
  note ag = image_agrees [OF ok sub] and so = image_same_offs [OF ok sub]
  note res = resolve_site_agrees [OF ag cok i]
  from res rs obtain sy where f: "s_file s < length d" and sy: "sym_at d (sym_base c) (s_sym s) = Done sy"
    "s_sym s < sym_count c" "unat (st_shndx sy) = s_sec s" by auto
  have unf: "patch_entry c e i = bindR (patch_insn e (s_file s)) (\<lambda>(d1, n).
      bindR (fix_relocs c (s_sym s) (s_insn s) d1 0) (\<lambda>d2. Done (d2, n)))"
    using res rs by (simp add: patch_entry_def e_def)
  define n where "n = (if s_file s \<notin> s_file ` set ?ss \<and> is_jump d s then 1 else 0 :: nat)"
  have "insn_result d e s (patch_insn e (s_file s)) n"
    unfolding e_def n_def by (rule patch_insn_image [OF ok sub s f])
  then show ?thesis
    unfolding insn_result_def
  proof (elim disjE exE conjE)
    fix err assume "patch_insn e (s_file s) = Fail err" "\<not> site_ok d s"
    then show ?thesis by (simp add: unf)
  next
    fix e1 assume e1: "patch_insn e (s_file s) = Done (e1, n)" "length e1 = length d"
      "\<forall>p<length d. e1 ! p = (if in_window d p s then win_nop (win_len d (s_file s)) ! (p - s_file s) else e ! p)"
    then have "agrees c e1 d \<and> same_offs c e1 d"
      by (intro window_write_keeps [OF ok ag so s]) (auto simp: e_def split: if_splits)
    then have keep: "agrees c e1 d" "same_offs c e1 d" by auto
    from fix_relocs_spec [OF ok cok sy keep text_relas_sub [OF s], of "s_insn s"] show ?thesis
    proof (elim disjE exE conjE)
      fix err assume "fix_relocs c (s_sym s) (s_insn s) e1 0 = Fail err" "\<not> relas_in_file c d (s_sec s) 0"
      then show ?thesis by (simp add: unf e1(1))
    next
      fix e2 assume e2: "fix_relocs c (s_sym s) (s_insn s) e1 0 = Done e2" "length e2 = length e1"
        "\<forall>p<length d. e2 ! p = (if \<exists>(a, k)\<in>set (text_relas c d (s_sec s)). cleared d a (s_insn s) 0 k p
            then 0 else e1 ! p)"
      have "e2 = patched_image c d (?ss @ [s])"
        using e1(2,3) e2(2,3) image_byte_snoc [OF ok sub s]
        by (intro nth_equalityI) (auto simp: image_nth zeroed_iff e_def)
      then show ?thesis using e1(1) e2(1) by (simp add: unf suc n_def)
    qed
  qed
qed


section \<open>The whole object\<close>

lemma patch_loop_image:
  assumes ok: "layout_ok c d" and cok: "ctx_ok c d"
  shows "i + n = rela_count c \<Longrightarrow>
    (\<exists>err. patch_loop c (patched_image c d (sites_upto c d i)) (jump_count d (sites_upto c d i)) i n
       = Fail err \<and> \<not> patchable c d)
    \<or> patch_loop c (patched_image c d (sites_upto c d i)) (jump_count d (sites_upto c d i)) i n
       = Done (patched_image c d (sites c d), jump_count d (sites c d))"
proof (induction n arbitrary: i)
  case (Suc n)
  then have i: "i < rela_count c" by simp
  have sub: "set (sites_upto c d i) \<subseteq> set (sites c d)" using i by (intro sites_upto_mono) simp
  note res = resolve_site_agrees [OF image_agrees [OF ok sub] cok i]
  show ?case
  proof (cases "resolve_site c d i")
    case Oob
    with res show ?thesis by simp
  next
    case (Fail err)
    with i have "\<not> patchable c d" by (auto simp: patchable_def list_all_iff intro!: bexI [of _ i])
    with Fail res show ?thesis by (simp add: patch_entry_def)
  next
    case (Done found)
    show ?thesis
    proof (cases found)
      case None
      with Done res Suc.IH [of "Suc i"] Suc.prems show ?thesis
        by (simp add: patch_entry_def sites_upto_Suc)
    next
      case (Some s)
      with Done have rs: "resolve_site c d i = Done (Some s)" by simp
      have s: "s \<in> set (sites c d)"
        using sites_upto_mono [of "Suc i" "rela_count c" c d] i by (auto simp: sites_upto_Suc rs)
      have "jump_count d (sites_upto c d (Suc i)) = jump_count d (sites_upto c d i)
          + (if s_file s \<notin> s_file ` set (sites_upto c d i) \<and> is_jump d s then 1 else 0)"
        by (simp add: sites_upto_Suc rs jump_count_snoc)
      moreover have "\<not> (site_ok d s \<and> relas_in_file c d (s_sec s) 0) \<Longrightarrow> \<not> patchable c d"
        using s by (auto simp: patchable_def list_all_iff)
      ultimately show ?thesis
        using patch_site_image [OF ok cok i rs] Suc.IH [of "Suc i"] Suc.prems by auto
    qed
  qed
qed simp

lemma patched_image_Nil: "patched_image c d [] = d"
  by (rule nth_equalityI) (simp_all add: image_nth image_byte_def)

lemma patch_bytes_spec:
  assumes nt: "names_terminated d" and loc: "locate d = Done (Some c)" and ok: "layout_ok c d"
  shows "(\<exists>err. patch_bytes d = Fail err \<and> \<not> patchable c d)
    \<or> patch_bytes d = Done (patched_image c d (sites c d), jump_count d (sites c d))"
proof -
  have cok: "ctx_ok c d" using locate_agree [OF same_tables_refl nt] loc by simp
  have z: "sites_upto c d 0 = []" by (simp add: sites_upto_def)
  from patch_loop_image [OF ok cok, of 0 "rela_count c"] show ?thesis
    by (simp add: patch_bytes_def loc z patched_image_Nil jump_count_def)
qed


section \<open>Patching a patched object\<close>

lemma relas_from_agrees:
  "agrees c e d \<Longrightarrow> n \<le> shnum d \<Longrightarrow> relas_from c e sec r n = relas_from c d sec r n"
  unfolding relas_from_def
  by (rule arg_cong [where f = concat], rule map_cong) (auto simp: agrees_tables)

lemma sites_agrees:
  assumes "agrees c e d" "ctx_ok c d" shows "sites c e = sites c d"
  unfolding sites_upto_def
  by (rule arg_cong [where f = concat], rule map_cong)
     (auto simp: conjunct1 [OF resolve_site_agrees [OF assms]])

lemma shnum_agrees: "agrees c e d \<Longrightarrow> shnum e = shnum d"
  by (simp add: shnum_def agrees_tables(1))

lemma agrees_same_tables:
  assumes "agrees c e d" "sh_base c = table_of d" shows "same_tables e d"
  using assms by (cases "names_of d") (auto simp: agrees_def same_tables_def prot_def)

lemma names_of_agrees:
  assumes ag: "agrees c e d" and loc: "locate d = Done (Some c)" and nt: "names_terminated d"
  shows "names_of e = names_of d \<and> names_terminated e"
proof -
  from locate_agree [OF same_tables_refl nt] loc have base: "sh_base c = table_of d" "ctx_ok c d" by auto
  from ctx_ok_reads(1) [OF base(2)] obtain eh where eh: "ehdr_at d = Done eh" by auto
  have "unat (e_shstrndx eh) < shnum d"
    using loc eh by (auto simp: locate_def Let_def shnum_def split: if_splits)
  moreover have "table_of d = unat (e_shoff eh)" using eh by (simp add: table_of_def)
  ultimately have eq: "names_of e = names_of d"
    using agrees_tables(1,2) [OF ag] eh base(1) by (simp add: names_of_def)
  obtain a n where an: "names_of d = (a, n)" by force
  have "bytes_at a n e = bytes_at a n d" using ag an by (auto simp: agrees_def prot_def)
  then have "e ! (a + n - 1) = d ! (a + n - 1)" if "n \<noteq> 0" "a + n \<le> length d"
    using that ag by (intro bytes_at_eqD) (auto simp: agrees_def)
  with nt ag show ?thesis
    by (cases "n = 0 \<or> length d < a + n") (auto simp: names_terminated_def eq an agrees_def)
qed

lemma patched_site_nop:
  assumes ok: "layout_ok c d" and s: "s \<in> set (sites c d)" and f: "s_file s < length d"
  shows "win_len (patched_image c d (sites c d)) (s_file s) = win_len d (s_file s)"
    and "\<not> is_jump (patched_image c d (sites c d)) s"
proof -
  have "patched_image c d (sites c d) ! s_file s = win_nop (win_len d (s_file s)) ! 0"
    using image_byte_window [OF ok subset_refl s, of "s_file s"] f
    by (simp add: image_nth in_window_def win_len_pos)
  then show "win_len (patched_image c d (sites c d)) (s_file s) = win_len d (s_file s)"
    and "\<not> is_jump (patched_image c d (sites c d)) s"
    by (auto simp: win_len_def win_nop_def nop_facts is_jump_def)
qed


lemma patchable_again:
  assumes ag: "agrees c e d" and cok: "ctx_ok c d" and pt: "patchable c d"
    and wl: "\<And>s. s \<in> set (sites c d) \<Longrightarrow> win_len e (s_file s) = win_len d (s_file s)"
    and win: "\<And>s p. s \<in> set (sites c d) \<Longrightarrow> in_window d p s \<Longrightarrow> p < length d \<Longrightarrow>
      e ! p = win_nop (win_len d (s_file s)) ! (p - s_file s)"
  shows "patchable c e"
proof -
  have le: "length e = length d" using ag by (simp add: agrees_def)
  have res: "resolve_site c e i = resolve_site c d i" if "i < rela_count c" for i
    using resolve_site_agrees [OF ag cok that] by simp
  have sif: "section_in_file e = section_in_file d"
    by (rule ext) (simp add: section_in_file_def le)
  have "site_ok e s" if s: "s \<in> set (sites c d)" for s
  proof -
    have fit: "s_file s + win_len d (s_file s) \<le> length e"
      using pt s le by (auto simp: patchable_def list_all_iff site_ok_def)
    then have "has_at e (s_file s) (win_nop (win_len d (s_file s)))"
      using win [OF s] le by (intro has_atI) (auto simp: in_window_def nop_facts)
    with fit show ?thesis by (simp add: site_ok_def wl [OF s])
  qed
  moreover have "relas_in_file c e sec 0 = relas_in_file c d sec 0" for sec
    unfolding relas_in_file_def shnum_agrees [OF ag] sif
    by (rule list.pred_cong) (auto simp: agrees_tables [OF ag])
  ultimately show ?thesis
    using pt by (auto simp: patchable_def list_all_iff res sites_agrees [OF ag cok])
qed

lemma image_fixpoint:
  assumes ok: "layout_ok c d" and sites: "sites c e = sites c d"
    and relas: "\<And>sec. text_relas c e sec = text_relas c d sec" and so: "same_offs c e d"
    and wl: "\<And>s. s \<in> set (sites c d) \<Longrightarrow> win_len e (s_file s) = win_len d (s_file s)"
    and e: "e = patched_image c d (sites c d)"
  shows "patched_image c e (sites c e) = e"
proof (rule nth_equalityI)
  fix p assume "p < length (patched_image c e (sites c e))"
  then have p: "p < length d" "p < length e" by (simp_all add: e)
  have ep: "e ! p = image_byte c d (sites c d) p" using p by (simp add: e image_nth)
  have z: "zeroed c e s p = zeroed c d s p" if "s \<in> set (sites c d)" for s
  proof -
    have "cleared e a (s_insn s) 0 k p = cleared d a (s_insn s) 0 k p"
      if "(a, k) \<in> set (text_relas c d (s_sec s))" for a k
      using cleared_same_offs [OF so] text_relas_sub [OF \<open>s \<in> set (sites c d)\<close>] that by (metis subsetD)
    then show ?thesis unfolding zeroed_iff relas by (intro bex_cong) auto
  qed
  have "find (in_window e p) (sites c d) = find (in_window d p) (sites c d)"
    using wl by (intro find_cong) (auto simp: in_window_def)
  moreover have "list_ex (\<lambda>s. zeroed c e s p) (sites c d) = list_ex (\<lambda>s. zeroed c d s p) (sites c d)"
    using z by (auto simp: list_ex_iff)
  moreover have "s \<in> set (sites c d)" if "find (in_window d p) (sites c d) = Some s" for s
    using that by (auto simp: find_Some_iff)
  ultimately have "image_byte c e (sites c d) p = (if list_ex (\<lambda>s. zeroed c d s p) (sites c d) then 0
      else case find (in_window d p) (sites c d) of
        Some s \<Rightarrow> win_nop (win_len d (s_file s)) ! (p - s_file s) | None \<Rightarrow> e ! p)"
    using wl by (auto simp: image_byte_def split: option.splits)
  also have "\<dots> = e ! p"
    using p ep by (auto simp: image_byte_def split: option.splits)
  finally show "patched_image c e (sites c e) ! p = e ! p" using p by (simp add: image_nth sites)
qed simp

lemma patched_again:
  assumes nt: "names_terminated d" and loc: "locate d = Done (Some c)" and ok: "layout_ok c d"
    and pt: "patchable c d"
  defines "e \<equiv> patched_image c d (sites c d)"
  shows "names_terminated e" and "locate e = Done (Some c)" and "layout_ok c e" and "patchable c e"
    and "patched_image c e (sites c e) = e" and "jump_count e (sites c e) = 0"
proof -
  from locate_agree [OF same_tables_refl nt] loc have base: "sh_base c = table_of d" and cok: "ctx_ok c d" by auto
  have ag: "agrees c e d" unfolding e_def by (rule image_agrees [OF ok subset_refl])
  have so: "same_offs c e d" unfolding e_def by (rule image_same_offs [OF ok subset_refl])
  note nm = names_of_agrees [OF ag loc nt]
  then show "names_terminated e" by simp
  show "locate e = Done (Some c)" using locate_agree [OF agrees_same_tables [OF ag base] nt] loc by simp
  have inside: "s_file s < length d" if "s \<in> set (sites c d)" for s
    using that resolve_site_agrees [OF ag cok]
    by (fastforce simp: sites_upto_def split: run.splits option.splits)
  note nop = patched_site_nop [OF ok _ inside, folded e_def]
  have sites: "sites c e = sites c d" by (rule sites_agrees [OF ag cok])
  have relas: "text_relas c e sec = text_relas c d sec" for sec
    using relas_from_agrees [OF ag order_refl] shnum_agrees [OF ag] by simp
  have "windows c e = windows c d" using nop(1) by (simp add: windows_def sites)
  moreover have "all_relas c e = all_relas c d" by (simp add: all_relas_def sites relas)
  moreover have "prot c e = prot c d" using nm shnum_agrees [OF ag] by (simp add: prot_def)
  ultimately show "layout_ok c e" using ok by (simp add: layout_ok_def)
  show "patchable c e"
    using nop(1) image_byte_window [OF ok subset_refl]
    by (intro patchable_again [OF ag cok pt]) (auto simp: e_def image_nth)
  show "jump_count e (sites c e) = 0" using nop(2) by (simp add: jump_count_def sites filter_empty_conv)
  show "patched_image c e (sites c e) = e"
    using nop(1) by (intro image_fixpoint [OF ok sites relas so]) (auto simp: e_def)
qed

end
