(* ===== verification/JumpLabelSpec.thy ===== *)
theory JumpLabelSpec
  imports JumpLabelImage
begin

text \<open>
  The properties of the jump-label patcher, with a concrete object on which their hypotheses hold:
  one text section with a five-byte jump, its relocation section, a symbol table and a jump table
  with one entry whose key has the "initially true" bit set.
\<close>

section \<open>A sample object\<close>

definition elf_ident :: "byte list" where
  "elf_ident = [0x7f, 0x45, 0x4c, 0x46, 2, 1, 1] @ replicate 9 0"

definition ehdr_bytes :: "nat \<Rightarrow> nat \<Rightarrow> nat \<Rightarrow> nat \<Rightarrow> byte list" where
  "ehdr_bytes shoff entsize n strndx =
     elf_ident @ replicate 24 0 @ le_bytes 8 shoff @ replicate 10 0
     @ le_bytes 2 entsize @ le_bytes 2 n @ le_bytes 2 strndx"

definition shdr_bytes :: "nat \<Rightarrow> nat \<Rightarrow> nat \<Rightarrow> nat \<Rightarrow> nat \<Rightarrow> nat \<Rightarrow> nat \<Rightarrow> byte list" where
  "shdr_bytes name ty off sz link info entsize =
     le_bytes 4 name @ le_bytes 4 ty @ replicate 16 0 @ le_bytes 8 off @ le_bytes 8 sz
     @ le_bytes 4 link @ le_bytes 4 info @ replicate 8 0 @ le_bytes 8 entsize"

definition sym_bytes :: "nat \<Rightarrow> nat \<Rightarrow> byte list" where
  "sym_bytes shndx v = replicate 6 0 @ le_bytes 2 shndx @ le_bytes 8 v @ replicate 8 0"

definition rela_entry :: "nat \<Rightarrow> nat \<Rightarrow> nat \<Rightarrow> byte list" where
  "rela_entry off info addend = le_bytes 8 off @ le_bytes 8 info @ le_bytes 8 addend"

text \<open>Encoding and decoding of the structures.\<close>

lemma bytes_at_skip: "length xs \<le> off \<Longrightarrow> bytes_at off n (xs @ ys) = bytes_at (off - length xs) n ys"
  by (simp add: bytes_at_def)

lemma bytes_at_hit: "n = length xs \<Longrightarrow> bytes_at 0 n (xs @ ys) = xs" "n = length xs \<Longrightarrow> bytes_at 0 n xs = xs"
  by (simp_all add: bytes_at_def)

lemma le_word_le_bytes:
  "le_word (le_bytes 2 v) = (of_nat v :: u16)" "le_word (le_bytes 4 v) = (of_nat v :: u32)"
  "le_word (le_bytes 8 v) = (of_nat v :: u64)"
  by (simp_all add: le_word_eq le_nat_le_bytes word_of_nat_eq_iff take_bit_nat_def)

lemmas field_simps' = fld_def bytes_at_skip bytes_at_hit le_word_le_bytes

lemma length_struct_bytes [simp]:
  "length (ehdr_bytes shoff es n k) = 64" "length (shdr_bytes a b c e f g h) = 64"
  "length (sym_bytes i v) = 24" "length (rela_entry off si add) = 24"
  "length elf_ident = 16"
  by (simp_all add: ehdr_bytes_def shdr_bytes_def sym_bytes_def rela_entry_def elf_ident_def)

lemma dec_ehdr_bytes: "dec_ehdr (ehdr_bytes shoff es n k) =
    \<lparr>e_shoff = of_nat shoff, e_shentsize = of_nat es, e_shnum = of_nat n, e_shstrndx = of_nat k\<rparr>"
  by (simp add: dec_ehdr_def ehdr_bytes_def field_simps')

lemma dec_shdr_bytes: "dec_shdr (shdr_bytes name ty off sz link info entsize) =
    \<lparr>sh_name = of_nat name, sh_type = of_nat ty, sh_offset = of_nat off, sh_size = of_nat sz,
     sh_link = of_nat link, sh_info = of_nat info, sh_entsize = of_nat entsize\<rparr>"
  by (simp add: dec_shdr_def shdr_bytes_def field_simps')

lemma dec_sym_bytes: "dec_sym (sym_bytes i v) = \<lparr>st_shndx = of_nat i, st_value = of_nat v\<rparr>"
  by (simp add: dec_sym_def sym_bytes_def field_simps')

lemma dec_rela_entry: "dec_rela (rela_entry off info add) =
    \<lparr>r_offset = of_nat off, r_info = of_nat info, r_addend = of_nat add\<rparr>"
  by (simp add: dec_rela_def rela_entry_def field_simps')

lemmas dec_simps = dec_ehdr_bytes dec_shdr_bytes dec_sym_bytes dec_rela_entry

definition sample_object :: "byte list \<Rightarrow> nat \<Rightarrow> byte list" where
  "sample_object txt reloc_off =
     ehdr_bytes 216 64 6 3
     @ txt
     @ (0 # jump_table_name @ [0])
     @ replicate 5 0
     @ sym_bytes 0 0 @ sym_bytes 1 0
     @ rela_entry reloc_off 0x100000004 0
     @ rela_entry 0 0x100000002 0 @ rela_entry 8 0x100000001 2
     @ shdr_bytes 0 0 0 0 0 0 0
     @ shdr_bytes 0 1 64 8 0 0 0
     @ shdr_bytes 0 2 96 48 0 0 24
     @ shdr_bytes 0 3 72 19 0 0 0
     @ shdr_bytes 0 4 144 24 2 1 24
     @ shdr_bytes 1 4 168 48 2 0 24"

definition sample_ctx :: ctx where
  "sample_ctx = \<lparr>sh_base = 216, sym_base = 96, sym_count = 2, rela_base = 168, rela_count = 2\<rparr>"

definition jump5 :: "byte list" where "jump5 = [0xe9, 0x10, 0, 0, 0, 0xc3, 0x90, 0x90]"

lemma length_names [simp]: "length jump_table_name = 17" "length jump5 = 8"
  by (simp_all add: jump_table_name_def jump5_def)

lemma length_sample [simp]: "length (sample_object jump5 k) = 600"
  by (simp add: sample_object_def)

lemma bytes_at_skip_Cons: "bytes_at (numeral k) n (x # xs) = bytes_at (pred_numeral k) n xs"
  by (simp add: bytes_at_def)

lemma sample_tables:
  "ehdr_at (sample_object jump5 k) = Done \<lparr>e_shoff = 216, e_shentsize = 64, e_shnum = 6, e_shstrndx = 3\<rparr>"
  "sym_at (sample_object jump5 k) 96 1 = Done \<lparr>st_shndx = 1, st_value = 0\<rparr>"
  "rela_at (sample_object jump5 k) 168 0 = Done \<lparr>r_offset = 0, r_info = 0x100000002, r_addend = 0\<rparr>"
  "rela_at (sample_object jump5 k) 168 1 = Done \<lparr>r_offset = 8, r_info = 0x100000001, r_addend = 2\<rparr>"
  "shdr_at (sample_object jump5 k) 216 0 = Done \<lparr>sh_name = 0, sh_type = 0, sh_offset = 0, sh_size = 0,
     sh_link = 0, sh_info = 0, sh_entsize = 0\<rparr>"
  "shdr_at (sample_object jump5 k) 216 1 = Done \<lparr>sh_name = 0, sh_type = 1, sh_offset = 64, sh_size = 8,
     sh_link = 0, sh_info = 0, sh_entsize = 0\<rparr>"
  "shdr_at (sample_object jump5 k) 216 2 = Done \<lparr>sh_name = 0, sh_type = 2, sh_offset = 96, sh_size = 48,
     sh_link = 0, sh_info = 0, sh_entsize = 24\<rparr>"
  "shdr_at (sample_object jump5 k) 216 3 = Done \<lparr>sh_name = 0, sh_type = 3, sh_offset = 72, sh_size = 19,
     sh_link = 0, sh_info = 0, sh_entsize = 0\<rparr>"
  "shdr_at (sample_object jump5 k) 216 4 = Done \<lparr>sh_name = 0, sh_type = 4, sh_offset = 144, sh_size = 24,
     sh_link = 2, sh_info = 1, sh_entsize = 24\<rparr>"
  "shdr_at (sample_object jump5 k) 216 5 = Done \<lparr>sh_name = 1, sh_type = 4, sh_offset = 168, sh_size = 48,
     sh_link = 2, sh_info = 0, sh_entsize = 24\<rparr>"
  by (simp_all add: rec_at_def, simp_all add: sample_object_def bytes_at_skip bytes_at_hit bytes_at_skip_Cons dec_simps)


lemma strcmp_eq_found: "strcmp_eq (pre @ lit @ 0 # post) (length pre) lit = Done True"
proof (induction lit arbitrary: pre)
  case Nil
  then show ?case by (simp add: byte_at_def)
next
  case (Cons x lit)
  from Cons.IH [of "pre @ [x]"] show ?case by (simp add: byte_at_def nth_append)
qed

lemma sample_names:
  "strcmp_eq (sample_object jump5 k) 73 jump_table_name = Done True"
  "strcmp_eq (sample_object jump5 k) 72 jump_table_name = Done False"
proof -
  show "strcmp_eq (sample_object jump5 k) 73 jump_table_name = Done True"
    using strcmp_eq_found [of "ehdr_bytes 216 64 6 3 @ jump5 @ [0]" jump_table_name]
    by (simp add: sample_object_def)
  have "sample_object jump5 k ! 72 = 0" by (simp add: sample_object_def nth_append)
  then show "strcmp_eq (sample_object jump5 k) 72 jump_table_name = Done False"
    by (simp add: jump_table_name_def byte_at_def)
qed

lemma sample_elf: "is_elf64_lsb (sample_object jump5 k)"
  by (simp add: is_elf64_lsb_def, simp add: sample_object_def ehdr_bytes_def elf_ident_def nth_append)

lemma find_jump_rela_numeral:
  "find_jump_rela d shoff names nn i (numeral n) =
     bindR (shdr_at d shoff i) (\<lambda>s.
       if sh_type s = SHT_RELA
       then bindR (name_is_jump_table d names nn (sh_name s)) (\<lambda>hit.
              if hit then Done (Some i)
              else find_jump_rela d shoff names nn (Suc i) (pred_numeral n))
       else find_jump_rela d shoff names nn (Suc i) (pred_numeral n))"
  by (simp add: numeral_eq_Suc)

lemmas step_index = numeral_2_eq_2 [symmetric]

lemma sample_locate: "locate (sample_object jump5 k) = Done (Some sample_ctx)"
proof -
  have "find_jump_rela (sample_object jump5 k) 216 72 19 0 6 = Done (Some 5)"
    by (simp add: find_jump_rela_numeral step_index sample_tables sample_tables(6) [unfolded One_nat_def]
        SHT_RELA_def name_is_jump_table_def section_name_def sample_names)
  then show ?thesis
    by (simp add: locate_def sample_elf sample_tables find_tables_def sample_ctx_def)
qed


lemma sample_nth: "sample_object jump5 k ! 64 = 0xe9" "sample_object jump5 k ! 90 = 0"
  by (simp_all add: sample_object_def nth_append jump5_def)

lemma sample_names_of: "names_of (sample_object jump5 k) = (72, 19)"
  by (simp add: names_of_def sample_tables)

lemma sample_terminated: "names_terminated (sample_object jump5 k)"
  by (simp add: names_terminated_def sample_names_of sample_nth)

lemma sample_shnum: "shnum (sample_object jump5 k) = 6"
  by (simp add: shnum_def sample_tables)

lemma sample_resolve:
  "resolve_site sample_ctx (sample_object jump5 k) 0 = Done None"
  "resolve_site sample_ctx (sample_object jump5 k) 1 =
     Done (Some \<lparr>s_sym = 1, s_sec = 1, s_insn = 0, s_file = 64\<rparr>)"
proof -
  have two: "(2::nat) = Suc (Suc 0)" by simp
  show "resolve_site sample_ctx (sample_object jump5 k) 0 = Done None"
    by (simp add: resolve_site_def sample_ctx_def sample_tables)
  have "find_orig (sample_object jump5 k) 168 0 0 2 =
      Done (Some \<lparr>r_offset = 0, r_info = 0x100000002, r_addend = 0\<rparr>)"
    unfolding two by (simp add: sample_tables)
  moreover have "\<not> (6 :: u16) \<le> 1" by (simp add: word_le_nat_alt)
  ultimately show "resolve_site sample_ctx (sample_object jump5 k) 1 =
     Done (Some \<lparr>s_sym = 1, s_sec = 1, s_insn = 0, s_file = 64\<rparr>)"
    by (simp add: resolve_site_def sample_ctx_def sample_tables sample_tables(2,4,6) [unfolded One_nat_def]
        addend_mod_def ELF64_R_SYM_def)
qed


lemma sample_sites:
  "sites sample_ctx (sample_object jump5 k) = [\<lparr>s_sym = 1, s_sec = 1, s_insn = 0, s_file = 64\<rparr>]"
proof -
  have "[0..<2] = [0, 1 :: nat]" by (simp add: upt_rec)
  then show ?thesis
    using sample_resolve [of k] by (simp add: sites_upto_def) (simp add: sample_ctx_def)
qed

lemma sample_relas: "relas_from sample_ctx (sample_object jump5 k) 1 0 6 = [(144, 1)]"
proof -
  have "[0..<6] = [0, 1, 2, 3, 4, 5 :: nat]" by (simp add: upt_rec)
  then show ?thesis
    by (simp add: relas_from_def sample_ctx_def sample_tables sample_tables(6) [unfolded One_nat_def]
        relevant_def SHT_RELA_def)
qed

lemma sample_layout: "layout_ok sample_ctx (sample_object jump5 k)"
  by (simp add: layout_ok_def apart_def apart_or_equal_def windows_def all_relas_def prot_def
      sample_sites sample_shnum sample_relas [unfolded One_nat_def] sample_names_of win_len_def sample_nth disjoint_range_def)
     (simp add: sample_ctx_def)

lemma sample_patchable: "patchable sample_ctx (sample_object jump5 k)"
proof -
  have "[0..<2] = [0, 1 :: nat]" "[0..<6] = [0, 1, 2, 3, 4, 5 :: nat]" by (simp_all add: upt_rec)
  then show ?thesis
    using sample_resolve [of k]
    by (simp add: patchable_def sample_sites site_ok_def win_len_def sample_nth is_jump_def
        relas_in_file_def sample_shnum)
       (simp add: sample_ctx_def sample_tables sample_tables(6) [unfolded One_nat_def]
        relevant_def section_in_file_def)
qed

section \<open>Properties\<close>

text \<open>C1: On an object whose name table is terminated, whose sections lie apart and whose branch
  sites are jumps or NOPs, the in-place routine returns successfully and the buffer it leaves is
  exactly the declarative image: the jump at every selected site replaced by the NOP of its length,
  the type of every relocation of a site set to zero, every other byte unchanged; the count it
  reports is the number of distinct sites that held a jump.\<close>

theorem patch_bytes_correct:
  assumes "names_terminated d" and "locate d = Done (Some c)" and "layout_ok c d" and "patchable c d"
  shows "patch_bytes d = Done (patched_image c d (sites c d), jump_count d (sites c d))"
  using patch_bytes_spec [OF assms(1-3)] assms(4) by auto

theorem patch_bytes_correct_witness:
  "patch_bytes (sample_object jump5 0) =
     Done (patched_image sample_ctx (sample_object jump5 0)
       [\<lparr>s_sym = 1, s_sec = 1, s_insn = 0, s_file = 64\<rparr>], 1)"
  using patch_bytes_correct [OF sample_terminated sample_locate sample_layout sample_patchable, of 0]
  by (simp add: sample_sites jump_count_def is_jump_def sample_nth)

text \<open>C2: If the name table is terminated and the sections of a located object lie apart, no step
  of the patcher reads or writes outside the buffer, whatever the object contains: it returns a
  result or one of its errors.\<close>

theorem patch_bytes_in_bounds:
  assumes "names_terminated d" and "\<And>c. locate d = Done (Some c) \<Longrightarrow> layout_ok c d"
  shows "patch_bytes d \<noteq> Oob"
proof (cases "locate d")
  case (Done loc)
  then show ?thesis
    using patch_bytes_spec [OF assms(1) _ assms(2)] by (cases loc) (auto simp: patch_bytes_def)
next
  case Oob
  then show ?thesis using locate_agree [OF same_tables_refl assms(1)] by simp
qed (simp add: patch_bytes_def)

theorem patch_bytes_in_bounds_witness: "patch_bytes (sample_object jump5 0) \<noteq> Oob"
  by (rule patch_bytes_in_bounds [OF sample_terminated]) (simp add: sample_locate sample_layout)

text \<open>C3: Patching is idempotent: a second run over the object the first run produced changes
  nothing and reports no patch, so the file is not rewritten.\<close>

theorem patch_bytes_idempotent:
  assumes "names_terminated d" and "locate d = Done (Some c)" and "layout_ok c d"
    and "patch_bytes d = Done (e, n)" and "patchable c d"
  shows "patch_bytes e = Done (e, 0)"
proof -
  from patch_bytes_spec [OF assms(1-3)] assms(4,5) have e: "e = patched_image c d (sites c d)" by auto
  note again = patched_again [OF assms(1-3,5), folded e]
  from patch_bytes_spec [OF again(1-3)] again(4-6) show ?thesis by auto
qed

theorem patch_bytes_idempotent_witness:
  "\<exists>e. patch_bytes (sample_object jump5 0) = Done (e, 1) \<and> patch_bytes e = Done (e, 0)"
proof -
  have p: "patch_bytes (sample_object jump5 0) = Done (patched_image sample_ctx (sample_object jump5 0)
      (sites sample_ctx (sample_object jump5 0)), 1)"
    using patch_bytes_spec [OF sample_terminated sample_locate sample_layout, of 0] sample_patchable [of 0]
    by (simp add: sample_sites jump_count_def is_jump_def sample_nth)
  from p patch_bytes_idempotent [OF sample_terminated sample_locate sample_layout p sample_patchable]
  show ?thesis by blast
qed


section \<open>Where the hypotheses are needed\<close>






text \<open>A branch site inside the ELF header: its jump is the low byte of \<^verbatim>\<open>e_shentsize\<close>, so the
  NOP overwrites \<^verbatim>\<open>e_shnum\<close> and the loop over the section headers runs off the buffer.\<close>

definition clobber_object :: "byte list" where
  "clobber_object =
     ehdr_bytes 216 0xe9 6 3
     @ replicate 8 0
     @ (0 # jump_table_name @ [0])
     @ replicate 5 0
     @ sym_bytes 0 0 @ sym_bytes 1 0
     @ rela_entry 7 0x100000004 0
     @ rela_entry 0 0x100000002 0 @ rela_entry 8 0x100000001 2
     @ shdr_bytes 0 0 0 0 0 0 0
     @ shdr_bytes 0 1 58 8 0 0 0
     @ shdr_bytes 0 2 96 48 0 0 24
     @ shdr_bytes 0 3 72 19 0 0 0
     @ shdr_bytes 0 4 144 24 2 1 24
     @ shdr_bytes 1 4 168 48 2 0 24
     @ replicate 1014 0"

lemma length_clobber [simp]: "length clobber_object = 1614"
  by (simp add: clobber_object_def)










section \<open>Files and the command\<close>

lemma write_file_ok:
  assumes "write_file w path data = (True, w')"
  shows "w' = w\<lparr>files := (files w)(path \<mapsto> data)\<rparr>"
  using assms by (auto simp: write_file_def split: if_splits option.splits)

lemma patch_bytes_length: "patch_bytes d = Done (e, n) \<Longrightarrow> length e = length d"
  by (auto simp: patch_bytes_def bindR_eq_Done dest: patch_loop_length split: option.splits)

lemma patch_object_Done:
  assumes "patch_object w path t = (Done t', w')"
  shows "(w' = w \<and> t' = t) \<or> (\<exists>d e n. files w path = Some d \<and> patch_bytes d = Done (e, n) \<and> 0 < n
    \<and> w' = w\<lparr>files := (files w)(path \<mapsto> e)\<rparr>
    \<and> t' = \<lparr>patched_objects = patched_objects t + 1, patches = patches t + n\<rparr>)"
proof (cases "read_file w path")
  case None
  with assms show ?thesis by (simp add: patch_object_def)
next
  case (Some d)
  then have d: "files w path = Some d" by (auto simp: read_file_def split: option.splits if_splits)
  show ?thesis
  proof (cases "patch_bytes d")
    case (Done r)
    obtain e n where r: "r = (e, n)" by force
    show ?thesis
    proof (cases "0 < n")
      case True
      with assms Some Done r have "write_file w path e = (True, w')"
        and "t' = \<lparr>patched_objects = patched_objects t + 1, patches = patches t + n\<rparr>"
        by (auto simp: patch_object_def split: prod.splits if_splits)
      with write_file_ok d Done r True show ?thesis by blast
    qed (use assms Some Done r in \<open>simp add: patch_object_def\<close>)
  qed (use assms Some in \<open>simp_all add: patch_object_def\<close>)
qed

lemma scan_objects_Done:
  "scan_objects w paths k t = (Done (n, t'), w') \<Longrightarrow> patched_objects t \<le> patches t \<Longrightarrow>
    n = k + length paths \<and> (\<forall>p. p \<notin> set paths \<longrightarrow> files w' p = files w p)
    \<and> (\<forall>p. map_option length (files w' p) = map_option length (files w p))
    \<and> patched_objects t' \<le> patched_objects t + length paths \<and> patched_objects t' \<le> patches t'"
proof (induction paths arbitrary: w k t)
  case (Cons path paths)
  from Cons.prems(1) obtain t1 w1 where po: "patch_object w path t = (Done t1, w1)"
    and rest: "scan_objects w1 paths (Suc k) t1 = (Done (n, t'), w')"
    by (auto split: prod.splits run.splits)
  from patch_object_Done [OF po] show ?case
  proof
    assume "w1 = w \<and> t1 = t"
    with Cons.IH [OF rest] Cons.prems(2) show ?thesis by auto
  next
    assume "\<exists>d e n. files w path = Some d \<and> patch_bytes d = Done (e, n) \<and> 0 < n
      \<and> w1 = w\<lparr>files := (files w)(path \<mapsto> e)\<rparr>
      \<and> t1 = \<lparr>patched_objects = patched_objects t + 1, patches = patches t + n\<rparr>"
    with Cons.IH [OF rest] Cons.prems(2) show ?thesis by (auto dest: patch_bytes_length)
  qed
qed simp

text \<open>C4: When the command exits with status 0 it has scanned every argument, has left every file
  it was not given alone, has kept the size of every file, and its totals agree: no more patched
  objects than arguments, and at least one patch per patched object.\<close>

theorem patch_main_success:
  assumes "patch_main w paths = (Some (0, Some (n, t)), w')"
  shows "n = length paths \<and> (\<forall>p. p \<notin> set paths \<longrightarrow> files w' p = files w p)
    \<and> (\<forall>p. map_option length (files w' p) = map_option length (files w p))
    \<and> patched_objects t \<le> length paths \<and> patched_objects t \<le> patches t"
proof -
  from assms have "scan_objects w paths 0 \<lparr>patched_objects = 0, patches = 0\<rparr> = (Done (n, t), w')"
    by (auto simp: patch_main_def split: prod.splits run.splits)
  from scan_objects_Done [OF this] show ?thesis by simp
qed

definition sample_disk :: stdio where
  "sample_disk = \<lparr>files = [''a.o'' \<mapsto> sample_object jump5 0], fstat_ok = \<lambda>_. True, malloc_ok = \<lambda>_. True,
     fread_ok = \<lambda>_. True, wb_open_ok = \<lambda>_. True, wb_room = \<lambda>_. None, fclose_ok = \<lambda>_. True\<rparr>"

theorem patch_main_success_witness:
  "\<exists>t w'. patch_main sample_disk [''a.o''] = (Some (0, Some (1, t)), w') \<and> patches t = 1
     \<and> map_option length (files w' ''a.o'') = Some 600"
proof -
  obtain e where pb: "patch_bytes (sample_object jump5 0) = Done (e, 1)"
    using patch_bytes_spec [OF sample_terminated sample_locate sample_layout, of 0] sample_patchable [of 0]
    by (auto simp: sample_sites jump_count_def is_jump_def sample_nth)
  let ?t = "\<lparr>patched_objects = 1, patches = 1\<rparr>"
  let ?w = "sample_disk\<lparr>files := (files sample_disk)(''a.o'' \<mapsto> e)\<rparr>"
  have run: "patch_main sample_disk [''a.o''] = (Some (0, Some (1, ?t)), ?w)"
    by (simp add: patch_main_def patch_object_def read_file_def write_file_def sample_disk_def pb)
  from patch_main_success [OF run]
  have "map_option length (files ?w ''a.o'') = map_option length (files sample_disk ''a.o'')" by blast
  with run show ?thesis by (auto simp: sample_disk_def)
qed

end
