(* ===== verification/CLib.thy ===== *)
theory CLib
  imports Prelude
begin

text \<open>
  The pieces of the C library that the programs use on text: decimal output as \<^verbatim>\<open>%ld\<close> prints it,
  \<^verbatim>\<open>strtol\<close> and \<^verbatim>\<open>strtoull\<close> in base ten with their saturation, bounded \<^verbatim>\<open>snprintf\<close>, and prefix
  comparison as \<^verbatim>\<open>strncmp\<close> does it. A C string is the list of its characters before the NUL.
\<close>

section \<open>Decimal output\<close>

fun decimal_nat :: "nat \<Rightarrow> string" where
  "decimal_nat n = (if n < 10 then [char_of (48 + n)] else decimal_nat (n div 10) @ [char_of (48 + n mod 10)])"

declare decimal_nat.simps [simp del]

definition decimal :: "int \<Rightarrow> string" where
  "decimal i = (if i < 0 then ''-'' else '''') @ decimal_nat (nat \<bar>i\<bar>)"

text \<open>The value of a string of digits; it means nothing for other strings.\<close>

definition read_digits :: "string \<Rightarrow> nat" where
  "read_digits s = foldl (\<lambda>v c. 10 * v + (of_char c - 48)) 0 s"

lemma read_decimal_nat: "read_digits (decimal_nat n) = n"
proof (induction n rule: decimal_nat.induct)
  case (1 n)
  then show ?case
    by (subst decimal_nat.simps) (auto simp: read_digits_def mod_less)
qed

lemma length_decimal_nat: "n < 10 ^ Suc k \<Longrightarrow> length (decimal_nat n) \<le> Suc k"
proof (induction k arbitrary: n)
  case (Suc k)
  have "n div 10 < 10 ^ Suc k"
    using Suc.prems by (simp add: less_mult_imp_div_less mult.commute)
  then show ?case
    using Suc.IH [of "n div 10"] by (subst decimal_nat.simps) simp
qed (subst decimal_nat.simps; simp)

section \<open>Scanning numbers\<close>

definition isspace :: "char \<Rightarrow> bool" where
  "isspace c = (let n = of_char c :: nat in n = 32 \<or> 9 \<le> n \<and> n \<le> 13)"

definition isdigit :: "char \<Rightarrow> bool" where
  "isdigit c = (let n = of_char c :: nat in 48 \<le> n \<and> n \<le> 57)"

text \<open>Optional space and sign, then at least one digit: the sign, the magnitude and the rest.\<close>

definition scan_int :: "string \<Rightarrow> (int \<times> string) option" where
  "scan_int s =
     (let s1 = dropWhile isspace s;
          neg = (s1 \<noteq> [] \<and> hd s1 = CHR ''-'');
          s2 = (if s1 \<noteq> [] \<and> (hd s1 = CHR ''-'' \<or> hd s1 = CHR ''+'') then tl s1 else s1);
          ds = takeWhile isdigit s2
      in if ds = [] then None
         else Some ((if neg then - int (read_digits ds) else int (read_digits ds)), dropWhile isdigit s2))"

definition LONG_MAX :: int where
  "LONG_MAX = 2 ^ 63 - 1"

definition LONG_MIN :: int where
  "LONG_MIN = - (2 ^ 63)"

definition clamp_long :: "int \<Rightarrow> int" where
  "clamp_long i = max LONG_MIN (min LONG_MAX i)"

definition strtol10 :: "string \<Rightarrow> int" where
  "strtol10 s = (case scan_int s of None \<Rightarrow> 0 | Some (i, _) \<Rightarrow> clamp_long i)"

text \<open>A negative number is negated in the unsigned type; one that is too large saturates.\<close>

definition strtoull10 :: "string \<Rightarrow> u64" where
  "strtoull10 s = (case scan_int s of None \<Rightarrow> 0
     | Some (i, _) \<Rightarrow> if 2 ^ 64 \<le> \<bar>i\<bar> then - 1 else word_of_int i)"

lemma decimal_nat_isdigit: "c \<in> set (decimal_nat n) \<Longrightarrow> isdigit c"
proof (induction n rule: decimal_nat.induct)
  case (1 n)
  show ?case
  proof (cases "n < 10")
    case True
    then show ?thesis
      using 1(2) by (simp add: decimal_nat.simps [of n] isdigit_def Let_def)
  next
    case False
    then show ?thesis
      using 1 by (auto simp: decimal_nat.simps [of n] isdigit_def Let_def)
  qed
qed

lemma decimal_nat_nonempty: "decimal_nat n \<noteq> []"
  by (subst decimal_nat.simps) simp

lemma isdigit_not_space: "isdigit c \<Longrightarrow> \<not> isspace c \<and> c \<noteq> CHR ''-'' \<and> c \<noteq> CHR ''+''"
  by (auto simp: isdigit_def isspace_def Let_def)

lemma scan_int_decimal:
  assumes "rest = [] \<or> \<not> isdigit (hd rest)"
  shows "scan_int (decimal i @ rest) = Some (i, rest)"
proof -
  define ds where "ds = decimal_nat (nat \<bar>i\<bar>)"
  obtain c cs where ds: "ds = c # cs"
    using decimal_nat_nonempty ds_def by (metis neq_Nil_conv)
  have dig: "\<forall>x \<in> set ds. isdigit x"
    unfolding ds_def using decimal_nat_isdigit by blast
  then have c: "\<not> isspace c" "c \<noteq> CHR ''-''" "c \<noteq> CHR ''+''"
    using ds isdigit_not_space by auto
  have tw: "takeWhile isdigit (ds @ rest) = ds" "dropWhile isdigit (ds @ rest) = rest"
    using dig assms by (simp_all, cases rest, auto) (cases rest, auto)+
  have val: "int (read_digits ds) = \<bar>i\<bar>"
    unfolding ds_def by (simp add: read_decimal_nat)
  show ?thesis
  proof (cases "i < 0")
    case True
    have "\<not> isspace CHR ''-''"
      by (simp add: isspace_def)
    then have "scan_int (decimal i @ rest) = Some (- int (read_digits ds), rest)"
      using True tw ds unfolding scan_int_def decimal_def ds_def [symmetric] by (simp add: Let_def)
    then show ?thesis
      using val True by simp
  next
    case False
    then have "scan_int (decimal i @ rest) = Some (int (read_digits ds), rest)"
      using tw ds c unfolding scan_int_def decimal_def ds_def [symmetric] by (simp add: Let_def)
    then show ?thesis
      using val False by simp
  qed
qed

lemma strtol10_decimal: "LONG_MIN \<le> i \<Longrightarrow> i \<le> LONG_MAX \<Longrightarrow> strtol10 (decimal i) = i"
  using scan_int_decimal [of "[]" i] by (simp add: strtol10_def clamp_long_def)

section \<open>Decimal text\<close>

text \<open>Decimal text proper: digits only, at least one, and no leading zero but in the number zero itself. It is
  determined by its value.\<close>

definition plain_decimal :: "string \<Rightarrow> bool" where
  "plain_decimal ds \<longleftrightarrow> ds \<noteq> [] \<and> list_all isdigit ds \<and> (hd ds = CHR ''0'' \<longrightarrow> ds = ''0'')"

lemma read_digits_snoc: "read_digits (ds @ [c]) = 10 * read_digits ds + (of_char c - 48)"
  by (simp add: read_digits_def)

lemma decimal_nat_leading: "hd (decimal_nat n) = CHR ''0'' \<Longrightarrow> decimal_nat n = ''0''"
proof (induction n rule: decimal_nat.induct)
  case (1 n)
  show ?case
  proof (cases "n < 10")
    case True
    then show ?thesis using 1(2) by (simp add: decimal_nat.simps [of n])
  next
    case False
    then have "hd (decimal_nat (n div 10)) = CHR ''0''"
      using 1(2) decimal_nat_nonempty [of "n div 10"] by (simp add: decimal_nat.simps [of n])
    then have "decimal_nat (n div 10) = ''0''" using 1(1) False by simp
    then have "n div 10 = 0" using read_decimal_nat [of "n div 10"] by (simp add: read_digits_def)
    then show ?thesis using False by simp
  qed
qed

lemma plain_decimal_nat: "plain_decimal (decimal_nat n)"
  using decimal_nat_nonempty decimal_nat_isdigit decimal_nat_leading by (auto simp: plain_decimal_def list_all_iff)

lemma decimal_nat_zero: "decimal_nat 0 = ''0''"
  by code_simp

lemma plain_decimal_unique: "plain_decimal ds \<Longrightarrow> ds = decimal_nat (read_digits ds)"
proof (induction ds rule: rev_induct)
  case (snoc c ds)
  define d :: nat where "d = of_char c - 48"
  have d: "d < 10" "c = char_of (48 + d)"
    using snoc.prems by (auto simp: plain_decimal_def isdigit_def Let_def d_def)
  show ?case
  proof (cases "ds = []")
    case True
    then show ?thesis using d by (simp add: read_digits_def decimal_nat.simps [of d] flip: d_def)
  next
    case False
    have "hd ds \<noteq> CHR ''0''" "list_all isdigit ds" using snoc.prems False by (auto simp: plain_decimal_def)
    then have ds: "ds = decimal_nat (read_digits ds)" using snoc.IH False by (simp add: plain_decimal_def)
    then have "read_digits ds \<noteq> 0" using \<open>hd ds \<noteq> CHR ''0''\<close> by (metis decimal_nat_zero list.sel(1))
    then show ?thesis
      using d ds by (subst decimal_nat.simps) (simp add: read_digits_snoc flip: d_def)
  qed
qed (simp add: plain_decimal_def)

section \<open>Buffers and prefixes\<close>

text \<open>\<^verbatim>\<open>snprintf(buffer, size, ...)\<close> keeps at most \<open>size - 1\<close> characters.\<close>

definition snprintf :: "nat \<Rightarrow> string \<Rightarrow> string" where
  "snprintf bound s = take (bound - 1) s"

text \<open>\<^verbatim>\<open>strncmp(s, t, n) == 0\<close>: equal up to \<open>n\<close> characters or the common end.\<close>

definition strncmp_eq :: "string \<Rightarrow> string \<Rightarrow> nat \<Rightarrow> bool" where
  "strncmp_eq s t n \<longleftrightarrow> take n s = take n t"

lemma snprintf_fits: "length s < bound \<Longrightarrow> snprintf bound s = s"
  by (simp add: snprintf_def)

end
