(* ===== verification/InitHandoff.thy ===== *)
theory InitHandoff
  imports CLib
begin

text \<open>
  The initramfs handoff, \<^verbatim>\<open>src/guest/asterinas/initramfs/init.c\<close>: a freestanding first process
  that mounts the pseudo file systems and the root disk, checks the new root, moves the mounts,
  changes root and executes \<^verbatim>\<open>/init\<close>. It has no C library: every effect is a system call. The
  kernel is a parameter \<open>kern\<close>, a function of its state and the trap; \<open>None\<close> means control does
  not come back (an exit, a successful exec, a kill). The machine state keeps the trace of all
  calls with their results.
\<close>

section \<open>System calls\<close>

datatype sysarg =
    Num int
  | Text string
  | Argv "string list"
  | Ifreq string int int int

datatype trap = Trap int "sysarg list"

type_synonym 'k kernel = "'k \<Rightarrow> trap \<Rightarrow> int option \<times> 'k"

record 'k mach =
  kst :: 'k
  calls :: "(trap \<times> int option) list"

datatype 'a flow = Cont 'a | Gone | Undefined

fun bindF :: "'a flow \<times> 'm \<Rightarrow> ('a \<Rightarrow> 'm \<Rightarrow> 'b flow \<times> 'm) \<Rightarrow> 'b flow \<times> 'm" where
  "bindF (Cont x, m) f = f x m"
| "bindF (Gone, m) f = (Gone, m)"
| "bindF (Undefined, m) f = (Undefined, m)"

lemma bindF_cong [fundef_cong]:
  "p = q \<Longrightarrow> (\<And>x m. q = (Cont x, m) \<Longrightarrow> f x m = g x m) \<Longrightarrow> bindF p f = bindF q g"
  by (cases "fst q"; cases q) auto

definition syscall :: "'k kernel \<Rightarrow> trap \<Rightarrow> 'k mach \<Rightarrow> int flow \<times> 'k mach" where
  "syscall kern t m =
     (case kern (kst m) t of (r, k) \<Rightarrow>
        (case r of None \<Rightarrow> Gone | Some v \<Rightarrow> Cont v, \<lparr>kst = k, calls = calls m @ [(t, r)]\<rparr>))"

definition syscall2 where
  "syscall2 kern n a b m = syscall kern (Trap n [a, b]) m"

definition syscall3 where
  "syscall3 kern n a b c m = syscall kern (Trap n [a, b, c]) m"

definition syscall5 where
  "syscall5 kern n a b c d e m = syscall kern (Trap n [a, b, c, d, e]) m"

section \<open>Text output\<close>

text \<open>A C string is its characters up to the NUL.\<close>

fun text_length :: "string \<Rightarrow> int" where
  "text_length [] = 0"
| "text_length (c # cs) = (if c = CHR 0x00 then 0 else 1 + text_length cs)"

text \<open>\<^verbatim>\<open>cursor\<close> is the rest of the text; the kernel is handed \<open>remaining\<close> bytes of it.\<close>

function write_loop :: "'k kernel \<Rightarrow> string \<Rightarrow> int \<Rightarrow> 'k mach \<Rightarrow> unit flow \<times> 'k mach" where
  "write_loop kern cursor remaining m =
     (if remaining > 0 then
        bindF (syscall3 kern 1 (Num 2) (Text (take (nat remaining) cursor)) (Num remaining) m)
          (\<lambda>written m'.
             if written \<le> 0 then (Cont (), m')
             else write_loop kern (drop (nat written) cursor) (remaining - written) m')
      else (Cont (), m))"
  by pat_completeness auto
termination
  by (relation "measure (\<lambda>(kern, cursor, remaining, m). nat remaining)") auto

declare write_loop.simps [simp del]

definition write_text :: "'k kernel \<Rightarrow> string \<Rightarrow> 'k mach \<Rightarrow> unit flow \<times> 'k mach" where
  "write_text kern txt m = write_loop kern txt (text_length txt) m"

text \<open>The digits of \<^verbatim>\<open>write_number\<close>, least significant first, in an array of 24 characters;
  \<open>None\<close> is a store past its end.\<close>

function digit_loop :: "nat \<Rightarrow> string \<Rightarrow> string option" where
  "digit_loop magnitude digits =
     (if length digits \<ge> 24 then None
      else let digits' = digits @ [char_of (48 + magnitude mod 10)]; magnitude' = magnitude div 10
           in if magnitude' > 0 then digit_loop magnitude' digits' else Some digits')"
  by pat_completeness auto
termination
  by (relation "measure (\<lambda>(magnitude, digits). magnitude)") auto

declare digit_loop.simps [simp del]

fun emit_digits :: "'k kernel \<Rightarrow> string \<Rightarrow> 'k mach \<Rightarrow> unit flow \<times> 'k mach" where
  "emit_digits kern [] m = (Cont (), m)"
| "emit_digits kern (d # ds) m =
     bindF (syscall3 kern 1 (Num 2) (Text [d]) (Num 1) m) (\<lambda>_ m'. emit_digits kern ds m')"

text \<open>\<^verbatim>\<open>-number\<close> overflows at the least \<^verbatim>\<open>long\<close>.\<close>

definition write_number :: "'k kernel \<Rightarrow> int \<Rightarrow> 'k mach \<Rightarrow> unit flow \<times> 'k mach" where
  "write_number kern number m =
     bindF
       (if number < 0 then
          bindF (write_text kern ''-'' m) (\<lambda>_ m1.
            if number = - (2 ^ 63) then (Undefined, m1) else (Cont (nat (- number)), m1))
        else (Cont (nat number), m))
       (\<lambda>magnitude m1.
          case digit_loop magnitude [] of
            None \<Rightarrow> (Undefined, m1)
          | Some digits \<Rightarrow> emit_digits kern (rev digits) m1)"

section \<open>Failure\<close>

text \<open>\<^verbatim>\<open>fail\<close> does not return: if the exit call comes back the behaviour is undefined.\<close>

definition fail :: "'k kernel \<Rightarrow> string \<Rightarrow> int \<Rightarrow> 'k mach \<Rightarrow> 'a flow \<times> 'k mach" where
  "fail kern phase result m =
     bindF (write_text kern ''LAPUTA_ASTERINAS_TEST_FAILED init '' m) (\<lambda>_ m1.
     bindF (write_text kern phase m1) (\<lambda>_ m2.
     bindF (write_text kern '' errno='' m2) (\<lambda>_ m3.
     bindF (write_number kern result m3) (\<lambda>_ m4.
     bindF (write_text kern ''\<newline>'' m4) (\<lambda>_ m5.
     bindF (syscall2 kern 60 (Num 1) (Num 0) m5) (\<lambda>_ m6. (Undefined, m6)))))))"

definition require_success ::
    "'k kernel \<Rightarrow> string \<Rightarrow> int flow \<times> 'k mach \<Rightarrow> unit flow \<times> 'k mach" where
  "require_success kern phase call =
     bindF call (\<lambda>result m. if result < 0 then fail kern phase result m else (Cont (), m))"

definition require_path :: "'k kernel \<Rightarrow> string \<Rightarrow> string \<Rightarrow> 'k mach \<Rightarrow> unit flow \<times> 'k mach" where
  "require_path kern phase path m =
     bindF (syscall3 kern 21 (Text path) (Num 0) (Num 0) m)
       (\<lambda>result m'. if result < 0 then fail kern phase result m' else (Cont (), m'))"

section \<open>The handoff\<close>

definition configure_loopback :: "'k kernel \<Rightarrow> 'k mach \<Rightarrow> unit flow \<times> 'k mach" where
  "configure_loopback kern m =
     bindF (syscall3 kern 41 (Num 2) (Num 2) (Num 0) m) (\<lambda>socket m1.
     bindF (require_success kern ''loopback-socket'' (Cont socket, m1)) (\<lambda>_ m2.
     bindF (require_success kern ''loopback-address''
              (syscall3 kern 16 (Num socket) (Num 0x8916) (Ifreq ''lo'' 2 0 0x0100007f) m2)) (\<lambda>_ m3.
     bindF (require_success kern ''loopback-up''
              (syscall3 kern 16 (Num socket) (Num 0x8914) (Ifreq ''lo'' 1 0 0x0100007f) m3)) (\<lambda>_ m4.
     require_success kern ''loopback-close'' (syscall2 kern 3 (Num socket) (Num 0) m4)))))"

definition init_argv :: "string list" where
  "init_argv = [''/init'']"

definition init_envp :: "string list" where
  "init_envp = [''PATH=/usr/bin:/bin'', ''XSH_MODULE_PATH=/usr/lib/xsh/core'']"

definition mount_call ::
    "'k kernel \<Rightarrow> string \<Rightarrow> string \<Rightarrow> string \<Rightarrow> string \<Rightarrow> 'k mach \<Rightarrow> unit flow \<times> 'k mach" where
  "mount_call kern phase source target fstype m =
     require_success kern phase
       (syscall5 kern 165 (Text source) (Text target) (Text fstype) (Num 0) (Num 0) m)"

definition move_call :: "'k kernel \<Rightarrow> string \<Rightarrow> string \<Rightarrow> string \<Rightarrow> 'k mach \<Rightarrow> unit flow \<times> 'k mach" where
  "move_call kern phase source target m =
     require_success kern phase
       (syscall5 kern 165 (Text source) (Text target) (Num 0) (Num 8192) (Num 0) m)"

text \<open>\<open>start\<close> is \<^verbatim>\<open>_start\<close>; its first argument says whether the program was compiled with
  \<^verbatim>\<open>LAPUTA_LINUX_REFERENCE\<close>.\<close>

definition start :: "bool \<Rightarrow> 'k kernel \<Rightarrow> 'k mach \<Rightarrow> unit flow \<times> 'k mach" where
  "start linux_reference kern m =
    bindF (if linux_reference then configure_loopback kern m else (Cont (), m)) (\<lambda>_ m.
    bindF (write_text kern ''LAPUTA_ASTERINAS_INITRAMFS_START\<newline>'' m) (\<lambda>_ m.
    bindF (mount_call kern ''mount-dev'' ''devtmpfs'' ''/dev'' ''devtmpfs'' m) (\<lambda>_ m.
    bindF (mount_call kern ''mount-proc'' ''proc'' ''/proc'' ''proc'' m) (\<lambda>_ m.
    bindF (mount_call kern ''mount-sys'' ''sysfs'' ''/sys'' ''sysfs'' m) (\<lambda>_ m.
    bindF (write_text kern ''LAPUTA_ASTERINAS_SYSFS_MOUNT_OK\<newline>'' m) (\<lambda>_ m.
    bindF (mount_call kern ''mount-ext2'' ''/dev/vda'' ''/newroot'' ''ext2'' m) (\<lambda>_ m.
    bindF (write_text kern ''LAPUTA_ASTERINAS_EXT2_MOUNT_OK\<newline>'' m) (\<lambda>_ m.
    bindF (require_path kern ''missing-laputa-init'' ''/newroot/init'' m) (\<lambda>_ m.
    bindF (require_path kern ''missing-laputa-xsh'' ''/newroot/usr/bin/xsh'' m) (\<lambda>_ m.
    bindF (require_path kern ''missing-os-release'' ''/newroot/etc/os-release'' m) (\<lambda>_ m.
    bindF (write_text kern ''LAPUTA_ASTERINAS_NEWROOT_LAYOUT_OK\<newline>'' m) (\<lambda>_ m.
    bindF (write_text kern ''LAPUTA_ASTERINAS_SWITCH_ROOT_START\<newline>'' m) (\<lambda>_ m.
    bindF (move_call kern ''move-proc'' ''/proc'' ''/newroot/proc'' m) (\<lambda>_ m.
    bindF (move_call kern ''move-sys'' ''/sys'' ''/newroot/sys'' m) (\<lambda>_ m.
    bindF (move_call kern ''move-dev'' ''/dev'' ''/newroot/dev'' m) (\<lambda>_ m.
    bindF (write_text kern ''LAPUTA_ASTERINAS_PSEUDO_MOUNTS_MOVED_OK\<newline>'' m) (\<lambda>_ m.
    bindF (require_success kern ''chdir-newroot'' (syscall2 kern 80 (Text ''/newroot'') (Num 0) m)) (\<lambda>_ m.
    bindF (write_text kern ''LAPUTA_ASTERINAS_NEWROOT_CHDIR_OK\<newline>'' m) (\<lambda>_ m.
    bindF (require_success kern ''chroot-newroot'' (syscall2 kern 161 (Text ''.'') (Num 0) m)) (\<lambda>_ m.
    bindF (write_text kern ''LAPUTA_ASTERINAS_CHROOT_OK\<newline>'' m) (\<lambda>_ m.
    bindF (require_success kern ''chdir-root'' (syscall2 kern 80 (Text ''/'') (Num 0) m)) (\<lambda>_ m.
    bindF (require_path kern ''missing-root-init'' ''/init'' m) (\<lambda>_ m.
    bindF (write_text kern ''LAPUTA_ASTERINAS_ROOT_INIT_SCRIPT_START\<newline>'' m) (\<lambda>_ m.
    bindF (write_text kern ''LAPUTA_ASTERINAS_INIT_EXEC_START\<newline>'' m) (\<lambda>_ m.
    bindF (require_success kern ''exec-root-init''
             (syscall3 kern 59 (Text ''/init'') (Argv init_argv) (Argv init_envp) m)) (\<lambda>_ m.
    fail kern ''exec-returned'' (-1) m))))))))))))))))))))))))))"

end
