(* ===== verification/InitPlan.thy ===== *)
theory InitPlan
  imports InitHandoff
begin

text \<open>
  The intended course of the initramfs handoff. A \<open>plan\<close> is the intended course of the program as a tree of
  console messages and required calls. \<open>start\<close> is shown to run the plan, and the trace of a run is
  related to the plan: no call is made before every earlier one has succeeded, and the first
  failure is reported on the console and ends in \<^verbatim>\<open>exit(1)\<close>.
\<close>

section \<open>Plans\<close>

datatype plan =
    Say string plan
  | Need string trap "int \<Rightarrow> plan"
  | Abort string int

primrec run_plan :: "plan \<Rightarrow> 'k kernel \<Rightarrow> 'k mach \<Rightarrow> unit flow \<times> 'k mach" where
  "run_plan (Say s p) = (\<lambda>kern m. bindF (write_text kern s m) (\<lambda>_ m'. run_plan p kern m'))"
| "run_plan (Need ph t f) = (\<lambda>kern m. bindF (syscall kern t m)
     (\<lambda>r m'. if r < 0 then fail kern ph r m' else run_plan (f r) kern m'))"
| "run_plan (Abort ph r) = (\<lambda>kern m. fail kern ph r m)"

abbreviation need :: "string \<Rightarrow> trap \<Rightarrow> plan \<Rightarrow> plan" where
  "need ph t p \<equiv> Need ph t (\<lambda>_. p)"

definition mount_trap :: "string \<Rightarrow> string \<Rightarrow> string \<Rightarrow> trap" where
  "mount_trap source target fstype = Trap 165 [Text source, Text target, Text fstype, Num 0, Num 0]"

definition move_trap :: "string \<Rightarrow> string \<Rightarrow> trap" where
  "move_trap source target = Trap 165 [Text source, Text target, Num 0, Num 8192, Num 0]"

definition access_trap :: "string \<Rightarrow> trap" where
  "access_trap path = Trap 21 [Text path, Num 0, Num 0]"

definition exec_trap :: trap where
  "exec_trap = Trap 59 [Text ''/init'', Argv init_argv, Argv init_envp]"

definition exit_trap :: trap where
  "exit_trap = Trap 60 [Num 1, Num 0]"

definition loopback_traps :: "int \<Rightarrow> trap list" where
  "loopback_traps fd =
     [Trap 41 [Num 2, Num 2, Num 0],
      Trap 16 [Num fd, Num 0x8916, Ifreq ''lo'' 2 0 0x0100007f],
      Trap 16 [Num fd, Num 0x8914, Ifreq ''lo'' 1 0 0x0100007f],
      Trap 3 [Num fd, Num 0]]"

definition root_traps :: "trap list" where
  "root_traps =
     [mount_trap ''devtmpfs'' ''/dev'' ''devtmpfs'', mount_trap ''proc'' ''/proc'' ''proc'',
      mount_trap ''sysfs'' ''/sys'' ''sysfs'', mount_trap ''/dev/vda'' ''/newroot'' ''ext2'',
      access_trap ''/newroot/init'', access_trap ''/newroot/usr/bin/xsh'',
      access_trap ''/newroot/etc/os-release'',
      move_trap ''/proc'' ''/newroot/proc'', move_trap ''/sys'' ''/newroot/sys'',
      move_trap ''/dev'' ''/newroot/dev'',
      Trap 80 [Text ''/newroot'', Num 0], Trap 161 [Text ''.'', Num 0],
      Trap 80 [Text ''/'', Num 0], access_trap ''/init'']"

definition root_plan :: plan where
  "root_plan =
    Say ''LAPUTA_ASTERINAS_INITRAMFS_START\<newline>'' (
    need ''mount-dev'' (mount_trap ''devtmpfs'' ''/dev'' ''devtmpfs'') (
    need ''mount-proc'' (mount_trap ''proc'' ''/proc'' ''proc'') (
    need ''mount-sys'' (mount_trap ''sysfs'' ''/sys'' ''sysfs'') (
    Say ''LAPUTA_ASTERINAS_SYSFS_MOUNT_OK\<newline>'' (
    need ''mount-ext2'' (mount_trap ''/dev/vda'' ''/newroot'' ''ext2'') (
    Say ''LAPUTA_ASTERINAS_EXT2_MOUNT_OK\<newline>'' (
    need ''missing-laputa-init'' (access_trap ''/newroot/init'') (
    need ''missing-laputa-xsh'' (access_trap ''/newroot/usr/bin/xsh'') (
    need ''missing-os-release'' (access_trap ''/newroot/etc/os-release'') (
    Say ''LAPUTA_ASTERINAS_NEWROOT_LAYOUT_OK\<newline>'' (
    Say ''LAPUTA_ASTERINAS_SWITCH_ROOT_START\<newline>'' (
    need ''move-proc'' (move_trap ''/proc'' ''/newroot/proc'') (
    need ''move-sys'' (move_trap ''/sys'' ''/newroot/sys'') (
    need ''move-dev'' (move_trap ''/dev'' ''/newroot/dev'') (
    Say ''LAPUTA_ASTERINAS_PSEUDO_MOUNTS_MOVED_OK\<newline>'' (
    need ''chdir-newroot'' (Trap 80 [Text ''/newroot'', Num 0]) (
    Say ''LAPUTA_ASTERINAS_NEWROOT_CHDIR_OK\<newline>'' (
    need ''chroot-newroot'' (Trap 161 [Text ''.'', Num 0]) (
    Say ''LAPUTA_ASTERINAS_CHROOT_OK\<newline>'' (
    need ''chdir-root'' (Trap 80 [Text ''/'', Num 0]) (
    need ''missing-root-init'' (access_trap ''/init'') (
    Say ''LAPUTA_ASTERINAS_ROOT_INIT_SCRIPT_START\<newline>'' (
    Say ''LAPUTA_ASTERINAS_INIT_EXEC_START\<newline>'' (
    need ''exec-root-init'' exec_trap (
    Abort ''exec-returned'' (-1))))))))))))))))))))))))))"

definition start_plan :: "bool \<Rightarrow> plan" where
  "start_plan linux_reference =
     (if linux_reference then
        Need ''loopback-socket'' (Trap 41 [Num 2, Num 2, Num 0]) (\<lambda>fd.
        need ''loopback-address'' (Trap 16 [Num fd, Num 0x8916, Ifreq ''lo'' 2 0 0x0100007f]) (
        need ''loopback-up'' (Trap 16 [Num fd, Num 0x8914, Ifreq ''lo'' 1 0 0x0100007f]) (
        need ''loopback-close'' (Trap 3 [Num fd, Num 0]) root_plan)))
      else root_plan)"

section \<open>The program runs its plan\<close>

lemma bindF_assoc: "bindF (bindF p f) g = bindF p (\<lambda>x m. bindF (f x m) g)"
  by (cases p; cases "fst p") auto

lemma bindF_fail [simp]: "bindF (fail kern ph r m) f = fail kern ph r m"
  by (simp add: fail_def bindF_assoc)

lemma bindF_if: "bindF (if b then p else q) f = (if b then bindF p f else bindF q f)"
  by simp

lemma fold_say:
  "bindF (write_text kern s m) (\<lambda>_ m. run_plan p kern m) = run_plan (Say s p) kern m"
  by simp

lemma fold_need:
  "bindF (require_success kern ph (syscall kern t m)) (\<lambda>_ m. run_plan p kern m)
     = run_plan (need ph t p) kern m"
  by (simp add: require_success_def bindF_assoc bindF_if cong: if_cong)

lemma fold_abort: "fail kern ph r m = run_plan (Abort ph r) kern m"
  by simp

lemma require_path_syscall:
  "require_path kern ph path m = require_success kern ph (syscall kern (access_trap path) m)"
  by (simp add: require_path_def require_success_def access_trap_def syscall3_def)

lemmas call_as_trap =
  mount_call_def move_call_def require_path_syscall syscall2_def syscall3_def syscall5_def

lemmas plan_fold = fold_say fold_need fold_abort

lemma start_root_plan: "start False kern m = run_plan root_plan kern m"
  unfolding start_def if_False bindF.simps call_as_trap exec_trap_def [symmetric]
    mount_trap_def [symmetric] move_trap_def [symmetric] plan_fold root_plan_def
  by (rule refl)

lemma start_after_loopback:
  "start True kern m = bindF (configure_loopback kern m) (\<lambda>_ m. start False kern m)"
  unfolding start_def if_True if_False bindF.simps by (rule refl)

lemma start_runs_plan: "start b kern m = run_plan (start_plan b) kern m"
proof (cases b)
  case True
  have "start True kern m = run_plan (start_plan True) kern m"
    unfolding start_after_loopback start_root_plan start_plan_def configure_loopback_def
    by (simp add: require_success_def call_as_trap bindF_assoc bindF_if cong: if_cong)
  then show ?thesis
    using True by simp
qed (simp add: start_root_plan start_plan_def)

section \<open>Traces\<close>

definition console_write :: "trap \<Rightarrow> bool" where
  "console_write t = (case t of Trap n (Num fd # _) \<Rightarrow> n = 1 \<and> fd = 2 | _ \<Rightarrow> False)"

abbreviation essential :: "(trap \<times> int option) list \<Rightarrow> (trap \<times> int option) list" where
  "essential tr \<equiv> filter (\<lambda>(t, r). \<not> console_write t) tr"

text \<open>The characters that reached the console: of each write, as many as the kernel accepted.\<close>

fun accepted :: "trap \<times> int option \<Rightarrow> string" where
  "accepted (Trap n [Num fd, Text s, Num len], Some w) =
     (if n = 1 \<and> fd = 2 \<and> 0 < w then take (nat w) s else [])"
| "accepted _ = []"

definition delivered :: "(trap \<times> int option) list \<Rightarrow> string" where
  "delivered tr = concat (map accepted tr)"

lemma delivered_simps [simp]:
  "delivered (xs @ ys) = delivered xs @ delivered ys"
  "delivered [] = []"
  "delivered (x # xs) = accepted x @ delivered xs"
  by (simp_all add: delivered_def)

text \<open>\<open>quiet m p\<close>: the computation \<open>p\<close>, started in \<open>m\<close>, made no calls but console writes.\<close>

definition quiet :: "'k mach \<Rightarrow> 'a flow \<times> 'k mach \<Rightarrow> bool" where
  "quiet m p \<longleftrightarrow> (\<exists>ws. calls (snd p) = calls m @ ws \<and> essential ws = [])"

lemma quiet_refl: "quiet m (x, m)"
  by (simp add: quiet_def)

lemma quiet_bindF:
  assumes "quiet m p" and "\<And>x m'. p = (Cont x, m') \<Longrightarrow> quiet m' (f x m')"
  shows "quiet m (bindF p f)"
proof (cases p)
  case (Pair out m')
  obtain ws where ws: "calls m' = calls m @ ws" "essential ws = []"
    using assms(1) Pair by (auto simp: quiet_def)
  show ?thesis
  proof (cases out)
    case (Cont x)
    then obtain ws' where "calls (snd (f x m')) = calls m' @ ws'" "essential ws' = []"
      using assms(2) [of x m'] Pair by (auto simp: quiet_def)
    then show ?thesis
      using ws Pair Cont unfolding quiet_def by (intro exI [of _ "ws @ ws'"]) simp
  qed (use ws Pair in \<open>auto simp: quiet_def\<close>)
qed

lemma quiet_write: "quiet m (syscall3 kern 1 (Num 2) a b m)"
  by (auto simp: quiet_def syscall3_def syscall_def console_write_def split: prod.splits)

lemma quiet_write_loop: "quiet m (write_loop kern cursor remaining m)"
proof (induction kern cursor remaining m rule: write_loop.induct)
  case (1 kern cursor remaining m)
  show ?case
    by (subst write_loop.simps) (auto intro!: quiet_bindF quiet_write quiet_refl 1)
qed

lemma quiet_write_text: "quiet m (write_text kern s m)"
  unfolding write_text_def by (rule quiet_write_loop)

lemma quiet_emit_digits: "quiet m (emit_digits kern ds m)"
  by (induction ds arbitrary: m) (auto intro!: quiet_bindF quiet_write quiet_refl)

lemma quiet_write_number: "quiet m (write_number kern n m)"
  unfolding write_number_def
  by (auto intro!: quiet_bindF quiet_write_text quiet_refl quiet_emit_digits split: option.splits)

lemma essential_bind_quiet:
  assumes "quiet m p"
  shows "(\<exists>x m'. p = (Cont x, m') \<and> bindF p f = f x m' \<and> essential (calls m') = essential (calls m))
       \<or> essential (calls (snd (bindF p f))) = essential (calls m)"
  using assms by (cases p; cases "fst p") (auto simp: quiet_def)

definition stops :: "(trap \<times> int option) list \<Rightarrow> bool" where
  "stops tr \<longleftrightarrow> tr = [] \<or> (\<exists>r. tr = [(exit_trap, r)])"

lemma quiet_then_exit:
  assumes "quiet m p"
    and "\<And>x m'. p = (Cont x, m') \<Longrightarrow>
           \<exists>e. essential (calls (snd (f x m'))) = essential (calls m') @ e \<and> stops e"
  shows "\<exists>e. essential (calls (snd (bindF p f))) = essential (calls m) @ e \<and> stops e"
  using essential_bind_quiet [OF assms(1), of f] assms(2) by (auto simp: stops_def)

lemma fail_trace:
  "\<exists>e. essential (calls (snd (fail kern ph r m))) = essential (calls m) @ e \<and> stops e"
proof -
  have exit: "\<exists>e. essential (calls (snd (bindF (syscall2 kern 60 (Num 1) (Num 0) m') (\<lambda>_ m6. (Undefined, m6)))))
      = essential (calls m') @ e \<and> stops e" for m'
    by (auto simp: syscall2_def syscall_def stops_def exit_trap_def console_write_def
        split: prod.splits option.splits)
  show ?thesis
    unfolding fail_def by (intro quiet_then_exit quiet_write_text quiet_write_number exit)
qed

text \<open>\<open>follows p tr\<close>: the calls \<open>tr\<close> are a beginning of the plan; a call after which the program
  goes on has succeeded, and a failed one is followed by nothing but the exit.\<close>

primrec follows :: "plan \<Rightarrow> (trap \<times> int option) list \<Rightarrow> bool" where
  "follows (Say s p) = (\<lambda>tr. follows p tr)"
| "follows (Need ph t f) = (\<lambda>tr. case tr of [] \<Rightarrow> True
     | (t', r) # tr' \<Rightarrow> t' = t \<and> (case r of None \<Rightarrow> tr' = []
         | Some v \<Rightarrow> if v < 0 then stops tr' else follows (f v) tr'))"
| "follows (Abort ph r) = (\<lambda>tr. stops tr)"

primrec no_console :: "plan \<Rightarrow> bool" where
  "no_console (Say s p) = no_console p"
| "no_console (Need ph t f) = (\<not> console_write t \<and> (\<forall>r. no_console (f r)))"
| "no_console (Abort ph r) = True"

lemma follows_Nil [simp]: "follows p []"
  by (induction p) (auto simp: stops_def)

lemma run_plan_follows:
  "no_console p \<Longrightarrow>
   \<exists>tr. essential (calls (snd (run_plan p kern m))) = essential (calls m) @ tr \<and> follows p tr"
proof (induction p arbitrary: m)
  case (Say s p)
  show ?case
    using essential_bind_quiet [OF quiet_write_text [of m kern s],
        of "\<lambda>_ m'. run_plan p kern m'"] Say by auto (metis append_Nil2 follows_Nil)+
next
  case (Need ph t f)
  obtain r k where kern: "kern (kst m) t = (r, k)"
    by (cases "kern (kst m) t")
  define m1 where "m1 = \<lparr>kst = k, calls = calls m @ [(t, r)]\<rparr>"
  have m1: "essential (calls m1) = essential (calls m) @ [(t, r)]"
    using Need.prems by (simp add: m1_def)
  show ?case
  proof (cases r)
    case None
    then show ?thesis
      using kern m1 by (simp add: syscall_def m1_def)
  next
    case (Some v)
    have run: "run_plan (Need ph t f) kern m =
                 (if v < 0 then fail kern ph v m1 else run_plan (f v) kern m1)"
      using Some kern by (simp add: syscall_def m1_def)
    show ?thesis
    proof (cases "v < 0")
      case True
      then show ?thesis
        using fail_trace [of kern ph v m1] m1 Some run by auto
    next
      case False
      then show ?thesis
        using Need.IH [of "f v" m1] Need.prems m1 Some run by auto
    qed
  qed
next
  case (Abort ph r)
  show ?case
    using fail_trace [of kern ph r m] by simp
qed

end
