(* ===== verification/InitSpec.thy ===== *)
theory InitSpec
  imports InitPlan
begin

text \<open>
  The properties of the initramfs handoff: the exec comes last, the run refines the plan with its
  console text, and numbers are printed in decimal. The kernel's behaviour that the last two rely
  on is the predicate \<open>kernel_ok\<close>; \<open>sample_kernel\<close> is a concrete kernel that has it.
\<close>

section \<open>The exec comes last\<close>

lemma follows_need_past:
  assumes "follows (Need ph t f) tr" and "(x, r) \<in> set tr" and "t \<noteq> x" and "exit_trap \<noteq> x"
  obtains v tr' where "tr = (t, Some v) # tr'" "0 \<le> v" "follows (f v) tr'" "(x, r) \<in> set tr'"
  using assms by (auto simp: stops_def split: list.splits prod.splits option.splits if_splits)

lemma exec_trap_distinct:
  "mount_trap a b c \<noteq> exec_trap" "move_trap a b \<noteq> exec_trap" "access_trap a \<noteq> exec_trap"
  "exit_trap \<noteq> exec_trap" "n \<noteq> 59 \<Longrightarrow> Trap n as \<noteq> exec_trap"
  by (simp_all add: mount_trap_def move_trap_def access_trap_def exec_trap_def exit_trap_def)

definition all_passed :: "trap list \<Rightarrow> (trap \<times> int option) list \<Rightarrow> bool" where
  "all_passed ts tr \<longleftrightarrow> (\<exists>rs. tr = zip ts (map Some rs) \<and> length rs = length ts \<and> (\<forall>r \<in> set rs. 0 \<le> r))"

lemma all_passed_simps [simp]:
  "all_passed [] tr \<longleftrightarrow> tr = []"
  "all_passed (t # ts) tr \<longleftrightarrow> (\<exists>v tr'. tr = (t, Some v) # tr' \<and> 0 \<le> v \<and> all_passed ts tr')"
proof -
  show "all_passed (t # ts) tr \<longleftrightarrow> (\<exists>v tr'. tr = (t, Some v) # tr' \<and> 0 \<le> v \<and> all_passed ts tr')"
  proof
    assume "all_passed (t # ts) tr"
    then obtain rs where "tr = zip (t # ts) (map Some rs)" "length rs = Suc (length ts)" "\<forall>r \<in> set rs. 0 \<le> r"
      by (auto simp: all_passed_def)
    then show "\<exists>v tr'. tr = (t, Some v) # tr' \<and> 0 \<le> v \<and> all_passed ts tr'"
      by (cases rs) (auto simp: all_passed_def)
  next
    assume "\<exists>v tr'. tr = (t, Some v) # tr' \<and> 0 \<le> v \<and> all_passed ts tr'"
    then obtain v rs where "tr = (t, Some v) # zip ts (map Some rs)" "0 \<le> v" "length rs = length ts"
      "\<forall>r \<in> set rs. 0 \<le> r"
      by (auto simp: all_passed_def)
    then show "all_passed (t # ts) tr"
      unfolding all_passed_def by (intro exI [of _ "v # rs"]) simp
  qed
qed (simp add: all_passed_def)

text \<open>\<open>route p ts q\<close>: on the way from \<open>p\<close> to \<open>q\<close> the plan makes the calls \<open>ts\<close>.\<close>

inductive route :: "plan \<Rightarrow> trap list \<Rightarrow> plan \<Rightarrow> bool" where
  here: "route p [] p"
| say: "route p ts q \<Longrightarrow> route (Say s p) ts q"
| call: "(\<And>v. route (f v) ts q) \<Longrightarrow> route (Need ph t f) (t # ts) q"

lemma route_append: "route p ts q \<Longrightarrow> route q us r \<Longrightarrow> route p (ts @ us) r"
  by (induction rule: route.induct) (auto intro: route.intros)

lemma route_past:
  assumes "route p ts q" and "follows p tr" and "(x, r) \<in> set tr" and "x \<notin> set ts" and "exit_trap \<noteq> x"
  shows "\<exists>done tr'. tr = done @ tr' \<and> all_passed ts done \<and> follows q tr' \<and> (x, r) \<in> set tr'"
  using assms
proof (induction arbitrary: tr rule: route.induct)
  case (call f ts q ph t)
  then obtain v tr' where tr: "tr = (t, Some v) # tr'" "0 \<le> v" "follows (f v) tr'" "(x, r) \<in> set tr'"
    by (elim follows_need_past) auto
  then obtain d tr'' where "tr' = d @ tr''" "all_passed ts d" "follows q tr''" "(x, r) \<in> set tr''"
    using call by (metis list.set_intros(2))
  then have "tr = ((t, Some v) # d) @ tr'' \<and> all_passed (t # ts) ((t, Some v) # d)"
    using tr by simp
  then show ?case
    using \<open>follows q tr''\<close> \<open>(x, r) \<in> set tr''\<close> by blast
qed auto

definition exec_plan :: plan where
  "exec_plan = need ''exec-root-init'' exec_trap (Abort ''exec-returned'' (-1))"

lemma route_root: "route root_plan root_traps exec_plan"
  unfolding root_plan_def root_traps_def exec_plan_def [symmetric]
  by (intro route.intros)

lemma exec_not_before: "exec_trap \<notin> set root_traps"  "exec_trap \<notin> set (loopback_traps fd)"
  by (simp_all add: root_traps_def loopback_traps_def mount_trap_def move_trap_def access_trap_def
      exec_trap_def)

lemma exec_plan_exec:
  assumes "follows exec_plan tr" and "(exec_trap, r) \<in> set tr"
  shows "\<exists>rest. tr = (exec_trap, r) # rest \<and> stops rest"
  using assms exec_trap_distinct(4)
  by (auto simp: exec_plan_def stops_def split: list.splits prod.splits option.splits if_splits)

lemma no_console_start: "no_console (start_plan b)"
  by (simp add: start_plan_def root_plan_def console_write_def mount_trap_def move_trap_def
      access_trap_def exec_trap_def)

lemma loopback_passed:
  assumes "follows (start_plan True) tr" and "(exec_trap, r) \<in> set tr"
  shows "\<exists>fd done tr'. tr = done @ tr' \<and> all_passed (loopback_traps fd) done \<and> snd (hd done) = Some fd \<and>
           follows root_plan tr' \<and> (exec_trap, r) \<in> set tr'"
proof -
  obtain fd tr1 where tr1: "tr = (Trap 41 [Num 2, Num 2, Num 0], Some fd) # tr1" "0 \<le> fd"
    "(exec_trap, r) \<in> set tr1"
    "follows (need ''loopback-address'' (Trap 16 [Num fd, Num 0x8916, Ifreq ''lo'' 2 0 0x0100007f]) (
        need ''loopback-up'' (Trap 16 [Num fd, Num 0x8914, Ifreq ''lo'' 1 0 0x0100007f]) (
        need ''loopback-close'' (Trap 3 [Num fd, Num 0]) root_plan))) tr1" (is "follows ?p _")
    using assms by (auto simp only: start_plan_def if_True exec_trap_distinct
        elim!: follows_need_past) (simp_all add: exec_trap_distinct)
  have "route ?p (tl (loopback_traps fd)) root_plan"
    unfolding loopback_traps_def list.sel by (intro route.intros)
  then obtain d tr' where d: "tr1 = d @ tr'" "all_passed (tl (loopback_traps fd)) d" "follows root_plan tr'"
    "(exec_trap, r) \<in> set tr'"
    using route_past [OF _ tr1(4,3)] exec_not_before(2) exec_trap_distinct(4)
    by (metis list.set_sel(2) list.sel(2))
  have "tr = ((Trap 41 [Num 2, Num 2, Num 0], Some fd) # d) @ tr' \<and>
      all_passed (loopback_traps fd) ((Trap 41 [Num 2, Num 2, Num 0], Some fd) # d)"
    using tr1(1,2) d(1,2) by (simp add: loopback_traps_def)
  then show ?thesis
    using d(3,4) by (metis list.sel(1) snd_conv)
qed

text \<open>C9: The exec comes last. Whatever the kernel answers, the program asks for the exec of
  \<^verbatim>\<open>/init\<close> only after every mount, path check, mount move and directory change of the handoff (and,
  in the Linux reference build, the configuration of the loopback interface on one socket) has
  been requested once, in this order, and has succeeded; after the exec there is at most the
  exit.\<close>

theorem exec_only_after_handoff:
  assumes "calls m = []" and "(exec_trap, r) \<in> set (calls (snd (start b kern m)))"
  shows "\<exists>fd loop root rest.
           essential (calls (snd (start b kern m))) = loop @ root @ (exec_trap, r) # rest \<and>
           all_passed (if b then loopback_traps fd else []) loop \<and>
           (b \<longrightarrow> snd (hd loop) = Some fd) \<and>
           all_passed root_traps root \<and> stops rest"
proof -
  define tr where "tr = essential (calls (snd (start b kern m)))"
  have "follows (start_plan b) tr"
    using run_plan_follows [OF no_console_start, of b kern m] assms(1)
    by (simp add: tr_def start_runs_plan)
  moreover have "(exec_trap, r) \<in> set tr"
    using assms(2) by (simp add: tr_def exec_trap_def console_write_def)
  ultimately obtain fd loop tr' where loop: "tr = loop @ tr'"
    "all_passed (if b then loopback_traps fd else []) loop" "b \<longrightarrow> snd (hd loop) = Some fd"
    "follows root_plan tr'" "(exec_trap, r) \<in> set tr'"
    using loopback_passed [of tr r] by (cases b) (auto simp: start_plan_def)
  obtain root tr'' where root: "tr' = root @ tr''" "all_passed root_traps root"
    "follows exec_plan tr''" "(exec_trap, r) \<in> set tr''"
    using route_past [OF route_root loop(4,5) exec_not_before(1) exec_trap_distinct(4)] by blast
  obtain rest where "tr'' = (exec_trap, r) # rest" "stops rest"
    using exec_plan_exec [OF root(3,4)] by blast
  then show ?thesis
    unfolding tr_def [symmetric] using loop(1-3) root(1,2) by blast
qed

section \<open>Decimal numbers\<close>

lemma digit_loop_decimal:
  "length ds + length (decimal_nat n) \<le> 24 \<Longrightarrow> digit_loop n ds = Some (ds @ rev (decimal_nat n))"
proof (induction n arbitrary: ds rule: less_induct)
  case (less n)
  show ?case
  proof (cases "n < 10")
    case True
    then show ?thesis
      using less.prems by (subst digit_loop.simps) (simp add: decimal_nat.simps [of n])
  next
    case False
    then have dec: "decimal_nat n = decimal_nat (n div 10) @ [char_of (48 + n mod 10)]"
      by (subst decimal_nat.simps) simp
    have pos: "0 < length (decimal_nat (n div 10))"
      by (subst decimal_nat.simps) simp
    have "digit_loop (n div 10) (ds @ [char_of (48 + n mod 10)])
        = Some ((ds @ [char_of (48 + n mod 10)]) @ rev (decimal_nat (n div 10)))"
      using less.prems False dec by (intro less.IH) auto
    then show ?thesis
      using False less.prems dec pos
      by (subst digit_loop.simps) (simp add: Let_def div_eq_0_iff [of n 10] del: div_eq_0_iff)
  qed
qed

lemma digit_loop_long:
  assumes "n < 2 ^ 64"
  shows "digit_loop n [] = Some (rev (decimal_nat n))"
proof -
  have "n < 10 ^ Suc 19"
    by (rule less_trans [OF assms]) simp
  then show ?thesis
    using length_decimal_nat [of n 19] digit_loop_decimal [of "[]" n] by simp
qed

section \<open>The console\<close>

text \<open>What the program relies on from the kernel: a console write of \<open>n > 0\<close> bytes takes between
  one and \<open>n\<close> of them, \<^verbatim>\<open>exit\<close> does not return, and a result is above the least \<^verbatim>\<open>long\<close>.\<close>

definition kernel_ok :: "'k kernel \<Rightarrow> bool" where
  "kernel_ok kern \<longleftrightarrow>
     (\<forall>k s n. 0 < n \<longrightarrow> (\<exists>w k'. kern k (Trap 1 [Num 2, Text s, Num n]) = (Some w, k') \<and> 0 < w \<and> w \<le> n)) \<and>
     (\<forall>k. \<exists>k'. kern k exit_trap = (None, k')) \<and>
     (\<forall>k t r k'. kern k t = (Some r, k') \<longrightarrow> - (2 ^ 63) < r)"

text \<open>\<open>printed m s p\<close>: the computation \<open>p\<close>, started in \<open>m\<close>, printed exactly \<open>s\<close> and returned.\<close>

definition printed :: "'k mach \<Rightarrow> string \<Rightarrow> unit flow \<times> 'k mach \<Rightarrow> bool" where
  "printed m s p \<longleftrightarrow> (\<exists>m' ws. p = (Cont (), m') \<and> calls m' = calls m @ ws \<and> essential ws = [] \<and> delivered ws = s)"

lemma printed_nothing: "printed m [] (Cont (), m)"
  by (simp add: printed_def)

lemma printed_bindF:
  assumes "printed m s p" and "\<And>m'. printed m' s' (f () m')"
  shows "printed m (s @ s') (bindF p f)"
proof -
  obtain m' ws where p: "p = (Cont (), m')" "calls m' = calls m @ ws" "essential ws = []" "delivered ws = s"
    using assms(1) by (auto simp: printed_def)
  obtain m'' ws' where q: "f () m' = (Cont (), m'')" "calls m'' = calls m' @ ws'" "essential ws' = []"
    "delivered ws' = s'"
    using assms(2) [of m'] by (auto simp: printed_def)
  show ?thesis
    unfolding printed_def using p q by (intro exI [of _ m''] exI [of _ "ws @ ws'"]) simp
qed

lemma console_write_2: "console_write (Trap 1 [Num 2, a, b])"
  by (simp add: console_write_def)

lemma printed_after:
  assumes "calls m' = calls m @ [(t, r)]" and "console_write t" and "printed m' s p"
  shows "printed m (accepted (t, r) @ s) p"
proof -
  obtain m'' ws where p: "p = (Cont (), m'')" "calls m'' = calls m' @ ws" "essential ws = []" "delivered ws = s"
    using assms(3) by (auto simp: printed_def)
  show ?thesis
    unfolding printed_def using p assms(1,2)
    by (intro exI [of _ m''] exI [of _ "(t, r) # ws"]) simp
qed

lemma write_accepted:
  assumes "kernel_ok kern" and "0 < n"
  obtains w m' where "syscall3 kern 1 (Num 2) (Text s) (Num n) m = (Cont w, m')" "0 < w" "w \<le> n"
    "calls m' = calls m @ [(Trap 1 [Num 2, Text s, Num n], Some w)]"
proof -
  obtain w k' where "kern (kst m) (Trap 1 [Num 2, Text s, Num n]) = (Some w, k')" "0 < w" "w \<le> n"
    using assms unfolding kernel_ok_def by metis
  then show thesis
    using that by (simp add: syscall3_def syscall_def)
qed

lemma printed_write_loop:
  assumes "kernel_ok kern" and "int (length cursor) = remaining"
  shows "printed m cursor (write_loop kern cursor remaining m)"
  using assms
proof (induction kern cursor remaining m rule: write_loop.induct)
  case (1 kern cursor remaining m)
  show ?case
  proof (cases "remaining > 0")
    case True
    obtain w m' where w: "syscall3 kern 1 (Num 2) (Text (take (nat remaining) cursor)) (Num remaining) m = (Cont w, m')"
      "0 < w" "w \<le> remaining"
      "calls m' = calls m @ [(Trap 1 [Num 2, Text (take (nat remaining) cursor), Num remaining], Some w)]"
      using write_accepted [OF 1(2) True] by blast
    have "printed m' (drop (nat w) cursor) (write_loop kern (drop (nat w) cursor) (remaining - w) m')"
      using 1 True w by (intro "1.IH") auto
    then have "printed m (accepted (Trap 1 [Num 2, Text (take (nat remaining) cursor), Num remaining], Some w)
          @ drop (nat w) cursor) (write_loop kern (drop (nat w) cursor) (remaining - w) m')"
      by (rule printed_after [OF w(4) console_write_2])
    moreover have "accepted (Trap 1 [Num 2, Text (take (nat remaining) cursor), Num remaining], Some w)
        = take (nat w) cursor"
      using w 1(3) by (simp add: min_def)
    ultimately show ?thesis
      using w by (subst write_loop.simps) (simp add: True)
  next
    case False
    then have "cursor = []"
      using 1(3) by (cases cursor) auto
    then show ?thesis
      using 1(3) by (subst write_loop.simps) (simp add: printed_nothing)
  qed
qed

lemma text_length_length: "CHR 0x00 \<notin> set s \<Longrightarrow> text_length s = int (length s)"
  by (induction s) auto

lemma printed_write_text:
  "kernel_ok kern \<Longrightarrow> CHR 0x00 \<notin> set s \<Longrightarrow> printed m s (write_text kern s m)"
  by (simp add: write_text_def text_length_length printed_write_loop)

lemma printed_digit:
  assumes "kernel_ok kern" and "\<And>m'. printed m' s (f m')"
  shows "printed m (c # s) (bindF (syscall3 kern 1 (Num 2) (Text [c]) (Num 1) m) (\<lambda>_ m'. f m'))"
proof -
  obtain w m' where w: "syscall3 kern 1 (Num 2) (Text [c]) (Num 1) m = (Cont w, m')" "0 < w" "w \<le> 1"
    "calls m' = calls m @ [(Trap 1 [Num 2, Text [c], Num 1], Some w)]"
    using write_accepted [OF assms(1), of 1 "[c]" m] by auto
  have "printed m (accepted (Trap 1 [Num 2, Text [c], Num 1], Some w) @ s) (f m')"
    by (rule printed_after [OF w(4) console_write_2 assms(2)])
  then show ?thesis
    using w(1-3) by simp
qed

lemma printed_emit_digits: "kernel_ok kern \<Longrightarrow> printed m ds (emit_digits kern ds m)"
  by (induction ds arbitrary: m) (simp_all add: printed_nothing printed_digit)

lemma printed_write_number:
  assumes "kernel_ok kern" and "- (2 ^ 63) < n" and "n < 2 ^ 63"
  shows "printed m (decimal n) (write_number kern n m)"
proof -
  have d: "digit_loop (nat \<bar>n\<bar>) [] = Some (rev (decimal_nat (nat \<bar>n\<bar>)))"
  proof (rule digit_loop_long)
    have "\<bar>n\<bar> < 2 ^ 64"
      using assms(2,3) by simp
    then show "nat \<bar>n\<bar> < 2 ^ 64"
      by (metis nat_less_numeral_power_cancel_iff)
  qed
  show ?thesis
  proof (cases "n < 0")
    case True
    have "write_number kern n m =
        bindF (write_text kern ''-'' m) (\<lambda>_ m1. emit_digits kern (decimal_nat (nat \<bar>n\<bar>)) m1)"
      using True assms(2) d by (simp add: write_number_def bindF_assoc)
    then show ?thesis
      using True assms(1) by (simp add: decimal_def printed_bindF [of _ "''-''", simplified]
          printed_write_text printed_emit_digits)
  qed (use assms d in \<open>simp add: write_number_def decimal_def printed_emit_digits\<close>)
qed

section \<open>The run as a whole\<close>

definition failure_text :: "string \<Rightarrow> int \<Rightarrow> string" where
  "failure_text ph r = ''LAPUTA_ASTERINAS_TEST_FAILED init '' @ ph @ '' errno='' @ decimal r @ ''\<newline>''"

text \<open>The console text that belongs to a course of calls.\<close>

primrec transcript :: "plan \<Rightarrow> (trap \<times> int option) list \<Rightarrow> string" where
  "transcript (Say s p) = (\<lambda>tr. s @ transcript p tr)"
| "transcript (Need ph t f) = (\<lambda>tr. case tr of [] \<Rightarrow> []
     | (t', r) # tr' \<Rightarrow> (case r of None \<Rightarrow> []
         | Some v \<Rightarrow> if v < 0 then failure_text ph v else transcript (f v) tr'))"
| "transcript (Abort ph r) = (\<lambda>tr. failure_text ph r)"

text \<open>A course carried through: up to a call that does not return, or up to the first failure and
  then the exit.\<close>

primrec completes :: "plan \<Rightarrow> (trap \<times> int option) list \<Rightarrow> bool" where
  "completes (Say s p) = (\<lambda>tr. completes p tr)"
| "completes (Need ph t f) = (\<lambda>tr. case tr of [] \<Rightarrow> False
     | (t', r) # tr' \<Rightarrow> t' = t \<and> (case r of None \<Rightarrow> tr' = []
         | Some v \<Rightarrow> if v < 0 then tr' = [(exit_trap, None)] else completes (f v) tr'))"
| "completes (Abort ph r) = (\<lambda>tr. tr = [(exit_trap, None)])"

primrec plan_ok :: "plan \<Rightarrow> bool" where
  "plan_ok (Say s p) = (CHR 0x00 \<notin> set s \<and> plan_ok p)"
| "plan_ok (Need ph t f) =
     (CHR 0x00 \<notin> set ph \<and> \<not> console_write t \<and> (\<forall>r. plan_ok (f r)))"
| "plan_ok (Abort ph r) = (CHR 0x00 \<notin> set ph \<and> - (2 ^ 63) < r \<and> r < 2 ^ 63)"

definition ran :: "'k mach \<Rightarrow> (trap \<times> int option) list \<Rightarrow> string \<Rightarrow> 'a flow \<times> 'k mach \<Rightarrow> bool" where
  "ran m tr s p \<longleftrightarrow> fst p = Gone \<and>
     (\<exists>ws. calls (snd p) = calls m @ ws \<and> essential ws = tr \<and> delivered ws = s)"

lemma ran_printed:
  assumes "printed m s p" and "\<And>m'. p = (Cont (), m') \<Longrightarrow> ran m' tr s' (f () m')"
  shows "ran m tr (s @ s') (bindF p f)"
proof -
  obtain m' ws where p: "p = (Cont (), m')" "calls m' = calls m @ ws" "essential ws = []" "delivered ws = s"
    using assms(1) by (auto simp: printed_def)
  obtain ws' where q: "fst (f () m') = Gone" "calls (snd (f () m')) = calls m' @ ws'" "essential ws' = tr"
    "delivered ws' = s'"
    using assms(2) [of m'] p(1) by (auto simp: ran_def)
  show ?thesis
    unfolding ran_def using p q by (intro conjI exI [of _ "ws @ ws'"]) simp_all
qed

lemma ran_printed_last:
  "printed m s p \<Longrightarrow> (\<And>m'. ran m' tr [] (f () m')) \<Longrightarrow> ran m tr s (bindF p f)"
  using ran_printed [of m s p tr "[]" f] by simp

lemma accepted_essential: "\<not> console_write t \<Longrightarrow> accepted (t, r) = []"
  by (induction "(t, r)" rule: accepted.induct) (auto simp: console_write_def)

lemma ran_call:
  assumes "calls m' = calls m @ [(t, r)]" and "\<not> console_write t" and "ran m' tr s p"
  shows "ran m ((t, r) # tr) s p"
proof -
  obtain ws where "fst p = Gone" "calls (snd p) = calls m' @ ws" "essential ws = tr" "delivered ws = s"
    using assms(3) by (auto simp: ran_def)
  then show ?thesis
    unfolding ran_def using assms(1,2) 
    by (intro conjI exI [of _ "(t, r) # ws"]) (simp_all add: accepted_essential)
qed

lemma ran_fail:
  assumes "kernel_ok kern" and "CHR 0x00 \<notin> set ph" and "- (2 ^ 63) < r" and "r < 2 ^ 63"
  shows "ran m [(exit_trap, None)] (failure_text ph r) (fail kern ph r m)"
proof -
  have exit: "ran m' [(exit_trap, None)] []
      (bindF (syscall2 kern 60 (Num 1) (Num 0) m') (\<lambda>_ m6. (Undefined, m6)))" for m'
  proof -
    obtain k where "kern (kst m') exit_trap = (None, k)"
      using assms(1) unfolding kernel_ok_def by blast
    then show ?thesis
      by (simp add: ran_def syscall2_def syscall_def exit_trap_def console_write_def)
  qed
  show ?thesis
    unfolding fail_def failure_text_def
    by (intro ran_printed ran_printed_last exit printed_write_text printed_write_number assms) simp_all
qed

lemma run_plan_completes:
  assumes "kernel_ok kern"
  shows "plan_ok p \<Longrightarrow> \<exists>tr. completes p tr \<and> ran m tr (transcript p tr) (run_plan p kern m)"
proof (induction p arbitrary: m)
  case (Say s p)
  obtain m' where m': "write_text kern s m = (Cont (), m')"
    using printed_write_text [OF assms] Say.prems by (force simp: printed_def)
  then obtain tr where tr: "completes p tr" "ran m' tr (transcript p tr) (run_plan p kern m')"
    using Say by auto
  have "printed m s (Cont (), m')"
    using printed_write_text [OF assms, of s m] Say.prems m' by simp
  then show ?case
    using tr m' ran_printed [of m s "(Cont (), m')" tr "transcript p tr" "\<lambda>_ m. run_plan p kern m"]
    by auto
next
  case (Need ph t f)
  obtain r k where kern: "kern (kst m) t = (r, k)"
    by (cases "kern (kst m) t")
  define m1 where "m1 = \<lparr>kst = k, calls = calls m @ [(t, r)]\<rparr>"
  have m1: "calls m1 = calls m @ [(t, r)]" and t: "\<not> console_write t"
    using Need.prems by (simp_all add: m1_def)
  show ?case
  proof (cases r)
    case None
    then have "ran m [(t, r)] [] (run_plan (Need ph t f) kern m)"
      using kern m1 t by (auto simp: syscall_def m1_def ran_def accepted_essential)
    then show ?thesis
      using None by (intro exI [of _ "[(t, r)]"]) simp
  next
    case (Some v)
    have run: "run_plan (Need ph t f) kern m =
                 (if v < 0 then fail kern ph v m1 else run_plan (f v) kern m1)"
      using Some kern by (simp add: syscall_def m1_def)
    have v: "- (2 ^ 63) < v"
      using assms kern Some unfolding kernel_ok_def by blast
    show ?thesis
    proof (cases "v < 0")
      case True
      then have "ran m1 [(exit_trap, None)] (failure_text ph v) (fail kern ph v m1)"
        using Need.prems v by (intro ran_fail assms) simp_all
      then have "ran m [(t, r), (exit_trap, None)] (failure_text ph v) (run_plan (Need ph t f) kern m)"
        using ran_call [OF m1 t] run True by simp
      then show ?thesis
        using Some True by (intro exI [of _ "[(t, r), (exit_trap, None)]"]) simp
    next
      case False
      obtain tr where tr: "completes (f v) tr" "ran m1 tr (transcript (f v) tr) (run_plan (f v) kern m1)"
        using Need.IH [of "f v" m1] Need.prems by auto
      then have "ran m ((t, r) # tr) (transcript (f v) tr) (run_plan (Need ph t f) kern m)"
        using ran_call [OF m1 t] run False by simp
      then show ?thesis
        using Some False tr(1) by (intro exI [of _ "(t, r) # tr"]) simp
    qed
  qed
next
  case (Abort ph r)
  then show ?case
    using ran_fail [OF assms, of ph r m] by (intro exI [of _ "[(exit_trap, None)]"]) simp
qed

lemma plan_ok_start: "plan_ok (start_plan b)"
  by (simp add: start_plan_def root_plan_def console_write_def mount_trap_def move_trap_def
      access_trap_def exec_trap_def)

text \<open>C8: The handoff refines its plan. On a kernel that accepts console writes in pieces of its
  choice, the program always ends by leaving itself (in a call that does not return: the exec, or
  the exit after a failure), its calls other than console writes are a complete course of the
  plan, and the console shows exactly the text that belongs to that course: the progress lines of
  the phases passed, then on a failure one line with the name of the phase that failed and the
  decimal result of its call.\<close>

theorem start_refines_plan:
  assumes "kernel_ok kern" and "calls m = []"
  shows "fst (start b kern m) = Gone \<and>
         completes (start_plan b) (essential (calls (snd (start b kern m)))) \<and>
         delivered (calls (snd (start b kern m)))
           = transcript (start_plan b) (essential (calls (snd (start b kern m))))"
  using run_plan_completes [OF assms(1) plan_ok_start, of b m] assms(2)
  by (auto simp: start_runs_plan ran_def)

text \<open>C10: \<^verbatim>\<open>write_number\<close> prints the decimal text of its argument: a minus sign exactly for negative ones, then at
  least one digit and nothing but digits, without a leading zero unless the number is zero, and with the magnitude as
  their value, for every \<^verbatim>\<open>long\<close> but the least; its array of 24 digits never overflows.\<close>

theorem write_number_prints_decimal:
  assumes "kernel_ok kern" and "- (2 ^ 63) < n" and "n < 2 ^ 63"
  shows "\<exists>m' ws ds. write_number kern n m = (Cont (), m') \<and> calls m' = calls m @ ws \<and>
           delivered ws = (if n < 0 then ''-'' else '''') @ ds \<and> plain_decimal ds \<and> int (read_digits ds) = \<bar>n\<bar>"
proof -
  obtain m' ws where "write_number kern n m = (Cont (), m')" "calls m' = calls m @ ws"
    "delivered ws = decimal n"
    using printed_write_number [OF assms, of m] by (auto simp: printed_def)
  then show ?thesis
    using read_decimal_nat [of "nat \<bar>n\<bar>"] plain_decimal_nat [of "nat \<bar>n\<bar>"]
    unfolding decimal_def by (metis abs_ge_zero int_nat_eq)
qed

section \<open>A concrete kernel\<close>

text \<open>Its state is the call that fails, with \<^verbatim>\<open>-ENODEV\<close>; a console write takes at most 40 bytes.\<close>

fun sample_kernel :: "trap option kernel" where
  "sample_kernel bad (Trap n as) =
     (if n = 1 then (case as of [fd, s, Num len] \<Rightarrow> Some (max 1 (min len 40)) | _ \<Rightarrow> Some (-9), bad)
      else if n = 59 \<or> n = 60 then (None, bad)
      else if bad = Some (Trap n as) then (Some (-19), bad)
      else (Some (if n = 41 then 3 else 0), bad))"

definition boot_ok :: "trap option mach" where
  "boot_ok = \<lparr>kst = None, calls = []\<rparr>"

definition boot_no_disk :: "trap option mach" where
  "boot_no_disk = \<lparr>kst = Some (mount_trap ''/dev/vda'' ''/newroot'' ''ext2''), calls = []\<rparr>"

lemma sample_kernel_ok: "kernel_ok sample_kernel"
proof -
  have "- (2 ^ 63) < r" if "sample_kernel k t = (Some r, k')" for k t r k'
    using that by (cases t) (auto split: if_splits list.splits sysarg.splits)
  then show ?thesis
    by (auto simp: kernel_ok_def exit_trap_def)
qed

theorem exec_only_after_handoff_witness:
  "(exec_trap, None) \<in> set (calls (snd (start False sample_kernel boot_ok))) \<and>
   (\<exists>root rest. essential (calls (snd (start False sample_kernel boot_ok))) = root @ (exec_trap, None) # rest \<and>
      all_passed root_traps root \<and> stops rest)"
proof
  show exec: "(exec_trap, None) \<in> set (calls (snd (start False sample_kernel boot_ok)))"
    by code_simp
  show "\<exists>root rest. essential (calls (snd (start False sample_kernel boot_ok))) = root @ (exec_trap, None) # rest \<and>
      all_passed root_traps root \<and> stops rest"
    using exec_only_after_handoff [OF _ exec] by (auto simp: boot_ok_def)
qed

theorem start_refines_plan_witness:
  "kernel_ok sample_kernel \<and> calls boot_no_disk = [] \<and>
   fst (start True sample_kernel boot_no_disk) = Gone \<and>
   completes (start_plan True) (essential (calls (snd (start True sample_kernel boot_no_disk)))) \<and>
   transcript (start_plan True) (essential (calls (snd (start True sample_kernel boot_no_disk)))) =
     ''LAPUTA_ASTERINAS_INITRAMFS_START\<newline>LAPUTA_ASTERINAS_SYSFS_MOUNT_OK\<newline>'' @
     ''LAPUTA_ASTERINAS_TEST_FAILED init mount-ext2 errno=-19\<newline>''"
proof -
  have boot: "calls boot_no_disk = []"
    by (simp add: boot_no_disk_def)
  have "delivered (calls (snd (start True sample_kernel boot_no_disk))) =
     ''LAPUTA_ASTERINAS_INITRAMFS_START\<newline>LAPUTA_ASTERINAS_SYSFS_MOUNT_OK\<newline>'' @
     ''LAPUTA_ASTERINAS_TEST_FAILED init mount-ext2 errno=-19\<newline>''"
    by code_simp
  then show ?thesis
    using start_refines_plan [OF sample_kernel_ok boot, of True] sample_kernel_ok boot by simp
qed

theorem write_number_prints_decimal_witness:
  "\<exists>m' ws. write_number sample_kernel (-19) boot_ok = (Cont (), m') \<and> calls m' = calls boot_ok @ ws \<and>
     delivered ws = ''-19''"
proof -
  obtain m' ws ds where w: "write_number sample_kernel (-19) boot_ok = (Cont (), m')" "calls m' = calls boot_ok @ ws"
      "delivered ws = ''-'' @ ds" "plain_decimal ds" "int (read_digits ds) = 19"
    using write_number_prints_decimal [OF sample_kernel_ok, of "-19" boot_ok] by auto
  then have "ds = decimal_nat 19" using plain_decimal_unique [OF w(4)] by simp
  also have "\<dots> = ''19''" by code_simp
  finally show ?thesis using w by auto
qed

end
