(* ===== verification/NtpWire.thy ===== *)
theory NtpWire
  imports CLib
begin

text \<open>
  The time programs of the Asterinas guest tests, part one: clock readings and NTP timestamps.
  \<^verbatim>\<open>src/guest/asterinas/clock/ntp-oracle.c\<close> answers from a simulated clock (\<open>timestamp\<close>),
  \<^verbatim>\<open>ntp-peer.c\<close> from the host's clock (\<open>ntp_now\<close>), and \<^verbatim>\<open>ntp-probe.c\<close> asks and decodes (\<open>put_ntp\<close>,
  \<open>ntp_us\<close>). Unsigned arithmetic is on words; a signed overflow is \<open>None\<close>. The contract of the
  three encoders is the locale \<open>stamp_encoder\<close>.
\<close>

section \<open>Clock readings\<close>

record timespec =
  tv_sec :: int
  tv_nsec :: int

definition raw_ms :: "timespec \<Rightarrow> u64" where
  "raw_ms v = word_of_int (tv_sec v) * 1000 + word_of_int (tv_nsec v) div 1000000"

definition clock_ms :: "timespec \<Rightarrow> u64" where
  "clock_ms v = word_of_int (tv_sec v) * 1000 + word_of_int (tv_nsec v) div 1000000"

definition clock_us :: "timespec \<Rightarrow> int" where
  "clock_us v = tv_sec v * 1000000 + tv_nsec v sdiv 1000"

section \<open>Timestamps\<close>

text \<open>\<^verbatim>\<open>htonl\<close> and a four-byte \<^verbatim>\<open>memcpy\<close>, and back.\<close>

definition put_be32 :: "u32 \<Rightarrow> byte list" where
  "put_be32 w = rev (word_bytes 4 w)"

definition get_be32 :: "byte list \<Rightarrow> u32" where
  "get_be32 bs = le_word (rev bs)"

definition ntp_stamp :: "u32 \<Rightarrow> u32 \<Rightarrow> byte list" where
  "ntp_stamp seconds fraction = put_be32 seconds @ put_be32 fraction"

definition timestamp :: "u64 \<Rightarrow> u64 \<Rightarrow> int \<Rightarrow> u64 \<Rightarrow> byte list option" where
  "timestamp base_ms origin_raw_ms rate_ppm now =
     (let elapsed = sint (now - origin_raw_ms);
          drift = elapsed * rate_ppm
      in if drift < LONG_MIN \<or> LONG_MAX < drift then None
         else let millis = base_ms + word_of_int elapsed + word_of_int (drift sdiv 1000000);
                  seconds = ucast (millis div 1000 + 2208988800);
                  fraction = ucast (push_bit 32 (millis mod 1000) div 1000)
              in Some (ntp_stamp seconds fraction))"

definition ntp_now :: "timespec \<Rightarrow> byte list" where
  "ntp_now v =
     (let seconds = word_of_int (tv_sec v) + 2208988800;
          fraction = ucast (push_bit 32 (word_of_int (tv_nsec v) :: u64) div 1000000000)
      in ntp_stamp seconds fraction)"

definition ntp_us :: "byte list \<Rightarrow> int" where
  "ntp_us field =
     (let seconds = get_be32 (bytes_at 0 4 field);
          fraction = get_be32 (bytes_at 4 4 field)
      in (uint seconds - 2208988800) * 1000000
         + uint (drop_bit 32 ((ucast fraction :: u64) * 1000000)))"

definition put_ntp :: "int \<Rightarrow> byte list" where
  "put_ntp micros =
     (let seconds = word_of_int (micros sdiv 1000000 + 2208988800);
          fraction = ucast (push_bit 32 (word_of_int (micros smod 1000000) :: u64) div 1000000)
      in ntp_stamp seconds fraction)"

lemma length_word_bytes [simp]: "length (word_bytes n w) = n"
  by (induction n arbitrary: w) auto

lemma length_ntp_stamp [simp]: "length (ntp_stamp s f) = 8"
  by (simp add: ntp_stamp_def put_be32_def)

lemma get_put_be32 [simp]: "get_be32 (put_be32 w) = w"
proof -
  have "le_nat (word_bytes 4 w) = unat w"
    using unsigned_less [of w, where 'a = nat] by (simp add: word_bytes_eq le_nat_le_bytes)
  then show ?thesis
    by (simp add: get_be32_def put_be32_def le_word_eq)
qed

lemma stamp_fields:
  "bytes_at 0 4 (ntp_stamp s f) = put_be32 s" "bytes_at 4 4 (ntp_stamp s f) = put_be32 f"
  by (simp_all add: bytes_at_def ntp_stamp_def put_be32_def)

section \<open>Fractions of a second\<close>

text \<open>A fraction \<open>r / d\<close> of a second, as 32 bits after the point, reads back in microseconds as
  \<open>r / d\<close> rounded down, or one less.\<close>

lemma scaled_fraction:
  fixes r d p m :: nat
  assumes "0 < d" and "0 < m" and "m \<le> p"
  shows "r * m div d - 1 \<le> (r * p div d) * m div p" and "(r * p div d) * m div p \<le> r * m div d"
proof -
  define f where "f = r * p div d"
  define q where "q = r * m div d"
  define v where "v = f * m div p"
  have p: "0 < p"
    using assms by simp
  have f: "f * d \<le> r * p" "r * p < Suc f * d"
    unfolding f_def using dividend_less_div_times [OF assms(1), of "r * p"] by simp_all
  have v: "v * p \<le> f * m" "f * m < Suc v * p"
    unfolding v_def using dividend_less_div_times [OF p, of "f * m"] by simp_all
  have "v * p * d \<le> f * m * d"
    using v(1) by simp
  also have "\<dots> \<le> r * p * m"
    using mult_le_mono1 [OF f(1), of m] by (simp add: ac_simps)
  finally have "v * d \<le> r * m"
    using p by (simp add: ac_simps)
  then show "(r * p div d) * m div p \<le> r * m div d"
    unfolding v_def [symmetric] f_def [symmetric] using assms(1)
    by (simp add: less_eq_div_iff_mult_less_eq)
  show "r * m div d - 1 \<le> (r * p div d) * m div p"
    unfolding v_def [symmetric] f_def [symmetric] q_def [symmetric]
  proof (rule ccontr)
    assume "\<not> q - 1 \<le> v"
    then have "v + 2 \<le> q"
      by simp
    then have "(v + 2) * d \<le> q * d"
      by (rule mult_le_mono1)
    also have "\<dots> \<le> r * m"
      by (simp add: q_def)
    finally have "(v + 2) * d * p \<le> r * p * m"
      by (metis mult.assoc mult.commute mult_le_mono2)
    also have "\<dots> < Suc f * d * m"
      using f(2) assms(2) by simp
    also have "\<dots> \<le> (f * m + p) * d"
      using assms(3) by (simp add: algebra_simps)
    also have "\<dots> < (Suc v * p + p) * d"
      using v(2) assms(1) by simp
    finally show False
      by (simp add: algebra_simps)
  qed
qed

text \<open>A stamp of \<open>s\<close> seconds and \<open>r / d\<close> of a second, with the fraction computed in 64 bits as the
  three programs do.\<close>

lemma ntp_us_fraction:
  assumes "r < d" and "d \<le> 1000000000"
  shows "ntp_us (ntp_stamp s (ucast (push_bit 32 (of_nat r :: u64) div of_nat d)))
           - (uint s - 2208988800) * 1000000 \<in> {int (r * 1000000 div d) - 1 .. int (r * 1000000 div d)}"
proof -
  define f where "f = r * 2 ^ 32 div d"
  have r: "r < 2 ^ 30" "0 < d" "d < 2 ^ 30"
    using assms by simp_all
  have f: "f < 2 ^ 32"
    unfolding f_def using assms r by (simp add: div_less_iff_less_mult)
  have "unat (push_bit 32 (of_nat r :: u64)) = r * 2 ^ 32"
    using r(1) by (simp add: unsigned_push_bit_eq unat_of_nat push_bit_nat_def take_bit_nat_def)
  then have "unat (push_bit 32 (of_nat r :: u64) div of_nat d) = f"
    using r(3) by (simp add: unat_div unat_of_nat f_def)
  then have frac: "unat (ucast (push_bit 32 (of_nat r :: u64) div of_nat d) :: u32) = f"
    using f by (simp add: unsigned_ucast_eq take_bit_nat_def)
  have "unat (drop_bit 32 ((ucast w :: u64) * 1000000)) = unat w * 1000000 div 2 ^ 32" for w :: u32
  proof -
    have "unat w * 1000000 < 2 ^ 64"
      using unsigned_less [of w, where 'a = nat] by simp
    moreover have "unat (ucast w :: u64) = unat w"
      using unsigned_less [of w, where 'a = nat] by (simp add: unsigned_ucast_eq take_bit_nat_def)
    ultimately show ?thesis
      by (simp add: unat_drop_bit_eq drop_bit_nat_def unat_word_ariths)
  qed
  then have "uint (drop_bit 32 ((ucast w :: u64) * 1000000)) = int (unat w * 1000000 div 2 ^ 32)" for w :: u32
    by (metis uint_nat)
  then have "ntp_us (ntp_stamp s (ucast (push_bit 32 (of_nat r :: u64) div of_nat d)))
      - (uint s - 2208988800) * 1000000 = int (f * 1000000 div 2 ^ 32)"
    unfolding ntp_us_def Let_def stamp_fields get_put_be32 by (simp add: frac)
  moreover have "r * 1000000 div d - 1 \<le> f * 1000000 div 2 ^ 32"
    "f * 1000000 div 2 ^ 32 \<le> r * 1000000 div d"
    using scaled_fraction [of d 1000000 "2 ^ 32" r] r(2) unfolding f_def by simp_all
  ultimately show ?thesis
    by (simp only: atLeastAtMost_iff) linarith
qed

section \<open>The encoders\<close>

text \<open>What a timestamp encoder promises: within the NTP era that ends in 2036 it yields eight bytes
  that read back as its time, at most one microsecond less.\<close>

locale stamp_encoder =
  fixes encode :: "'c \<Rightarrow> byte list option"
    and time_us :: "'c \<Rightarrow> int"
    and in_era :: "'c \<Rightarrow> bool"
  assumes encodes: "in_era c \<Longrightarrow>
    \<exists>bs. encode c = Some bs \<and> length bs = 8 \<and> ntp_us bs \<in> {time_us c - 1 .. time_us c}"
begin

lemma two_stamps:
  assumes "in_era c" and "in_era c'" and "encode c = Some bs" and "encode c' = Some bs'"
  shows "\<bar>(ntp_us bs' - ntp_us bs) - (time_us c' - time_us c)\<bar> \<le> 1"
  using encodes [OF assms(1)] encodes [OF assms(2)] assms(3,4) by auto

lemma order_preserved:
  assumes "in_era c" and "in_era c'" and "encode c = Some bs" and "encode c' = Some bs'"
    and "time_us c < time_us c'"
  shows "ntp_us bs \<le> ntp_us bs'"
  using encodes [OF assms(1)] encodes [OF assms(2)] assms(3-5) by auto

end

definition era_seconds :: "int \<Rightarrow> bool" where
  "era_seconds s \<longleftrightarrow> - 2208988800 \<le> s \<and> s < 2 ^ 32 - 2208988800"

lemma era_word: "era_seconds s \<Longrightarrow> uint (word_of_int (s + 2208988800) :: u32) = s + 2208988800"
  unfolding uint_word_of_int_eq by (rule take_bit_int_eq_self) (simp_all add: era_seconds_def)

lemma sdiv_nonneg: "0 \<le> a \<Longrightarrow> 0 < b \<Longrightarrow> a sdiv b = a div b" for a b :: int
  by (cases "a = 0") (simp_all add: signed_divide_int_def)

lemma smod_nonneg: "0 \<le> a \<Longrightarrow> 0 < b \<Longrightarrow> a smod b = a mod b" for a b :: int
  by (cases "a = 0") (simp_all add: signed_modulo_int_def)

lemma ucast_of_nat_u32: "(ucast (of_nat k :: u64) :: u32) = of_nat k"
  by transfer (simp add: take_bit_take_bit)

lemma era_fraction:
  assumes "era_seconds s" and "r < d" and "d \<le> 1000000000"
  shows "ntp_us (ntp_stamp (word_of_int s + 2208988800) (ucast (push_bit 32 (of_nat r :: u64) div of_nat d)))
           - s * 1000000 \<in> {int (r * 1000000 div d) - 1 .. int (r * 1000000 div d)}"
  using ntp_us_fraction [OF assms(2,3), of "word_of_int (s + 2208988800)", unfolded era_word [OF assms(1)]]
  by simp

definition probe_era :: "int \<Rightarrow> bool" where
  "probe_era micros \<longleftrightarrow> 0 \<le> micros \<and> era_seconds (micros div 1000000)"

interpretation probe_stamp: stamp_encoder "\<lambda>micros. Some (put_ntp micros)" "\<lambda>micros. micros" probe_era
proof
  fix m
  assume era: "probe_era m"
  define r where "r = nat (m mod 1000000)"
  have r: "r < 1000000" "m smod 1000000 = int r" "m sdiv 1000000 = m div 1000000"
    using era by (simp_all add: r_def probe_era_def sdiv_nonneg smod_nonneg nat_less_iff)
  have "put_ntp m = ntp_stamp (word_of_int (m div 1000000 + 2208988800))
      (ucast (push_bit 32 (of_nat r :: u64) div of_nat 1000000))"
    by (simp add: put_ntp_def r)
  then have "ntp_us (put_ntp m) - m div 1000000 * 1000000 \<in> {int r - 1 .. int r}"
    using era_fraction [OF _ r(1), of "m div 1000000"] era by (simp add: probe_era_def)
  moreover have "m = m div 1000000 * 1000000 + int r"
    by (simp add: r_def)
  ultimately show "\<exists>bs. Some (put_ntp m) = Some bs \<and> length bs = 8 \<and> ntp_us bs \<in> {m - 1 .. m}"
    by (simp add: put_ntp_def Let_def)
qed

definition peer_us :: "timespec \<Rightarrow> int" where
  "peer_us v = tv_sec v * 1000000 + tv_nsec v div 1000"

definition peer_era :: "timespec \<Rightarrow> bool" where
  "peer_era v \<longleftrightarrow> era_seconds (tv_sec v) \<and> 0 \<le> tv_nsec v \<and> tv_nsec v < 1000000000"

interpretation peer_stamp: stamp_encoder "\<lambda>v. Some (ntp_now v)" peer_us peer_era
proof
  fix v
  assume era: "peer_era v"
  define r where "r = nat (tv_nsec v)"
  have r: "r < 1000000000" "tv_nsec v = int r"
    using era by (simp_all add: r_def peer_era_def nat_less_iff)
  have "ntp_now v = ntp_stamp (word_of_int (tv_sec v + 2208988800))
      (ucast (push_bit 32 (of_nat r :: u64) div of_nat 1000000000))"
    by (simp add: ntp_now_def r(2))
  then have "ntp_us (ntp_now v) - tv_sec v * 1000000 \<in> {int (r div 1000) - 1 .. int (r div 1000)}"
    using era_fraction [OF _ r(1), of "tv_sec v"] era div_mult_mult2 [of 1000000 r 1000]
    by (simp add: peer_era_def)
  then show "\<exists>bs. Some (ntp_now v) = Some bs \<and> length bs = 8 \<and> ntp_us bs \<in> {peer_us v - 1 .. peer_us v}"
    by (simp add: ntp_now_def Let_def peer_us_def r(2) zdiv_int)
qed

text \<open>The oracle's clock: its arguments and a reading of the raw clock. It starts at \<open>base\<close> and runs
  fast or slow by \<open>rate\<close> parts per million.\<close>

record oracle_clock =
  oc_base :: u64
  oc_origin :: u64
  oc_rate :: int
  oc_raw :: u64

definition oracle_elapsed :: "oracle_clock \<Rightarrow> int" where
  "oracle_elapsed c = sint (oc_raw c - oc_origin c)"

definition oracle_ms :: "oracle_clock \<Rightarrow> int" where
  "oracle_ms c = uint (oc_base c) + oracle_elapsed c + oracle_elapsed c * oc_rate c sdiv 1000000"

definition oracle_stamp :: "oracle_clock \<Rightarrow> byte list option" where
  "oracle_stamp c = timestamp (oc_base c) (oc_origin c) (oc_rate c) (oc_raw c)"

definition oracle_era :: "oracle_clock \<Rightarrow> bool" where
  "oracle_era c \<longleftrightarrow> LONG_MIN \<le> oracle_elapsed c * oc_rate c \<and> oracle_elapsed c * oc_rate c \<le> LONG_MAX \<and>
     0 \<le> oracle_ms c \<and> era_seconds (oracle_ms c div 1000)"

interpretation oracle_stamp: stamp_encoder oracle_stamp "\<lambda>c. oracle_ms c * 1000" oracle_era
proof
  fix c
  assume era: "oracle_era c"
  define millis where "millis = oc_base c + word_of_int (oracle_elapsed c)
      + word_of_int (oracle_elapsed c * oc_rate c sdiv 1000000)"
  define n where "n = nat (oracle_ms c)"
  have n: "int n = oracle_ms c" "n < 2 ^ 42"
    using era by (auto simp: n_def oracle_era_def era_seconds_def)
  have "millis = word_of_int (oracle_ms c)"
    by (simp add: millis_def oracle_ms_def)
  then have m: "millis = of_nat n"
    by (simp add: n(1) [symmetric])
  have dm: "millis div 1000 = of_nat (n div 1000)" "millis mod 1000 = of_nat (n mod 1000)"
    using n(2) by (simp_all add: m word_arith_nat_div word_arith_nat_mod unat_of_nat)
  have "(ucast (millis div 1000 + 2208988800) :: u32) = word_of_int (oracle_ms c div 1000 + 2208988800)"
    using ucast_of_nat_u32 [of "n div 1000 + 2208988800"] 
    by (simp add: dm n(1) [symmetric] zdiv_int [of n 1000, symmetric, simplified])
  then have "oracle_stamp c = Some (ntp_stamp (word_of_int (oracle_ms c div 1000 + 2208988800))
      (ucast (push_bit 32 (of_nat (n mod 1000) :: u64) div of_nat 1000)))"
    using era dm(2) unfolding oracle_stamp_def timestamp_def Let_def oracle_elapsed_def [symmetric]
      millis_def [symmetric] by (simp add: oracle_era_def)
  then obtain bs where "oracle_stamp c = Some bs" "length bs = 8"
    "ntp_us bs - oracle_ms c div 1000 * 1000000 \<in> {int (n mod 1000 * 1000) - 1 .. int (n mod 1000 * 1000)}"
    using era_fraction [of "oracle_ms c div 1000" "n mod 1000" 1000] era by (simp add: oracle_era_def)
  moreover have "oracle_ms c * 1000 = oracle_ms c div 1000 * 1000000 + int (n mod 1000 * 1000)"
    using div_mult_mod_eq [of "int n" 1000]
    by (simp only: n(1) [symmetric] of_nat_mult zmod_int of_nat_numeral)
  ultimately show "\<exists>bs. oracle_stamp c = Some bs \<and> length bs = 8 \<and>
      ntp_us bs \<in> {oracle_ms c * 1000 - 1 .. oracle_ms c * 1000}"
    by auto
qed

end
