(* ===== verification/NtpServers.thy ===== *)
theory NtpServers
  imports NtpWire
begin

text \<open>
  The two NTP servers, \<^verbatim>\<open>ntp-oracle.c\<close> and \<^verbatim>\<open>ntp-peer.c\<close>. What they get from the system (socket
  results, datagrams, clock readings, whether a file opens, the results of \<^verbatim>\<open>system\<close>, \<^verbatim>\<open>fork\<close> and
  \<^verbatim>\<open>poll\<close>) is input, one event per turn of their loops; what they do is output. A run that has used
  up its events waits for the next (\<open>Waiting\<close>). The contract of both is the locale \<open>ntp_server\<close>.
\<close>

datatype 'a outcome = Waiting 'a | Exited int 'a

section \<open>Responses\<close>

definition valid_request :: "byte list \<Rightarrow> bool" where
  "valid_request request \<longleftrightarrow> 48 \<le> length request \<and> request ! 0 AND 7 = 3"

definition LOCL :: "byte list" where
  "LOCL = [0x4C, 0x4F, 0x43, 0x4C]"

definition oracle_response :: "byte list \<Rightarrow> byte list \<Rightarrow> byte list" where
  "oracle_response request time =
     (let r = replicate 48 0;
          r = r[0 := 0x24]; r = r[1 := 1]; r = r[2 := request ! 2]; r = r[3 := - 20];
          r = r[8 := 0]; r = r[9 := 0]; r = r[10 := 0]; r = r[11 := 16];
          r = put_at 12 LOCL r; r = put_at 16 time r; r = put_at 24 (bytes_at 40 8 request) r;
          r = put_at 32 time r
      in put_at 40 time r)"

definition peer_response :: "byte list \<Rightarrow> byte list \<Rightarrow> byte list" where
  "peer_response request time =
     (let r = replicate 48 0;
          r = r[0 := 0x24]; r = r[1 := 1]; r = r[2 := request ! 2]; r = r[3 := - 20];
          r = r[11 := 16];
          r = put_at 12 LOCL r; r = put_at 16 time r; r = put_at 24 (bytes_at 40 8 request) r;
          r = put_at 32 time r
      in put_at 40 time r)"

section \<open>The oracle\<close>

text \<open>One turn of the oracle's loop: the datagram and its sender, or a failed receive; whether the
  counter file opens; the raw clock.\<close>

record 'p oracle_event =
  oe_datagram :: "(byte list \<times> 'p) option"
  oe_counter_opens :: bool
  oe_clock :: "timespec option"

record 'p oracle_state =
  os_count :: u64
  os_counter :: "string option"
  os_sent :: "(byte list \<times> 'p) list"

fun oracle_loop ::
    "u64 \<Rightarrow> u64 \<Rightarrow> int \<Rightarrow> 'p oracle_event list \<Rightarrow> 'p oracle_state \<Rightarrow> 'p oracle_state outcome" where
  "oracle_loop base_ms origin_raw_ms rate_ppm [] st = Waiting st"
| "oracle_loop base_ms origin_raw_ms rate_ppm (ev # evs) st =
     (case oe_datagram ev of
        None \<Rightarrow> Exited 1 st
      | Some (datagram, peer) \<Rightarrow>
          let request = take 1024 datagram;
              st1 = st\<lparr>os_count := os_count st + 1\<rparr>;
              st2 = (if oe_counter_opens ev then st1\<lparr>os_counter := Some (decimal (uint (os_count st1)))\<rparr> else st1)
          in if \<not> valid_request request then oracle_loop base_ms origin_raw_ms rate_ppm evs st2
             else case oe_clock ev of
                None \<Rightarrow> Exited 1 st2
              | Some v \<Rightarrow>
                  (case timestamp base_ms origin_raw_ms rate_ppm (raw_ms v) of
                     None \<Rightarrow> Exited (-1) st2
                   | Some time \<Rightarrow>
                       oracle_loop base_ms origin_raw_ms rate_ppm evs
                         (st2\<lparr>os_sent := os_sent st2 @ [(oracle_response request time, peer)]\<rparr>)))"

record oracle_setup =
  ou_clock :: "timespec option"
  ou_socket :: int
  ou_bind :: int
  ou_ready_opens :: bool

definition oracle_start :: "'p oracle_state" where
  "oracle_start = \<lparr>os_count = 0, os_counter = None, os_sent = []\<rparr>"

text \<open>\<^verbatim>\<open>main\<close>: the text printed and the outcome. \<open>Exited (-1)\<close> stands for the signed overflow of the
  drift, whose behaviour C leaves undefined.\<close>

definition oracle_main ::
    "string list \<Rightarrow> oracle_setup \<Rightarrow> 'p oracle_event list \<Rightarrow> string \<times> 'p oracle_state outcome" where
  "oracle_main argv setup events =
     (if length argv = 2 \<and> argv ! 1 = ''--raw'' then
        (case ou_clock setup of
           None \<Rightarrow> ('''', Exited 1 oracle_start)
         | Some v \<Rightarrow> (decimal (uint (raw_ms v)) @ ''\<newline>'', Exited 0 oracle_start))
      else if length argv < 4 then ('''', Exited 2 oracle_start)
      else
        let base_ms = strtoull10 (argv ! 1);
            origin_raw_ms = strtoull10 (argv ! 2);
            rate_ppm = (if length argv > 4 then strtol10 (argv ! 4) else 0)
        in if ou_socket setup < 0 \<or> ou_bind setup < 0 then ('''', Exited 1 oracle_start)
           else if \<not> ou_ready_opens setup then ('''', Exited 1 oracle_start)
           else ('''', oracle_loop base_ms origin_raw_ms rate_ppm events oracle_start))"

section \<open>The peer\<close>

text \<open>What the peer does to the world.\<close>

datatype 'p effect =
    SendTime "byte list" 'p
  | SendControl string 'p
  | System string
  | Nanosleep int int
  | Stderr string
  | Perror string
  | Fork

text \<open>\<^verbatim>\<open>SIGCHLD\<close>: children are reaped while \<^verbatim>\<open>waitpid\<close> reports one. The argument is what it will
  report; the result is what is left.\<close>

fun reap_children :: "int list \<Rightarrow> int list" where
  "reap_children [] = []"
| "reap_children (pid # pids) = (if pid > 0 then reap_children pids else pids)"

definition bound_socket :: "int \<Rightarrow> int \<Rightarrow> int \<Rightarrow> int option" where
  "bound_socket fd pton bind = (if fd < 0 \<or> pton \<noteq> 1 \<or> bind < 0 then None else Some fd)"

definition answer_time :: "(byte list \<times> 'p) option \<Rightarrow> timespec option \<Rightarrow> 'p effect list option" where
  "answer_time received now =
     (case received of
        None \<Rightarrow> Some []
      | Some (datagram, peer) \<Rightarrow>
          let request = take 1024 datagram
          in if \<not> valid_request request then Some []
             else case now of
                None \<Rightarrow> None
              | Some v \<Rightarrow> Some [SendTime (peer_response request (ntp_now v)) peer])"

text \<open>A failed command ends the (forked) process: the flag says whether it goes on.\<close>

definition vmm_command :: "string \<Rightarrow> string \<Rightarrow> string" where
  "vmm_command script action = snprintf 1024 (''bash '' @ [CHR 0x27] @ script @ [CHR 0x27, CHR '' ''] @ action)"

definition vmm_control :: "string \<Rightarrow> string \<Rightarrow> int \<Rightarrow> 'p effect list \<times> bool" where
  "vmm_control script action result =
     (let command = vmm_command script action
      in if result \<noteq> 0 then ([System command, Stderr (''ntp-peer: '' @ command @ '' failed\<newline>'')], False)
         else ([System command], True))"

definition resumed_text :: "u64 \<Rightarrow> u64 \<Rightarrow> string" where
  "resumed_text real_ms mono_ms =
     ''resumed peer_real_ms='' @ decimal (uint real_ms) @ '' peer_mono_ms='' @ decimal (uint mono_ms)"

record pause_env =
  pe_real :: "timespec option \<times> timespec option"
  pe_mono :: "timespec option \<times> timespec option"
  pe_system :: "int \<times> int"

text \<open>The pause of the guest, with the status the process then exits with: \<^verbatim>\<open>_exit(0)\<close> follows it
  in the child, and a failed clock or command exits with 1.\<close>

definition pause_guest :: "string \<Rightarrow> 'p \<Rightarrow> int \<Rightarrow> pause_env \<Rightarrow> 'p effect list \<times> int" where
  "pause_guest script guest hold_ms env =
     (case (fst (pe_real env), fst (pe_mono env)) of
        (Some real_start, Some mono_start) \<Rightarrow>
          let (e1, go1) = vmm_control script ''pause'' (fst (pe_system env))
          in if \<not> go1 then (e1, 1)
             else
               let e2 = [Nanosleep (hold_ms sdiv 1000) (hold_ms smod 1000 * 1000000)];
                   (e3, go3) = vmm_control script ''resume'' (snd (pe_system env))
               in if \<not> go3 then (e1 @ e2 @ e3, 1)
                  else case (snd (pe_real env), snd (pe_mono env)) of
                    (Some real_end, Some mono_end) \<Rightarrow>
                      let reply = snprintf 128 (resumed_text (clock_ms real_end - clock_ms real_start)
                                                             (clock_ms mono_end - clock_ms mono_start))
                      in (e1 @ e2 @ e3 @ [Stderr (''ntp-peer: '' @ reply @ ''\<newline>''), SendControl reply guest], 0)
                  | _ \<Rightarrow> (e1 @ e2 @ e3, 1)
      | _ \<Rightarrow> ([], 1))"

text \<open>\<^verbatim>\<open>sscanf(request, "pause %ld", &hold_ms) == 1\<close>; the request ends at its first NUL.\<close>

definition scan_pause :: "string \<Rightarrow> int option" where
  "scan_pause request =
     (let s = takeWhile (\<lambda>c. c \<noteq> CHR 0x00) request
      in if take 5 s = ''pause'' then
           (case scan_int (drop 5 s) of None \<Rightarrow> None | Some (i, _) \<Rightarrow> Some (clamp_long i))
         else None)"

text \<open>\<^verbatim>\<open>fork() == 0\<close> is the child, which ends with a status; the parent, also after a failed fork,
  goes on at once.\<close>

definition answer_control ::
    "(string \<times> 'p) option \<Rightarrow> string \<Rightarrow> int \<Rightarrow> pause_env \<Rightarrow> 'p effect list \<times> int option" where
  "answer_control received script forked env =
     (case received of
        None \<Rightarrow> ([], None)
      | Some (datagram, guest) \<Rightarrow>
          let request = take 63 datagram
          in if request = [] then ([], None)
             else case scan_pause request of
               None \<Rightarrow> ([], None)
             | Some hold_ms \<Rightarrow>
                 if hold_ms \<le> 0 \<or> hold_ms > 60000 then ([], None)
                 else if forked = 0 then
                   (case pause_guest script guest hold_ms env of (es, status) \<Rightarrow> (Fork # es, Some status))
                 else ([Fork], None))"

record 'p peer_event =
  pv_poll :: int
  pv_eintr :: bool
  pv_revents :: "bool \<times> bool"
  pv_time :: "(byte list \<times> 'p) option"
  pv_now :: "timespec option"
  pv_control :: "(string \<times> 'p) option"
  pv_fork :: int
  pv_pause :: pause_env

fun peer_loop :: "string \<Rightarrow> 'p peer_event list \<Rightarrow> 'p effect list \<Rightarrow> 'p effect list outcome" where
  "peer_loop script [] out = Waiting out"
| "peer_loop script (ev # evs) out =
     (if pv_poll ev < 0 \<and> \<not> pv_eintr ev then Exited 1 out
      else
        case (if fst (pv_revents ev) then answer_time (pv_time ev) (pv_now ev) else Some []) of
          None \<Rightarrow> Exited 1 out
        | Some e1 \<Rightarrow>
            (case (if snd (pv_revents ev)
                   then answer_control (pv_control ev) script (pv_fork ev) (pv_pause ev) else ([], None)) of
               (e2, Some status) \<Rightarrow> Exited status (out @ e1 @ e2)
             | (e2, None) \<Rightarrow> peer_loop script evs (out @ e1 @ e2)))"

record peer_setup =
  pu_time :: "int \<times> int \<times> int"
  pu_control :: "int \<times> int \<times> int"
  pu_ready_opens :: bool

definition peer_main :: "string list \<Rightarrow> peer_setup \<Rightarrow> 'p peer_event list \<Rightarrow> 'p effect list outcome" where
  "peer_main argv setup events =
     (if length argv \<noteq> 4 then
        Exited 2 [Stderr ''usage: ntp-peer ADDRESS VMM_CONTROL_SCRIPT READY_FILE\<newline>'']
      else case pu_time setup of (fd, pton, bind) \<Rightarrow>
        (case bound_socket fd pton bind of
           None \<Rightarrow> Exited 1 [Perror ''bind'']
         | Some time_fd \<Rightarrow> (case pu_control setup of (fd', pton', bind') \<Rightarrow>
             (case bound_socket fd' pton' bind' of
                None \<Rightarrow> Exited 1 [Perror ''bind'']
              | Some control_fd \<Rightarrow>
                  if \<not> pu_ready_opens setup then Exited 1 []
                  else peer_loop (argv ! 2) events []))))"

end
