(* ===== verification/NtpProbe.thy ===== *)
theory NtpProbe
  imports NtpServers
begin

text \<open>
  The NTP client \<^verbatim>\<open>ntp-probe.c\<close>: one sample of a server's time, and the request to pause the guest.
  The results of the system calls are fields of an environment record; the result is the exit
  status, the text on standard output and the diagnostics (without the system's error text).
\<close>

record clocks =
  real_us :: int
  mono_us :: int
  boot_us :: int

definition read_clocks :: "timespec option \<times> timespec option \<times> timespec option \<Rightarrow> clocks option" where
  "read_clocks t = (case t of
     (Some r, Some m, Some b) \<Rightarrow> Some \<lparr>real_us = clock_us r, mono_us = clock_us m, boot_us = clock_us b\<rparr>
   | _ \<Rightarrow> None)"

definition open_socket :: "int \<Rightarrow> int \<Rightarrow> int option" where
  "open_socket fd pton = (if fd < 0 \<or> pton \<noteq> 1 then None else Some fd)"

section \<open>Sampling\<close>

record sample_env =
  sv_socket :: "int \<times> int"
  sv_sent :: "timespec option"
  sv_sendto :: int
  sv_poll :: int
  sv_recv :: "byte list option"
  sv_received :: "timespec option"
  sv_at :: "timespec option \<times> timespec option \<times> timespec option"

definition sample_request :: "int \<Rightarrow> byte list" where
  "sample_request sent = put_at 40 (put_ntp sent) ((replicate 48 0)[0 := 0x23])"

definition sample_offset :: "int \<Rightarrow> int \<Rightarrow> byte list \<Rightarrow> int" where
  "sample_offset sent received response =
     (let t2 = ntp_us (bytes_at 32 8 response); t3 = ntp_us (bytes_at 40 8 response)
      in ((t2 - sent) + (t3 - received)) sdiv 2)"

definition sample_rtt :: "int \<Rightarrow> int \<Rightarrow> byte list \<Rightarrow> int" where
  "sample_rtt sent received response =
     (let t2 = ntp_us (bytes_at 32 8 response); t3 = ntp_us (bytes_at 40 8 response)
      in (received - sent) - (t3 - t2))"

definition sample_line :: "int \<Rightarrow> int \<Rightarrow> clocks \<Rightarrow> string" where
  "sample_line offset rtt at =
     ''offset_us='' @ decimal offset @ '' rtt_us='' @ decimal rtt @ '' real_us='' @ decimal (real_us at) @
     '' mono_us='' @ decimal (mono_us at) @ '' boot_us='' @ decimal (boot_us at) @ ''\<newline>''"

definition sample :: "sample_env \<Rightarrow> int \<times> string \<times> string" where
  "sample env =
     (case open_socket (fst (sv_socket env)) (snd (sv_socket env)) of None \<Rightarrow> (1, '''', '''') | Some fd \<Rightarrow>
     (case sv_sent env of None \<Rightarrow> (1, '''', '''') | Some sent_at \<Rightarrow>
      let sent = clock_us sent_at; request = sample_request sent
      in if sv_sendto env \<noteq> 48 then (1, '''', ''send request'')
         else if sv_poll env \<noteq> 1 then (1, '''', ''no response\<newline>'')
         else (case sv_recv env of None \<Rightarrow> (1, '''', ''receive response'') | Some datagram \<Rightarrow>
           let response = take 128 datagram
           in if length response < 48 then (1, '''', ''receive response'')
              else (case sv_received env of None \<Rightarrow> (1, '''', '''') | Some received_at \<Rightarrow>
              (case read_clocks (sv_at env) of None \<Rightarrow> (1, '''', '''') | Some at \<Rightarrow>
                if bytes_at 24 8 response \<noteq> bytes_at 40 8 request then
                  (1, '''', ''response does not echo the request\<newline>'')
                else
                  (0, sample_line (sample_offset sent (clock_us received_at) response)
                        (sample_rtt sent (clock_us received_at) response) at, ''''))))))"

section \<open>Pausing the guest\<close>

record pause_probe_env =
  qv_socket :: "int \<times> int"
  qv_before :: "timespec option \<times> timespec option \<times> timespec option"
  qv_sendto :: int
  qv_poll :: int
  qv_recv :: "string option"
  qv_after :: "timespec option \<times> timespec option \<times> timespec option"

definition pause_request :: "int \<Rightarrow> string" where
  "pause_request hold_ms = snprintf 32 (''pause '' @ decimal hold_ms)"

text \<open>The received bytes are printed up to the first NUL.\<close>

definition probe_pause_guest :: "pause_probe_env \<Rightarrow> int \<times> string" where
  "probe_pause_guest env =
     (case open_socket (fst (qv_socket env)) (snd (qv_socket env)) of None \<Rightarrow> (1, '''') | Some fd \<Rightarrow>
     (case read_clocks (qv_before env) of None \<Rightarrow> (1, '''') | Some before \<Rightarrow>
      if qv_sendto env < 0 then (1, '''')
      else if qv_poll env \<noteq> 1 then (1, '''')
      else (case read_clocks (qv_after env) of None \<Rightarrow> (1, '''') | Some after \<Rightarrow>
        case qv_recv env of None \<Rightarrow> (1, '''') | Some datagram \<Rightarrow>
          let reply = take 127 datagram
          in if reply = [] then (1, '''')
             else (0, ''guest_real_ms='' @ decimal ((real_us after - real_us before) sdiv 1000) @
                      '' guest_mono_ms='' @ decimal ((mono_us after - mono_us before) sdiv 1000) @
                      '' guest_boot_ms='' @ decimal ((boot_us after - boot_us before) sdiv 1000) @
                      '' '' @ takeWhile (\<lambda>c. c \<noteq> CHR 0x00) reply @ ''\<newline>''))))"

text \<open>\<^verbatim>\<open>main\<close>; the datagram sent by \<^verbatim>\<open>pause\<close> is \<open>pause_request\<close> of its third argument.\<close>

definition probe_main :: "string list \<Rightarrow> sample_env \<Rightarrow> pause_probe_env \<Rightarrow> int \<times> string \<times> string" where
  "probe_main argv senv penv =
     (if length argv = 3 \<and> argv ! 1 = ''sample'' then sample senv
      else if length argv = 4 \<and> argv ! 1 = ''pause'' then
        (case probe_pause_guest penv of (status, line) \<Rightarrow> (status, line, ''''))
      else (2, '''', ''usage: ntp-probe sample HOST | pause HOST HOLD_MS\<newline>''))"

end
