(* ===== verification/NtpSpec.thy ===== *)
theory NtpSpec
  imports NtpProbe
begin

text \<open>
  What the time programs promise each other: a server's reply as the probe needs it, the accuracy
  of a sample, the replies and the count of the oracle, and the pause protocol.
\<close>

section \<open>The server contract\<close>

locale ntp_server = stamp_encoder encode time_us in_era
  for encode :: "'c \<Rightarrow> byte list option" and time_us :: "'c \<Rightarrow> int" and in_era :: "'c \<Rightarrow> bool" +
  fixes reply :: "byte list \<Rightarrow> byte list \<Rightarrow> byte list"
  assumes reply_shape: "valid_request request \<Longrightarrow> length time = 8 \<Longrightarrow>
      length (reply request time) = 48 \<and> reply request time ! 0 = 0x24 \<and>
      bytes_at 24 8 (reply request time) = bytes_at 40 8 request \<and>
      bytes_at 32 8 (reply request time) = time \<and> bytes_at 40 8 (reply request time) = time"

lemma oracle_peer_response: "oracle_response request time = peer_response request time"
proof -
  have "((r[8 := 0])[9 := 0])[10 := 0] = r" if "r ! 8 = 0" "r ! 9 = 0" "r ! 10 = 0" for r :: "byte list"
    using that by (metis list_update_id)
  then show ?thesis
    by (simp add: oracle_response_def peer_response_def Let_def)
qed

lemma response_shape:
  assumes "valid_request request" and "length time = 8"
  shows "length (peer_response request time) = 48 \<and> peer_response request time ! 0 = 0x24 \<and>
      bytes_at 24 8 (peer_response request time) = bytes_at 40 8 request \<and>
      bytes_at 32 8 (peer_response request time) = time \<and> bytes_at 40 8 (peer_response request time) = time"
proof -
  have "length (bytes_at 40 8 request) = 8"
    using assms(1) by (auto simp: valid_request_def min_def)
  then show ?thesis
    using assms(2) by (simp add: peer_response_def Let_def LOCL_def byte_simps disjoint_range_def nth_put_at
        del: length_bytes_at)
qed

interpretation oracle_server: ntp_server oracle_stamp "\<lambda>c. oracle_ms c * 1000" oracle_era oracle_response
  by unfold_locales (simp add: oracle_peer_response response_shape)

interpretation peer_server: ntp_server "\<lambda>v. Some (ntp_now v)" peer_us peer_era peer_response
  by unfold_locales (rule response_shape)

section \<open>A sample\<close>

lemma sample_request_valid: "valid_request (sample_request sent)"
  by (simp add: valid_request_def sample_request_def put_ntp_def Let_def nth_put_at)

context ntp_server
begin

text \<open>The server's clock is ahead of the probe's by \<open>theta\<close>; the request takes \<open>d1\<close> and the reply
  \<open>d2\<close> microseconds on the probe's clock.\<close>

lemma sample_accuracy:
  assumes "in_era c" and "encode c = Some time"
    and "time_us c = sent + d1 + theta" and "received = sent + d1 + d2" and "0 \<le> d1" and "0 \<le> d2"
  shows "sample_rtt sent received (reply (sample_request sent) time) = d1 + d2"
    and "2 * \<bar>sample_offset sent received (reply (sample_request sent) time) - theta\<bar> \<le> d1 + d2 + 3"
proof -
  obtain "length time = 8" "ntp_us time \<in> {time_us c - 1 .. time_us c}"
    using encodes [OF assms(1)] assms(2) by auto
  then have shape: "bytes_at 32 8 (reply (sample_request sent) time) = time"
    "bytes_at 40 8 (reply (sample_request sent) time) = time"
    and t: "time_us c - 1 \<le> ntp_us time" "ntp_us time \<le> time_us c"
    using reply_shape [OF sample_request_valid] by auto
  show "sample_rtt sent received (reply (sample_request sent) time) = d1 + d2"
    using assms(4) by (simp add: sample_rtt_def shape)
  define x where "x = (ntp_us time - sent) + (ntp_us time - received)"
  have x: "\<bar>x - 2 * theta\<bar> \<le> d1 + d2 + 2"
    using t assms(3-6) by (simp add: x_def)
  have "\<bar>2 * (x sdiv 2) - x\<bar> \<le> 1"
    by (auto simp: signed_divide_int_def sgn_if)
  then show "2 * \<bar>sample_offset sent received (reply (sample_request sent) time) - theta\<bar> \<le> d1 + d2 + 3"
    using x by (simp add: sample_offset_def shape x_def [symmetric]) arith
qed

lemma sample_accepts:
  assumes "in_era c" and "encode c = Some time"
    and "0 \<le> fd" and "sv_socket env = (fd, 1)" and "sv_sent env = Some s" and "sv_sendto env = 48"
    and "sv_poll env = 1" and "sv_recv env = Some (reply (sample_request (clock_us s)) time)"
    and "sv_received env = Some r" and "read_clocks (sv_at env) = Some at"
  shows "sample env = (0, sample_line
      (sample_offset (clock_us s) (clock_us r) (reply (sample_request (clock_us s)) time))
      (sample_rtt (clock_us s) (clock_us r) (reply (sample_request (clock_us s)) time)) at, '''')"
proof -
  have "length time = 8"
    using encodes [OF assms(1)] assms(2) by auto
  then show ?thesis
    using reply_shape [OF sample_request_valid, of time "clock_us s"] assms(3-)
    by (simp add: sample_def open_socket_def Let_def)
qed

end

text \<open>C11: A sample of the oracle is accepted and accurate. If the probe receives the oracle's reply
  to its request, it prints a line whose round trip time is the time the two datagrams took and
  whose offset differs from the true offset \<open>theta\<close> of the oracle's simulated clock by at most half
  of that and two microseconds.\<close>

theorem sample_of_oracle:
  assumes "oracle_era c" and "oracle_stamp c = Some time"
    and "0 \<le> fd" and "sv_socket env = (fd, 1)" and "sv_sent env = Some s" and "sv_sendto env = 48"
    and "sv_poll env = 1" and "sv_recv env = Some (oracle_response (sample_request (clock_us s)) time)"
    and "sv_received env = Some r" and "read_clocks (sv_at env) = Some at"
    and "oracle_ms c * 1000 = clock_us s + d1 + theta" and "clock_us r = clock_us s + d1 + d2"
    and "0 \<le> d1" and "0 \<le> d2"
  shows "\<exists>offset. sample env = (0, sample_line offset (d1 + d2) at, '''') \<and>
           2 * \<bar>offset - theta\<bar> \<le> d1 + d2 + 3"
  using oracle_server.sample_accepts [OF assms(1-10)]
    oracle_server.sample_accuracy [OF assms(1,2,11-14)] by metis

text \<open>C12: A sample of the peer is accepted and accurate, by the same bound, with \<open>theta\<close> the offset of
  the host's real-time clock.\<close>

theorem sample_of_peer:
  assumes "peer_era v"
    and "0 \<le> fd" and "sv_socket env = (fd, 1)" and "sv_sent env = Some s" and "sv_sendto env = 48"
    and "sv_poll env = 1" and "answer_time (Some (sample_request (clock_us s), p)) (Some v) = Some [SendTime reply p]"
    and "sv_recv env = Some reply"
    and "sv_received env = Some r" and "read_clocks (sv_at env) = Some at"
    and "peer_us v = clock_us s + d1 + theta" and "clock_us r = clock_us s + d1 + d2"
    and "0 \<le> d1" and "0 \<le> d2"
  shows "\<exists>offset. sample env = (0, sample_line offset (d1 + d2) at, '''') \<and>
           2 * \<bar>offset - theta\<bar> \<le> d1 + d2 + 3"
proof -
  have "take 1024 (sample_request (clock_us s)) = sample_request (clock_us s)"
    by (simp add: sample_request_def put_ntp_def Let_def)
  then have "reply = peer_response (sample_request (clock_us s)) (ntp_now v)"
    using assms(7) sample_request_valid by (simp add: answer_time_def Let_def)
  then show ?thesis
    using peer_server.sample_accepts [OF assms(1) refl assms(2-6) _ assms(9,10)] assms(8)
      peer_server.sample_accuracy [OF assms(1) refl assms(11-14)] by metis
qed

text \<open>C15: The probe's timestamp codec. From 1970 to the end of the NTP era in 2036, a time in
  microseconds survives being put into a packet and read back, up to one microsecond.\<close>

theorem put_ntp_roundtrip:
  assumes "0 \<le> micros" and "micros < (2 ^ 32 - 2208988800) * 1000000"
  shows "length (put_ntp micros) = 8 \<and> ntp_us (put_ntp micros) \<in> {micros - 1 .. micros}"
proof -
  have "probe_era micros"
    using assms by (auto simp: probe_era_def era_seconds_def)
  then show ?thesis
    using probe_stamp.encodes by blast
qed

section \<open>The oracle's loop\<close>

definition oracle_answers :: "u64 \<Rightarrow> u64 \<Rightarrow> int \<Rightarrow> 'p oracle_event \<Rightarrow> (byte list \<times> 'p) list" where
  "oracle_answers base origin rate ev =
     (case (oe_datagram ev, oe_clock ev) of
        (Some (datagram, peer), Some v) \<Rightarrow>
          (if valid_request (take 1024 datagram) then
             (case timestamp base origin rate (raw_ms v) of
                Some time \<Rightarrow> [(oracle_response (take 1024 datagram) time, peer)] | None \<Rightarrow> [])
           else [])
      | _ \<Rightarrow> [])"

definition served :: "u64 \<Rightarrow> u64 \<Rightarrow> int \<Rightarrow> 'p oracle_event \<Rightarrow> bool" where
  "served base origin rate ev \<longleftrightarrow>
     (\<exists>datagram peer v. oe_datagram ev = Some (datagram, peer) \<and> oe_clock ev = Some v \<and>
        timestamp base origin rate (raw_ms v) \<noteq> None)"

text \<open>C13: The oracle serves every turn on which the system serves it: it keeps running, has counted
  every datagram (the counter file holds the count at the last time it could be opened), and has
  answered exactly the datagrams of 48 bytes or more in client mode, each to its sender, in order.\<close>

theorem oracle_serves:
  assumes "\<forall>ev \<in> set evs. served base origin rate ev"
  shows "\<exists>st'. oracle_loop base origin rate evs st = Waiting st' \<and>
           os_count st' = os_count st + of_nat (length evs) \<and>
           os_sent st' = os_sent st @ concat (map (oracle_answers base origin rate) evs) \<and>
           (evs \<noteq> [] \<longrightarrow> oe_counter_opens (last evs) \<longrightarrow> os_counter st' = Some (decimal (uint (os_count st'))))"
  using assms
proof (induction evs arbitrary: st)
  case (Cons ev evs)
  then obtain datagram peer v time where ev: "oe_datagram ev = Some (datagram, peer)"
    "oe_clock ev = Some v" "timestamp base origin rate (raw_ms v) = Some time"
    by (auto simp: served_def)
  define st2 where "st2 = (if oe_counter_opens ev
     then st\<lparr>os_count := os_count st + 1, os_counter := Some (decimal (uint (os_count st + 1)))\<rparr>
     else st\<lparr>os_count := os_count st + 1\<rparr>)"
  define st3 where "st3 = (if valid_request (take 1024 datagram)
     then st2\<lparr>os_sent := os_sent st2 @ [(oracle_response (take 1024 datagram) time, peer)]\<rparr> else st2)"
  have step: "oracle_loop base origin rate (ev # evs) st = oracle_loop base origin rate evs st3"
    by (simp add: ev st2_def st3_def Let_def)
  have st3: "os_count st3 = os_count st + 1"
    "os_sent st3 = os_sent st @ oracle_answers base origin rate ev"
    "oe_counter_opens ev \<longrightarrow> os_counter st3 = Some (decimal (uint (os_count st3)))"
    by (simp_all add: st3_def st2_def oracle_answers_def ev)
  obtain st' where st': "oracle_loop base origin rate evs st3 = Waiting st'"
    "os_count st' = os_count st3 + of_nat (length evs)"
    "os_sent st' = os_sent st3 @ concat (map (oracle_answers base origin rate) evs)"
    "evs \<noteq> [] \<longrightarrow> oe_counter_opens (last evs) \<longrightarrow> os_counter st' = Some (decimal (uint (os_count st')))"
    using Cons.IH [of st3] Cons.prems by auto
  have "evs = [] \<Longrightarrow> st' = st3"
    using st'(1) by simp
  then show ?case
    using st' st3 step by (intro exI [of _ st']) auto
qed simp

section \<open>The pause protocol\<close>

lemma length_decimal_long: "LONG_MIN \<le> i \<Longrightarrow> i \<le> LONG_MAX \<Longrightarrow> length (decimal i) \<le> 20"
proof -
  assume "LONG_MIN \<le> i" "i \<le> LONG_MAX"
  then have "\<bar>i\<bar> \<le> 2 ^ 63"
    by (simp add: LONG_MIN_def LONG_MAX_def)
  then have "nat \<bar>i\<bar> < 10 ^ Suc 18"
    by simp
  then show ?thesis
    using length_decimal_nat [of "nat \<bar>i\<bar>" 18] by (cases "i < 0") (simp_all add: decimal_def)
qed

lemma nul_not_in_decimal: "CHR 0x00 \<notin> set (decimal i)"
proof
  assume "CHR 0x00 \<in> set (decimal i)"
  then have "CHR 0x00 \<in> set (decimal_nat (nat \<bar>i\<bar>))"
    by (simp add: decimal_def split: if_splits)
  then show False
    using decimal_nat_isdigit by (force simp: isdigit_def)
qed

lemma scan_pause_request:
  assumes "LONG_MIN \<le> i" and "i \<le> LONG_MAX"
  shows "scan_pause (take 63 (pause_request i)) = Some i"
proof -
  have len: "length (''pause '' @ decimal i) \<le> 26"
    using length_decimal_long [OF assms] by simp
  have tw: "takeWhile (\<lambda>c. c \<noteq> CHR 0x00) (''pause '' @ decimal i) = ''pause '' @ decimal i"
    using nul_not_in_decimal [of i] by (subst takeWhile_eq_all_conv) auto
  have "scan_int ('' '' @ decimal i) = scan_int (decimal i)"
    by (simp add: scan_int_def isspace_def)
  then have "scan_int ('' '' @ decimal i) = Some (i, [])"
    using scan_int_decimal [of "[]" i] by simp
  then show ?thesis
    using len assms tw unfolding scan_pause_def pause_request_def
    by (simp add: snprintf_fits clamp_long_def takeWhile_eq_all_conv [THEN iffD2])
qed

text \<open>C14: The peer reads back exactly the hold time the probe asked for, whatever \<^verbatim>\<open>long\<close> it is. It
  forks a child for it if it is between one millisecond and one minute, and does nothing
  otherwise. The child pauses the guest, sleeps for exactly the hold time, resumes the guest and
  sends the probe its reply untruncated; it fails without resuming only if the pause itself
  failed.\<close>

theorem pause_protocol:
  assumes "LONG_MIN \<le> hold" and "hold \<le> LONG_MAX"
    and "pe_real env = (Some r0, Some r1)" and "pe_mono env = (Some m0, Some m1)"
  shows "answer_control (Some (pause_request hold, guest)) script forked env =
     (if hold < 1 \<or> 60000 < hold then ([], None)
      else if forked \<noteq> 0 then ([Fork], None)
      else
        let failed = (\<lambda>action. Stderr (''ntp-peer: '' @ vmm_command script action @ '' failed\<newline>''));
            reply = resumed_text (clock_ms r1 - clock_ms r0) (clock_ms m1 - clock_ms m0)
        in if fst (pe_system env) \<noteq> 0 then ([Fork, System (vmm_command script ''pause''), failed ''pause''], Some 1)
           else if snd (pe_system env) \<noteq> 0 then
             ([Fork, System (vmm_command script ''pause''), Nanosleep (hold div 1000) (hold mod 1000 * 1000000),
               System (vmm_command script ''resume''), failed ''resume''], Some 1)
           else
             ([Fork, System (vmm_command script ''pause''), Nanosleep (hold div 1000) (hold mod 1000 * 1000000),
               System (vmm_command script ''resume''), Stderr (''ntp-peer: '' @ reply @ ''\<newline>''),
               SendControl reply guest], Some 0))"
proof -
  have u64: "length (decimal (uint w)) \<le> 20" for w :: u64
  proof -
    have "nat (uint w) < 10 ^ Suc 19"
      using unsigned_less [of w, where 'a = nat] by simp
    then show ?thesis
      using length_decimal_nat [of "nat (uint w)" 19] by (simp add: decimal_def)
  qed
  have reply: "snprintf 128 (resumed_text a b) = resumed_text a b" for a b :: u64
    using u64 [of a] u64 [of b] by (intro snprintf_fits) (simp add: resumed_text_def)
  have ne: "take 63 (pause_request hold) \<noteq> []"
    by (simp add: pause_request_def snprintf_def)
  show ?thesis
    using scan_pause_request [OF assms(1,2)] ne assms(3,4)
    by (auto simp: answer_control_def pause_guest_def vmm_control_def Let_def reply sdiv_nonneg smod_nonneg)
qed

section \<open>Samples of the programs\<close>

definition sample_oracle_clock :: oracle_clock where
  "sample_oracle_clock = \<lparr>oc_base = 1700000000000, oc_origin = 1000, oc_rate = 100, oc_raw = 61000\<rparr>"

definition sample_time :: "int \<Rightarrow> timespec" where
  "sample_time us = \<lparr>tv_sec = 1700000060, tv_nsec = us * 1000\<rparr>"

definition sample_reading :: "byte list \<Rightarrow> sample_env" where
  "sample_reading bs =
     \<lparr>sv_socket = (3, 1), sv_sent = Some (sample_time 0), sv_sendto = 48, sv_poll = 1, sv_recv = Some bs,
      sv_received = Some (sample_time 500),
      sv_at = (Some (sample_time 501), Some (sample_time 502), Some (sample_time 503))\<rparr>"

definition sample_clocks :: clocks where
  "sample_clocks = \<lparr>real_us = 1700000060000501, mono_us = 1700000060000502, boot_us = 1700000060000503\<rparr>"

lemma sample_time_us: "0 \<le> us \<Longrightarrow> clock_us (sample_time us) = 1700000060000000 + us"
  by (simp add: clock_us_def sample_time_def sdiv_nonneg)

lemma sample_read_clocks: "read_clocks (sv_at (sample_reading bs)) = Some sample_clocks"
  by (simp add: sample_reading_def read_clocks_def sample_clocks_def sample_time_us)

lemma sample_oracle_ms: "oracle_ms sample_oracle_clock = 1700000060006"
  by (simp add: oracle_ms_def oracle_elapsed_def sample_oracle_clock_def sdiv_nonneg)

lemma sample_oracle_era: "oracle_era sample_oracle_clock"
  unfolding oracle_era_def sample_oracle_ms
  by (simp add: oracle_elapsed_def sample_oracle_clock_def LONG_MIN_def LONG_MAX_def era_seconds_def)

theorem sample_of_oracle_witness:
  "\<exists>time offset. oracle_stamp sample_oracle_clock = Some time \<and>
     sample (sample_reading (oracle_response (sample_request 1700000060000000) time)) =
       (0, sample_line offset 500 sample_clocks, '''') \<and> 2 * \<bar>offset - 5800\<bar> \<le> 503"
proof -
  obtain time where time: "oracle_stamp sample_oracle_clock = Some time"
    using oracle_stamp.encodes [OF sample_oracle_era] by blast
  let ?env = "sample_reading (oracle_response (sample_request 1700000060000000) time)"
  have "\<exists>offset. sample ?env = (0, sample_line offset (200 + 300) sample_clocks, '''') \<and>
      2 * \<bar>offset - 5800\<bar> \<le> 200 + 300 + 3"
    by (rule sample_of_oracle [OF sample_oracle_era time _ _ _ _ _ _ _ sample_read_clocks,
          where fd = 3 and s = "sample_time 0" and r = "sample_time 500"])
       (simp_all add: sample_reading_def sample_time_us sample_oracle_ms)
  then show ?thesis
    using time by auto
qed

theorem sample_of_peer_witness:
  "\<exists>offset. sample (sample_reading (peer_response (sample_request 1700000060000000)
       (ntp_now (sample_time 9200)))) = (0, sample_line offset 500 sample_clocks, '''') \<and>
     2 * \<bar>offset - 9000\<bar> \<le> 503"
proof -
  let ?reply = "peer_response (sample_request 1700000060000000) (ntp_now (sample_time 9200))"
  have era: "peer_era (sample_time 9200)"
    by (simp add: peer_era_def sample_time_def era_seconds_def)
  have answer: "answer_time (Some (sample_request (clock_us (sample_time 0)), ())) (Some (sample_time 9200)) =
      Some [SendTime ?reply ()]"
    using sample_request_valid [of 1700000060000000]
    by (simp add: answer_time_def sample_time_us sample_request_def put_ntp_def Let_def)
  have "\<exists>offset. sample (sample_reading ?reply) = (0, sample_line offset (200 + 300) sample_clocks, '''') \<and>
      2 * \<bar>offset - 9000\<bar> \<le> 200 + 300 + 3"
    by (rule sample_of_peer [OF era _ _ _ _ _ answer _ _ sample_read_clocks,
          where fd = 3 and r = "sample_time 500"])
       (simp_all add: sample_reading_def sample_time_us peer_us_def, simp_all add: sample_time_def)
  then show ?thesis
    by simp
qed

theorem put_ntp_roundtrip_witness:
  "ntp_us (put_ntp 1700000060000501) \<in> {1700000060000500 .. 1700000060000501}"
  using put_ntp_roundtrip [of 1700000060000501] by simp

definition sample_turns :: "nat oracle_event list" where
  "sample_turns =
     [\<lparr>oe_datagram = Some (sample_request 1700000060000000, 7), oe_counter_opens = False,
       oe_clock = Some \<lparr>tv_sec = 61, tv_nsec = 0\<rparr>\<rparr>,
      \<lparr>oe_datagram = Some ([0x23], 8), oe_counter_opens = True,
       oe_clock = Some \<lparr>tv_sec = 62, tv_nsec = 0\<rparr>\<rparr>]"

theorem oracle_serves_witness:
  "\<exists>st. oracle_loop 1700000000000 1000 100 sample_turns oracle_start = Waiting st \<and> os_count st = 2 \<and>
     length (os_sent st) = 1 \<and> snd (os_sent st ! 0) = 7 \<and> os_counter st = Some ''2''"
proof -
  have stamp: "timestamp 1700000000000 1000 100 n \<noteq> None" if "n = 61000 \<or> n = 62000" for n
    using that by (auto simp: timestamp_def Let_def LONG_MIN_def LONG_MAX_def)
  have "\<forall>ev \<in> set sample_turns. served 1700000000000 1000 100 ev"
    using stamp by (auto simp: sample_turns_def served_def raw_ms_def)
  then obtain st where st: "oracle_loop 1700000000000 1000 100 sample_turns oracle_start = Waiting st"
    "os_count st = os_count (oracle_start :: nat oracle_state) + of_nat (length sample_turns)"
    "os_sent st = os_sent oracle_start @ concat (map (oracle_answers 1700000000000 1000 100) sample_turns)"
    "sample_turns \<noteq> [] \<longrightarrow> oe_counter_opens (last sample_turns) \<longrightarrow> os_counter st = Some (decimal (uint (os_count st)))"
    using oracle_serves [of sample_turns 1700000000000 1000 100 oracle_start] by blast
  have two: "decimal 2 = ''2''"
    by code_simp
  have "valid_request (take 1024 (sample_request 1700000060000000))"
    using sample_request_valid [of 1700000060000000] by (simp add: sample_request_def put_ntp_def Let_def)
  moreover obtain time where "timestamp 1700000000000 1000 100 61000 = Some time"
    using stamp [of 61000] by auto
  ultimately have "os_sent st = [(oracle_response (take 1024 (sample_request 1700000060000000)) time, 7)]"
    using st(3) by (simp add: oracle_start_def sample_turns_def oracle_answers_def raw_ms_def valid_request_def)
  then show ?thesis
    using st(1,2,4) two by (simp add: oracle_start_def sample_turns_def)
qed

definition sample_pause_env :: pause_env where
  "sample_pause_env = \<lparr>pe_real = (Some (sample_time 0), Some (sample_time 9000)),
     pe_mono = (Some (sample_time 0), Some (sample_time 9000)), pe_system = (0, 0)\<rparr>"

theorem pause_protocol_witness:
  "answer_control (Some (pause_request 2500, ())) ''vm.sh'' 0 sample_pause_env =
     ([Fork, System (vmm_command ''vm.sh'' ''pause''), Nanosleep 2 500000000,
       System (vmm_command ''vm.sh'' ''resume''),
       Stderr (''ntp-peer: '' @ resumed_text 9 9 @ ''\<newline>''), SendControl (resumed_text 9 9) ()], Some 0)"
  using pause_protocol [of 2500 sample_pause_env "sample_time 0" "sample_time 9000" "sample_time 0"
      "sample_time 9000" "()" "''vm.sh''" 0]
  by (simp add: LONG_MIN_def LONG_MAX_def sample_pause_env_def clock_ms_def sample_time_def Let_def)

end
