(* ===== verification/TcpTransfer.thy ===== *)
theory TcpTransfer
  imports CLib
begin

text \<open>
  The TCP programs of the DHCP tests: the server \<^verbatim>\<open>src/guest/asterinas/dhcp/peer-tcp.c\<close> sends a
  mebibyte of a fixed pattern to every client, and the client \<^verbatim>\<open>tcp-client.c\<close> reads it, checks each
  byte, and can wait for a disruption of the network half way. The network and the file system are
  the parameter \<open>ops\<close>: functions of a state of their own. The alarm that limits the whole run is
  not modelled.
\<close>

section \<open>The pattern\<close>

definition PAYLOAD_BYTES :: nat where "PAYLOAD_BYTES = 1024 * 1024"
definition HALFWAY_BYTES :: nat where "HALFWAY_BYTES = 256 * 1024"
definition BLOCK :: nat where "BLOCK = 4096"

definition payload_byte :: "u64 \<Rightarrow> byte" where
  "payload_byte offset = ucast ((offset * 131 + 17) mod 251)"

section \<open>The server\<close>

text \<open>The results of \<^verbatim>\<open>send\<close> are a list; a run that has used them up is blocked in the call
  (\<open>None\<close>). The bytes accepted so far are collected.\<close>

fun send_block :: "byte list \<Rightarrow> nat \<Rightarrow> int list \<Rightarrow> byte list \<Rightarrow> int option \<times> int list \<times> byte list" where
  "send_block block done rs out =
     (if done < length block then
        (case rs of
           [] \<Rightarrow> (None, [], out)
         | sent # rs' \<Rightarrow>
             if sent < 0 then (Some (-1), rs', out)
             else send_block block (done + nat sent) rs' (out @ take (nat sent) (drop done block)))
      else (Some 0, rs, out))"

declare send_block.simps [simp del]

definition fill_block :: "nat \<Rightarrow> byte list" where
  "fill_block offset = map (\<lambda>index. payload_byte (of_nat (offset + index))) [0..<BLOCK]"

function send_loop :: "nat \<Rightarrow> int list \<Rightarrow> byte list \<Rightarrow> int option \<times> int list \<times> byte list" where
  "send_loop offset rs out =
     (if offset < PAYLOAD_BYTES then
        (case send_block (fill_block offset) 0 rs out of
           (Some r, rs', out') \<Rightarrow> if r < 0 then (Some (-1), rs', out') else send_loop (offset + BLOCK) rs' out'
         | (None, rs', out') \<Rightarrow> (None, rs', out'))
      else (Some 0, rs, out))"
  by pat_completeness auto
termination
  by (relation "measure (\<lambda>(offset, rs, out). PAYLOAD_BYTES - offset)") (auto simp: BLOCK_def)

declare send_loop.simps [simp del]

definition send_payload :: "int list \<Rightarrow> int option \<times> int list \<times> byte list" where
  "send_payload rs = send_loop 0 rs []"

text \<open>The accept loop: for each result of \<^verbatim>\<open>accept\<close> the send results of that connection; the output
  is what each client got, with the descriptors shut down and closed after it.\<close>

fun serve :: "(int \<times> int list) list \<Rightarrow> (int \<times> byte list \<times> bool) list" where
  "serve [] = []"
| "serve ((fd, rs) # conns) =
     (if fd < 0 then serve conns
      else case send_payload rs of
        (None, _, out) \<Rightarrow> [(fd, out, False)]
      | (Some _, _, out) \<Rightarrow> (fd, out, True) # serve conns)"

definition peer_tcp_main :: "int \<Rightarrow> int \<Rightarrow> (int \<times> int list) list \<Rightarrow> int option \<times> (int \<times> byte list \<times> bool) list" where
  "peer_tcp_main bind listen conns = (if bind \<noteq> 0 \<or> listen \<noteq> 0 then (Some 1, []) else (None, serve conns))"

section \<open>The client\<close>

record 's tcp_ops =
  op_connect :: "'s \<Rightarrow> int \<times> int \<times> 's"
  op_close :: "int \<Rightarrow> 's \<Rightarrow> 's"
  op_poll :: "int \<Rightarrow> 's \<Rightarrow> int \<times> 's"
  op_recv :: "int \<Rightarrow> nat \<Rightarrow> 's \<Rightarrow> (int + byte list) \<times> 's"
  op_access :: "string \<Rightarrow> 's \<Rightarrow> int \<times> 's"
  op_usleep :: "int \<Rightarrow> 's \<Rightarrow> 's"
  op_touch :: "string \<Rightarrow> 's \<Rightarrow> 's"

text \<open>\<open>op_connect\<close> gives the descriptor and the result of \<^verbatim>\<open>connect\<close> on it; \<open>op_recv\<close> an error number
  or the bytes stored, of which the buffer takes no more than were asked for.\<close>

definition connect_peer :: "'s tcp_ops \<Rightarrow> 's \<Rightarrow> int \<times> 's" where
  "connect_peer ops s =
     (case op_connect ops s of (fd, result, s') \<Rightarrow>
        if result \<noteq> 0 then (-1, op_close ops fd s') else (fd, s'))"

definition EBADMSG :: int where "EBADMSG = 74"
definition ETIMEDOUT :: int where "ETIMEDOUT = 110"

fun block_matches :: "byte list \<Rightarrow> nat \<Rightarrow> bool" where
  "block_matches [] offset = True"
| "block_matches (b # bs) offset = (b = payload_byte (of_nat offset) \<and> block_matches bs (Suc offset))"

function read_verified :: "'s tcp_ops \<Rightarrow> int \<Rightarrow> nat \<Rightarrow> nat \<Rightarrow> 's \<Rightarrow> int \<times> int \<times> 's" where
  "read_verified ops fd offset limit s =
     (if offset < limit then
        let want = (if limit - offset < BLOCK then limit - offset else BLOCK);
            (ready, s1) = op_poll ops fd s
        in if ready \<noteq> 1 then (-1, ETIMEDOUT, s1)
           else case op_recv ops fd want s1 of
             (Inl e, s2) \<Rightarrow> (-1, e, s2)
           | (Inr bytes, s2) \<Rightarrow>
               let block = take want bytes
               in if block = [] then (int offset, 0, s2)
                  else if \<not> block_matches block offset then (-1, EBADMSG, s2)
                  else read_verified ops fd (offset + length block) limit s2
      else (int offset, 0, s))"
  by pat_completeness auto
termination
  by (relation "measure (\<lambda>(ops, fd, offset, limit, s). limit - offset)")
    (auto simp: min_def neq_Nil_conv BLOCK_def)

declare read_verified.simps [simp del]

definition transfer_whole :: "'s tcp_ops \<Rightarrow> 's \<Rightarrow> int \<times> 's" where
  "transfer_whole ops s =
     (case connect_peer ops s of (fd, s1) \<Rightarrow>
        if fd < 0 then (-1, s1)
        else case read_verified ops fd 0 PAYLOAD_BYTES s1 of (got, _, s2) \<Rightarrow>
          (if got = int PAYLOAD_BYTES then 0 else -1, op_close ops fd s2))"

definition WAIT_LIMIT_MS :: nat where "WAIT_LIMIT_MS = 90000"

function wait_loop :: "'s tcp_ops \<Rightarrow> string \<Rightarrow> nat \<Rightarrow> 's \<Rightarrow> int \<times> 's" where
  "wait_loop ops path waited s =
     (if waited < WAIT_LIMIT_MS then
        (case op_access ops path s of (r, s1) \<Rightarrow>
           if r = 0 then (0, s1) else wait_loop ops path (waited + 100) (op_usleep ops 100000 s1))
      else (-1, s))"
  by pat_completeness auto
termination
  by (relation "measure (\<lambda>(ops, path, waited, s). WAIT_LIMIT_MS - waited)") auto

declare wait_loop.simps [simp del]

definition wait_for :: "'s tcp_ops \<Rightarrow> string \<Rightarrow> 's \<Rightarrow> int \<times> 's" where
  "wait_for ops path s = wait_loop ops path 0 s"

definition RESUME_FILE :: string where "RESUME_FILE = ''/run/dhcp-case/resume''"
definition HALFWAY_FILE :: string where "HALFWAY_FILE = ''/run/dhcp-case/halfway''"
definition DONE_FILE :: string where "DONE_FILE = ''/run/dhcp-case/tcp-done''"

text \<open>The end of a run: exit status, standard output, standard error, state.\<close>

definition finish :: "'s tcp_ops \<Rightarrow> string \<Rightarrow> string \<Rightarrow> 's \<Rightarrow> int \<times> string \<times> string \<times> 's" where
  "finish ops err result s = (0, result @ ''\<newline>'', err, op_touch ops DONE_FILE s)"

definition disrupted :: "'s tcp_ops \<Rightarrow> 's \<Rightarrow> int \<times> string \<times> string \<times> 's" where
  "disrupted ops s =
     (case connect_peer ops s of (fd, s1) \<Rightarrow>
      if fd < 0 then finish ops '''' ''failed connect'' s1
      else case read_verified ops fd 0 HALFWAY_BYTES s1 of (got, _, s2) \<Rightarrow>
      if got \<noteq> int HALFWAY_BYTES then finish ops '''' ''failed before_disruption'' s2
      else case wait_for ops RESUME_FILE (op_touch ops HALFWAY_FILE s2) of (w, s3) \<Rightarrow>
      if w \<noteq> 0 then finish ops '''' ''failed no_resume'' s3
      else case read_verified ops fd HALFWAY_BYTES PAYLOAD_BYTES s3 of (got, e, s4) \<Rightarrow>
      let s5 = op_close ops fd s4
      in if got = int PAYLOAD_BYTES then
           finish ops ''DHCP_DETAIL tcp the connection survived\<newline>'' ''recovered'' s5
         else
           (case transfer_whole ops s5 of (r, s6) \<Rightarrow>
              finish ops (''DHCP_DETAIL tcp the connection failed with errno '' @ decimal e @ ''\<newline>'')
                (if r \<noteq> 0 then ''failed reconnect'' else ''recovered'') s6))"

definition tcp_client_main :: "'s tcp_ops \<Rightarrow> string list \<Rightarrow> 's \<Rightarrow> int \<times> string \<times> string \<times> 's" where
  "tcp_client_main ops argv s =
     (if length argv = 2 \<and> argv ! 1 = ''transfer'' then
        (case transfer_whole ops s of (r, s1) \<Rightarrow> (0, (if r \<noteq> 0 then ''failed'' else ''ok'') @ ''\<newline>'', '''', s1))
      else if length argv \<noteq> 2 \<or> argv ! 1 \<noteq> ''disrupted'' then
        (2, '''', ''usage: tcp-client transfer|disrupted\<newline>'', s)
      else disrupted ops s)"

end
