(* ===== verification/TcpSpec.thy ===== *)
theory TcpSpec
  imports TcpTransfer
begin

text \<open>
  What the TCP programs promise: whatever the pieces in which the network takes and delivers
  bytes, the server offers exactly the pattern and the client accepts exactly the pattern.
\<close>

section \<open>The server sends the pattern\<close>

definition payload_part :: "nat \<Rightarrow> nat \<Rightarrow> byte list" where
  "payload_part offset limit = map (\<lambda>i. payload_byte (of_nat i)) [offset..<limit]"

lemma length_payload_part [simp]: "length (payload_part a b) = b - a"
  by (simp add: payload_part_def)

lemma payload_part_append: "a \<le> b \<Longrightarrow> b \<le> c \<Longrightarrow> payload_part a b @ payload_part b c = payload_part a c"
  unfolding payload_part_def by (metis le_add_diff_inverse map_append upt_add_eq_append)

lemma take_payload_part: "take n (payload_part a b) = payload_part a (min b (a + n))"
  by (simp add: payload_part_def take_map take_upt min_def)

lemma drop_payload_part: "drop n (payload_part a b) = payload_part (a + n) b"
  by (simp add: payload_part_def drop_map)

lemma fill_block_part: "fill_block offset = payload_part offset (offset + BLOCK)"
  by (rule nth_equalityI) (simp_all add: fill_block_def payload_part_def)

lemma send_block_out:
  assumes "done \<le> length block"
  shows "\<exists>m. snd (snd (send_block block done rs out)) = out @ take m (drop done block) \<and>
           (fst (send_block block done rs out) = Some 0 \<longrightarrow> take m (drop done block) = drop done block) \<and>
           fst (send_block block done rs out) \<in> {None, Some 0, Some (-1)}"
  using assms
proof (induction block "done" rs out rule: send_block.induct)
  case (1 block don rs out)
  show ?case
  proof (cases "don < length block \<and> rs \<noteq> [] \<and> 0 \<le> hd rs")
    case True
    then obtain sent rs' where rs: "rs = sent # rs'" "0 \<le> sent"
      by (cases rs) auto
    have step: "send_block block don rs out =
        send_block block (don + nat sent) rs' (out @ take (nat sent) (drop don block))"
      using True rs by (subst send_block.simps) simp
    show ?thesis
    proof (cases "don + nat sent \<le> length block")
      case fits: True
      obtain m where m: "snd (snd (send_block block (don + nat sent) rs' (out @ take (nat sent) (drop don block))))
            = (out @ take (nat sent) (drop don block)) @ take m (drop (don + nat sent) block)"
          "fst (send_block block (don + nat sent) rs' (out @ take (nat sent) (drop don block))) = Some 0 \<longrightarrow>
            take m (drop (don + nat sent) block) = drop (don + nat sent) block"
          "fst (send_block block (don + nat sent) rs' (out @ take (nat sent) (drop don block)))
            \<in> {None, Some 0, Some (-1)}"
        using 1(1) [of sent rs'] True rs fits by auto
      have "take (nat sent) (drop don block) @ take m (drop (don + nat sent) block)
          = take (nat sent + m) (drop don block)"
        by (simp only: take_add drop_drop add.commute [of "nat sent" don])
      moreover have "take (nat sent) (drop don block) @ drop (don + nat sent) block = drop don block"
        by (metis append_take_drop_id drop_drop add.commute)
      ultimately show ?thesis
        unfolding step using m by (intro exI [of _ "nat sent + m"]) auto
    next
      case False
      then have "send_block block (don + nat sent) rs' (out @ take (nat sent) (drop don block))
          = (Some 0, rs', out @ take (nat sent) (drop don block))"
        by (subst send_block.simps) simp
      then show ?thesis
        unfolding step using False by (intro exI [of _ "nat sent"]) simp
    qed
  next
    case False
    then have "(\<exists>rs'. send_block block don rs out = (None, rs', out)) \<or>
        (\<exists>rs'. send_block block don rs out = (Some (-1), rs', out)) \<or>
        don = length block \<and> send_block block don rs out = (Some 0, rs, out)"
      using 1(2) send_block.simps [of block don rs out] by (cases rs) (auto split: if_splits)
    then show ?thesis
      by (elim disjE exE conjE) (auto intro: exI [of _ 0])
  qed
qed

lemma send_loop_end: "\<not> offset < PAYLOAD_BYTES \<Longrightarrow> send_loop offset rs out = (Some 0, rs, out)"
  by (subst send_loop.simps) simp

lemma send_loop_more:
  "offset < PAYLOAD_BYTES \<Longrightarrow> send_block (fill_block offset) 0 rs out = (Some 0, rs', out') \<Longrightarrow>
   send_loop offset rs out = send_loop (offset + BLOCK) rs' out'"
  by (subst send_loop.simps) simp

lemma send_loop_stop:
  "offset < PAYLOAD_BYTES \<Longrightarrow> send_block (fill_block offset) 0 rs out = (st, rs', out') \<Longrightarrow>
   st \<in> {None, Some (-1)} \<Longrightarrow> send_loop offset rs out = (st, rs', out')"
  by (subst send_loop.simps) auto

lemma next_block:
  assumes "offset mod BLOCK = 0" and "offset < PAYLOAD_BYTES"
  shows "offset + BLOCK \<le> PAYLOAD_BYTES"
proof -
  obtain q where q: "offset = BLOCK * q"
    using assms(1) by auto
  have p: "PAYLOAD_BYTES = BLOCK * 256"
    by (simp add: PAYLOAD_BYTES_def BLOCK_def)
  have "BLOCK * q < BLOCK * 256"
    using assms(2) unfolding q p .
  then have "Suc q \<le> 256"
    by simp
  then show ?thesis
    unfolding q p using mult_le_mono2 [of "Suc q" 256 BLOCK] by simp
qed

lemma send_loop_out:
  assumes "offset mod BLOCK = 0" and "offset \<le> PAYLOAD_BYTES" and "out = payload_part 0 offset"
  shows "\<exists>n \<le> PAYLOAD_BYTES. snd (snd (send_loop offset rs out)) = payload_part 0 n \<and>
           (fst (send_loop offset rs out) = Some 0 \<longrightarrow> n = PAYLOAD_BYTES)"
  using assms
proof (induction "PAYLOAD_BYTES - offset" arbitrary: offset rs out rule: less_induct)
  case less
  show ?case
  proof (cases "offset < PAYLOAD_BYTES")
    case True
    have next': "offset + BLOCK \<le> PAYLOAD_BYTES" "(offset + BLOCK) mod BLOCK = 0"
      using next_block [OF less(2) True] less(2) by simp_all
    obtain st rs' out' where sb: "send_block (fill_block offset) 0 rs out = (st, rs', out')"
      by (cases "send_block (fill_block offset) 0 rs out")
    obtain m where m: "out' = out @ take m (fill_block offset)" "st = Some 0 \<longrightarrow> take m (fill_block offset) = fill_block offset"
      "st \<in> {None, Some 0, Some (-1)}"
      using send_block_out [of 0 "fill_block offset" rs out] sb by auto
    show ?thesis
    proof (cases "st = Some 0")
      case ok: True
      have "PAYLOAD_BYTES - (offset + BLOCK) < PAYLOAD_BYTES - offset"
        using True by (simp add: BLOCK_def)
      moreover have "out' = payload_part 0 (offset + BLOCK)"
        using ok m(1,2) less(4) by (simp add: fill_block_part payload_part_append)
      ultimately show ?thesis
        using less(1) next' send_loop_more [OF True sb [unfolded ok]] by simp
    next
      case False
      then have "send_loop offset rs out = (st, rs', out')"
        using m(3) send_loop_stop [OF True sb] by auto
      moreover have "out' = payload_part 0 (min (offset + BLOCK) (offset + m))"
        using m(1) less(4) by (simp add: fill_block_part take_payload_part payload_part_append)
      ultimately show ?thesis
        using next' False by (intro exI [of _ "min (offset + BLOCK) (offset + m)"]) simp
    qed
  next
    case False
    then show ?thesis
      using less(3,4) send_loop_end [OF False] by auto
  qed
qed

text \<open>C18: The server offers the pattern. Whatever pieces \<^verbatim>\<open>send\<close> accepts, what has gone out on a
  connection is always a beginning of the pattern, and it is the whole mebibyte when
  \<^verbatim>\<open>send_payload\<close> reports success.\<close>

theorem send_payload_pattern:
  "\<exists>n \<le> PAYLOAD_BYTES. snd (snd (send_payload rs)) = payload_part 0 n \<and>
     (fst (send_payload rs) = Some 0 \<longrightarrow> n = PAYLOAD_BYTES)"
  using send_loop_out [of 0 "[]" rs] by (simp add: send_payload_def payload_part_def)

section \<open>The client accepts the pattern\<close>

text \<open>What the client relies on from a connection: \<open>rest s\<close> is what the peer will still deliver on
  descriptor \<open>fd\<close>. A poll finds it ready, and a receive takes a beginning of it, of at most the
  size asked for, and nothing only at the end.\<close>

definition reliable :: "'s tcp_ops \<Rightarrow> int \<Rightarrow> ('s \<Rightarrow> byte list) \<Rightarrow> bool" where
  "reliable ops fd rest \<longleftrightarrow>
     (\<forall>s. fst (op_poll ops fd s) = 1 \<and> rest (snd (op_poll ops fd s)) = rest s \<and>
       (\<forall>want > 0. \<exists>n. op_recv ops fd want s = (Inr (take n (rest s)), snd (op_recv ops fd want s)) \<and>
          0 < n \<and> n \<le> want \<and> rest (snd (op_recv ops fd want s)) = drop n (rest s)))"

lemma block_matches_part: "block_matches bs offset \<longleftrightarrow> bs = payload_part offset (offset + length bs)"
proof (induction bs arbitrary: offset)
  case (Cons b bs)
  have "payload_part offset (offset + length (b # bs)) =
      payload_byte (of_nat offset) # payload_part (Suc offset) (Suc offset + length bs)"
    by (simp add: payload_part_def upt_rec [of offset] del: upt_Suc)
  then show ?case
    using Cons by simp
qed (simp add: payload_part_def)

text \<open>The verdict of a read from \<open>offset\<close> to \<open>limit\<close> on the bytes \<open>bs\<close>.\<close>

definition verdict :: "nat \<Rightarrow> nat \<Rightarrow> byte list \<Rightarrow> int \<times> int" where
  "verdict offset limit bs =
     (let seen = take (limit - offset) bs
      in if block_matches seen offset then (int (offset + length seen), 0) else (-1, EBADMSG))"

lemma block_matches_append:
  "block_matches (xs @ ys) offset \<longleftrightarrow> block_matches xs offset \<and> block_matches ys (offset + length xs)"
  by (induction xs arbitrary: offset) auto

lemma verdict_step:
  assumes "0 < n" and "n \<le> limit - offset" and "n \<le> length bs"
  shows "verdict offset limit bs =
    (if block_matches (take n bs) offset then verdict (offset + n) limit (drop n bs) else (-1, EBADMSG))"
proof -
  have "take (limit - offset) bs = take n bs @ take (limit - (offset + n)) (drop n bs)"
    using assms by (metis add_diff_inverse_nat diff_diff_left not_less take_add)
  then show ?thesis
    using assms by (auto simp: verdict_def Let_def block_matches_append)
qed

lemma read_verified_verdict:
  assumes "reliable ops fd rest" and "offset \<le> limit"
  shows "\<exists>s'. read_verified ops fd offset limit s = (fst (verdict offset limit (rest s)), snd (verdict offset limit (rest s)), s') \<and>
           (snd (verdict offset limit (rest s)) = 0 \<longrightarrow> rest s' = drop (limit - offset) (rest s))"
  using assms(2)
proof (induction "limit - offset" arbitrary: offset s rule: less_induct)
  case less
  show ?case
  proof (cases "offset < limit")
    case True
    define want where "want = (if limit - offset < BLOCK then limit - offset else BLOCK)"
    have want: "0 < want" "want \<le> limit - offset"
      using True by (auto simp: want_def BLOCK_def)
    obtain s1 where s1: "op_poll ops fd s = (1, s1)" "rest s1 = rest s"
      using assms(1) unfolding reliable_def by (metis prod.collapse)
    obtain n s2 where n: "op_recv ops fd want s1 = (Inr (take n (rest s)), s2)" "0 < n" "n \<le> want"
      "rest s2 = drop n (rest s)"
      using assms(1) want(1) s1(2) unfolding reliable_def by metis
    define k where "k = length (take n (rest s))"
    have step: "read_verified ops fd offset limit s =
       (if take n (rest s) = [] then (int offset, 0, s2)
        else if \<not> block_matches (take n (rest s)) offset then (-1, EBADMSG, s2)
        else read_verified ops fd (offset + k) limit s2)"
      using True n s1(1) by (subst read_verified.simps) (simp add: Let_def want_def [symmetric] k_def min_def)
    show ?thesis
    proof (cases "rest s = []")
      case True
      then show ?thesis
        using step n(4) by (simp add: verdict_def)
    next
      case False
      have k: "0 < k" "k \<le> limit - offset" "k \<le> length (rest s)" "take n (rest s) = take k (rest s)"
        "rest s2 = drop k (rest s)"
        using False n want by (auto simp: k_def min_def)
      show ?thesis
      proof (cases "block_matches (take k (rest s)) offset")
        case True
        have "\<exists>s'. read_verified ops fd (offset + k) limit s2 =
            (fst (verdict (offset + k) limit (rest s2)), snd (verdict (offset + k) limit (rest s2)), s') \<and>
            (snd (verdict (offset + k) limit (rest s2)) = 0 \<longrightarrow> rest s' = drop (limit - (offset + k)) (rest s2))"
          using k less.prems \<open>offset < limit\<close> by (intro less.hyps) auto
        then show ?thesis
          using step k True False verdict_step [OF k(1-3)] by simp
      next
        case False
        then show ?thesis
          using step k verdict_step [OF k(1-3)] \<open>rest s \<noteq> []\<close> by (simp add: EBADMSG_def)
      qed
    qed
  next
    case False
    then show ?thesis
      using less.prems by (subst read_verified.simps) (simp add: verdict_def)
  qed
qed

text \<open>C17: \<^verbatim>\<open>read_verified\<close> is exact. On a reliable connection, in whatever pieces it delivers, a read
  from \<open>offset\<close> to \<open>limit\<close> returns how far it got with no error if the bytes it saw are the
  pattern from that offset on, and \<open>-1\<close> with \<^verbatim>\<open>EBADMSG\<close> if any of them is not; it consumes no byte
  past the limit.\<close>

theorem read_verified_exact:
  assumes "reliable ops fd rest" and "offset \<le> limit"
  shows "\<exists>got e s'. read_verified ops fd offset limit s = (got, e, s') \<and>
    (if take (limit - offset) (rest s) = payload_part offset (offset + min (limit - offset) (length (rest s)))
     then got = int (offset + min (limit - offset) (length (rest s))) \<and> e = 0 \<and> rest s' = drop (limit - offset) (rest s)
     else got = -1 \<and> e = EBADMSG)"
  using read_verified_verdict [OF assms, of s]
  by (auto simp: verdict_def Let_def block_matches_part min.commute split: if_splits)

lemma transfer_whole_result:
  assumes "op_connect ops s = (fd, 0, s1)" and "0 \<le> fd" and "reliable ops fd rest"
  shows "fst (transfer_whole ops s) =
    (if take PAYLOAD_BYTES (rest s1) = payload_part 0 PAYLOAD_BYTES then 0 else -1)"
proof -
  obtain s' where r: "read_verified ops fd 0 PAYLOAD_BYTES s1 =
      (fst (verdict 0 PAYLOAD_BYTES (rest s1)), snd (verdict 0 PAYLOAD_BYTES (rest s1)), s')"
    using read_verified_verdict [OF assms(3), of 0 PAYLOAD_BYTES s1] by auto
  have "fst (verdict 0 PAYLOAD_BYTES (rest s1)) = int PAYLOAD_BYTES \<longleftrightarrow>
      take PAYLOAD_BYTES (rest s1) = payload_part 0 PAYLOAD_BYTES"
  proof (cases "PAYLOAD_BYTES \<le> length (rest s1)")
    case True
    then show ?thesis
      by (simp add: verdict_def Let_def block_matches_part)
  next
    case False
    then have "take PAYLOAD_BYTES (rest s1) \<noteq> payload_part 0 PAYLOAD_BYTES"
      by (metis length_payload_part length_take minus_nat.diff_0 min.cobounded1)
    then show ?thesis
      using False by (auto simp: verdict_def Let_def)
  qed
  then show ?thesis
    using assms(1,2) r by (simp add: transfer_whole_def connect_peer_def)
qed

text \<open>C16: End to end. If the server's \<^verbatim>\<open>send_payload\<close> succeeded and the client's connection delivers what it
  sent, in any pieces on both sides, then \<^verbatim>\<open>tcp-client transfer\<close> prints \<^verbatim>\<open>ok\<close>; and it prints \<^verbatim>\<open>failed\<close>
  when the first mebibyte delivered differs in any byte or is incomplete.\<close>

theorem transfer_end_to_end:
  assumes "op_connect ops s = (fd, 0, s1)" and "0 \<le> fd" and "reliable ops fd rest"
  shows "(fst (send_payload rs) = Some 0 \<and> rest s1 = snd (snd (send_payload rs)) \<longrightarrow>
           fst (snd (tcp_client_main ops [prog, ''transfer''] s)) = ''ok\<newline>'') \<and>
         (take PAYLOAD_BYTES (rest s1) \<noteq> payload_part 0 PAYLOAD_BYTES \<longrightarrow>
           fst (snd (tcp_client_main ops [prog, ''transfer''] s)) = ''failed\<newline>'')"
proof -
  have main: "fst (snd (tcp_client_main ops [prog, ''transfer''] s)) =
      (if fst (transfer_whole ops s) \<noteq> 0 then ''failed\<newline>'' else ''ok\<newline>'')"
    by (simp add: tcp_client_main_def split: prod.split)
  obtain n where n: "snd (snd (send_payload rs)) = payload_part 0 n"
    "fst (send_payload rs) = Some 0 \<longrightarrow> n = PAYLOAD_BYTES"
    using send_loop_out [of 0 "[]" rs] by (auto simp: send_payload_def payload_part_def)
  show ?thesis
    unfolding main transfer_whole_result [OF assms] using n by (auto simp: take_payload_part)
qed

section \<open>Waiting\<close>

definition after_try :: "'s tcp_ops \<Rightarrow> string \<Rightarrow> 's \<Rightarrow> 's" where
  "after_try ops path s = op_usleep ops 100000 (snd (op_access ops path s))"

lemma wait_loop_result:
  "waited \<le> WAIT_LIMIT_MS \<Longrightarrow> 100 dvd WAIT_LIMIT_MS - waited \<Longrightarrow>
   fst (wait_loop ops path waited s) =
     (if \<exists>n < (WAIT_LIMIT_MS - waited) div 100. fst (op_access ops path ((after_try ops path ^^ n) s)) = 0 then 0 else -1)"
proof (induction "WAIT_LIMIT_MS - waited" arbitrary: waited s rule: less_induct)
  case less
  show ?case
  proof (cases "waited < WAIT_LIMIT_MS")
    case True
    define k where "k = (WAIT_LIMIT_MS - (waited + 100)) div 100"
    obtain j where j: "WAIT_LIMIT_MS - waited = 100 * j"
      using less.prems(2) by (elim dvdE)
    with True obtain i where i: "WAIT_LIMIT_MS - waited = 100 * Suc i"
      by (cases j) auto
    then have "WAIT_LIMIT_MS - (waited + 100) = 100 * i"
      by simp
    then have step: "waited + 100 \<le> WAIT_LIMIT_MS" "100 dvd WAIT_LIMIT_MS - (waited + 100)"
      and k: "(WAIT_LIMIT_MS - waited) div 100 = Suc k"
      using i by (simp_all add: k_def)
    have IH: "fst (wait_loop ops path (waited + 100) (after_try ops path s)) =
      (if \<exists>n < k. fst (op_access ops path ((after_try ops path ^^ Suc n) s)) = 0 then 0 else -1)"
      using less.hyps [OF _ step] True by (simp add: k_def funpow_swap1)
    have unroll: "fst (wait_loop ops path waited s) =
        (if fst (op_access ops path s) = 0 then 0 else fst (wait_loop ops path (waited + 100) (after_try ops path s)))"
      using True by (subst wait_loop.simps) (simp add: after_try_def split: prod.split)
    have "(\<exists>n < Suc k. fst (op_access ops path ((after_try ops path ^^ n) s)) = 0) \<longleftrightarrow>
        fst (op_access ops path s) = 0 \<or> (\<exists>n < k. fst (op_access ops path ((after_try ops path ^^ Suc n) s)) = 0)"
      by (metis funpow_0 less_Suc_eq_0_disj)
    then show ?thesis
      unfolding unroll k IH by simp
  next
    case False
    then show ?thesis
      using less.prems by (subst wait_loop.simps) simp
  qed
qed

text \<open>C20: \<^verbatim>\<open>wait_for\<close> looks for the file at most 900 times, once every tenth of a second, and returns 0
  exactly if one of these looks finds it.\<close>

theorem wait_for_900:
  "fst (wait_for ops path s) =
     (if \<exists>n < 900. fst (op_access ops path ((after_try ops path ^^ n) s)) = 0 then 0 else -1)"
  using wait_loop_result [of 0 ops path s] by (simp add: wait_for_def WAIT_LIMIT_MS_def)

text \<open>C19: A disrupted transfer recovers. If the connection is reliable and delivers the pattern, and
  the resume file appears while the client waits, the client reports that the connection survived;
  it has left the marker of the half-way point before it waits, and the marker of the end.\<close>

theorem disrupted_survives:
  assumes "op_connect ops s = (fd, 0, s1)" and "0 \<le> fd" and "reliable ops fd rest"
    and "rest s1 = payload_part 0 PAYLOAD_BYTES"
    and "\<And>path t. rest (op_touch ops path t) = rest t"
    and "\<And>t. rest (snd (wait_for ops RESUME_FILE t)) = rest t"
    and "\<And>t. fst (wait_for ops RESUME_FILE (op_touch ops HALFWAY_FILE t)) = 0"
  shows "\<exists>t. tcp_client_main ops [prog, ''disrupted''] s =
    (0, ''recovered\<newline>'', ''DHCP_DETAIL tcp the connection survived\<newline>'', op_touch ops DONE_FILE t)"
proof -
  have half: "HALFWAY_BYTES \<le> PAYLOAD_BYTES"
    by (simp add: HALFWAY_BYTES_def PAYLOAD_BYTES_def)
  have v1: "verdict 0 HALFWAY_BYTES (rest s1) = (int HALFWAY_BYTES, 0)"
    using half assms(4) by (simp add: verdict_def Let_def take_payload_part block_matches_part)
  then obtain s2 where s2: "read_verified ops fd 0 HALFWAY_BYTES s1 = (int HALFWAY_BYTES, 0, s2)"
    "rest s2 = payload_part HALFWAY_BYTES PAYLOAD_BYTES"
    using read_verified_verdict [OF assms(3), of 0 HALFWAY_BYTES s1] assms(4) by (auto simp: drop_payload_part)
  obtain s3 where s3: "wait_for ops RESUME_FILE (op_touch ops HALFWAY_FILE s2) = (0, s3)"
    "rest s3 = payload_part HALFWAY_BYTES PAYLOAD_BYTES"
    using assms(5-7) s2(2) by (metis prod.collapse)
  have v2: "verdict HALFWAY_BYTES PAYLOAD_BYTES (rest s3) = (int PAYLOAD_BYTES, 0)"
    using half s3(2) by (simp add: verdict_def Let_def take_payload_part block_matches_part)
  then obtain s4 where "read_verified ops fd HALFWAY_BYTES PAYLOAD_BYTES s3 = (int PAYLOAD_BYTES, 0, s4)"
    using read_verified_verdict [OF assms(3) half, of s3] by auto
  then show ?thesis
    using assms(1,2) s2(1) s3(1)
    by (intro exI [of _ "op_close ops fd s4"])
      (simp add: tcp_client_main_def disrupted_def connect_peer_def finish_def Let_def)
qed

section \<open>A concrete network\<close>

text \<open>The state is what the peer will still deliver, in pieces of at most 1000 bytes, and the number of
  looks until the resume file is there.\<close>

definition sample_net :: "(byte list \<times> nat) tcp_ops" where
  "sample_net =
     \<lparr>op_connect = (\<lambda>s. (3, 0, s)), op_close = (\<lambda>fd s. s), op_poll = (\<lambda>fd s. (1, s)),
      op_recv = (\<lambda>fd want (bs, n). (Inr (take (min want 1000) bs), (drop (min want 1000) bs, n))),
      op_access = (\<lambda>path (bs, n). (if n = 0 then 0 else -1, (bs, n))),
      op_usleep = (\<lambda>us (bs, n). (bs, n - 1)), op_touch = (\<lambda>path s. s)\<rparr>"

lemma sample_net_reliable: "reliable sample_net fd fst"
  unfolding reliable_def
proof (intro allI conjI impI)
  fix s :: "byte list \<times> nat" and want :: nat
  assume "0 < want"
  then show "\<exists>n. op_recv sample_net fd want s =
      (Inr (take n (fst s)), snd (op_recv sample_net fd want s)) \<and> 0 < n \<and> n \<le> want \<and>
      fst (snd (op_recv sample_net fd want s)) = drop n (fst s)"
    by (intro exI [of _ "min want 1000"]) (simp add: sample_net_def split: prod.split)
qed (simp_all add: sample_net_def)

theorem send_payload_pattern_witness:
  "\<exists>n \<le> PAYLOAD_BYTES. snd (snd (send_payload [3, 0, -1])) = payload_part 0 n"
  using send_payload_pattern [of "[3, 0, -1]"] by blast

theorem read_verified_exact_witness:
  "\<exists>s'. read_verified sample_net 3 5 8 (payload_part 5 8 @ [0], 0) = (8, 0, s') \<and> fst s' = [0]"
  using read_verified_exact [OF sample_net_reliable, of 5 8 3 "(payload_part 5 8 @ [0], 0)"] by simp

theorem wait_for_900_witness: "fst (wait_for sample_net RESUME_FILE ([], 2)) = 0"
proof -
  have "fst (op_access sample_net RESUME_FILE ((after_try sample_net RESUME_FILE ^^ 2) ([], 2))) = 0"
    by (simp add: numeral_2_eq_2 after_try_def sample_net_def)
  moreover have "(2 :: nat) < 900"
    by simp
  ultimately show ?thesis
    unfolding wait_for_900 by (metis (mono_tags, lifting))
qed

text \<open>A server whose every \<^verbatim>\<open>send\<close> takes the whole block.\<close>

lemma send_whole_block: "send_block (fill_block offset) 0 (4096 # rs) out = (Some 0, rs, out @ fill_block offset)"
proof -
  have len: "length (fill_block offset) = 4096"
    by (simp add: fill_block_def BLOCK_def)
  show ?thesis
    by (subst send_block.simps) (simp add: len, subst send_block.simps, simp add: len)
qed

lemma send_whole_loop:
  "offset + BLOCK * k = PAYLOAD_BYTES \<Longrightarrow> fst (send_loop offset (replicate k 4096) out) = Some 0"
proof (induction k arbitrary: offset out)
  case (Suc k)
  then have "offset < PAYLOAD_BYTES"
    by (simp add: BLOCK_def)
  then show ?case
    using send_loop_more [OF _ send_whole_block, of offset "replicate k 4096" out] Suc by simp
qed (simp add: send_loop_end)

theorem transfer_end_to_end_witness:
  "fst (send_payload (replicate 256 4096)) = Some 0 \<and>
   fst (snd (tcp_client_main sample_net [''tcp-client'', ''transfer'']
     (snd (snd (send_payload (replicate 256 4096))), 0))) = ''ok\<newline>''"
proof -
  have sent: "fst (send_payload (replicate 256 4096)) = Some 0"
    unfolding send_payload_def by (rule send_whole_loop) (simp add: BLOCK_def PAYLOAD_BYTES_def)
  have "op_connect sample_net (bs, 0) = (3, 0, (bs, 0))" for bs
    by (simp add: sample_net_def)
  then show ?thesis
    using transfer_end_to_end [OF _ _ sample_net_reliable] sent by simp
qed

definition ready_net :: "(byte list \<times> nat) tcp_ops" where
  "ready_net = sample_net\<lparr>op_access := (\<lambda>path s. (0, s))\<rparr>"

theorem disrupted_survives_witness:
  "\<exists>t. tcp_client_main ready_net [''tcp-client'', ''disrupted''] (payload_part 0 PAYLOAD_BYTES, 0) =
    (0, ''recovered\<newline>'', ''DHCP_DETAIL tcp the connection survived\<newline>'', op_touch ready_net DONE_FILE t)"
proof (rule disrupted_survives)
  show "op_connect ready_net (payload_part 0 PAYLOAD_BYTES, 0) = (3, 0, (payload_part 0 PAYLOAD_BYTES, 0))"
    by (simp add: ready_net_def sample_net_def)
  show "reliable ready_net 3 fst"
    using sample_net_reliable by (simp add: reliable_def ready_net_def)
  have wait: "wait_for ready_net RESUME_FILE t = (0, t)" for t
    unfolding wait_for_def by (subst wait_loop.simps) (simp add: ready_net_def WAIT_LIMIT_MS_def)
  show "fst (snd (wait_for ready_net RESUME_FILE t)) = fst t" for t
    by (simp add: wait)
  show "fst (wait_for ready_net RESUME_FILE (op_touch ready_net HALFWAY_FILE t)) = 0" for t
    by (simp add: wait)
qed (simp_all add: ready_net_def sample_net_def)

end
