(* ===== verification/DeviceProbe.thy ===== *)
theory DeviceProbe
  imports CLib
begin

text \<open>
  The device probe \<^verbatim>\<open>src/guest/asterinas/device/device-probe.c\<close>: it checks that a device's entries
  under \<^verbatim>\<open>/sys\<close> and \<^verbatim>\<open>/dev\<close> agree (\<open>check_sysfs\<close>), and that the kernel announces it with a
  well-formed event of increasing sequence number (\<open>check_event\<close>). The file system is the parameter
  \<open>fs\<close>, a snapshot for the time of one check; the results of the socket calls are inputs. Each
  check yields the text it prints and its status; \<open>None\<close> is a null pointer dereference.
\<close>

definition PATH_BUFFER :: nat where "PATH_BUFFER = 2 * 4096"

record filesystem =
  fs_lstat :: "string \<Rightarrow> bool option"
  fs_realpath :: "string \<Rightarrow> string option"
  fs_read :: "string \<Rightarrow> string option"
  fs_rdev :: "string \<Rightarrow> (u32 \<times> u32) option"
  fs_access :: "string \<Rightarrow> bool"

text \<open>\<open>fs_lstat\<close> says of an existing path whether it is a symbolic link; \<open>fs_rdev\<close> is the major and minor
  number in the result of \<^verbatim>\<open>stat\<close>.\<close>

definition class_names :: "string list" where
  "class_names = [''block'', ''mem'']"

definition fail_text :: "string \<Rightarrow> string \<Rightarrow> string" where
  "fail_text name what = ''DEV_FAILED name='' @ name @ '' '' @ what @ ''\<newline>''"

text \<open>A C string starts at its pointer and ends before the first NUL.\<close>

definition cstring :: "string \<Rightarrow> string" where
  "cstring s = takeWhile (\<lambda>c. c \<noteq> CHR 0x00) s"

definition read_text :: "filesystem \<Rightarrow> string \<Rightarrow> nat \<Rightarrow> string option" where
  "read_text fs path bound = (case fs_read fs path of None \<Rightarrow> None | Some text \<Rightarrow> Some (take (bound - 1) text))"

section \<open>Device paths\<close>

text \<open>\<^verbatim>\<open>strchr(path + 1, '/')\<close>, \<open>count\<close> times. The path is not empty: it is the device path, which
  starts with its prefix, or what \<^verbatim>\<open>strchr\<close> found, which starts with a slash.\<close>

fun skip_components :: "string \<Rightarrow> nat \<Rightarrow> string" where
  "skip_components path 0 = path"
| "skip_components path (Suc count) =
     (case dropWhile (\<lambda>c. c \<noteq> CHR ''/'') (tl path) of [] \<Rightarrow> [] | c # cs \<Rightarrow> skip_components (c # cs) count)"

definition normalize_devpath :: "string \<Rightarrow> nat \<Rightarrow> string" where
  "normalize_devpath devpath bound =
     (if strncmp_eq devpath ''/devices/pci0000:'' 16 then
        snprintf bound (''/devices/<transport>'' @ skip_components devpath 3)
      else if strncmp_eq devpath ''/devices/virtio-mmio-cmdline/'' 29 then
        snprintf bound (''/devices/<transport>'' @ skip_components devpath 3)
      else snprintf bound devpath)"

fun find_class_in :: "filesystem \<Rightarrow> string \<Rightarrow> string list \<Rightarrow> (string \<times> string) option" where
  "find_class_in fs name [] = None"
| "find_class_in fs name (c # cs) =
     (let class_path = snprintf PATH_BUFFER (''/sys/class/'' @ c @ ''/'' @ name)
      in if fs_lstat fs class_path \<noteq> None then Some (class_path, c) else find_class_in fs name cs)"

definition find_class :: "filesystem \<Rightarrow> string \<Rightarrow> (string \<times> string) option" where
  "find_class fs name = find_class_in fs name class_names"

definition resolve_devpath :: "filesystem \<Rightarrow> string \<Rightarrow> string option" where
  "resolve_devpath fs class_path =
     (case fs_realpath fs class_path of
        None \<Rightarrow> None
      | Some real \<Rightarrow> if \<not> strncmp_eq real ''/sys/'' 5 then None else Some (snprintf PATH_BUFFER (drop 4 real)))"

definition same_object :: "filesystem \<Rightarrow> string \<Rightarrow> string \<Rightarrow> bool" where
  "same_object fs a b =
     (case (fs_realpath fs a, fs_realpath fs b) of (Some ra, Some rb) \<Rightarrow> ra = rb | _ \<Rightarrow> False)"

definition check_link_target :: "filesystem \<Rightarrow> string \<Rightarrow> string \<Rightarrow> bool" where
  "check_link_target fs link target = same_object fs link target"

section \<open>The sysfs check\<close>

definition to_unsigned :: "int \<Rightarrow> u32" where
  "to_unsigned i = (if 2 ^ 64 \<le> \<bar>i\<bar> then - 1 else word_of_int i)"

text \<open>\<^verbatim>\<open>sscanf(text, "%u:%u", ...) == 2\<close>.\<close>

definition scan_device_number :: "string \<Rightarrow> (u32 \<times> u32) option" where
  "scan_device_number text =
     (case scan_int text of
        None \<Rightarrow> None
      | Some (major_number, rest) \<Rightarrow>
          if rest = [] \<or> hd rest \<noteq> CHR '':'' then None
          else (case scan_int (tl rest) of
                  None \<Rightarrow> None
                | Some (minor_number, _) \<Rightarrow> Some (to_unsigned major_number, to_unsigned minor_number)))"

text \<open>\<open>up_to_slash s\<close> cuts a string at its last slash, as \<^verbatim>\<open>slash = strrchr(s, '/'); *slash = 0\<close> does;
  \<open>after_slash\<close> is \<^verbatim>\<open>strrchr(s, '/') + 1\<close>. Without a slash the pointer is null.\<close>

definition up_to_slash :: "string \<Rightarrow> string option" where
  "up_to_slash s =
     (case dropWhile (\<lambda>c. c \<noteq> CHR ''/'') (rev s) of [] \<Rightarrow> None | _ # cs \<Rightarrow> Some (rev cs))"

definition after_slash :: "string \<Rightarrow> string option" where
  "after_slash s = (if CHR ''/'' \<in> set s then Some (rev (takeWhile (\<lambda>c. c \<noteq> CHR ''/'') (rev s))) else None)"

text \<open>The part for block devices: the text printed, and the status if the check ends here.\<close>

definition check_parent :: "filesystem \<Rightarrow> string \<Rightarrow> string \<Rightarrow> string \<Rightarrow> string \<times> int option option" where
  "check_parent fs name devpath sysdir =
     (let kind = ''DEV_KIND name='' @ name @ '' partition='' @
            (if fs_access fs (snprintf PATH_BUFFER (sysdir @ ''/partition'')) then ''yes'' else ''no'') @ ''\<newline>''
      in case up_to_slash (snprintf PATH_BUFFER devpath) of
        None \<Rightarrow> ('''', Some None)
      | Some parent \<Rightarrow>
          (case after_slash parent of
             None \<Rightarrow> ('''', Some None)
           | Some parent_name \<Rightarrow>
               if parent_name = ''block'' then
                 (case up_to_slash (snprintf PATH_BUFFER parent) of
                    None \<Rightarrow> ('''', Some None)
                  | Some virtio \<Rightarrow>
                      if \<not> check_link_target fs (snprintf PATH_BUFFER (''/sys'' @ virtio @ ''/subsystem'')) ''/sys/bus/virtio''
                      then (fail_text name ''the disk does not sit below a virtio device'', Some (Some 1))
                      else (''DEV_PARENT name='' @ name @ '' bus=virtio\<newline>'' @ kind, None))
               else
                 let disk_name = snprintf 64 parent_name
                 in if \<not> strncmp_eq name disk_name (length disk_name)
                    then (fail_text name ''the partition does not sit below its disk'', Some (Some 1))
                    else (''DEV_PARENT name='' @ name @ '' disk='' @ disk_name @ ''\<newline>'' @ kind, None)))"

text \<open>The lines \<^verbatim>\<open>strtok\<close> finds: the nonempty pieces between newlines.\<close>

fun split_lines :: "string \<Rightarrow> string \<Rightarrow> string list" where
  "split_lines acc [] = (if acc = [] then [] else [acc])"
| "split_lines acc (c # cs) =
     (if c = CHR ''\<newline>'' then (if acc = [] then split_lines [] cs else acc # split_lines [] cs)
      else split_lines (acc @ [c]) cs)"

definition check_sysfs :: "filesystem \<Rightarrow> string \<Rightarrow> string \<times> int option" where
  "check_sysfs fs name =
    (case find_class fs name of None \<Rightarrow> (fail_text name ''no class entry'', Some 1)
     | Some (class_path, class_name) \<Rightarrow>
     if fs_lstat fs class_path \<noteq> Some True then
       (fail_text name ''the class entry is not a symbolic link'', Some 1)
     else case resolve_devpath fs class_path of
       None \<Rightarrow> (fail_text name ''the class entry does not resolve below /sys'', Some 1)
     | Some devpath \<Rightarrow>
     let is_block = (class_name = ''block''); sysdir = snprintf PATH_BUFFER (''/sys'' @ devpath)
     in case (case read_text fs (snprintf PATH_BUFFER (sysdir @ ''/dev'')) 512 of
                None \<Rightarrow> None | Some text \<Rightarrow> scan_device_number (cstring text)) of
       None \<Rightarrow> (fail_text name ''no readable dev attribute'', Some 1)
     | Some (major_number, minor_number) \<Rightarrow>
     if \<not> check_link_target fs
          (snprintf PATH_BUFFER (''/sys/dev/'' @ (if is_block then ''block'' else ''char'') @ ''/'' @
             decimal (uint major_number) @ '':'' @ decimal (uint minor_number))) sysdir then
       (fail_text name ''the /sys/dev entry does not lead to the device'', Some 1)
     else if \<not> check_link_target fs (snprintf PATH_BUFFER (sysdir @ ''/subsystem''))
               (snprintf 512 (''/sys/class/'' @ class_name)) then
       (fail_text name ''the subsystem link does not lead to the class'', Some 1)
     else if fs_rdev fs (snprintf PATH_BUFFER (''/dev/'' @ name)) \<noteq> Some (major_number, minor_number) then
       (fail_text name ''the device node does not carry the sysfs device number'', Some 1)
     else
       let out1 = ''DEV_PATH name='' @ name @ '' class='' @ class_name @ '' devpath='' @
                  normalize_devpath devpath PATH_BUFFER @ ''\<newline>'';
           (out2, stop) = (if is_block then check_parent fs name devpath sysdir else ('''', None))
       in case stop of
         Some status \<Rightarrow> (out1 @ out2, status)
       | None \<Rightarrow>
         if fs_realpath fs class_path = None then
           (out1 @ out2 @ fail_text name ''the class entry vanished'', Some 1)
         else
           let out3 = ''DEV_NUMBER name='' @ name @ '' major='' @ decimal (uint major_number) @
                      '' minor='' @ decimal (uint minor_number) @ ''\<newline>''
           in case read_text fs (snprintf PATH_BUFFER (sysdir @ ''/uevent'')) 512 of
             None \<Rightarrow> (out1 @ out2 @ out3 @ fail_text name ''no readable uevent attribute'', Some 1)
           | Some text \<Rightarrow>
               (out1 @ out2 @ out3 @
                concat (map (\<lambda>line. ''DEV_UEVENT name='' @ name @ '' '' @ line @ ''\<newline>'')
                  (split_lines [] (cstring text))), Some 0))"

section \<open>The event check\<close>

text \<open>The value of a key in a message of NUL-terminated \<^verbatim>\<open>KEY=VALUE\<close> strings.\<close>

function field_from :: "string \<Rightarrow> string \<Rightarrow> nat \<Rightarrow> string option" where
  "field_from message key offset =
     (if offset < length message then
        let s = cstring (drop offset message)
        in if strncmp_eq s key (length key) \<and> length key < length s \<and> s ! length key = CHR ''=''
           then Some (drop (length key + 1) s)
           else field_from message key (offset + length s + 1)
      else None)"
  by pat_completeness auto
termination
  by (relation "measure (\<lambda>(message, key, offset). length message - offset)") auto

declare field_from.simps [simp del]

definition field :: "string \<Rightarrow> string \<Rightarrow> string option" where
  "field message key = field_from message key 0"

definition open_listener :: "int \<Rightarrow> int \<Rightarrow> int" where
  "open_listener fd bind = (if fd < 0 \<or> bind < 0 then -1 else fd)"

text \<open>What the system answers while one event is checked.\<close>

record event_env =
  ev_fs :: filesystem
  ev_open :: int
  ev_write :: int
  ev_poll :: int
  ev_recv :: "string option"

definition receive_event :: "event_env \<Rightarrow> nat \<Rightarrow> string option" where
  "receive_event env bound =
     (if ev_poll env \<noteq> 1 then None
      else case ev_recv env of None \<Rightarrow> None | Some message \<Rightarrow> Some (take (bound - 1) message))"

definition event_keys :: "string list" where
  "event_keys = [''ACTION'', ''SUBSYSTEM'', ''MAJOR'', ''MINOR'', ''DEVNAME'', ''DEVTYPE'', ''SYNTH_UUID'']"

definition event_line :: "string \<Rightarrow> string \<Rightarrow> string \<Rightarrow> string" where
  "event_line name message devpath =
     ''DEV_EVENT name='' @ name @
     concat (map (\<lambda>key. '' '' @ key @ ''='' @
       (case field message key of None \<Rightarrow> ''-'' | Some value \<Rightarrow> value)) event_keys) @
     '' DEVPATH='' @ normalize_devpath devpath PATH_BUFFER @ '' SEQNUM=present\<newline>''"

definition check_event ::
    "event_env \<Rightarrow> string \<Rightarrow> bool \<Rightarrow> u64 \<Rightarrow> string \<times> int \<times> u64" where
  "check_event env name trigger previous_seqnum =
    (case find_class (ev_fs env) name of
       None \<Rightarrow> (fail_text name ''no class entry'', 1, previous_seqnum)
     | Some (class_path, class_name) \<Rightarrow>
     case resolve_devpath (ev_fs env) class_path of
       None \<Rightarrow> (fail_text name ''the class entry does not resolve below /sys'', 1, previous_seqnum)
     | Some devpath \<Rightarrow>
     if trigger \<and> (ev_open env < 0 \<or> ev_write env \<noteq> 4) then
       (fail_text name ''writing add to the uevent attribute failed'', 1, previous_seqnum)
     else case receive_event env 4096 of
       None \<Rightarrow> (''DEV_EVENT_MISSING name='' @ name @ ''\<newline>'', 2, previous_seqnum)
     | Some message \<Rightarrow>
     if message = [] then (''DEV_EVENT_MISSING name='' @ name @ ''\<newline>'', 2, previous_seqnum)
     else if cstring message \<noteq> snprintf PATH_BUFFER (''add@'' @ devpath) then
       (fail_text name ''the event header does not name the device'', 1, previous_seqnum)
     else if field message ''ACTION'' \<noteq> Some ''add'' then
       (fail_text name ''the event is not an add event'', 1, previous_seqnum)
     else if field message ''DEVPATH'' \<noteq> Some devpath then
       (fail_text name ''the DEVPATH field is not the device path'', 1, previous_seqnum)
     else case field message ''SEQNUM'' of
       None \<Rightarrow> (fail_text name ''the event has no SEQNUM'', 1, previous_seqnum)
     | Some seqnum \<Rightarrow>
     if strtoull10 seqnum \<le> previous_seqnum then
       (fail_text name ''SEQNUM did not increase'', 1, previous_seqnum)
     else (event_line name message devpath, 0, strtoull10 seqnum))"

section \<open>The program\<close>

fun sysfs_loop :: "filesystem \<Rightarrow> string list \<Rightarrow> int \<Rightarrow> string \<times> int option" where
  "sysfs_loop fs [] status = ('''', Some status)"
| "sysfs_loop fs (name # names) status =
     (case check_sysfs fs name of
        (out, None) \<Rightarrow> (out, None)
      | (out, Some r) \<Rightarrow> (case sysfs_loop fs names (status OR r) of (out', res) \<Rightarrow> (out @ out', res)))"

fun event_loop :: "(string \<times> event_env) list \<Rightarrow> bool \<Rightarrow> u64 \<Rightarrow> int \<Rightarrow> string \<times> int" where
  "event_loop [] trigger previous status = ('''', status)"
| "event_loop ((name, env) # rest) trigger previous status =
     (case check_event env name trigger previous of (out, result, previous') \<Rightarrow>
      case event_loop rest trigger previous' (if result \<noteq> 0 then result else status) of (out', s) \<Rightarrow> (out @ out', s))"

text \<open>\<^verbatim>\<open>main\<close>, with the environment of each event check; the usage message goes to standard error.\<close>

definition probe_device_main ::
    "string list \<Rightarrow> filesystem \<Rightarrow> int \<times> int \<Rightarrow> event_env list \<Rightarrow> string \<times> int option" where
  "probe_device_main argv fs listener envs =
     (if length argv < 3 then ('''', Some 64)
      else if argv ! 1 = ''sysfs'' then sysfs_loop fs (drop 2 argv) 0
      else if argv ! 1 = ''events'' \<or> argv ! 1 = ''missing'' then
        (if open_listener (fst listener) (snd listener) < 0 then
           (''DEV_FAILED name=- cannot open the uevent socket\<newline>'', Some 1)
         else case event_loop (zip (drop 2 argv) envs) (argv ! 1 = ''events'') 0 0 of
           (out, status) \<Rightarrow> (out, Some status))
      else ('''', Some 64))"

end
