(* ===== verification/DeviceSpec.thy ===== *)
theory DeviceSpec
  imports DeviceProbe
begin

text \<open>
  What the device probe promises: kernel events are read field by field and accepted in order of
  their sequence numbers, device paths are compared without their transport, and the status of the
  sysfs check says whether the entries of a device agree.
\<close>

section \<open>Messages\<close>

definition NUL :: char where "NUL = CHR 0x00"

definition event_field :: "string \<times> string \<Rightarrow> string" where
  "event_field kv = fst kv @ ''='' @ snd kv @ [NUL]"

text \<open>A kernel event: its header, then its fields, each ended by a NUL.\<close>

definition event_message :: "string \<Rightarrow> (string \<times> string) list \<Rightarrow> string" where
  "event_message header kvs = header @ [NUL] @ concat (map event_field kvs)"

definition clean :: "string \<Rightarrow> bool" where
  "clean s \<longleftrightarrow> NUL \<notin> set s"

definition fields_ok :: "(string \<times> string) list \<Rightarrow> bool" where
  "fields_ok kvs \<longleftrightarrow> (\<forall>kv \<in> set kvs. clean (fst kv) \<and> CHR ''='' \<notin> set (fst kv) \<and> clean (snd kv))"

lemma cstring_ended: "clean s \<Longrightarrow> cstring (s @ NUL # t) = s"
  by (simp add: cstring_def clean_def NUL_def takeWhile_append)

lemma field_from_skip:
  assumes "clean s" and "\<not> (take (length key) s = key \<and> length key < length s \<and> s ! length key = CHR ''='')"
  shows "field_from (pre @ s @ NUL # rest) key (length pre) = field_from (pre @ s @ NUL # rest) key (length pre + length s + 1)"
  using assms by (subst field_from.simps) (auto simp: cstring_ended strncmp_eq_def Let_def)

lemma field_from_hit:
  assumes "clean (key @ ''='' @ v)"
  shows "field_from (pre @ (key @ ''='' @ v) @ NUL # rest) key (length pre) = Some v"
  using assms by (subst field_from.simps) (simp add: cstring_ended [of "key @ ''='' @ v", simplified]
      strncmp_eq_def Let_def nth_append)

lemma field_from_fields:
  assumes "fields_ok kvs" and "CHR ''='' \<notin> set key"
  shows "field_from (pre @ concat (map event_field kvs)) key (length pre) = map_of kvs key"
  using assms(1)
proof (induction kvs arbitrary: pre)
  case Nil
  show ?case
    by (subst field_from.simps) simp
next
  case (Cons kv kvs)
  obtain k v where kv: "kv = (k, v)"
    by (cases kv)
  have ok: "clean (k @ ''='' @ v)" "CHR ''='' \<notin> set k" "fields_ok kvs"
    using Cons.prems by (auto simp: fields_ok_def kv clean_def NUL_def)
  have split: "pre @ concat (map event_field (kv # kvs)) =
      pre @ (k @ ''='' @ v) @ NUL # concat (map event_field kvs)"
    by (simp add: kv event_field_def)
  show ?case
  proof (cases "k = key")
    case True
    then show ?thesis
      unfolding split using field_from_hit [of key v pre] ok by (simp add: kv)
  next
    case False
    have "\<not> (take (length key) (k @ ''='' @ v) = key \<and> (k @ ''='' @ v) ! length key = CHR ''='')"
    proof
      assume a: "take (length key) (k @ ''='' @ v) = key \<and> (k @ ''='' @ v) ! length key = CHR ''=''"
      consider "length key < length k" | "length key = length k" | "length k < length key"
        by linarith
      then show False
      proof cases
        case 1
        then have "k ! length key = CHR ''=''"
          using a by (simp add: nth_append)
        then show False
          using 1 ok(2) nth_mem by metis
      next
        case 2
        then show False
          using a False by simp
      next
        case 3
        then have "key ! length k = CHR ''=''"
          using a by (metis append_Cons append_Nil nth_append_length nth_take)
        then show False
          using 3 assms(2) nth_mem by metis
      qed
    qed
    from this have "field_from (pre @ (k @ ''='' @ v) @ NUL # concat (map event_field kvs)) key (length pre) =
        field_from ((pre @ (k @ ''='' @ v) @ [NUL]) @ concat (map event_field kvs)) key
          (length (pre @ (k @ ''='' @ v) @ [NUL]))"
      using field_from_skip [OF ok(1), of key pre] by simp
    also have "\<dots> = map_of kvs key"
      by (rule Cons.IH [OF ok(3)])
    finally show ?thesis
      unfolding split using False by (simp add: kv)
  qed
qed

text \<open>\<^verbatim>\<open>field\<close> finds the value of the first field with exactly the given key; keys that are a prefix
  of another are kept apart.\<close>

lemma field_message:
  assumes "clean header" and "take (length key + 1) header \<noteq> key @ ''=''" and "fields_ok kvs"
    and "CHR ''='' \<notin> set key"
  shows "field (event_message header kvs) key = map_of kvs key"
proof -
  have "\<not> (take (length key) header = key \<and> length key < length header \<and> header ! length key = CHR ''='')"
    using assms(2) by (auto simp: take_Suc_conv_app_nth)
  then have "field (event_message header kvs) key =
      field_from ((header @ [NUL]) @ concat (map event_field kvs)) key (length (header @ [NUL]))"
    using field_from_skip [OF assms(1), of key "[]"] by (simp add: field_def event_message_def)
  then show ?thesis
    using field_from_fields [OF assms(3,4), of "header @ [NUL]"] by simp
qed

section \<open>Events\<close>

lemma check_event_accept:
  assumes "find_class (ev_fs env) name = Some (class_path, class_name)"
    and "resolve_devpath (ev_fs env) class_path = Some devpath"
    and "trigger \<longrightarrow> 0 \<le> ev_open env \<and> ev_write env = 4"
    and "ev_poll env = 1" and "ev_recv env = Some (event_message (''add@'' @ devpath) kvs)"
    and "length (event_message (''add@'' @ devpath) kvs) \<le> 4095"
    and "clean devpath" and "fields_ok kvs"
    and "map_of kvs ''ACTION'' = Some ''add''" and "map_of kvs ''DEVPATH'' = Some devpath"
    and "map_of kvs ''SEQNUM'' = Some (decimal (int n))" and "uint previous < int n" and "n < 2 ^ 64"
  shows "check_event env name trigger previous =
    (event_line name (event_message (''add@'' @ devpath) kvs) devpath, 0, of_nat n)"
proof -
  define msg where "msg = event_message (''add@'' @ devpath) kvs"
  have header: "clean (''add@'' @ devpath)"
    using assms(7) by (simp add: clean_def NUL_def)
  have fields: "field msg ''ACTION'' = Some ''add''" "field msg ''DEVPATH'' = Some devpath"
    "field msg ''SEQNUM'' = Some (decimal (int n))"
    unfolding msg_def using field_message [OF header _ assms(8)] assms(9-11) by simp_all
  have recv: "receive_event env 4096 = Some msg"
    using assms(4-6) by (simp add: receive_event_def msg_def)
  have cstr: "cstring msg = ''add@'' @ devpath"
    unfolding msg_def event_message_def using cstring_ended [OF header] by simp
  have "length devpath \<le> 4090"
    using assms(6) by (simp add: event_message_def)
  then have buf: "snprintf PATH_BUFFER (''add@'' @ devpath) = ''add@'' @ devpath"
    by (intro snprintf_fits) (simp add: PATH_BUFFER_def)
  have seq: "strtoull10 (decimal (int n)) = of_nat n"
    using scan_int_decimal [of "[]" "int n"] assms(13) by (simp add: strtoull10_def)
  have "uint (of_nat n :: u64) = int n"
    using assms(13) by (simp add: uint_nat unat_of_nat)
  then have "\<not> (of_nat n :: u64) \<le> previous"
    using assms(12) by (simp add: word_le_def)
  moreover have "msg \<noteq> []"
    by (simp add: msg_def event_message_def)
  ultimately show ?thesis
    unfolding check_event_def msg_def [symmetric] using assms(1-3) recv cstr buf fields seq by auto
qed

text \<open>C22: A proper event is accepted. If the kernel announces the device with an \<^verbatim>\<open>add\<close> event that
  fits the buffer, names its path in the header and in \<^verbatim>\<open>DEVPATH\<close>, and carries a sequence number
  above the previous one, the check succeeds and remembers that number.\<close>

theorem check_event_accepts:
  assumes "find_class (ev_fs env) name = Some (class_path, class_name)"
    and "resolve_devpath (ev_fs env) class_path = Some devpath"
    and "trigger \<longrightarrow> 0 \<le> ev_open env \<and> ev_write env = 4"
    and "ev_poll env = 1" and "ev_recv env = Some (event_message (''add@'' @ devpath) kvs)"
    and "length (event_message (''add@'' @ devpath) kvs) \<le> 4095"
    and "clean devpath" and "fields_ok kvs"
    and "map_of kvs ''ACTION'' = Some ''add''" and "map_of kvs ''DEVPATH'' = Some devpath"
    and "map_of kvs ''SEQNUM'' = Some (decimal (int n))" and "uint previous < int n" and "n < 2 ^ 64"
  shows "check_event env name trigger previous =
    (event_line name (event_message (''add@'' @ devpath) kvs) devpath, 0, of_nat n)"
  by (rule check_event_accept [OF assms])

text \<open>What a successful check has seen.\<close>

definition announced :: "event_env \<Rightarrow> string \<Rightarrow> u64 \<Rightarrow> bool" where
  "announced env name n \<longleftrightarrow>
     (\<exists>class_path class_name devpath message seqnum.
        find_class (ev_fs env) name = Some (class_path, class_name) \<and>
        resolve_devpath (ev_fs env) class_path = Some devpath \<and>
        receive_event env 4096 = Some message \<and>
        field message ''ACTION'' = Some ''add'' \<and> field message ''DEVPATH'' = Some devpath \<and>
        field message ''SEQNUM'' = Some seqnum \<and> n = strtoull10 seqnum)"

lemma check_event_ok:
  assumes "check_event env name trigger previous = (out, 0, n)"
  shows "announced env name n \<and> previous < n"
  using assms unfolding check_event_def announced_def
  by (auto split: option.splits if_splits prod.splits)

lemma event_loop_status: "event_loop evs trigger previous status = (out, 0) \<Longrightarrow> status = 0"
proof (induction evs arbitrary: previous status out)
  case (Cons ev evs)
  then show ?case
    by (cases ev) (auto split: prod.splits if_splits)
qed simp

text \<open>C21: Exit status 0 of \<^verbatim>\<open>device-probe events\<close> means that every device named was announced by a proper
  \<^verbatim>\<open>add\<close> event with its own path, and that the sequence numbers of these events increase strictly
  in the order of the arguments.\<close>

theorem events_in_order:
  assumes "event_loop evs trigger previous 0 = (out, 0)"
  shows "\<exists>ns. length ns = length evs \<and> sorted_wrt (<) (previous # ns) \<and>
           (\<forall>i < length evs. announced (snd (evs ! i)) (fst (evs ! i)) (ns ! i))"
  using assms
proof (induction evs arbitrary: previous out)
  case (Cons ev evs)
  obtain name env where ev: "ev = (name, env)"
    by (cases ev)
  obtain o1 r n where ce: "check_event env name trigger previous = (o1, r, n)"
    by (cases "check_event env name trigger previous")
  obtain o2 where loop: "event_loop evs trigger n (if r \<noteq> 0 then r else 0) = (o2, 0)"
    using Cons.prems ce ev by (auto split: prod.splits)
  then have r: "r = 0"
    using event_loop_status by fastforce
  then have "event_loop evs trigger n 0 = (o2, 0)"
    using loop by simp
  from Cons.IH [OF this] obtain ns where ns: "length ns = length evs" "sorted_wrt (<) (n # ns)"
    "\<forall>i < length evs. announced (snd (evs ! i)) (fst (evs ! i)) (ns ! i)"
    by blast
  have n: "announced env name n" "previous < n"
    using check_event_ok ce r by blast+
  then have "sorted_wrt (<) (previous # n # ns)"
    using ns(2) by (auto intro: less_trans)
  moreover have "\<forall>i < length (ev # evs). announced (snd ((ev # evs) ! i)) (fst ((ev # evs) ! i)) ((n # ns) ! i)"
    using n ns(3) ev by (auto simp: less_Suc_eq_0_disj)
  ultimately show ?case
    using ns(1) by (intro exI [of _ "n # ns"]) simp
qed simp

section \<open>Device paths\<close>

lemma skip_one:
  "CHR ''/'' \<notin> set a \<Longrightarrow> skip_components (c # a @ CHR ''/'' # rest) (Suc n) = skip_components (CHR ''/'' # rest) n"
proof -
  assume "CHR ''/'' \<notin> set a"
  then have "dropWhile (\<lambda>c. c \<noteq> CHR ''/'') (a @ CHR ''/'' # rest) = CHR ''/'' # rest"
    by (induction a) auto
  then show ?thesis
    by simp
qed

text \<open>C24: Device paths are compared without their transport. A device behind a PCI function and one
  behind a virtio-mmio slot have the same normalized path, the path below that function or slot,
  whatever the names of the bus, the function and the slot are.\<close>

theorem normalize_transport:
  assumes "CHR ''/'' \<notin> set bus" and "CHR ''/'' \<notin> set slot" and "CHR ''/'' \<notin> set mmio"
    and "21 + length rest < bound"
  shows "normalize_devpath (''/devices/pci0000:'' @ bus @ ''/'' @ slot @ ''/'' @ rest) bound =
           ''/devices/<transport>/'' @ rest \<and>
         normalize_devpath (''/devices/virtio-mmio-cmdline/'' @ mmio @ ''/'' @ rest) bound =
           ''/devices/<transport>/'' @ rest"
proof
  have three: "3 = Suc (Suc (Suc 0))"
    by simp
  have "skip_components (''/devices/pci0000:'' @ bus @ ''/'' @ slot @ ''/'' @ rest) 3 = ''/'' @ rest"
    using skip_one [of "''devices''" "CHR ''/''" "''pci0000:'' @ bus @ ''/'' @ slot @ ''/'' @ rest"]
      skip_one [of "''pci0000:'' @ bus" "CHR ''/''" "slot @ ''/'' @ rest"]
      skip_one [of slot "CHR ''/''" rest] assms(1,2)
    unfolding three by simp
  then show "normalize_devpath (''/devices/pci0000:'' @ bus @ ''/'' @ slot @ ''/'' @ rest) bound =
      ''/devices/<transport>/'' @ rest"
    using assms(4) by (simp add: normalize_devpath_def strncmp_eq_def snprintf_fits)
  have "skip_components (''/devices/virtio-mmio-cmdline/'' @ mmio @ ''/'' @ rest) 3 = ''/'' @ rest"
    using skip_one [of "''devices''" "CHR ''/''" "''virtio-mmio-cmdline/'' @ mmio @ ''/'' @ rest"]
      skip_one [of "''virtio-mmio-cmdline''" "CHR ''/''" "mmio @ ''/'' @ rest"]
      skip_one [of mmio "CHR ''/''" rest] assms(3)
    unfolding three by simp
  then show "normalize_devpath (''/devices/virtio-mmio-cmdline/'' @ mmio @ ''/'' @ rest) bound =
      ''/devices/<transport>/'' @ rest"
    using assms(4) by (simp add: normalize_devpath_def strncmp_eq_def snprintf_fits)
qed

lemma skip_last: "CHR ''/'' \<notin> set a \<Longrightarrow> skip_components (c # a) (Suc n) = ''''"
proof -
  assume "CHR ''/'' \<notin> set a"
  then have "dropWhile (\<lambda>c. c \<noteq> CHR ''/'') a = []" by (auto simp: dropWhile_eq_Nil_conv)
  then show ?thesis by (simp del: dropWhile_eq_Nil_conv)
qed

text \<open>C38: The prefix of PCI paths is compared without its colon: only 16 of its 17 characters count. So every
  path below a root whose name continues \<^verbatim>\<open>pci0000\<close> in any other way than with a colon, and which therefore does not
  start with the prefix, loses its first three components too, and a device right below such a root loses its
  whole path.\<close>

theorem pci_prefix_without_colon:
  assumes "root = '''' \<or> hd root \<noteq> CHR '':''" and "CHR ''/'' \<notin> set root" and "CHR ''/'' \<notin> set slot"
    and "21 + length rest < bound"
  shows "take 17 (''/devices/pci0000'' @ root @ ''/'' @ slot) \<noteq> ''/devices/pci0000:'' \<and>
         normalize_devpath (''/devices/pci0000'' @ root @ ''/'' @ slot @ ''/'' @ rest) bound =
           ''/devices/<transport>/'' @ rest \<and>
         normalize_devpath (''/devices/pci0000'' @ root @ ''/'' @ slot) bound = ''/devices/<transport>''"
proof (intro conjI)
  have three: "3 = Suc (Suc (Suc 0))" by simp
  show "take 17 (''/devices/pci0000'' @ root @ ''/'' @ slot) \<noteq> ''/devices/pci0000:''"
    using assms(1) by (cases root) auto
  have two: "skip_components (''/devices/pci0000'' @ root @ ''/'' @ path) 3 = skip_components (''/'' @ path) 1" for path
    using skip_one [of "''devices''" "CHR ''/''" "''pci0000'' @ root @ ''/'' @ path"]
      skip_one [of "''pci0000'' @ root" "CHR ''/''" path] assms(2)
    unfolding three by simp
  show "normalize_devpath (''/devices/pci0000'' @ root @ ''/'' @ slot @ ''/'' @ rest) bound = ''/devices/<transport>/'' @ rest"
    using assms(4) two [of "slot @ ''/'' @ rest"] skip_one [OF assms(3), of "CHR ''/''" rest 0]
    by (simp add: normalize_devpath_def strncmp_eq_def snprintf_fits)
  show "normalize_devpath (''/devices/pci0000'' @ root @ ''/'' @ slot) bound = ''/devices/<transport>''"
    using assms(4) two [of slot] skip_last [OF assms(3), of "CHR ''/''" 0]
    by (simp add: normalize_devpath_def strncmp_eq_def snprintf_fits)
qed

section \<open>The sysfs check\<close>

lemma resolve_devpath_slash: "resolve_devpath fs p = Some d \<Longrightarrow> \<exists>t. d = CHR ''/'' # t"
proof -
  assume "resolve_devpath fs p = Some d"
  then obtain real where real: "take 5 real = ''/sys/''" "d = snprintf PATH_BUFFER (drop 4 real)"
    by (auto simp: resolve_devpath_def strncmp_eq_def split: option.splits if_splits)
  have "real = ''/sys/'' @ drop 5 real"
    using real(1) by (metis append_take_drop_id)
  then obtain t where "real = ''/sys/'' @ t"
    by blast
  then show ?thesis
    using real(2) by (simp add: snprintf_def PATH_BUFFER_def)
qed

lemma up_to_slash_some: "CHR ''/'' \<in> set s \<Longrightarrow> \<exists>p. up_to_slash s = Some p"
proof -
  assume "CHR ''/'' \<in> set s"
  then have "dropWhile (\<lambda>c. c \<noteq> CHR ''/'') (rev s) \<noteq> []"
    by (simp add: dropWhile_eq_Nil_conv)
  then show ?thesis
    by (auto simp: up_to_slash_def split: list.splits)
qed

lemma up_to_slash_hd:
  assumes "up_to_slash (c # t) = Some p" and "CHR ''/'' \<in> set t"
  shows "\<exists>t'. p = c # t'"
proof -
  have "dropWhile (\<lambda>c. c \<noteq> CHR ''/'') (rev t @ [c]) = dropWhile (\<lambda>c. c \<noteq> CHR ''/'') (rev t) @ [c]"
    using assms(2) by (simp add: dropWhile_append1 [of "CHR ''/''"])
  moreover have "dropWhile (\<lambda>c. c \<noteq> CHR ''/'') (rev t) \<noteq> []"
    using assms(2) by (simp add: dropWhile_eq_Nil_conv)
  then obtain x xs where "dropWhile (\<lambda>c. c \<noteq> CHR ''/'') (rev t) = x # xs"
    by (cases "dropWhile (\<lambda>c. c \<noteq> CHR ''/'') (rev t)") simp_all
  ultimately show ?thesis
    using assms(1) by (auto simp: up_to_slash_def)
qed

lemma check_parent_no_crash:
  assumes "snprintf PATH_BUFFER devpath = CHR ''/'' # t" and "CHR ''/'' \<in> set t"
  shows "snd (check_parent fs name devpath sysdir) \<noteq> Some None"
proof -
  obtain p t' where p: "up_to_slash (CHR ''/'' # t) = Some p" "p = CHR ''/'' # t'"
    using up_to_slash_some [of "CHR ''/'' # t"] up_to_slash_hd [OF _ assms(2)] by fastforce
  have "\<exists>a. after_slash p = Some a"
    by (simp add: p(2) after_slash_def)
  moreover have "\<exists>v. up_to_slash (snprintf PATH_BUFFER p) = Some v"
    by (rule up_to_slash_some) (simp add: p(2) snprintf_def PATH_BUFFER_def)
  ultimately show ?thesis
    using p(1) assms(1) by (auto simp: check_parent_def Let_def split: option.splits)
qed

text \<open>The sysfs check dereferences a null pointer only for a block device directly below \<^verbatim>\<open>/sys\<close>,
  whose path has a single component.\<close>

lemma check_sysfs_crash:
  assumes "snd (check_sysfs fs name) = None"
  shows "\<exists>class_path devpath. find_class fs name = Some (class_path, ''block'') \<and>
           resolve_devpath fs class_path = Some devpath \<and> CHR ''/'' \<notin> set (tl devpath)"
proof -
  obtain class_path class_name devpath where d: "find_class fs name = Some (class_path, class_name)"
    "resolve_devpath fs class_path = Some devpath" "class_name = ''block''"
    "snd (check_parent fs name devpath (snprintf PATH_BUFFER (''/sys'' @ devpath))) = Some None"
    using assms by (auto simp: check_sysfs_def Let_def split: option.splits if_splits prod.splits)
  obtain t where t: "devpath = CHR ''/'' # t"
    using resolve_devpath_slash [OF d(2)] by blast
  have "length devpath \<le> PATH_BUFFER - 1"
    using d(2) by (auto simp: resolve_devpath_def snprintf_def split: option.splits if_splits)
  then have "snprintf PATH_BUFFER devpath = CHR ''/'' # t"
    by (simp add: snprintf_def t)
  then have "CHR ''/'' \<notin> set t"
    using check_parent_no_crash d(4) by blast
  then show ?thesis
    using d t by auto
qed

definition agrees :: "filesystem \<Rightarrow> string \<Rightarrow> bool" where
  "agrees fs name \<longleftrightarrow>
     (\<exists>class_path class_name devpath text major_number minor_number r.
        find_class fs name = Some (class_path, class_name) \<and>
        resolve_devpath fs class_path = Some devpath \<and>
        read_text fs (snprintf PATH_BUFFER (snprintf PATH_BUFFER (''/sys'' @ devpath) @ ''/dev'')) 512 = Some text \<and>
        scan_device_number (cstring text) = Some (major_number, minor_number) \<and>
        fs_rdev fs (snprintf PATH_BUFFER (''/dev/'' @ name)) = Some (major_number, minor_number) \<and>
        fs_realpath fs (snprintf PATH_BUFFER (''/sys'' @ devpath)) = Some r \<and>
        fs_realpath fs (snprintf PATH_BUFFER (''/sys/dev/'' @ (if class_name = ''block'' then ''block'' else ''char'') @
          ''/'' @ decimal (uint major_number) @ '':'' @ decimal (uint minor_number))) = Some r)"

lemma same_object_iff: "same_object fs a b \<longleftrightarrow> (\<exists>r. fs_realpath fs a = Some r \<and> fs_realpath fs b = Some r)"
  by (auto simp: same_object_def split: option.splits)

lemma check_sysfs_agrees: "check_sysfs fs name = (out, Some 0) \<Longrightarrow> agrees fs name"
proof -
  assume "check_sysfs fs name = (out, Some 0)"
  then show ?thesis
    unfolding check_sysfs_def Let_def agrees_def check_link_target_def same_object_iff
    by (auto split: option.splits if_splits prod.splits)
qed

text \<open>C23: Exit status 0 of \<^verbatim>\<open>device-probe sysfs\<close> means that for every device named the number in its
  \<^verbatim>\<open>dev\<close> attribute is the number of its node in \<^verbatim>\<open>/dev\<close>, and that the entry of \<^verbatim>\<open>/sys/dev\<close> for that
  number leads to the same directory as its class entry.\<close>

theorem sysfs_status_sound:
  assumes "sysfs_loop fs names status = (out, Some 0)"
  shows "status = 0 \<and> (\<forall>name \<in> set names. agrees fs name)"
  using assms
proof (induction names arbitrary: status out)
  case (Cons name names)
  obtain o1 r where c: "check_sysfs fs name = (o1, Some r)"
    using Cons.prems by (cases "check_sysfs fs name"; cases "snd (check_sysfs fs name)") auto
  then obtain o2 where "sysfs_loop fs names (status OR r) = (o2, Some 0)"
    using Cons.prems by (auto split: prod.splits)
  then have "status OR r = 0" "\<forall>name \<in> set names. agrees fs name"
    using Cons.IH by blast+
  then show ?case
    using check_sysfs_agrees c by (auto simp: or_eq_0_iff)
qed simp

section \<open>Samples\<close>

definition sample_fs :: "string \<Rightarrow> string \<Rightarrow> string \<Rightarrow> string \<Rightarrow> filesystem" where
  "sample_fs cls name kind dir =
     \<lparr>fs_lstat = (\<lambda>p. if p = ''/sys/class/'' @ cls @ ''/'' @ name then Some True else None),
      fs_realpath = map_of
        [(''/sys/class/'' @ cls @ ''/'' @ name, dir), (dir, dir), (''/sys/dev/'' @ kind @ ''/1:3'', dir),
         (dir @ ''/subsystem'', ''/sys/class/'' @ cls), (''/sys/class/'' @ cls, ''/sys/class/'' @ cls)],
      fs_read = map_of [(dir @ ''/dev'', ''1:3\<newline>''), (dir @ ''/uevent'', ''MAJOR=1\<newline>MINOR=3\<newline>'')],
      fs_rdev = map_of [(''/dev/'' @ name, (1, 3))],
      fs_access = (\<lambda>p. False)\<rparr>"

definition null_fs :: filesystem where
  "null_fs = sample_fs ''mem'' ''null'' ''char'' ''/sys/devices/mem/null''"

lemma sample_decimals: "decimal 1 = ''1''" "decimal 3 = ''3''"
  by code_simp+

lemma sample_number: "scan_device_number (cstring ''1:3\<newline>'') = Some (1, 3)"
  using scan_int_decimal [of "'':3\<newline>''" 1] scan_int_decimal [of "''\<newline>''" 3]
  by (simp add: cstring_def scan_device_number_def sample_decimals isdigit_def to_unsigned_def)

lemmas sample_eval =
  snprintf_def PATH_BUFFER_def find_class_def class_names_def sample_fs_def resolve_devpath_def strncmp_eq_def
  read_text_def sample_number check_link_target_def same_object_iff sample_decimals Let_def

lemma null_sysfs: "snd (sysfs_loop null_fs [''null''] 0) = Some 0"
  by (simp add: null_fs_def check_sysfs_def sample_eval) blast

theorem sysfs_status_sound_witness:
  "snd (sysfs_loop null_fs [''null''] 0) = Some 0 \<and> agrees null_fs ''null''"
proof -
  obtain out where "sysfs_loop null_fs [''null''] 0 = (out, Some 0)"
    using null_sysfs by (metis prod.collapse)
  then show ?thesis
    using sysfs_status_sound by fastforce
qed

definition null_event :: "int \<Rightarrow> event_env" where
  "null_event n =
     \<lparr>ev_fs = null_fs, ev_open = 4, ev_write = 4, ev_poll = 1,
      ev_recv = Some (event_message ''add@/devices/mem/null''
        [(''ACTION'', ''add''), (''DEVPATH'', ''/devices/mem/null''), (''SUBSYSTEM'', ''mem''), (''SEQNUM'', decimal n)])\<rparr>"

lemma null_class:
  "find_class null_fs ''null'' = Some (''/sys/class/mem/null'', ''mem'')"
  "resolve_devpath null_fs ''/sys/class/mem/null'' = Some ''/devices/mem/null''"
  by (simp_all add: null_fs_def sample_eval) blast

lemma sample_decimals_2: "decimal 7 = ''7''" "decimal 8 = ''8''"
  by code_simp+

lemma null_event_accepted:
  assumes "n = 7 \<or> n = 8" and "uint previous < int n"
  shows "\<exists>out. check_event (null_event (int n)) ''null'' True previous = (out, 0, of_nat n)"
proof -
  define kvs where "kvs = [(''ACTION'', ''add''), (''DEVPATH'', ''/devices/mem/null''), (''SUBSYSTEM'', ''mem''), (''SEQNUM'', decimal (int n))]"
  have len: "length (decimal (int n)) = 1" and nul: "NUL \<notin> set (decimal (int n))"
    using assms(1) by (auto simp: sample_decimals_2 NUL_def)
  have "check_event (null_event (int n)) ''null'' True previous =
      (event_line ''null'' (event_message (''add@'' @ ''/devices/mem/null'') kvs) ''/devices/mem/null'', 0, of_nat n)"
    by (rule check_event_accept [where class_path = "''/sys/class/mem/null''" and class_name = "''mem''"])
       (use assms len nul in \<open>auto simp: null_event_def null_class kvs_def event_message_def event_field_def
          clean_def fields_ok_def NUL_def\<close>)
  then show ?thesis
    by blast
qed

theorem check_event_accepts_witness:
  "\<exists>out. check_event (null_event 7) ''null'' True 6 = (out, 0, 7)"
proof -
  define kvs where "kvs = [(''ACTION'', ''add''), (''DEVPATH'', ''/devices/mem/null''), (''SUBSYSTEM'', ''mem''), (''SEQNUM'', decimal 7)]"
  have "check_event (null_event 7) ''null'' True 6 =
      (event_line ''null'' (event_message (''add@'' @ ''/devices/mem/null'') kvs) ''/devices/mem/null'', 0, of_nat 7)"
    by (rule check_event_accepts [where class_path = "''/sys/class/mem/null''" and class_name = "''mem''"])
       (auto simp: null_event_def null_class kvs_def event_message_def event_field_def clean_def
          fields_ok_def NUL_def sample_decimals_2)
  then show ?thesis
    by simp
qed

theorem events_in_order_witness:
  "\<exists>ns. length ns = 2 \<and> sorted_wrt (<) (0 # ns) \<and>
     announced (null_event 7) ''null'' (ns ! 0) \<and> announced (null_event 8) ''null'' (ns ! 1)"
proof -
  obtain o1 where 1: "check_event (null_event 7) ''null'' True 0 = (o1, 0, 7)"
    using null_event_accepted [of 7 0] by auto
  obtain o2 where 2: "check_event (null_event 8) ''null'' True 7 = (o2, 0, 8)"
    using null_event_accepted [of 8 7] by auto
  have "event_loop [(''null'', null_event 7), (''null'', null_event 8)] True 0 0 = (o1 @ o2, 0)"
    by (simp add: 1 2)
  from events_in_order [OF this] show ?thesis
    by (auto simp: numeral_2_eq_2 less_Suc_eq)
qed

theorem normalize_transport_witness:
  "normalize_devpath ''/devices/pci0000:00/0000:00:05.0/virtio0/block/vda'' 100 = ''/devices/<transport>/virtio0/block/vda'' \<and>
   normalize_devpath ''/devices/virtio-mmio-cmdline/virtio-mmio.0/virtio0/block/vda'' 100 = ''/devices/<transport>/virtio0/block/vda''"
  using normalize_transport [of "''00''" "''0000:00:05.0''" "''virtio-mmio.0''" "''virtio0/block/vda''" 100] by simp

theorem pci_prefix_without_colon_witness:
  "normalize_devpath ''/devices/pci00001/a/b/c'' PATH_BUFFER = ''/devices/<transport>/b/c'' \<and>
   normalize_devpath ''/devices/pci00001/a'' PATH_BUFFER = ''/devices/<transport>''"
  using pci_prefix_without_colon [of "''1''" "''a''" "''b/c''" PATH_BUFFER] by (simp add: PATH_BUFFER_def)

end
