(* ===== verification/SeatWire.thy ===== *)
theory SeatWire
  imports CLib
begin

text \<open>
  The seat daemon's wire protocol as its two test clients speak it,
  \<^verbatim>\<open>src/seatd-rs/harness/vm-probe.c\<close> and \<^verbatim>\<open>src/mdevd-rs/tools/combined-seat-client.c\<close>: frames of a
  16-bit opcode, a 16-bit size and a body, file descriptors beside the bytes. This theory has what
  both share: the system calls as a parameter, the state of a client, a state monad in which a
  failed requirement exits, and the frame format. \<open>Smash\<close> is a write past the end of a buffer.
\<close>

section \<open>The system\<close>

text \<open>The system is a record of functions of its own state. \<open>w_recvmsg\<close> is asked for at most so many
  bytes and yields them with the descriptors that came along, or fails. \<open>w_ioctl\<close> yields its result,
  the value stored through its argument, and the error number. \<open>w_poll\<close> yields its result and the
  flags for input and for a disconnect. The last two fields are not called: they say what the
  server will still deliver.\<close>

record 's seat_world =
  w_poll :: "int \<Rightarrow> 's \<Rightarrow> (int \<times> bool \<times> bool) \<times> 's"
  w_recvmsg :: "nat \<Rightarrow> 's \<Rightarrow> (byte list \<times> int list) option \<times> 's"
  w_read :: "nat \<Rightarrow> 's \<Rightarrow> int \<times> 's"
  w_write :: "byte list \<Rightarrow> 's \<Rightarrow> int \<times> 's"
  w_close :: "int \<Rightarrow> 's \<Rightarrow> 's"
  w_open :: "string \<Rightarrow> 's \<Rightarrow> int \<times> 's"
  w_ioctl :: "int \<Rightarrow> int \<Rightarrow> int \<Rightarrow> 's \<Rightarrow> (int \<times> int \<times> int) \<times> 's"
  w_kill :: "int \<Rightarrow> int \<Rightarrow> 's \<Rightarrow> int \<times> 's"
  w_socket :: "'s \<Rightarrow> int \<times> 's"
  w_connect :: "string \<Rightarrow> 's \<Rightarrow> int \<times> 's"
  w_getenv :: "string \<Rightarrow> string option"
  w_bytes :: "'s \<Rightarrow> byte list"
  w_fds :: "'s \<Rightarrow> nat"

section \<open>Clients\<close>

text \<open>A client's state: the system, the received bytes not yet used (\<^verbatim>\<open>rbuf\<close> up to \<^verbatim>\<open>rlen\<close>), the
  descriptors not yet used, and three records of the run that the code does not have: the bytes received
  from the socket, the bytes sent and the lines printed.\<close>

record ('s, 'p) seat =
  world :: 's
  rbuf :: "byte list"
  pend :: 'p
  received :: "byte list"
  sent :: "byte list"
  lines_out :: "string list"

datatype 'a res = Ok 'a | Exit int string | Smash

type_synonym ('a, 's, 'p) action = "('s, 'p) seat \<Rightarrow> 'a res \<times> ('s, 'p) seat"

definition ret :: "'a \<Rightarrow> ('a, 's, 'p) action" where
  "ret x st = (Ok x, st)"

definition bindS :: "('a, 's, 'p) action \<Rightarrow> ('a \<Rightarrow> ('b, 's, 'p) action) \<Rightarrow> ('b, 's, 'p) action" where
  "bindS m f st =
     (case m st of (Ok x, st') \<Rightarrow> f x st' | (Exit c t, st') \<Rightarrow> (Exit c t, st') | (Smash, st') \<Rightarrow> (Smash, st'))"

definition RBUF :: nat where "RBUF = 4096"

definition require :: "bool \<Rightarrow> string \<Rightarrow> (unit, 's, 'p) action" where
  "require ok what st = (if ok then (Ok (), st) else (Exit 1 what, st))"

text \<open>A system call whose effect is on the system only.\<close>

definition call :: "('s \<Rightarrow> 'r \<times> 's) \<Rightarrow> ('r, 's, 'p) action" where
  "call f st = (case f (world st) of (r, s) \<Rightarrow> (Ok r, st\<lparr>world := s\<rparr>))"

definition do_close :: "'s seat_world \<Rightarrow> int \<Rightarrow> (unit, 's, 'p) action" where
  "do_close w fd = call (\<lambda>s. ((), w_close w fd s))"

definition puts :: "string \<Rightarrow> (unit, 's, 'p) action" where
  "puts line st = (Ok (), st\<lparr>lines_out := lines_out st @ [line]\<rparr>)"

text \<open>A write that is taken whole is part of what was sent; any other result ends the program.\<close>

definition write_all :: "'s seat_world \<Rightarrow> byte list \<Rightarrow> string \<Rightarrow> (unit, 's, 'p) action" where
  "write_all w bs what =
     bindS (call (w_write w bs)) (\<lambda>n st.
       if n = int (length bs) then (Ok (), st\<lparr>sent := sent st @ bs\<rparr>) else (Exit 1 what, st))"

section \<open>Frames\<close>

definition header :: "u16 \<Rightarrow> nat \<Rightarrow> byte list" where
  "header op n = [ucast op, ucast (drop_bit 8 op), ucast (of_nat n :: u16), ucast (drop_bit 8 (of_nat n :: u16))]"

definition frame :: "u16 \<Rightarrow> byte list \<Rightarrow> byte list" where
  "frame op body = header op (length body) @ body"

text \<open>\<^verbatim>\<open>rbuf[i] | (uint16_t)rbuf[i + 1] << 8\<close>\<close>

definition u16_at :: "byte list \<Rightarrow> nat \<Rightarrow> u16" where
  "u16_at bs i = ucast (bs ! i) OR push_bit 8 (ucast (bs ! (i + 1)))"

definition to_i32 :: "byte list \<Rightarrow> int" where
  "to_i32 b = sint (le_word (take 4 b) :: u32)"

definition i32_bytes :: "int \<Rightarrow> byte list" where
  "i32_bytes v = word_bytes 4 (word_of_int v :: u32)"

definition path_body :: "string \<Rightarrow> byte list" where
  "path_body path =
     (let n = length path + 1
      in [of_nat n, ucast (drop_bit 8 (of_nat n :: u64))] @ map (\<lambda>c. of_nat (of_char c)) path @ [0])"

lemma length_header [simp]: "length (header op n) = 4"
  by (simp add: header_def)

lemma u16_split: "ucast (ucast v :: byte) OR push_bit 8 (ucast (ucast (drop_bit 8 v) :: byte)) = (v :: u16)"
  by (rule bit_word_eqI) (auto simp: bit_simps)

lemma u16_at_header:
  "u16_at (header op n @ rest) 0 = op"
  "n < 2 ^ 16 \<Longrightarrow> unat (u16_at (header op n @ rest) 2) = n"
proof -
  show "u16_at (header op n @ rest) 0 = op"
    by (simp add: u16_at_def header_def u16_split)
  have "u16_at (header op n @ rest) 2 = of_nat n"
    by (simp add: u16_at_def header_def u16_split)
  then show "unat (u16_at (header op n @ rest) 2) = n" if "n < 2 ^ 16"
    using that by (simp add: unat_of_nat)
qed

section \<open>Runs that return\<close>

lemma bindS_Ok:
  assumes "bindS m f st = (Ok y, st')"
  obtains x st1 where "m st = (Ok x, st1)" "f x st1 = (Ok y, st')"
  using assms by (auto simp: bindS_def split: prod.splits res.splits)

lemma ret_Ok [simp]: "ret x st = (Ok y, st') \<longleftrightarrow> y = x \<and> st' = st"
  by (auto simp: ret_def)

lemma require_Ok [simp]: "require b t st = (Ok y, st') \<longleftrightarrow> b \<and> st' = st"
  by (auto simp: require_def)

text \<open>\<open>took st M st'\<close>: from one state to the other exactly the messages \<open>M\<close> were taken from the received bytes, the
  first ones of which were in the buffer already, and the last ones of which are still there. A frame whose body
  is as long as its header can say determines where it ends, so the bytes taken determine the messages.\<close>

definition frames :: "(u16 \<times> byte list) list \<Rightarrow> byte list" where
  "frames M = concat (map (\<lambda>(op, body). frame op body) M)"

lemma frames_simps [simp]:
  "frames [] = []" "frames ((op, body) # M) = frame op body @ frames M" "frames (M @ N) = frames M @ frames N"
  by (simp_all add: frames_def)

definition took :: "('s, 'p) seat \<Rightarrow> (u16 \<times> byte list) list \<Rightarrow> ('s, 'p) seat \<Rightarrow> bool" where
  "took st M st' \<longleftrightarrow> list_all (\<lambda>(op, body). length body < 2 ^ 16) M \<and>
     (\<exists>N. received st' = received st @ N \<and> rbuf st @ N = frames M @ rbuf st')"

lemma took_trans: "took st M st1 \<Longrightarrow> took st1 M' st' \<Longrightarrow> took st (M @ M') st'"
proof -
  assume a: "took st M st1" "took st1 M' st'"
  then obtain N N' where r: "received st1 = received st @ N" "received st' = received st1 @ N'"
    and f: "rbuf st @ N = frames M @ rbuf st1" "rbuf st1 @ N' = frames M' @ rbuf st'"
    by (auto simp: took_def)
  have "rbuf st @ N @ N' = (rbuf st @ N) @ N'" by simp
  also have "\<dots> = frames (M @ M') @ rbuf st'" using f(2) by (simp add: f(1))
  finally show ?thesis using a r unfolding took_def by auto
qed

lemma took_nothing: "received st' = received st \<Longrightarrow> rbuf st' = rbuf st \<Longrightarrow> took st [] st'"
  by (simp add: took_def)

lemma frame_unique:
  assumes "frame op body @ r = frame op' body' @ r'" and "length body < 2 ^ 16" "length body' < 2 ^ 16"
  shows "op = op' \<and> body = body' \<and> r = r'"
proof -
  define bs where "bs = frame op body @ r"
  have bs': "bs = frame op' body' @ r'" unfolding bs_def by (rule assms(1))
  have "u16_at bs 0 = op" "unat (u16_at bs 2) = length body"
    using assms(2) unfolding bs_def frame_def append.assoc by (simp_all only: u16_at_header)
  moreover have "u16_at bs 0 = op'" "unat (u16_at bs 2) = length body'"
    using assms(3) unfolding bs' frame_def append.assoc by (simp_all only: u16_at_header)
  ultimately have "op = op'" "length body = length body'" by simp_all
  then show ?thesis using assms(1) by (simp add: frame_def)
qed

lemma frames_unique:
  "frames M = frames M' \<Longrightarrow> list_all (\<lambda>(op, body). length body < 2 ^ 16) M \<Longrightarrow>
   list_all (\<lambda>(op, body). length body < 2 ^ 16) M' \<Longrightarrow> M = M'"
proof (induction M arbitrary: M')
  case Nil
  then show ?case by (cases M') (auto simp: frames_def frame_def header_def)
next
  case (Cons m M)
  obtain m' M'' where M': "M' = m' # M''"
    using Cons.prems(1) by (cases M') (auto simp: frames_def frame_def header_def split: prod.splits)
  obtain op body op' body' where m: "m = (op, body)" "m' = (op', body')" by (cases m, cases m')
  have "op = op' \<and> body = body' \<and> frames M = frames M''"
    by (rule frame_unique) (use Cons.prems in \<open>simp_all add: M' m\<close>)
  then show ?case using Cons.IH [of M''] Cons.prems by (simp add: M' m)
qed

text \<open>\<open>emits m Q\<close>: when \<open>m\<close> returns, the messages it has taken and what it has sent and printed are described
  by \<open>Q\<close>.\<close>

definition emits ::
    "('a, 's, 'p) action \<Rightarrow> ('a \<Rightarrow> (u16 \<times> byte list) list \<Rightarrow> byte list \<Rightarrow> string list \<Rightarrow> bool) \<Rightarrow> bool" where
  "emits m Q \<longleftrightarrow> (\<forall>st y st'. m st = (Ok y, st') \<longrightarrow>
     (\<exists>M F L. took st M st' \<and> sent st' = sent st @ F \<and> lines_out st' = lines_out st @ L \<and> Q y M F L))"

lemma emitsI:
  assumes "\<And>st y st'. m st = (Ok y, st') \<Longrightarrow>
    \<exists>M F L. took st M st' \<and> sent st' = sent st @ F \<and> lines_out st' = lines_out st @ L \<and> Q y M F L"
  shows "emits m Q"
  using assms unfolding emits_def by blast

lemma emitsE:
  assumes "emits m Q" and "m st = (Ok y, st')"
  obtains M F L where "took st M st'" "sent st' = sent st @ F" "lines_out st' = lines_out st @ L" "Q y M F L"
  using assms unfolding emits_def by blast

lemma emits_weaken: "emits m Q \<Longrightarrow> (\<And>y M F L. Q y M F L \<Longrightarrow> R y M F L) \<Longrightarrow> emits m R"
  unfolding emits_def by blast

text \<open>Symbolic execution of a course: each action contributes messages that \<open>P\<close> relates to its result, known
  bytes and known lines.\<close>

lemma emits_step:
  assumes "emits m (\<lambda>x M F L. P x M \<and> F = F1 \<and> L = L1)"
    and "\<And>x M1. P x M1 \<Longrightarrow> emits (f x) (\<lambda>y M F L. Q y (M1 @ M) (F1 @ F) (L1 @ L))"
  shows "emits (bindS m f) Q"
proof (rule emitsI)
  fix st y st'
  assume "bindS m f st = (Ok y, st')"
  then obtain x st1 where 1: "m st = (Ok x, st1)" and 2: "f x st1 = (Ok y, st')"
    by (rule bindS_Ok)
  obtain M1 where M1: "took st M1 st1" "sent st1 = sent st @ F1" "lines_out st1 = lines_out st @ L1" "P x M1"
    using emitsE [OF assms(1) 1] by blast
  obtain M F L where "took st1 M st'" "sent st' = sent st1 @ F" "lines_out st' = lines_out st1 @ L"
      "Q y (M1 @ M) (F1 @ F) (L1 @ L)"
    using emitsE [OF assms(2) [OF M1(4)] 2] by blast
  then show "\<exists>M F L. took st M st' \<and> sent st' = sent st @ F \<and> lines_out st' = lines_out st @ L \<and> Q y M F L"
    using M1(2,3) took_trans [OF M1(1)] by (metis append.assoc)
qed

lemma emits_end: "Q x [] [] [] \<Longrightarrow> emits (ret x) Q"
  by (auto simp: emits_def intro: took_nothing)

text \<open>An action that takes, sends and prints nothing.\<close>

abbreviation silent :: "('a, 's, 'p) action \<Rightarrow> bool" where
  "silent m \<equiv> emits m (\<lambda>_ M F L. M = [] \<and> F = [] \<and> L = [])"

lemma silent_bind: "silent m \<Longrightarrow> (\<And>x. silent (f x)) \<Longrightarrow> silent (bindS m f)"
  by (rule emits_step [where P = "\<lambda>_ M. M = []" and ?F1.0 = "[]" and ?L1.0 = "[]"]) auto

lemma silentI:
  assumes "\<And>st y st'. m st = (Ok y, st') \<Longrightarrow>
    received st' = received st \<and> rbuf st' = rbuf st \<and> sent st' = sent st \<and> lines_out st' = lines_out st"
  shows "silent m"
  using assms took_nothing unfolding emits_def by fastforce

lemma emits_require: "emits (require b t) (\<lambda>_ M F L. (b \<and> M = []) \<and> F = [] \<and> L = [])"
  by (auto simp: emits_def took_def)

lemma silent_require: "silent (require b t)"
  by (rule emits_weaken [OF emits_require]) simp

lemma emits_call: "silent (call f)"
  by (rule silentI) (auto simp: call_def split: prod.splits)

lemma emits_close: "silent (do_close w fd)"
  unfolding do_close_def by (rule emits_call)

lemma emits_puts: "emits (puts l) (\<lambda>_ M F L. M = [] \<and> F = [] \<and> L = [l])"
  by (auto simp: emits_def puts_def took_def)

lemma emits_write_all: "emits (write_all w bs t) (\<lambda>_ M F L. M = [] \<and> F = bs \<and> L = [])"
  by (auto simp: emits_def write_all_def bindS_def call_def took_def split: prod.splits if_splits)

text \<open>A complete frame at the front of the buffer.\<close>

lemma u16_join:
  "ucast (ucast a OR push_bit 8 (ucast b) :: u16) = (a :: byte)"
  "ucast (drop_bit 8 (ucast a OR push_bit 8 (ucast b) :: u16)) = (b :: byte)"
  by (rule bit_word_eqI; auto simp: bit_simps dest: bit_imp_le_length)+

lemma header_join:
  "header (u16_at (a # b # c # d # rest) 0) (unat (u16_at (a # b # c # d # rest) 2)) = [a, b, c, d]"
proof -
  define v w where "v = u16_at (a # b # c # d # rest) 0" and "w = u16_at (a # b # c # d # rest) 2"
  have "v = ucast a OR push_bit 8 (ucast b)" "w = ucast c OR push_bit 8 (ucast d)"
    by (simp_all add: v_def w_def u16_at_def)
  then have "ucast v = a" "ucast (drop_bit 8 v) = b" "ucast w = c" "ucast (drop_bit 8 w) = d"
    by (simp_all only: u16_join)
  then show ?thesis unfolding v_def [symmetric] w_def [symmetric] by (simp add: header_def)
qed

lemma frame_of_buffer:
  assumes "4 + unat (u16_at bs 2) \<le> length bs"
  shows "frame (u16_at bs 0) (bytes_at 4 (unat (u16_at bs 2)) bs) @ drop (4 + unat (u16_at bs 2)) bs = bs"
proof -
  define n where "n = unat (u16_at bs 2)"
  obtain a b c d rest where bs: "bs = a # b # c # d # rest"
    using assms by (auto simp: numeral_eq_Suc Suc_le_length_iff dest!: add_leD1)
  have h: "header (u16_at bs 0) n = [a, b, c, d]" unfolding n_def bs by (rule header_join)
  have n: "n \<le> length rest" using assms unfolding n_def [symmetric] by (simp add: bs)
  have b: "bytes_at 4 n bs = take n rest" "drop (4 + n) bs = drop n rest" by (simp_all add: bs bytes_at_def numeral_eq_Suc)
  show ?thesis unfolding n_def [symmetric] frame_def b using h n by (simp add: bs)
qed

end
