(* ===== verification/VmProbe.thy ===== *)
theory VmProbe
  imports SeatWire
begin

text \<open>
  The guest qualification client \<^verbatim>\<open>src/seatd-rs/harness/vm-probe.c\<close>: buffered reading of frames with
  up to 64 pending descriptors, and the course of the test: open the seat and two devices, check
  exclusivity, switch the session, check revocation, take the seat back, reopen, close, and check
  that the terminal is restored.
\<close>

section \<open>Reading\<close>

text \<open>The descriptors of all control messages, one after the other.\<close>

fun push_fds :: "int list \<Rightarrow> (unit, 's, int list) action" where
  "push_fds [] = ret ()"
| "push_fds (fd # fds) = (\<lambda>st.
     if length (pend st) < 64 then push_fds fds (st\<lparr>pend := pend st @ [fd]\<rparr>)
     else (Exit 1 ''too many fds'', st))"

definition vm_refill :: "'s seat_world \<Rightarrow> (unit, 's, int list) action" where
  "vm_refill w =
     bindS (call (w_poll w 30000)) (\<lambda>(ready, _, _).
     bindS (require (ready > 0) ''reply timeout'') (\<lambda>_ st.
       case w_recvmsg w (RBUF - length (rbuf st)) (world st) of (r, s) \<Rightarrow>
         let st1 = st\<lparr>world := s\<rparr>
         in case r of
           None \<Rightarrow> (Exit 1 ''recvmsg'', st1)
         | Some (bytes, fds) \<Rightarrow>
             let got = take (RBUF - length (rbuf st)) bytes
             in if got = [] then (Exit 1 ''recvmsg'', st1)
                else push_fds fds (st1\<lparr>rbuf := rbuf st1 @ got, received := received st1 @ got\<rparr>)))"

lemma push_fds_keeps: "push_fds fds st = (Ok y, st') \<Longrightarrow>
  rbuf st' = rbuf st \<and> received st' = received st \<and> sent st' = sent st \<and> lines_out st' = lines_out st \<and> world st' = world st \<and>
  pend st' = pend st @ fds"
proof (induction fds arbitrary: st)
  case (Cons fd fds)
  then show ?case
    by (fastforce split: if_splits)
qed simp

lemma vm_refill_grows:
  assumes "vm_refill w st = (Ok y, st')"
  shows "\<exists>got. rbuf st' = rbuf st @ got \<and> got \<noteq> [] \<and> length got \<le> RBUF - length (rbuf st) \<and>
           received st' = received st @ got \<and> sent st' = sent st \<and> lines_out st' = lines_out st"
proof -
  obtain r s1 where s1: "w_poll w 30000 (world st) = (r, s1)"
    by (cases "w_poll w 30000 (world st)")
  then obtain bytes fds s2 where r: "w_recvmsg w (RBUF - length (rbuf st)) s1 = (Some (bytes, fds), s2)"
    "take (RBUF - length (rbuf st)) bytes \<noteq> []"
    "push_fds fds (st\<lparr>world := s2, rbuf := rbuf st @ take (RBUF - length (rbuf st)) bytes,
      received := received st @ take (RBUF - length (rbuf st)) bytes\<rparr>) = (Ok y, st')"
    using assms by (auto simp: vm_refill_def bindS_def call_def require_def Let_def
        split: prod.splits option.splits if_splits)
  then show ?thesis
    using push_fds_keeps [OF r(3)] by auto
qed

text \<open>\<open>cap\<close> is the size of the caller's buffer for the body.\<close>

function vm_take_msg :: "'s seat_world \<Rightarrow> nat \<Rightarrow> (u16 \<times> byte list, 's, int list) action" where
  "vm_take_msg w cap st =
     (if length (rbuf st) \<ge> 4 \<and> RBUF - 4 < unat (u16_at (rbuf st) 2) then (Exit 1 ''frame too large'', st)
      else if length (rbuf st) \<ge> 4 \<and> length (rbuf st) \<ge> 4 + unat (u16_at (rbuf st) 2) then
        let s = unat (u16_at (rbuf st) 2)
        in if s > cap then (Smash, st)
           else (Ok (u16_at (rbuf st) 0, bytes_at 4 s (rbuf st)), st\<lparr>rbuf := drop (4 + s) (rbuf st)\<rparr>)
      else if length (rbuf st) = RBUF then (Exit 1 ''client: reply overflow'', st)
      else case vm_refill w st of
        (Ok _, st') \<Rightarrow> vm_take_msg w cap st'
      | (Exit c t, st') \<Rightarrow> (Exit c t, st')
      | (Smash, st') \<Rightarrow> (Smash, st'))"
  by pat_completeness auto
termination
proof (relation "measure (\<lambda>(w, cap, st). RBUF - length (rbuf st))", simp, goal_cases)
  case (1 w cap st x y x1)
  then have "vm_refill w st = (Ok x1, y)"
    by simp
  then obtain got where "rbuf y = rbuf st @ got" "got \<noteq> []" "length got \<le> RBUF - length (rbuf st)"
    using vm_refill_grows by blast
  then show ?case
    by (cases got) auto
qed

declare vm_take_msg.simps [simp del]

definition vm_send_msg :: "'s seat_world \<Rightarrow> u16 \<Rightarrow> byte list \<Rightarrow> (unit, 's, 'p) action" where
  "vm_send_msg w op body =
     bindS (write_all w (header op (length body)) ''send header'') (\<lambda>_.
       if body \<noteq> [] then write_all w body ''send body'' else ret ())"

definition vm_expect :: "'s seat_world \<Rightarrow> u16 \<Rightarrow> (byte list, 's, int list) action" where
  "vm_expect w want =
     bindS (vm_take_msg w 256) (\<lambda>(op, body).
       if op \<noteq> want then (\<lambda>st. (Exit 1 ''client: opcode'', st)) else ret body)"

text \<open>The descriptor that arrived last.\<close>

definition take_fd :: "(int, 's, int list) action" where
  "take_fd st = (if pend st \<noteq> [] then (Ok (last (pend st)), st\<lparr>pend := butlast (pend st)\<rparr>)
                 else (Exit 1 ''no device fd arrived'', st))"

definition close_pending :: "'s seat_world \<Rightarrow> (unit, 's, int list) action" where
  "close_pending w st = (Ok (), st\<lparr>world := fold (w_close w) (rev (pend st)) (world st), pend := []\<rparr>)"

section \<open>Devices and the daemon's end\<close>

definition open_device :: "'s seat_world \<Rightarrow> string \<Rightarrow> (int \<times> int, 's, int list) action" where
  "open_device w path =
     bindS (require (length path + 1 \<le> 256) ''path too long'') (\<lambda>_.
     bindS (vm_send_msg w 3 (path_body path)) (\<lambda>_.
     bindS (vm_expect w 0x8003) (\<lambda>rb.
     bindS (require (length rb = 4) ''device id size'') (\<lambda>_.
     bindS take_fd (\<lambda>fd. ret (to_i32 rb, fd))))))"

text \<open>The poll loop of \<^verbatim>\<open>drain_shutdown\<close>: \<open>i\<close> rounds are left, \<open>hup\<close> is the flag of the last poll.\<close>

fun drain_loop :: "'s seat_world \<Rightarrow> nat \<Rightarrow> bool \<Rightarrow> (bool, 's, 'p) action" where
  "drain_loop w 0 hup = ret hup"
| "drain_loop w (Suc i) hup =
     (if hup then ret hup
      else bindS (call (w_poll w 1000)) (\<lambda>(ready, pollin, hup').
           bindS (require (ready > 0) ''daemon disconnect timeout'') (\<lambda>_.
             if pollin then
               bindS (call (w_read w 256)) (\<lambda>n. if n = 0 then ret hup' else drain_loop w i hup')
             else drain_loop w i hup')))"

definition drain_shutdown :: "'s seat_world \<Rightarrow> int \<Rightarrow> (unit, 's, 'p) action" where
  "drain_shutdown w sigpid =
     bindS (call (w_kill w sigpid 15)) (\<lambda>r.
     bindS (require (r = 0) ''signal daemon'') (\<lambda>_.
     bindS (drain_loop w 20 False) (\<lambda>hup. require hup ''daemon disconnect'')))"

section \<open>The test\<close>

definition DRM_SET_MASTER :: int where "DRM_SET_MASTER = 0x641e"
definition DRM_DROP_MASTER :: int where "DRM_DROP_MASTER = 0x641f"
definition EVIOCGVERSION :: int where "EVIOCGVERSION = 0x80044501"
definition VT_GETMODE :: int where "VT_GETMODE = 0x5601"
definition VT_ACTIVATE :: int where "VT_ACTIVATE = 0x5606"
definition KDGETMODE :: int where "KDGETMODE = 0x4B3B"
definition KDGKBMODE :: int where "KDGKBMODE = 0x4B44"

definition check_restored :: "'s seat_world \<Rightarrow> string \<Rightarrow> string \<Rightarrow> (unit, 's, 'p) action" where
  "check_restored w tty1 what =
     bindS (call (w_open w ''/dev/tty1'')) (\<lambda>fd.
     bindS (require (fd \<ge> 0) tty1) (\<lambda>_.
     bindS (call (w_ioctl w fd VT_GETMODE 0)) (\<lambda>(r, vt, _).
     bindS (require (r = 0 \<and> vt = 0) (what @ '' vt mode'')) (\<lambda>_.
     bindS (call (w_ioctl w fd KDGETMODE 0)) (\<lambda>(r, mode, _).
     bindS (require (r = 0 \<and> mode = 0) (what @ '' display'')) (\<lambda>_.
     bindS (call (w_ioctl w fd KDGKBMODE 0)) (\<lambda>(r, kb, _).
     require (r = 0 \<and> kb = 3) (what @ '' keyboard''))))))))"

text \<open>The switch handshake: \<open>i\<close> rounds are left.\<close>

fun handshake :: "'s seat_world \<Rightarrow> nat \<Rightarrow> bool \<Rightarrow> bool \<Rightarrow> (bool, 's, int list) action" where
  "handshake w 0 seen_disable seen_switched = ret (seen_disable \<and> seen_switched)"
| "handshake w (Suc i) seen_disable seen_switched =
     (if seen_disable \<and> seen_switched then ret True
      else bindS (vm_take_msg w 256) (\<lambda>(op, _).
        if op = 0x8005 then handshake w i True seen_switched
        else if op = 0x8008 then handshake w i seen_disable True
        else (\<lambda>st. (Exit 1 ''client: unexpected opcode during switch'', st))))"

definition connect_seat :: "'s seat_world \<Rightarrow> (int, 's, 'p) action" where
  "connect_seat w =
     bindS (call (w_socket w)) (\<lambda>sock.
     bindS (require (sock \<ge> 0) ''socket'') (\<lambda>_.
     bindS (call (w_connect w (take 107 (case w_getenv w ''SEATD_SOCK'' of None \<Rightarrow> ''/run/seatd.sock'' | Some p \<Rightarrow> p)))) (\<lambda>r.
     bindS (require (r = 0) ''connect'') (\<lambda>_. ret sock))))"

text \<open>A second opening of the graphics device, and whether it may become its master.\<close>

definition competing_drm :: "'s seat_world \<Rightarrow> string \<Rightarrow> string \<Rightarrow> (unit, 's, 'p) action" where
  "competing_drm w opened what =
     bindS (call (w_open w ''/dev/dri/card0'')) (\<lambda>fd.
     bindS (require (fd \<ge> 0) opened) (\<lambda>_.
     bindS (call (w_ioctl w fd DRM_SET_MASTER 0)) (\<lambda>(r, _, _).
     bindS (require (r < 0) what) (\<lambda>_. do_close w fd))))"

definition drm_handoff :: "'s seat_world \<Rightarrow> (unit, 's, 'p) action" where
  "drm_handoff w =
     bindS (call (w_open w ''/dev/dri/card0'')) (\<lambda>fd.
     bindS (require (fd \<ge> 0) ''open second drm'') (\<lambda>_.
     bindS (call (w_ioctl w fd DRM_SET_MASTER 0)) (\<lambda>(r, _, _).
     bindS (require (r = 0) ''second drm master'') (\<lambda>_.
     bindS (call (w_ioctl w fd DRM_DROP_MASTER 0)) (\<lambda>(r, _, _).
     bindS (require (r = 0) ''drop second drm master'') (\<lambda>_. do_close w fd))))))"

definition close_device :: "'s seat_world \<Rightarrow> int \<Rightarrow> int \<Rightarrow> (unit, 's, int list) action" where
  "close_device w ident fd =
     bindS (vm_send_msg w 4 (i32_bytes ident)) (\<lambda>_.
     bindS (vm_expect w 0x8004) (\<lambda>_. do_close w fd))"

definition vm_session :: "'s seat_world \<Rightarrow> int \<Rightarrow> (int, 's, int list) action" where
  "vm_session w tty =
     bindS (open_device w ''/dev/dri/card0'') (\<lambda>(gpu_id, gpu).
     bindS (open_device w ''/dev/input/event0'') (\<lambda>(input_id, input).
     bindS (competing_drm w ''open competing drm'' ''initial drm exclusivity'') (\<lambda>_.
     bindS (call (w_ioctl w input EVIOCGVERSION 0)) (\<lambda>(r, _, _).
     bindS (require (r = 0) ''initial evdev'') (\<lambda>_.
     bindS (vm_send_msg w 6 (i32_bytes 2)) (\<lambda>_.
     bindS (handshake w 20 False False) (\<lambda>seen.
     bindS (require seen ''switch handshake'') (\<lambda>_.
     bindS (vm_send_msg w 5 []) (\<lambda>_.
     bindS (vm_expect w 0x8009) (\<lambda>_.
     bindS (call (w_ioctl w input EVIOCGVERSION 0)) (\<lambda>(r, _, errno).
     bindS (require (r < 0 \<and> errno = 19) ''evdev revoked'') (\<lambda>_.
     bindS (drm_handoff w) (\<lambda>_.
     bindS (puts ''VM_RELEASE_REVOKE_HANDOFF_OK'') (\<lambda>_.
     bindS (call (w_ioctl w tty VT_ACTIVATE 1)) (\<lambda>(r, _, _).
     bindS (require (r = 0) ''activate vt1'') (\<lambda>_.
     bindS (vm_expect w 0x8006) (\<lambda>_.
     bindS (competing_drm w ''open competing drm after acquire'' ''regained drm exclusivity'') (\<lambda>_.
     bindS (close_device w input_id input) (\<lambda>_.
     bindS (open_device w ''/dev/input/event0'') (\<lambda>(input_id, input).
     bindS (call (w_ioctl w input EVIOCGVERSION 0)) (\<lambda>(r, _, _).
     bindS (require (r = 0) ''reopened evdev'') (\<lambda>_.
     bindS (puts ''VM_ACQUIRE_REOPEN_OK'') (\<lambda>_.
     bindS (close_device w input_id input) (\<lambda>_.
     bindS (close_device w gpu_id gpu) (\<lambda>_.
     bindS (vm_send_msg w 2 []) (\<lambda>_.
     bindS (vm_expect w 0x8002) (\<lambda>_.
     bindS (close_pending w) (\<lambda>_.
     bindS (check_restored w ''tty1'' ''restore'') (\<lambda>_.
     bindS (puts ''VM_RESTORE_OK'') (\<lambda>_. ret 0))))))))))))))))))))))))))))))"

definition atoi10 :: "string \<Rightarrow> int" where
  "atoi10 s = sint (word_of_int (strtol10 s) :: u32)"

definition vm_main :: "'s seat_world \<Rightarrow> (int, 's, int list) action" where
  "vm_main w =
     bindS (call (w_open w ''/dev/tty0'')) (\<lambda>tty.
     bindS (require (tty \<ge> 0) ''tty0'') (\<lambda>_.
     bindS (connect_seat w) (\<lambda>_.
     bindS (vm_send_msg w 1 []) (\<lambda>_.
     bindS (vm_expect w 0x8001) (\<lambda>_.
     bindS (vm_expect w 0x8006) (\<lambda>_.
       case w_getenv w ''VM_SHUTDOWN_PID'' of
         Some pid \<Rightarrow>
           bindS (drain_shutdown w (atoi10 pid)) (\<lambda>_.
           bindS (check_restored w ''tty1 shutdown'' ''shutdown'') (\<lambda>_.
           bindS (puts ''VM_SHUTDOWN_RESTORE_OK'') (\<lambda>_. ret 0)))
       | None \<Rightarrow> vm_session w tty))))))"

end
