(* ===== verification/SeatClient.thy ===== *)
theory SeatClient
  imports VmProbe
begin

text \<open>
  The minimal client \<^verbatim>\<open>src/mdevd-rs/tools/combined-seat-client.c\<close>: one pending descriptor, and the
  course of opening the seat, opening one device and closing both.
\<close>

section \<open>Reading\<close>

text \<open>The first descriptor is kept while none is pending (a negative \<open>pend\<close>); others are closed.\<close>

fun keep_fds :: "'s seat_world \<Rightarrow> int list \<Rightarrow> ('s, int) seat \<Rightarrow> ('s, int) seat" where
  "keep_fds w [] st = st"
| "keep_fds w (fd # fds) st =
     keep_fds w fds (if pend st \<ge> 0 then st\<lparr>world := w_close w fd (world st)\<rparr> else st\<lparr>pend := fd\<rparr>)"

definition client_refill :: "'s seat_world \<Rightarrow> (unit, 's, int) action" where
  "client_refill w st =
     (case w_recvmsg w (RBUF - length (rbuf st)) (world st) of (r, s) \<Rightarrow>
        let st1 = st\<lparr>world := s\<rparr>
        in case r of
          None \<Rightarrow> (Exit 1 ''recvmsg'', st1)
        | Some (bytes, fds) \<Rightarrow>
            let got = take (RBUF - length (rbuf st)) bytes
            in if got = [] then (Exit 1 ''recvmsg'', st1)
               else (Ok (), keep_fds w fds (st1\<lparr>rbuf := rbuf st1 @ got, received := received st1 @ got\<rparr>)))"

lemma keep_fds_keeps:
  "rbuf (keep_fds w fds st) = rbuf st \<and> received (keep_fds w fds st) = received st \<and> sent (keep_fds w fds st) = sent st \<and>
   lines_out (keep_fds w fds st) = lines_out st"
  by (induction fds arbitrary: st) auto

lemma client_refill_grows:
  assumes "client_refill w st = (Ok y, st')"
  shows "\<exists>got. rbuf st' = rbuf st @ got \<and> got \<noteq> [] \<and> length got \<le> RBUF - length (rbuf st) \<and>
           received st' = received st @ got \<and> sent st' = sent st \<and> lines_out st' = lines_out st"
  using assms
  by (auto simp: client_refill_def Let_def keep_fds_keeps split: prod.splits option.splits if_splits)

function client_take_msg :: "'s seat_world \<Rightarrow> nat \<Rightarrow> (u16 \<times> byte list, 's, int) action" where
  "client_take_msg w cap st =
     (if length (rbuf st) \<ge> 4 \<and> RBUF - 4 < unat (u16_at (rbuf st) 2) then (Exit 1 ''frame too large'', st)
      else if length (rbuf st) \<ge> 4 \<and> length (rbuf st) \<ge> 4 + unat (u16_at (rbuf st) 2) then
        let s = unat (u16_at (rbuf st) 2)
        in if s > cap then (Smash, st)
           else (Ok (u16_at (rbuf st) 0, bytes_at 4 s (rbuf st)), st\<lparr>rbuf := drop (4 + s) (rbuf st)\<rparr>)
      else if \<not> length (rbuf st) < RBUF then (Exit 1 ''reply overflow'', st)
      else case client_refill w st of
        (Ok _, st') \<Rightarrow> client_take_msg w cap st'
      | (Exit c t, st') \<Rightarrow> (Exit c t, st')
      | (Smash, st') \<Rightarrow> (Smash, st'))"
  by pat_completeness auto
termination
proof (relation "measure (\<lambda>(w, cap, st). RBUF - length (rbuf st))", simp, goal_cases)
  case (1 w cap st x y x1)
  then have "client_refill w st = (Ok x1, y)"
    by simp
  then obtain got where "rbuf y = rbuf st @ got" "got \<noteq> []" "length got \<le> RBUF - length (rbuf st)"
    using client_refill_grows by blast
  then show ?case
    by (cases got) auto
qed

declare client_take_msg.simps [simp del]

definition client_send_msg :: "'s seat_world \<Rightarrow> u16 \<Rightarrow> byte list \<Rightarrow> (unit, 's, 'p) action" where
  "client_send_msg w op body =
     bindS (write_all w (header op (length body)) ''send header'') (\<lambda>_.
       if body \<noteq> [] then write_all w body ''send body'' else ret ())"

definition client_expect :: "'s seat_world \<Rightarrow> u16 \<Rightarrow> (byte list, 's, int) action" where
  "client_expect w want =
     bindS (client_take_msg w 256) (\<lambda>(op, body).
       if op \<noteq> want then (\<lambda>st. (Exit 1 ''client: opcode'', st)) else ret body)"

section \<open>The program\<close>

definition take_pending :: "(int, 's, int) action" where
  "take_pending st = (if pend st \<ge> 0 then (Ok (pend st), st\<lparr>pend := -1\<rparr>)
                      else (Exit 1 ''no device fd arrived'', st))"

definition client_main :: "'s seat_world \<Rightarrow> string list \<Rightarrow> (int, 's, int) action" where
  "client_main w argv =
     (let devpath = (if length argv > 1 then argv ! 1 else ''/dev/dri/card0'')
      in bindS (connect_seat w) (\<lambda>_.
         bindS (client_send_msg w 1 []) (\<lambda>_.
         bindS (client_expect w 0x8001) (\<lambda>_.
         bindS (client_expect w 0x8006) (\<lambda>_.
         bindS (require (length devpath + 1 \<le> 256) ''path too long'') (\<lambda>_.
         bindS (client_send_msg w 3 (path_body devpath)) (\<lambda>_.
         bindS (client_expect w 0x8003) (\<lambda>rb.
         bindS (require (length rb = 4) ''device id size'') (\<lambda>_.
         bindS take_pending (\<lambda>fd.
         bindS (puts ''COMBINED_SEAT_DEVICE_OK'') (\<lambda>_.
         bindS (do_close w fd) (\<lambda>_.
         bindS (client_send_msg w 4 (i32_bytes (to_i32 rb))) (\<lambda>_.
         bindS (client_expect w 0x8004) (\<lambda>_.
         bindS (client_send_msg w 2 []) (\<lambda>_.
         bindS (client_expect w 0x8002) (\<lambda>_.
         bindS (\<lambda>st. if pend st \<ge> 0 then do_close w (pend st) st else (Ok (), st)) (\<lambda>_.
         bindS (puts ''COMBINED_SEAT_OK'') (\<lambda>_. ret 0))))))))))))))))))"

end
