(* ===== verification/SeatSpec.thy ===== *)
theory SeatSpec
  imports SeatClient
begin

text \<open>
  What the seat clients promise: reading does not depend on how the byte stream is cut into pieces
  (locale \<open>framed_reader\<close>, for both clients), the buffers keep their bounds, and a client that
  succeeds has taken the expected replies and sent exactly its requests, in order, with the identities of
  devices from the replies.
\<close>

section \<open>Frames from a stream\<close>

text \<open>What the clients rely on from the system: while the server has bytes to deliver, a poll finds
  them and a receive takes a nonempty beginning of them, of at most the size asked for, with some
  of the descriptors still to come.\<close>

definition delivers :: "'s seat_world \<Rightarrow> bool" where
  "delivers w \<longleftrightarrow> (\<forall>s. w_bytes w s \<noteq> [] \<longrightarrow>
     (\<exists>r f g s'. w_poll w 30000 s = ((r, f, g), s') \<and> r > 0 \<and> w_bytes w s' = w_bytes w s \<and> w_fds w s' = w_fds w s) \<and>
     (\<forall>n > 0. \<exists>k fds s'. w_recvmsg w n s = (Some (take k (w_bytes w s), fds), s') \<and> 0 < k \<and> k \<le> n \<and>
        w_bytes w s' = drop k (w_bytes w s) \<and> w_fds w s = length fds + w_fds w s'))"

definition stream :: "'s seat_world \<Rightarrow> ('s, 'p) seat \<Rightarrow> byte list" where
  "stream w st = rbuf st @ w_bytes w (world st)"

text \<open>Reading \<open>n\<close> frames one after the other; a reader that stops ends the sequence.\<close>

fun take_frames :: "('st \<Rightarrow> (u16 \<times> byte list) res \<times> 'st) \<Rightarrow> nat \<Rightarrow> 'st \<Rightarrow> (u16 \<times> byte list) list \<times> 'st" where
  "take_frames take_frame 0 st = ([], st)"
| "take_frames take_frame (Suc n) st =
     (case take_frame st of
        (Ok m, st') \<Rightarrow> (case take_frames take_frame n st' of (ms, st'') \<Rightarrow> (m # ms, st''))
      | (_, st') \<Rightarrow> ([], st'))"

locale framed_reader =
  fixes take_frame :: "'st \<Rightarrow> (u16 \<times> byte list) res \<times> 'st"
    and rest :: "'st \<Rightarrow> byte list"
    and good :: "'st \<Rightarrow> bool"
    and cap :: nat
  assumes frame_taken: "good st \<Longrightarrow> rest st = frame op body @ later \<Longrightarrow> length body \<le> cap \<Longrightarrow>
    \<exists>st'. take_frame st = (Ok (op, body), st') \<and> good st' \<and> rest st' = later"
begin

lemma frames_taken:
  assumes "good st" and "rest st = concat (map (\<lambda>(op, body). frame op body) ms) @ later"
    and "\<forall>m \<in> set ms. length (snd m) \<le> cap"
  shows "\<exists>st'. take_frames take_frame (length ms) st = (ms, st') \<and> good st' \<and> rest st' = later"
  using assms
proof (induction ms arbitrary: st)
  case (Cons m ms)
  obtain op body where m: "m = (op, body)"
    by (cases m)
  obtain st1 where "take_frame st = (Ok (op, body), st1)" "good st1"
    "rest st1 = concat (map (\<lambda>(op, body). frame op body) ms) @ later"
    using frame_taken [OF Cons.prems(1), of op body] Cons.prems m by auto
  moreover then obtain st2 where "take_frames take_frame (length ms) st1 = (ms, st2)" "good st2" "rest st2 = later"
    using Cons.IH Cons.prems(3) by auto
  ultimately show ?case
    by (simp add: m)
qed simp

end

text \<open>One frame, for any refill that takes the next piece of the stream.\<close>

lemma frame_in_buffer:
  assumes "rbuf st @ b = frame op body @ later" and "length body \<le> 4092"
    and "length (frame op body) \<le> length (rbuf st)"
  shows "unat (u16_at (rbuf st) 2) = length body" "u16_at (rbuf st) 0 = op"
    "bytes_at 4 (length body) (rbuf st) = body" "drop (4 + length body) (rbuf st) @ b = later"
proof -
  define tail where "tail = drop (length (frame op body)) (rbuf st)"
  have "take (length (frame op body)) (rbuf st) = frame op body"
    using arg_cong [OF assms(1), of "take (length (frame op body))"] assms(3) by simp
  then have r: "rbuf st = header op (length body) @ body @ tail"
    using append_take_drop_id [of "length (frame op body)" "rbuf st"] by (simp add: tail_def frame_def)
  show "unat (u16_at (rbuf st) 2) = length body" "u16_at (rbuf st) 0 = op"
    using assms(2) by (simp_all add: r u16_at_header)
  show "bytes_at 4 (length body) (rbuf st) = body"
    by (simp add: r bytes_at_def)
  show "drop (4 + length body) (rbuf st) @ b = later"
    using assms(1) by (simp add: r frame_def)
qed

lemma header_in_buffer:
  assumes "rbuf st @ b = frame op body @ later" and "length body \<le> 4092" and "4 \<le> length (rbuf st)"
  shows "unat (u16_at (rbuf st) 2) = length body"
proof -
  have "take 4 (rbuf st) = header op (length body)"
    using arg_cong [OF assms(1), of "take 4"] assms(3) by (simp add: frame_def)
  then have "rbuf st = header op (length body) @ drop 4 (rbuf st)"
    by (metis append_take_drop_id)
  then show ?thesis
    using assms(2) u16_at_header(2) [of "length body" op "drop 4 (rbuf st)"] by simp
qed

definition vm_good :: "'s seat_world \<Rightarrow> ('s, int list) seat \<Rightarrow> bool" where
  "vm_good w st \<longleftrightarrow> delivers w \<and> length (rbuf st) \<le> RBUF \<and> length (pend st) + w_fds w (world st) \<le> 64"

lemma push_fds_fits: "length (pend st) + length fds \<le> 64 \<Longrightarrow> push_fds fds st = (Ok (), st\<lparr>pend := pend st @ fds\<rparr>)"
  by (induction fds arbitrary: st) (auto simp: ret_def)

lemma vm_refill_delivers:
  assumes "vm_good w st" and "w_bytes w (world st) \<noteq> []" and "length (rbuf st) < RBUF"
  shows "\<exists>st'. vm_refill w st = (Ok (), st') \<and> vm_good w st' \<and> stream w st' = stream w st"
proof -
  obtain r f g s1 where s1: "w_poll w 30000 (world st) = ((r, f, g), s1)" "r > 0"
    "w_bytes w s1 = w_bytes w (world st)" "w_fds w s1 = w_fds w (world st)"
    using assms(1,2) unfolding vm_good_def delivers_def by meson
  obtain k fds s2 where s2: "w_recvmsg w (RBUF - length (rbuf st)) s1 = (Some (take k (w_bytes w s1), fds), s2)"
    "0 < k" "k \<le> RBUF - length (rbuf st)" "w_bytes w s2 = drop k (w_bytes w s1)"
    "w_fds w s1 = length fds + w_fds w s2"
    using assms s1(3) unfolding vm_good_def delivers_def by (metis zero_less_diff)
  define got where "got = take k (w_bytes w s1)"
  have got: "take (RBUF - length (rbuf st)) got = got" "got \<noteq> []" "length got \<le> RBUF - length (rbuf st)"
    using s1(3) s2(2,3) assms(2) by (auto simp: got_def min_def)
  have "vm_refill w st = push_fds fds (st\<lparr>world := s2, rbuf := rbuf st @ got, received := received st @ got\<rparr>)"
    using s1(1,2) s2(1) got assms(3) unfolding got_def [symmetric]
    by (simp add: vm_refill_def bindS_def call_def require_def Let_def)
  moreover have "length (pend st) + length fds \<le> 64"
    using assms(1) s1(4) s2(5) by (simp add: vm_good_def)
  ultimately have "vm_refill w st = (Ok (), st\<lparr>world := s2, rbuf := rbuf st @ got, received := received st @ got, pend := pend st @ fds\<rparr>)"
    using push_fds_fits [of "st\<lparr>world := s2, rbuf := rbuf st @ got, received := received st @ got\<rparr>" fds] by simp
  then show ?thesis
    using assms(1,3) s1 s2 got by (simp add: vm_good_def stream_def got_def)
qed

lemma vm_frame_taken:
  assumes "vm_good w st" and "stream w st = frame op body @ later" and "length body \<le> 256"
  shows "\<exists>st'. vm_take_msg w 256 st = (Ok (op, body), st') \<and> vm_good w st' \<and> stream w st' = later"
  using assms(1,2)
proof (induction "RBUF - length (rbuf st)" arbitrary: st rule: less_induct)
  case less
  have st: "rbuf st @ w_bytes w (world st) = frame op body @ later"
    using less.prems(2) by (simp add: stream_def)
  have body: "length body \<le> 4092"
    using assms(3) by simp
  show ?case
  proof (cases "length (frame op body) \<le> length (rbuf st)")
    case True
    note buf = frame_in_buffer [OF st body True]
    have "vm_take_msg w 256 st = (Ok (op, body), st\<lparr>rbuf := drop (4 + length body) (rbuf st)\<rparr>)"
      using True buf assms(3) by (subst vm_take_msg.simps) (simp add: frame_def Let_def RBUF_def)
    then show ?thesis
      using less.prems(1) buf(4) by (auto simp: vm_good_def stream_def)
  next
    case False
    have later: "w_bytes w (world st) \<noteq> []" "length (rbuf st) < RBUF"
      using False st assms(3) arg_cong [OF st, of length] by (auto simp: frame_def RBUF_def)
    obtain st1 where st1: "vm_refill w st = (Ok (), st1)" "vm_good w st1" "stream w st1 = stream w st"
      using vm_refill_delivers [OF less.prems(1) later] by blast
    have "vm_take_msg w 256 st = vm_take_msg w 256 st1"
      using False later(2) st1(1) header_in_buffer [OF st body] assms(3)
      by (subst vm_take_msg.simps) (auto simp: frame_def RBUF_def)
    moreover have "RBUF - length (rbuf st1) < RBUF - length (rbuf st)"
      using vm_refill_grows [OF st1(1)] later(2) by (auto simp: neq_Nil_conv)
    ultimately show ?thesis
      using less.hyps [OF _ st1(2)] st1(3) less.prems(2) by simp
  qed
qed

interpretation vm_reader: framed_reader "vm_take_msg w 256" "stream w" "vm_good w" 256 for w
  by unfold_locales (rule vm_frame_taken)

definition client_good :: "'s seat_world \<Rightarrow> ('s, int) seat \<Rightarrow> bool" where
  "client_good w st \<longleftrightarrow> delivers w \<and> length (rbuf st) \<le> RBUF \<and> (\<forall>fd s. w_bytes w (w_close w fd s) = w_bytes w s)"

lemma keep_fds_world:
  assumes "\<forall>fd s. w_bytes w (w_close w fd s) = w_bytes w s"
  shows "w_bytes w (world (keep_fds w fds st)) = w_bytes w (world st)"
  using assms by (induction fds arbitrary: st) auto

lemma client_refill_delivers:
  assumes "client_good w st" and "w_bytes w (world st) \<noteq> []" and "length (rbuf st) < RBUF"
  shows "\<exists>st'. client_refill w st = (Ok (), st') \<and> client_good w st' \<and> stream w st' = stream w st"
proof -
  obtain k fds s2 where s2: "w_recvmsg w (RBUF - length (rbuf st)) (world st) =
      (Some (take k (w_bytes w (world st)), fds), s2)"
    "0 < k" "k \<le> RBUF - length (rbuf st)" "w_bytes w s2 = drop k (w_bytes w (world st))"
    using assms unfolding client_good_def delivers_def by (metis zero_less_diff)
  define got where "got = take k (w_bytes w (world st))"
  have got: "take (RBUF - length (rbuf st)) got = got" "got \<noteq> []" "length got \<le> RBUF - length (rbuf st)"
    using s2(2,3) assms(2) by (auto simp: got_def min_def)
  define st1 where "st1 = keep_fds w fds (st\<lparr>world := s2, rbuf := rbuf st @ got, received := received st @ got\<rparr>)"
  have "client_refill w st = (Ok (), st1)"
    using s2(1) got assms(3) unfolding got_def [symmetric] by (simp add: client_refill_def st1_def Let_def)
  moreover have "rbuf st1 = rbuf st @ got" "w_bytes w (world st1) = w_bytes w s2"
    using assms(1) keep_fds_world [of w fds "st\<lparr>world := s2, rbuf := rbuf st @ got, received := received st @ got\<rparr>"]
    by (simp_all add: st1_def keep_fds_keeps client_good_def)
  ultimately show ?thesis
    using assms(1,3) s2(4) got by (simp add: client_good_def stream_def got_def)
qed

lemma client_frame_taken:
  assumes "client_good w st" and "stream w st = frame op body @ later" and "length body \<le> 256"
  shows "\<exists>st'. client_take_msg w 256 st = (Ok (op, body), st') \<and> client_good w st' \<and> stream w st' = later"
  using assms(1,2)
proof (induction "RBUF - length (rbuf st)" arbitrary: st rule: less_induct)
  case less
  have st: "rbuf st @ w_bytes w (world st) = frame op body @ later"
    using less.prems(2) by (simp add: stream_def)
  have body: "length body \<le> 4092"
    using assms(3) by simp
  show ?case
  proof (cases "length (frame op body) \<le> length (rbuf st)")
    case True
    note buf = frame_in_buffer [OF st body True]
    have "client_take_msg w 256 st = (Ok (op, body), st\<lparr>rbuf := drop (4 + length body) (rbuf st)\<rparr>)"
      using True buf assms(3) by (subst client_take_msg.simps) (simp add: frame_def Let_def RBUF_def)
    then show ?thesis
      using less.prems(1) buf(4) by (auto simp: client_good_def stream_def)
  next
    case False
    have later: "w_bytes w (world st) \<noteq> []" "length (rbuf st) < RBUF"
      using False st assms(3) arg_cong [OF st, of length] by (auto simp: frame_def RBUF_def)
    obtain st1 where st1: "client_refill w st = (Ok (), st1)" "client_good w st1" "stream w st1 = stream w st"
      using client_refill_delivers [OF less.prems(1) later] by blast
    have "client_take_msg w 256 st = client_take_msg w 256 st1"
      using False later(2) st1(1) header_in_buffer [OF st body] assms(3)
      by (subst client_take_msg.simps) (auto simp: frame_def RBUF_def)
    moreover have "RBUF - length (rbuf st1) < RBUF - length (rbuf st)"
      using client_refill_grows [OF st1(1)] later(2) by (auto simp: neq_Nil_conv)
    ultimately show ?thesis
      using less.hyps [OF _ st1(2)] st1(3) less.prems(2) by simp
  qed
qed

interpretation client_reader: framed_reader "client_take_msg w 256" "stream w" "client_good w" 256 for w
  by unfold_locales (rule client_frame_taken)

text \<open>The guest client reads any sequence of frames, with bodies of up to 256 bytes, exactly as
  the server sent them, in whatever pieces the bytes arrive: opcodes and bodies in order, and
  nothing of what follows is lost.\<close>

lemma vm_reads_frames:
  assumes "vm_good w st" and "stream w st = concat (map (\<lambda>(op, body). frame op body) ms) @ later"
    and "\<forall>m \<in> set ms. length (snd m) \<le> 256"
  shows "\<exists>st'. take_frames (vm_take_msg w 256) (length ms) st = (ms, st') \<and> vm_good w st' \<and> stream w st' = later"
  by (rule vm_reader.frames_taken [OF assms])

text \<open>The minimal client reads frames in the same way.\<close>

lemma client_reads_frames:
  assumes "client_good w st" and "stream w st = concat (map (\<lambda>(op, body). frame op body) ms) @ later"
    and "\<forall>m \<in> set ms. length (snd m) \<le> 256"
  shows "\<exists>st'. take_frames (client_take_msg w 256) (length ms) st = (ms, st') \<and> client_good w st' \<and> stream w st' = later"
  by (rule client_reader.frames_taken [OF assms])

section \<open>Bounds\<close>

lemma push_fds_64: "length (pend st) \<le> 64 \<Longrightarrow> length (pend (snd (push_fds fds st))) \<le> 64"
  by (induction fds arbitrary: st) (auto simp: ret_def)

lemma push_fds_rbuf: "rbuf (snd (push_fds fds st)) = rbuf st"
  by (induction fds arbitrary: st) (auto simp: ret_def)

definition vm_bounded :: "('s, int list) seat \<Rightarrow> bool" where
  "vm_bounded st \<longleftrightarrow> length (rbuf st) \<le> RBUF \<and> length (pend st) \<le> 64"

lemma vm_refill_bounded:
  assumes "vm_bounded st"
  shows "vm_bounded (snd (vm_refill w st))"
proof -
  obtain r f g s1 where s1: "w_poll w 30000 (world st) = ((r, f, g), s1)"
    by (metis prod_cases3 surj_pair)
  obtain m s2 where s2: "w_recvmsg w (RBUF - length (rbuf st)) s1 = (m, s2)"
    by (cases "w_recvmsg w (RBUF - length (rbuf st)) s1")
  have fds: "vm_bounded (snd (push_fds fds (st\<lparr>world := s2, rbuf := rbuf st @ take (RBUF - length (rbuf st)) bs,
      received := received st @ take (RBUF - length (rbuf st)) bs\<rparr>)))" for fds bs
    using assms by (auto simp: vm_bounded_def push_fds_rbuf push_fds_64 min_def)
  show ?thesis
    using assms fds by (auto simp: vm_refill_def bindS_def call_def require_def s1 s2 Let_def vm_bounded_def
        split: option.splits)
qed

text \<open>C27: Whatever the system does, reading a message keeps the receive buffer within its 4096 bytes and
  the pending descriptors within their 64 places, also when it ends the program; and a message
  returned has at most \<open>cap\<close> bytes.\<close>

theorem vm_take_msg_bounded:
  assumes "vm_bounded st"
  shows "vm_bounded (snd (vm_take_msg w cap st)) \<and>
         (\<forall>op body. fst (vm_take_msg w cap st) = Ok (op, body) \<longrightarrow> length body \<le> cap)"
  using assms
proof (induction w cap st rule: vm_take_msg.induct)
  case (1 w cap st)
  show ?case
  proof (cases "vm_refill w st")
    case (Pair r st')
    have b: "vm_bounded st'"
      using vm_refill_bounded [OF 1(2), of w] Pair by simp
    show ?thesis
      using 1(1) [OF _ _ _ Pair [symmetric]] b 1(2) Pair
      by (subst (1 2) vm_take_msg.simps) (auto simp: vm_bounded_def Let_def split: res.splits)
  qed
qed

text \<open>C39: The size of a frame is checked against the receive buffer, not against the caller's buffer of
  256 bytes: a complete frame with a larger body, which the check admits, is copied past the end
  of the caller's buffer.\<close>

theorem vm_take_msg_smashes:
  assumes "rbuf st = frame op body @ later" and "256 < length body" and "length body \<le> 4092"
  shows "fst (vm_take_msg w 256 st) = Smash"
proof -
  have "unat (u16_at (rbuf st) 2) = length body"
    using header_in_buffer [of st "[]" op body later] assms by (simp add: frame_def)
  then show ?thesis
    using assms by (subst vm_take_msg.simps) (simp add: frame_def RBUF_def)
qed

section \<open>The course of the test\<close>

named_theorems emits_intros \<open>what the actions of the clients take, send and print\<close>

declare emits_require [emits_intros] emits_call [emits_intros] emits_close [emits_intros] emits_puts [emits_intros]

lemma took_refill: "rbuf st1 = rbuf st @ got \<Longrightarrow> received st1 = received st @ got \<Longrightarrow> took st1 M st' \<Longrightarrow> took st M st'"
  by (auto simp: took_def)

lemma took_front:
  assumes "4 + unat (u16_at (rbuf st) 2) \<le> length (rbuf st)"
  shows "took st [(u16_at (rbuf st) 0, bytes_at 4 (unat (u16_at (rbuf st) 2)) (rbuf st))]
    (st\<lparr>rbuf := drop (4 + unat (u16_at (rbuf st) 2)) (rbuf st)\<rparr>)"
proof -
  have "length (bytes_at 4 (unat (u16_at (rbuf st) 2)) (rbuf st)) < 2 ^ 16"
    using unsigned_less [of "u16_at (rbuf st) 2", where 'a = nat] by (auto simp: bytes_at_def min_def)
  then show ?thesis using frame_of_buffer [OF assms] by (simp add: took_def)
qed

lemma vm_take_takes:
  "vm_take_msg w cap st = (Ok m, st') \<Longrightarrow> took st [m] st' \<and> sent st' = sent st \<and> lines_out st' = lines_out st"
proof (induction w cap st rule: vm_take_msg.induct)
  case (1 w cap st)
  show ?case
  proof (cases "4 \<le> length (rbuf st) \<and> 4 + unat (u16_at (rbuf st) 2) \<le> length (rbuf st)")
    case True
    then show ?thesis
      using "1.prems" took_front [of st] by (subst (asm) vm_take_msg.simps) (auto simp: Let_def split: if_splits)
  next
    case False
    then obtain st1 where st1: "vm_refill w st = (Ok (), st1)" "vm_take_msg w cap st1 = (Ok m, st')"
        "\<not> (length (rbuf st) \<ge> 4 \<and> RBUF - 4 < unat (u16_at (rbuf st) 2))" "length (rbuf st) \<noteq> RBUF"
      using "1.prems" by (subst (asm) vm_take_msg.simps) (auto split: if_splits res.splits prod.splits)
    then have "took st1 [m] st' \<and> sent st' = sent st1 \<and> lines_out st' = lines_out st1"
      using "1.IH" [OF _ _ _ st1(1) [symmetric]] False by auto
    then show ?thesis using vm_refill_grows [OF st1(1)] took_refill by metis
  qed
qed

lemma client_take_takes:
  "client_take_msg w cap st = (Ok m, st') \<Longrightarrow> took st [m] st' \<and> sent st' = sent st \<and> lines_out st' = lines_out st"
proof (induction w cap st rule: client_take_msg.induct)
  case (1 w cap st)
  show ?case
  proof (cases "4 \<le> length (rbuf st) \<and> 4 + unat (u16_at (rbuf st) 2) \<le> length (rbuf st)")
    case True
    then show ?thesis
      using "1.prems" took_front [of st] by (subst (asm) client_take_msg.simps) (auto simp: Let_def split: if_splits)
  next
    case False
    then obtain st1 where st1: "client_refill w st = (Ok (), st1)" "client_take_msg w cap st1 = (Ok m, st')"
        "\<not> (length (rbuf st) \<ge> 4 \<and> RBUF - 4 < unat (u16_at (rbuf st) 2))" "length (rbuf st) < RBUF"
      using "1.prems" by (subst (asm) client_take_msg.simps) (auto split: if_splits res.splits prod.splits)
    then have "took st1 [m] st' \<and> sent st' = sent st1 \<and> lines_out st' = lines_out st1"
      using "1.IH" [OF _ _ _ st1(1) [symmetric]] False by auto
    then show ?thesis using client_refill_grows [OF st1(1)] took_refill by metis
  qed
qed

lemma emits_take [emits_intros]:
  "emits (vm_take_msg w cap) (\<lambda>x M F L. M = [x] \<and> F = [] \<and> L = [])"
  "emits (client_take_msg w cap) (\<lambda>x M F L. M = [x] \<and> F = [] \<and> L = [])"
  by (rule emitsI, drule vm_take_takes client_take_takes, simp)+

lemma silent_exit: "emits (\<lambda>st. (Exit c t, st)) Q"
  by (simp add: emits_def)

lemma silent_ret: "silent (ret x)"
  by (rule emits_end) simp

lemma emits_case_prod: "(\<And>a b. p = (a, b) \<Longrightarrow> emits (f a b) Q) \<Longrightarrow> emits (case p of (a, b) \<Rightarrow> f a b) Q"
  by (cases p) simp

lemma emits_if: "(b \<Longrightarrow> emits p Q) \<Longrightarrow> (\<not> b \<Longrightarrow> emits q Q) \<Longrightarrow> emits (if b then p else q) Q"
  by simp

lemma emits_send [emits_intros]:
  "emits (vm_send_msg w op body) (\<lambda>_ M F L. M = [] \<and> F = frame op body \<and> L = [])"
  "emits (client_send_msg w op body) (\<lambda>_ M F L. M = [] \<and> F = frame op body \<and> L = [])"
proof -
  have b: "emits (if body \<noteq> [] then write_all w body b else ret ()) (\<lambda>_ M F L. M = [] \<and> F = body \<and> L = [])" for b
    using emits_write_all [of w body b] silent_ret [of "()"] by (cases "body = []") simp_all
  have "emits (bindS (write_all w (header op (length body)) h) (\<lambda>_. if body \<noteq> [] then write_all w body b else ret ()))
      (\<lambda>_ M F L. M = [] \<and> F = frame op body \<and> L = [])" for h b
    by (rule emits_step [OF emits_write_all], rule emits_weaken [OF b]) (simp add: frame_def)
  then show "emits (vm_send_msg w op body) (\<lambda>_ M F L. M = [] \<and> F = frame op body \<and> L = [])"
    "emits (client_send_msg w op body) (\<lambda>_ M F L. M = [] \<and> F = frame op body \<and> L = [])"
    unfolding vm_send_msg_def client_send_msg_def by blast+
qed

lemma emits_expect [emits_intros]:
  "emits (vm_expect w want) (\<lambda>x M F L. M = [(want, x)] \<and> F = [] \<and> L = [])"
  "emits (client_expect w want) (\<lambda>x M F L. M = [(want, x)] \<and> F = [] \<and> L = [])"
  unfolding vm_expect_def client_expect_def
  by (rule emits_step, rule emits_take, simp split: prod.split, auto intro!: silent_exit emits_end)+

lemma silent_take_fd [emits_intros]: "silent take_fd" "silent take_pending" "silent (close_pending w)"
  by (rule silentI, auto simp: take_fd_def take_pending_def close_pending_def split: if_splits)+

text \<open>The handshake takes notices of the disable and of the switch only, and succeeds when it has seen both.\<close>

lemma emits_handshake [emits_intros]:
  "emits (handshake w i a b) (\<lambda>x M F L.
     (fst ` set M \<subseteq> {0x8005, 0x8008} \<and> (x \<longrightarrow> (a \<or> 0x8005 \<in> fst ` set M) \<and> (b \<or> 0x8008 \<in> fst ` set M))) \<and> F = [] \<and> L = [])"
proof (induction i arbitrary: a b)
  case 0
  show ?case unfolding handshake.simps by (rule emits_end) auto
next
  case (Suc i)
  show ?case
    unfolding handshake.simps
    by (intro emits_if emits_end emits_step [OF emits_take(1)])
      (auto intro!: emits_if silent_exit emits_weaken [OF Suc] split: prod.split)
qed

lemma silent_drain [emits_intros]: "silent (drain_loop w i hup)"
proof (induction i arbitrary: hup)
  case (Suc i)
  then show ?case
    unfolding drain_loop.simps
    by (intro emits_if silent_bind emits_case_prod silent_ret silent_require emits_call)
qed (simp add: silent_ret)

lemma silent_checks [emits_intros]:
  "silent (check_restored w a b)" "silent (connect_seat w)" "silent (competing_drm w a b)" "silent (drm_handoff w)"
  "silent (drain_shutdown w pid)"
  unfolding check_restored_def connect_seat_def competing_drm_def drm_handoff_def drain_shutdown_def
  by (intro silent_bind emits_case_prod silent_ret silent_require emits_call emits_close silent_drain)+

text \<open>A device is identified by the four bytes of the daemon's reply, also in the request that closes it.\<close>

lemma i32_bytes_identity:
  assumes "length g = 4"
  shows "i32_bytes (to_i32 g) = g"
proof -
  have "unat (of_nat (le_nat g) :: u32) = le_nat g"
    using le_nat_bound [of g] assms by (simp add: unat_of_nat)
  then show ?thesis
    using le_bytes_le_nat [of g] assms by (simp add: i32_bytes_def to_i32_def word_bytes_eq le_word_eq)
qed

lemma emits_open_device [emits_intros]:
  "emits (open_device w path) (\<lambda>x M F L.
     (\<exists>g. M = [(0x8003, g)] \<and> length g = 4 \<and> fst x = to_i32 g) \<and> F = frame 3 (path_body path) \<and> L = [])"
  unfolding open_device_def
  by ((rule emits_step, rule emits_intros) | rule emits_end)+ auto

lemma emits_close_device [emits_intros]:
  "emits (close_device w ident fd) (\<lambda>_ M F L. (\<exists>b. M = [(0x8004, b)]) \<and> F = frame 4 (i32_bytes ident) \<and> L = [])"
  unfolding close_device_def
  by ((rule emits_step, rule emits_intros) | rule emits_weaken [OF emits_close])+ auto

text \<open>The bodies of the replies to requests that open a device, and the requests of a session in which these were
  the replies.\<close>

definition opened :: "(u16 \<times> byte list) list \<Rightarrow> byte list list" where
  "opened M = map snd (filter (\<lambda>m. fst m = 0x8003) M)"

definition vm_requests :: "byte list \<Rightarrow> byte list \<Rightarrow> byte list \<Rightarrow> byte list" where
  "vm_requests gpu input input' =
     frame 3 (path_body ''/dev/dri/card0'') @ frame 3 (path_body ''/dev/input/event0'') @
     frame 6 (i32_bytes 2) @ frame 5 [] @ frame 4 input @
     frame 3 (path_body ''/dev/input/event0'') @ frame 4 input' @
     frame 4 gpu @ frame 2 []"

definition vm_session_course :: "int \<Rightarrow> (u16 \<times> byte list) list \<Rightarrow> byte list \<Rightarrow> string list \<Rightarrow> bool" where
  "vm_session_course y M F L \<longleftrightarrow> y = 0 \<and>
     (\<exists>notices. map fst M = [0x8003, 0x8003] @ notices @ [0x8009, 0x8006, 0x8004, 0x8003, 0x8004, 0x8004, 0x8002] \<and>
        set notices = {0x8005, 0x8008}) \<and>
     (\<exists>gpu input input'. opened M = [gpu, input, input'] \<and> F = vm_requests gpu input input') \<and>
     L = [''VM_RELEASE_REVOKE_HANDOFF_OK'', ''VM_ACQUIRE_REOPEN_OK'', ''VM_RESTORE_OK'']"

lemma opened_notices: "fst ` set H \<subseteq> {0x8005, 0x8008} \<Longrightarrow> opened H = []"
  by (auto simp: opened_def filter_empty_conv)

lemma vm_session_courseI:
  assumes "length g = 4" "length i = 4" "length j = 4"
    and "fst ` set H \<subseteq> {0x8005, 0x8008}" "0x8005 \<in> fst ` set H" "0x8008 \<in> fst ` set H"
    and "M = [(0x8003, g), (0x8003, i)] @ H @
      [(0x8009, b1), (0x8006, b2), (0x8004, b3), (0x8003, j), (0x8004, b4), (0x8004, b5), (0x8002, b6)]"
    and "F = vm_requests (i32_bytes (to_i32 g)) (i32_bytes (to_i32 i)) (i32_bytes (to_i32 j))"
    and "L = [''VM_RELEASE_REVOKE_HANDOFF_OK'', ''VM_ACQUIRE_REOPEN_OK'', ''VM_RESTORE_OK'']"
  shows "vm_session_course 0 M F L"
proof -
  have "set (map fst H) = {0x8005, 0x8008}" using assms(4-6) by auto
  moreover have "opened M = [g, i, j]"
    using opened_notices [OF assms(4)] by (simp add: assms(7) opened_def)
  ultimately show ?thesis
    unfolding vm_session_course_def using assms(1-3,8,9)
    by (intro conjI exI [of _ "map fst H"]) (simp_all add: assms(7) i32_bytes_identity)
qed

lemma emits_vm_session: "emits (vm_session w tty) vm_session_course"
  unfolding vm_session_def
  apply ((rule emits_step, rule emits_intros) | rule emits_case_prod | rule emits_end)+
  apply (elim exE conjE)
  apply (rule vm_session_courseI)
  apply (simp_all add: vm_requests_def)
  done

lemma vm_main_course:
  assumes "vm_main w st = (Ok status, st')"
  shows "status = 0 \<and> (\<exists>M. took st M st' \<and>
    (if w_getenv w ''VM_SHUTDOWN_PID'' \<noteq> None
     then map fst M = [0x8001, 0x8006] \<and> sent st' = sent st @ frame 1 [] \<and>
       lines_out st' = lines_out st @ [''VM_SHUTDOWN_RESTORE_OK'']
     else (\<exists>notices gpu input input'.
       map fst M = [0x8001, 0x8006, 0x8003, 0x8003] @ notices @ [0x8009, 0x8006, 0x8004, 0x8003, 0x8004, 0x8004, 0x8002] \<and>
       set notices = {0x8005, 0x8008} \<and> opened M = [gpu, input, input'] \<and>
       sent st' = sent st @ frame 1 [] @ vm_requests gpu input input' \<and>
       lines_out st' = lines_out st @ [''VM_RELEASE_REVOKE_HANDOFF_OK'', ''VM_ACQUIRE_REOPEN_OK'', ''VM_RESTORE_OK''])))"
proof -
  define Q where "Q = (\<lambda>y M F L. y = (0 :: int) \<and>
    (if w_getenv w ''VM_SHUTDOWN_PID'' \<noteq> None
     then map fst M = [0x8001, 0x8006] \<and> F = frame 1 [] \<and> L = [''VM_SHUTDOWN_RESTORE_OK'']
     else (\<exists>a b S F'. M = [(0x8001, a), (0x8006, b)] @ S \<and> vm_session_course 0 S F' L \<and> F = frame 1 [] @ F')))"
  have tail: "emits (case w_getenv w ''VM_SHUTDOWN_PID'' of
      Some pid \<Rightarrow> bindS (drain_shutdown w (atoi10 pid)) (\<lambda>_.
        bindS (check_restored w ''tty1 shutdown'' ''shutdown'') (\<lambda>_.
        bindS (puts ''VM_SHUTDOWN_RESTORE_OK'') (\<lambda>_. ret 0)))
    | None \<Rightarrow> vm_session w tty) (\<lambda>y M F L. Q y ([(0x8001, a), (0x8006, b)] @ M) (frame 1 [] @ F) L)" for tty a b
  proof (cases "w_getenv w ''VM_SHUTDOWN_PID''")
    case None
    show ?thesis
      unfolding None option.case
      by (rule emits_weaken [OF emits_vm_session]) (auto simp: Q_def None vm_session_course_def)
  next
    case (Some pid)
    show ?thesis
      unfolding Some option.case
      by ((rule emits_step, rule emits_intros) | rule emits_end)+ (simp add: Q_def Some)
  qed
  have "emits (vm_main w) Q"
    unfolding vm_main_def
    by ((rule emits_step, rule emits_intros)+, rule emits_weaken [OF tail], simp)
  then obtain M F L where "took st M st'" "sent st' = sent st @ F" "lines_out st' = lines_out st @ L" "Q status M F L"
    using assms by (rule emitsE)
  then show ?thesis
    unfolding Q_def vm_session_course_def
    by (cases "w_getenv w ''VM_SHUTDOWN_PID''") (auto simp: opened_def intro!: exI [of _ M])
qed

lemma client_main_course:
  assumes "client_main w argv st = (Ok status, st')"
  shows "status = 0 \<and> (\<exists>M ident. took st M st' \<and> map fst M = [0x8001, 0x8006, 0x8003, 0x8004, 0x8002] \<and>
    opened M = [ident] \<and>
    sent st' = sent st @ frame 1 [] @
       frame 3 (path_body (if length argv > 1 then argv ! 1 else ''/dev/dri/card0'')) @ frame 4 ident @ frame 2 [] \<and>
    lines_out st' = lines_out st @ [''COMBINED_SEAT_DEVICE_OK'', ''COMBINED_SEAT_OK''])"
proof -
  have last: "silent (\<lambda>st. if pend st \<ge> 0 then do_close w (pend st) st else (Ok (), st))"
    by (rule silentI) (auto simp: do_close_def call_def split: if_splits)
  have "emits (client_main w argv) (\<lambda>y M F L. y = 0 \<and> map fst M = [0x8001, 0x8006, 0x8003, 0x8004, 0x8002] \<and>
    (\<exists>ident. opened M = [ident] \<and>
       F = frame 1 [] @ frame 3 (path_body (if length argv > 1 then argv ! 1 else ''/dev/dri/card0'')) @
         frame 4 ident @ frame 2 []) \<and> L = [''COMBINED_SEAT_DEVICE_OK'', ''COMBINED_SEAT_OK''])"
    unfolding client_main_def Let_def
    by ((rule emits_step, rule emits_intros last) | rule emits_end)+ (auto simp: opened_def i32_bytes_identity)
  then show ?thesis
    using assms by (rule emitsE) auto
qed

section \<open>Both clients\<close>

text \<open>C25: Both clients of the seat server read any sequence of frames, with bodies of up to 256 bytes, exactly as
  the server sent them, in whatever pieces the bytes arrive: opcodes and bodies in order, and nothing of what
  follows is lost.\<close>

theorem seat_frames_read:
  assumes "\<forall>m \<in> set ms. length (snd m) \<le> 256"
  shows "(vm_good w st \<and> stream w st = concat (map (\<lambda>(op, body). frame op body) ms) @ later \<longrightarrow>
      (\<exists>st'. take_frames (vm_take_msg w 256) (length ms) st = (ms, st') \<and> vm_good w st' \<and> stream w st' = later)) \<and>
    (client_good w' c \<and> stream w' c = concat (map (\<lambda>(op, body). frame op body) ms) @ later \<longrightarrow>
      (\<exists>c'. take_frames (client_take_msg w' 256) (length ms) c = (ms, c') \<and> client_good w' c' \<and> stream w' c' = later))"
  using vm_reads_frames [OF _ _ assms] client_reads_frames [OF _ _ assms] by blast

text \<open>C26: A successful run of the guest client has sent exactly these requests, in this order: open the
  seat, open the graphics and the input device, switch to session 2, acknowledge the disable,
  close the input device by the identity it got, reopen it, close it by the identity it got then, close the
  graphics device by its identity, close the seat. The identities are the bodies of the replies to its three
  requests to open a device, in the messages \<open>M\<close> that it took from the socket: the expected replies in their
  order, with notices of the disable and of the switch (both, and nothing else) between them. It has printed its
  three lines of success and nothing else; in the shutdown test it has only opened the seat. A successful run of
  the minimal client has opened the seat, opened the device named on its command line (or the default one), closed
  it by the identity in the reply, and closed the seat, and it has printed its two lines.\<close>

theorem seat_clients_course:
  "(vm_main w st = (Ok status, st') \<longrightarrow> status = 0 \<and> (\<exists>M. took st M st' \<and>
    (if w_getenv w ''VM_SHUTDOWN_PID'' \<noteq> None
     then map fst M = [0x8001, 0x8006] \<and> sent st' = sent st @ frame 1 [] \<and>
       lines_out st' = lines_out st @ [''VM_SHUTDOWN_RESTORE_OK'']
     else (\<exists>notices gpu input input'.
       map fst M = [0x8001, 0x8006, 0x8003, 0x8003] @ notices @ [0x8009, 0x8006, 0x8004, 0x8003, 0x8004, 0x8004, 0x8002] \<and>
       set notices = {0x8005, 0x8008} \<and> opened M = [gpu, input, input'] \<and>
       sent st' = sent st @ frame 1 [] @ vm_requests gpu input input' \<and>
       lines_out st' = lines_out st @ [''VM_RELEASE_REVOKE_HANDOFF_OK'', ''VM_ACQUIRE_REOPEN_OK'', ''VM_RESTORE_OK''])))) \<and>
   (client_main w' argv c = (Ok result, c') \<longrightarrow> result = 0 \<and> (\<exists>M ident. took c M c' \<and>
    map fst M = [0x8001, 0x8006, 0x8003, 0x8004, 0x8002] \<and> opened M = [ident] \<and>
    sent c' = sent c @ frame 1 [] @
       frame 3 (path_body (if length argv > 1 then argv ! 1 else ''/dev/dri/card0'')) @ frame 4 ident @ frame 2 [] \<and>
    lines_out c' = lines_out c @ [''COMBINED_SEAT_DEVICE_OK'', ''COMBINED_SEAT_OK'']))"
  using vm_main_course [of w st status st'] client_main_course [of w' argv c result c'] by blast

end
