(* ===== verification/SeatSample.thy ===== *)
theory SeatSample
  imports SeatSpec
begin

text \<open>
  A concrete system for the seat clients, and runs of both clients on it.
\<close>

section \<open>A concrete system\<close>

text \<open>The state: the bytes and descriptors to come, and the results of the device controls to come. A
  receive takes at most 60 bytes and all descriptors.\<close>

type_synonym sample_state = "byte list \<times> int list \<times> (int \<times> int \<times> int) list"

definition sample_world :: "sample_state seat_world" where
  "sample_world =
     \<lparr>w_poll = (\<lambda>t s. ((1, True, False), s)),
      w_recvmsg = (\<lambda>n (bs, fds, cs). (Some (take (min n 60) bs, fds), (drop (min n 60) bs, [], cs))),
      w_read = (\<lambda>n s. (0, s)), w_write = (\<lambda>bs s. (int (length bs), s)), w_close = (\<lambda>fd s. s),
      w_open = (\<lambda>p s. (7, s)),
      w_ioctl = (\<lambda>fd req arg (bs, fds, cs). (hd cs, (bs, fds, tl cs))),
      w_kill = (\<lambda>pid sig s. (0, s)), w_socket = (\<lambda>s. (3, s)), w_connect = (\<lambda>p s. (0, s)),
      w_getenv = (\<lambda>v. None),
      w_bytes = fst, w_fds = (\<lambda>(bs, fds, cs). length fds)\<rparr>"

lemma sample_delivers: "delivers sample_world"
  unfolding delivers_def
proof (intro allI impI conjI)
  fix s :: sample_state and n :: nat
  assume "0 < n"
  obtain bs fds cs where s: "s = (bs, fds, cs)"
    by (cases s)
  show "\<exists>k fds s'. w_recvmsg sample_world n s = (Some (take k (w_bytes sample_world s), fds), s') \<and> 0 < k \<and> k \<le> n \<and>
        w_bytes sample_world s' = drop k (w_bytes sample_world s) \<and>
        w_fds sample_world s = length fds + w_fds sample_world s'"
    using \<open>0 < n\<close> by (intro exI [of _ "min n 60"] exI [of _ fds] exI [of _ "(drop (min n 60) bs, [], cs)"])
      (simp add: sample_world_def s)
qed (auto simp: sample_world_def)

definition sample_seat :: "(u16 \<times> byte list) list \<Rightarrow> int list \<Rightarrow> 'p \<Rightarrow> (sample_state, 'p) seat" where
  "sample_seat ms fds p =
     \<lparr>world = (concat (map (\<lambda>(op, body). frame op body) ms), fds,
        [(-1, 0, 0), (0, 0, 0), (-1, 0, 19), (0, 0, 0), (0, 0, 0), (0, 0, 0), (-1, 0, 0), (0, 0, 0),
         (0, 0, 0), (0, 0, 0), (0, 3, 0)]),
      rbuf = [], pend = p, received = [], sent = [], lines_out = []\<rparr>"

definition vm_replies :: "(u16 \<times> byte list) list" where
  "vm_replies = [(0x8001, []), (0x8006, []), (0x8003, [5, 0, 0, 0]), (0x8003, [6, 0, 0, 0]), (0x8008, []),
     (0x8005, []), (0x8009, []), (0x8006, []), (0x8004, []), (0x8003, [9, 0, 0, 0]), (0x8004, []),
     (0x8004, []), (0x8002, [])]"

definition client_replies :: "(u16 \<times> byte list) list" where
  "client_replies = [(0x8001, []), (0x8006, []), (0x8003, [5, 0, 0, 0]), (0x8004, []), (0x8002, [])]"

lemma sample_seat_good:
  "vm_good sample_world (sample_seat ms [] [])" "client_good sample_world (sample_seat ms [] p)"
  "stream sample_world (sample_seat ms fds q) = concat (map (\<lambda>(op, body). frame op body) ms) @ []"
  using sample_delivers
  by (simp_all add: vm_good_def client_good_def stream_def sample_seat_def sample_world_def)

lemma replies_small: "\<forall>m \<in> set vm_replies. length (snd m) \<le> 256" "\<forall>m \<in> set client_replies. length (snd m) \<le> 256"
  by (simp_all add: vm_replies_def client_replies_def)

theorem seat_frames_read_witness:
  "(\<exists>st'. take_frames (vm_take_msg sample_world 256) (length vm_replies) (sample_seat vm_replies [] []) = (vm_replies, st') \<and>
      stream sample_world st' = []) \<and>
   (\<exists>c'. take_frames (client_take_msg sample_world 256) (length client_replies) (sample_seat client_replies [] (-1)) =
      (client_replies, c') \<and> stream sample_world c' = [])"
proof
  show "\<exists>st'. take_frames (vm_take_msg sample_world 256) (length vm_replies) (sample_seat vm_replies [] []) = (vm_replies, st') \<and>
      stream sample_world st' = []"
    using conjunct1 [OF seat_frames_read [OF replies_small(1)], rule_format, OF conjI, OF sample_seat_good(1) sample_seat_good(3)]
    by (elim exE conjE) (rule exI, rule conjI)
  show "\<exists>c'. take_frames (client_take_msg sample_world 256) (length client_replies) (sample_seat client_replies [] (-1)) =
      (client_replies, c') \<and> stream sample_world c' = []"
    using conjunct2 [OF seat_frames_read [OF replies_small(2)], rule_format, OF conjI, OF sample_seat_good(2) [where p = "-1"] sample_seat_good(3)]
    by (elim exE conjE) (rule exI, rule conjI)
qed

theorem vm_take_msg_bounded_witness:
  "vm_bounded (snd (vm_take_msg sample_world 256 (sample_seat vm_replies [] [])))"
  using vm_take_msg_bounded [of "sample_seat vm_replies [] []" sample_world 256]
  by (simp add: vm_bounded_def sample_seat_def)

theorem vm_take_msg_smashes_witness:
  "fst (vm_take_msg sample_world 256 ((sample_seat [] [] [])\<lparr>rbuf := frame 0x8003 (replicate 300 0)\<rparr>)) = Smash"
  by (rule vm_take_msg_smashes [of _ "0x8003" "replicate 300 0" "[]"]) simp_all

lemma sample_seat_fresh [simp]: "sent (sample_seat ms fds p) = []" "received (sample_seat ms fds p) = []" "rbuf (sample_seat ms fds p) = []" "lines_out (sample_seat ms fds p) = []"
  by (simp_all add: sample_seat_def)

text \<open>Both runs succeed and take all replies. A run that takes all replies has taken just them.\<close>

lemma vm_run:
  "\<exists>st'. vm_main sample_world (sample_seat vm_replies [11, 12, 13] []) = (Ok 0, st') \<and>
    received st' = frames vm_replies \<and> rbuf st' = []"
proof -
  have "(case vm_main sample_world (sample_seat vm_replies [11, 12, 13] []) of
      (r, st') \<Rightarrow> r = Ok 0 \<and> received st' = frames vm_replies \<and> rbuf st' = [])" by code_simp
  then show ?thesis by (auto split: prod.splits)
qed

lemma client_run:
  "\<exists>st'. client_main sample_world [] (sample_seat client_replies [4] (-1)) = (Ok 0, st') \<and>
    received st' = frames client_replies \<and> rbuf st' = []"
proof -
  have "(case client_main sample_world [] (sample_seat client_replies [4] (-1)) of
      (r, st') \<Rightarrow> r = Ok 0 \<and> received st' = frames client_replies \<and> rbuf st' = [])" by code_simp
  then show ?thesis by (auto split: prod.splits)
qed

lemma took_all:
  assumes "took (sample_seat ms fds p) M st'" and "received st' = frames ms" "rbuf st' = []"
    and "list_all (\<lambda>(op, body). length body < 2 ^ 16) ms"
  shows "M = ms"
  using assms by (intro frames_unique) (auto simp: took_def)

lemma replies_opened:
  "opened vm_replies = [[5, 0, 0, 0], [6, 0, 0, 0], [9, 0, 0, 0]]" "opened client_replies = [[5, 0, 0, 0]]"
  "list_all (\<lambda>(op, body). length body < 2 ^ 16) vm_replies" "list_all (\<lambda>(op, body). length body < 2 ^ 16) client_replies"
  by (simp_all add: opened_def vm_replies_def client_replies_def)

theorem seat_clients_course_witness:
  "\<exists>st' c'. vm_main sample_world (sample_seat vm_replies [11, 12, 13] []) = (Ok 0, st') \<and>
     sent st' = frame 1 [] @ vm_requests [5, 0, 0, 0] [6, 0, 0, 0] [9, 0, 0, 0] \<and>
     lines_out st' = [''VM_RELEASE_REVOKE_HANDOFF_OK'', ''VM_ACQUIRE_REOPEN_OK'', ''VM_RESTORE_OK''] \<and>
     client_main sample_world [] (sample_seat client_replies [4] (-1)) = (Ok 0, c') \<and>
     sent c' = frame 1 [] @ frame 3 (path_body ''/dev/dri/card0'') @ frame 4 [5, 0, 0, 0] @ frame 2 []"
proof -
  obtain st' where v: "vm_main sample_world (sample_seat vm_replies [11, 12, 13] []) = (Ok 0, st')"
      "received st' = frames vm_replies" "rbuf st' = []"
    using vm_run by blast
  obtain c' where c: "client_main sample_world [] (sample_seat client_replies [4] (-1)) = (Ok 0, c')"
      "received c' = frames client_replies" "rbuf c' = []"
    using client_run by blast
  have "w_getenv sample_world ''VM_SHUTDOWN_PID'' = None" by (simp add: sample_world_def)
  then obtain M gpu input input' where M: "took (sample_seat vm_replies [11, 12, 13] []) M st'" "opened M = [gpu, input, input']"
      "sent st' = frame 1 [] @ vm_requests gpu input input'"
      "lines_out st' = [''VM_RELEASE_REVOKE_HANDOFF_OK'', ''VM_ACQUIRE_REOPEN_OK'', ''VM_RESTORE_OK'']"
    using conjunct1 [OF seat_clients_course, rule_format, OF v(1)] by auto
  obtain N ident where N: "took (sample_seat client_replies [4] (-1)) N c'" "opened N = [ident]"
      "sent c' = frame 1 [] @ frame 3 (path_body ''/dev/dri/card0'') @ frame 4 ident @ frame 2 []"
    using conjunct2 [OF seat_clients_course, rule_format, OF c(1)] by auto
  have "M = vm_replies" by (rule took_all [OF M(1) v(2,3) replies_opened(3)])
  moreover have "N = client_replies" by (rule took_all [OF N(1) c(2,3) replies_opened(4)])
  ultimately show ?thesis using v(1) c(1) M N replies_opened(1,2) by auto
qed

end
