(* ===== verification/CrcSpec.thy ===== *)
theory CrcSpec
  imports CrcTable
begin

text \<open>
  The checksum tables are right: row \<open>k\<close>, entry \<open>i\<close> is the remainder that a bit-by-bit shift register
  leaves for the byte \<open>i\<close> followed by \<open>k\<close> zero bytes. Shift registers are linear over exclusive or
  (locale \<open>shift_register\<close>, for both polynomials), so a row is the span of its entries at the powers
  of two; each row is compared with the span of eight words.
\<close>

section \<open>Linear shift registers\<close>

text \<open>All sums of a list of words, in the order of the binary numbers that select them; the first word
  has the highest weight.\<close>

fun span :: "'a::len word list \<Rightarrow> 'a word list" where
  "span [] = [0]"
| "span (b # bs) = (let s = span bs in s @ map (\<lambda>x. b XOR x) s)"

lemma length_span [simp]: "length (span bs) = 2 ^ length bs"
  by (induction bs) (simp_all add: Let_def)

locale shift_register =
  fixes inject :: "'a::len word \<Rightarrow> 'b::len word"
    and step :: "'b word \<Rightarrow> 'b word"
  assumes inject_xor: "inject (x XOR y) = inject x XOR inject y"
    and step_xor: "step (v XOR w) = step v XOR step w"
begin

definition remainder :: "nat \<Rightarrow> 'a word \<Rightarrow> 'b word" where
  "remainder n x = (step ^^ n) (inject x)"

lemma remainder_xor: "remainder n (x XOR y) = remainder n x XOR remainder n y"
  by (induction n) (simp_all add: remainder_def inject_xor step_xor)

lemma remainder_0: "remainder n 0 = 0"
  using remainder_xor [of n 0 0] by simp

lemma nth_span:
  assumes "m \<le> LENGTH('a)" and "i < 2 ^ m"
  shows "span (map (\<lambda>j. remainder n (2 ^ j)) (rev [0..<m])) ! i = remainder n (of_nat i)"
  using assms
proof (induction m arbitrary: i)
  case 0
  then show ?case
    by (simp add: remainder_0)
next
  case (Suc m)
  let ?s = "span (map (\<lambda>j. remainder n (2 ^ j)) (rev [0..<m]))"
  have len: "length ?s = 2 ^ m"
    by simp
  have unroll: "span (map (\<lambda>j. remainder n (2 ^ j)) (rev [0..<Suc m])) =
      ?s @ map (\<lambda>x. remainder n (2 ^ m) XOR x) ?s"
    by (simp add: Let_def)
  show ?case
  proof (cases "i < 2 ^ m")
    case True
    then show ?thesis
      unfolding unroll using Suc by (simp add: nth_append)
  next
    case False
    define k where "k = i - 2 ^ m"
    have k: "k < 2 ^ m" "i = 2 ^ m + k"
      using False Suc.prems(2) by (simp_all add: k_def)
    have "(2 ^ m :: 'a word) AND of_nat k = 0"
    proof (rule bit_word_eqI)
      fix j
      assume "j < LENGTH('a)"
      have "\<not> bit k m"
        using k(1) by (simp add: bit_iff_odd)
      then show "bit ((2 ^ m :: 'a word) AND of_nat k) j = bit (0 :: 'a word) j"
        by (auto simp: bit_simps)
    qed
    then have "(of_nat i :: 'a word) = 2 ^ m XOR of_nat k"
      using k(2) by (simp add: disjunctive_xor_eq_or disjunctive_add_eq_or flip: disjunctive_add_eq_xor)
    then show ?thesis
      unfolding unroll using k Suc.IH [of k] Suc.prems(1) by (simp add: nth_append remainder_xor)
  qed
qed

lemma row_remainder:
  assumes "row = span (map (\<lambda>j. remainder n (2 ^ j)) (rev [0..<8]))" and "8 \<le> LENGTH('a)" and "i < 256"
  shows "row ! i = remainder n (of_nat i)"
  using nth_span [OF assms(2), of i n] assms(1,3) by simp

end

section \<open>The two polynomials\<close>

definition step_be :: "u32 \<Rightarrow> u32" where
  "step_be w = push_bit 1 w XOR (if bit w 31 then 0x04c11db7 else 0)"

definition step_le :: "u32 \<Rightarrow> u32" where
  "step_le w = drop_bit 1 w XOR (if bit w 0 then 0x82f63b78 else 0)"

definition inject_be :: "u32 \<Rightarrow> u32" where
  "inject_be x = push_bit 24 x"

definition inject_le :: "u32 \<Rightarrow> u32" where
  "inject_le x = x"

interpretation be: shift_register inject_be step_be
proof
  show "inject_be (x XOR y) = inject_be x XOR inject_be y" for x y
    by (simp add: inject_be_def push_bit_xor)
  show "step_be (v XOR w) = step_be v XOR step_be w" for v w
    by (auto simp: step_be_def push_bit_xor bit_xor_iff ac_simps xor_self_eq)
qed

interpretation le: shift_register inject_le step_le
proof
  show "inject_le (x XOR y) = inject_le x XOR inject_le y" for x y
    by (simp add: inject_le_def)
  show "step_le (v XOR w) = step_le v XOR step_le w" for v w
    by (auto simp: step_le_def drop_bit_xor bit_xor_iff ac_simps xor_self_eq)
qed

section \<open>The rows\<close>

lemma eight_steps: "f ^^ 8 = f \<circ> f \<circ> f \<circ> f \<circ> f \<circ> f \<circ> f \<circ> f"
  by (simp add: eval_nat_numeral o_assoc)

context shift_register
begin

lemma basis_more:
  assumes "map (\<lambda>j. remainder n (2 ^ j)) js = ws" and "map (step ^^ 8) ws = ws'"
  shows "map (\<lambda>j. remainder (8 + n) (2 ^ j)) js = ws'"
  using assms by (auto simp: remainder_def funpow_add)

end

lemma bit_indices: "rev [0..<8] = [7, 6, 5, 4, 3, 2, 1, 0 :: nat]"
  by (simp add: upt_rec)

text \<open>The entries at the powers of two, from the highest.\<close>

lemma be_basis0:
  "map (\<lambda>j. be.remainder 8 (2 ^ j)) (rev [0..<8]) =
     [0x690ce0ee, 0x34867077, 0x9823b6e0, 0x4c11db70, 0x2608edb8, 0x130476dc, 0x09823b6e, 0x04c11db7]"
  by (simp add: bit_indices be.remainder_def eight_steps inject_be_def step_be_def)

lemma be_basis1:
  "map (\<lambda>j. be.remainder 16 (2 ^ j)) (rev [0..<8]) =
     [0x828cd898, 0x41466c4c, 0x20a33626, 0x10519b13, 0x8a484352, 0x452421a9, 0xa0f29e0f, 0xd219c1dc]"
  using be.basis_more [OF be_basis0 refl] by (simp add: eight_steps step_be_def)

lemma be_basis2:
  "map (\<lambda>j. be.remainder 24 (2 ^ j)) (rev [0..<8]) =
     [0xec564380, 0x762b21c0, 0x3b1590e0, 0x1d8ac870, 0x0ec56438, 0x0762b21c, 0x03b1590e, 0x01d8ac87]"
  using be.basis_more [OF be_basis1 refl] by (simp add: eight_steps step_be_def)

lemma be_basis3:
  "map (\<lambda>j. be.remainder 32 (2 ^ j)) (rev [0..<8]) =
     [0xa6e63d1d, 0xd1139055, 0xeae946f1, 0xf7142da3, 0xf9ea980a, 0x7cf54c05, 0xbc1a28d9, 0xdc6d9ab7]"
  using be.basis_more [OF be_basis2 refl] by (simp add: eight_steps step_be_def)

lemma be_basis4:
  "map (\<lambda>j. be.remainder 40 (2 ^ j)) (rev [0..<8]) =
     [0x0d9406bc, 0x06ca035e, 0x036501af, 0x83d20e0c, 0x41e90706, 0x20f48383, 0x921acf1a, 0x490d678d]"
  using be.basis_more [OF be_basis3 refl] by (simp add: eight_steps step_be_def)

lemma be_basis5:
  "map (\<lambda>j. be.remainder 48 (2 ^ j)) (rev [0..<8]) =
     [0xa5cb3ad3, 0xd08513b2, 0x684289d9, 0xb641ca37, 0xd9406bc0, 0x6ca035e0, 0x36501af0, 0x1b280d78]"
  using be.basis_more [OF be_basis4 refl] by (simp add: eight_steps step_be_def)

lemma be_basis6:
  "map (\<lambda>j. be.remainder 56 (2 ^ j)) (rev [0..<8]) =
     [0x2dd0ee65, 0x9488f9e9, 0xc824f22f, 0xe672f7cc, 0x73397be6, 0x399cbdf3, 0x9eaed022, 0x4f576811]"
  using be.basis_more [OF be_basis5 refl] by (simp add: eight_steps step_be_def)

lemma be_basis7:
  "map (\<lambda>j. be.remainder 64 (2 ^ j)) (rev [0..<8]) =
     [0x79005533, 0xbee0a442, 0x5f705221, 0xadd8a7cb, 0xd48cdd3e, 0x6a466e9f, 0xb743b994, 0x5ba1dcca]"
  using be.basis_more [OF be_basis6 refl] by (simp add: eight_steps step_be_def)

lemma be_span0:
  "be_row0 = span [0x690ce0ee, 0x34867077, 0x9823b6e0, 0x4c11db70, 0x2608edb8, 0x130476dc, 0x09823b6e, 0x04c11db7]"
  by (simp add: be_row0_def Let_def)

lemma be_span1:
  "be_row1 = span [0x828cd898, 0x41466c4c, 0x20a33626, 0x10519b13, 0x8a484352, 0x452421a9, 0xa0f29e0f, 0xd219c1dc]"
  by (simp add: be_row1_def Let_def)

lemma be_span2:
  "be_row2 = span [0xec564380, 0x762b21c0, 0x3b1590e0, 0x1d8ac870, 0x0ec56438, 0x0762b21c, 0x03b1590e, 0x01d8ac87]"
  by (simp add: be_row2_def Let_def)

lemma be_span3:
  "be_row3 = span [0xa6e63d1d, 0xd1139055, 0xeae946f1, 0xf7142da3, 0xf9ea980a, 0x7cf54c05, 0xbc1a28d9, 0xdc6d9ab7]"
  by (simp add: be_row3_def Let_def)

lemma be_span4:
  "be_row4 = span [0x0d9406bc, 0x06ca035e, 0x036501af, 0x83d20e0c, 0x41e90706, 0x20f48383, 0x921acf1a, 0x490d678d]"
  by (simp add: be_row4_def Let_def)

lemma be_span5:
  "be_row5 = span [0xa5cb3ad3, 0xd08513b2, 0x684289d9, 0xb641ca37, 0xd9406bc0, 0x6ca035e0, 0x36501af0, 0x1b280d78]"
  by (simp add: be_row5_def Let_def)

lemma be_span6:
  "be_row6 = span [0x2dd0ee65, 0x9488f9e9, 0xc824f22f, 0xe672f7cc, 0x73397be6, 0x399cbdf3, 0x9eaed022, 0x4f576811]"
  by (simp add: be_row6_def Let_def)

lemma be_span7:
  "be_row7 = span [0x79005533, 0xbee0a442, 0x5f705221, 0xadd8a7cb, 0xd48cdd3e, 0x6a466e9f, 0xb743b994, 0x5ba1dcca]"
  by (simp add: be_row7_def Let_def)

text \<open>The entries at the powers of two, from the highest.\<close>

lemma le_basis0:
  "map (\<lambda>j. le.remainder 8 (2 ^ j)) (rev [0..<8]) =
     [0x82f63b78, 0x417b1dbc, 0x20bd8ede, 0x105ec76f, 0x8ad958cf, 0xc79a971f, 0xe13b70f7, 0xf26b8303]"
  by (simp add: bit_indices le.remainder_def eight_steps inject_le_def step_le_def)

lemma le_basis1:
  "map (\<lambda>j. le.remainder 16 (2 ^ j)) (rev [0..<8]) =
     [0xfbc3faf9, 0xff17c604, 0x7f8be302, 0x3fc5f181, 0x9d14c3b8, 0x4e8a61dc, 0x274530ee, 0x13a29877]"
  using le.basis_more [OF le_basis0 refl] by (simp add: eight_steps step_le_def)

lemma le_basis2:
  "map (\<lambda>j. le.remainder 24 (2 ^ j)) (rev [0..<8]) =
     [0x8b277743, 0xc76580d9, 0xe144fb14, 0x70a27d8a, 0x38513ec5, 0x9edea41a, 0x4f6f520d, 0xa541927e]"
  using le.basis_more [OF le_basis1 refl] by (simp add: eight_steps step_le_def)

lemma le_basis3:
  "map (\<lambda>j. le.remainder 32 (2 ^ j)) (rev [0..<8]) =
     [0x52a0c93f, 0xaba65fe7, 0xd725148b, 0xe964b13d, 0xf64463e6, 0x7b2231f3, 0xbf672381, 0xdd45aab8]"
  using le.basis_more [OF le_basis2 refl] by (simp add: eight_steps step_le_def)

lemma le_basis4:
  "map (\<lambda>j. le.remainder 40 (2 ^ j)) (rev [0..<8]) =
     [0x6ea2d55c, 0x37516aae, 0x1ba8b557, 0x8f2261d3, 0xc5670b91, 0xe045beb0, 0x7022df58, 0x38116fac]"
  using le.basis_more [OF le_basis3 refl] by (simp add: eight_steps step_le_def)

lemma le_basis5:
  "map (\<lambda>j. le.remainder 48 (2 ^ j)) (rev [0..<8]) =
     [0x1c08b7d6, 0x0e045beb, 0x85f4168d, 0xc00c303e, 0x6006181f, 0xb2f53777, 0xdb8ca0c3, 0xef306b19]"
  using le.basis_more [OF le_basis4 refl] by (simp add: eight_steps step_le_def)

lemma le_basis6:
  "map (\<lambda>j. le.remainder 56 (2 ^ j)) (rev [0..<8]) =
     [0xf56e0ef4, 0x7ab7077a, 0x3d5b83bd, 0x9c5bfaa6, 0x4e2dfd53, 0xa5e0c5d1, 0xd0065990, 0x68032cc8]"
  using le.basis_more [OF le_basis5 refl] by (simp add: eight_steps step_le_def)

lemma le_basis7:
  "map (\<lambda>j. le.remainder 64 (2 ^ j)) (rev [0..<8]) =
     [0x34019664, 0x1a00cb32, 0x0d006599, 0x847609b4, 0x423b04da, 0x211d826d, 0x9278fa4e, 0x493c7d27]"
  using le.basis_more [OF le_basis6 refl] by (simp add: eight_steps step_le_def)

lemma le_span0:
  "le_row0 = span [0x82f63b78, 0x417b1dbc, 0x20bd8ede, 0x105ec76f, 0x8ad958cf, 0xc79a971f, 0xe13b70f7, 0xf26b8303]"
  by (simp add: le_row0_def Let_def)

lemma le_span1:
  "le_row1 = span [0xfbc3faf9, 0xff17c604, 0x7f8be302, 0x3fc5f181, 0x9d14c3b8, 0x4e8a61dc, 0x274530ee, 0x13a29877]"
  by (simp add: le_row1_def Let_def)

lemma le_span2:
  "le_row2 = span [0x8b277743, 0xc76580d9, 0xe144fb14, 0x70a27d8a, 0x38513ec5, 0x9edea41a, 0x4f6f520d, 0xa541927e]"
  by (simp add: le_row2_def Let_def)

lemma le_span3:
  "le_row3 = span [0x52a0c93f, 0xaba65fe7, 0xd725148b, 0xe964b13d, 0xf64463e6, 0x7b2231f3, 0xbf672381, 0xdd45aab8]"
  by (simp add: le_row3_def Let_def)

lemma le_span4:
  "le_row4 = span [0x6ea2d55c, 0x37516aae, 0x1ba8b557, 0x8f2261d3, 0xc5670b91, 0xe045beb0, 0x7022df58, 0x38116fac]"
  by (simp add: le_row4_def Let_def)

lemma le_span5:
  "le_row5 = span [0x1c08b7d6, 0x0e045beb, 0x85f4168d, 0xc00c303e, 0x6006181f, 0xb2f53777, 0xdb8ca0c3, 0xef306b19]"
  by (simp add: le_row5_def Let_def)

lemma le_span6:
  "le_row6 = span [0xf56e0ef4, 0x7ab7077a, 0x3d5b83bd, 0x9c5bfaa6, 0x4e2dfd53, 0xa5e0c5d1, 0xd0065990, 0x68032cc8]"
  by (simp add: le_row6_def Let_def)

lemma le_span7:
  "le_row7 = span [0x34019664, 0x1a00cb32, 0x0d006599, 0x847609b4, 0x423b04da, 0x211d826d, 0x9278fa4e, 0x493c7d27]"
  by (simp add: le_row7_def Let_def)

section \<open>The tables\<close>

lemma below_8: "(k :: nat) < 8 \<Longrightarrow> k = 0 \<or> k = 1 \<or> k = 2 \<or> k = 3 \<or> k = 4 \<or> k = 5 \<or> k = 6 \<or> k = 7"
  by linarith

lemmas be_rows = be_span0 [folded be_basis0] be_span1 [folded be_basis1] be_span2 [folded be_basis2] be_span3 [folded be_basis3] be_span4 [folded be_basis4] be_span5 [folded be_basis5] be_span6 [folded be_basis6] be_span7 [folded be_basis7]

lemma be_row_lengths [simp]:
  "length be_row0 = 256" "length be_row1 = 256" "length be_row2 = 256" "length be_row3 = 256" "length be_row4 = 256" "length be_row5 = 256" "length be_row6 = 256" "length be_row7 = 256"
  by (simp_all add: be_span0 be_span1 be_span2 be_span3 be_span4 be_span5 be_span6 be_span7 del: span.simps)

lemma be_entries:
  assumes "k < 8" and "i < 256"
  shows "crc32table_be tobe ! k ! i = tobe (be.remainder (8 * (k + 1)) (of_nat i))"
  using below_8 [OF assms(1)] be.row_remainder [OF be_rows(1) _ assms(2)]
    be.row_remainder [OF be_rows(2) _ assms(2)] be.row_remainder [OF be_rows(3) _ assms(2)] be.row_remainder [OF be_rows(4) _ assms(2)] be.row_remainder [OF be_rows(5) _ assms(2)] be.row_remainder [OF be_rows(6) _ assms(2)] be.row_remainder [OF be_rows(7) _ assms(2)] be.row_remainder [OF be_rows(8) _ assms(2)] assms(2)
  by (elim disjE) (simp_all add: crc32table_be_def)

lemmas le_rows = le_span0 [folded le_basis0] le_span1 [folded le_basis1] le_span2 [folded le_basis2] le_span3 [folded le_basis3] le_span4 [folded le_basis4] le_span5 [folded le_basis5] le_span6 [folded le_basis6] le_span7 [folded le_basis7]

lemma le_row_lengths [simp]:
  "length le_row0 = 256" "length le_row1 = 256" "length le_row2 = 256" "length le_row3 = 256" "length le_row4 = 256" "length le_row5 = 256" "length le_row6 = 256" "length le_row7 = 256"
  by (simp_all add: le_span0 le_span1 le_span2 le_span3 le_span4 le_span5 le_span6 le_span7 del: span.simps)

lemma le_entries:
  assumes "k < 8" and "i < 256"
  shows "crc32ctable_le tole ! k ! i = tole (le.remainder (8 * (k + 1)) (of_nat i))"
  using below_8 [OF assms(1)] le.row_remainder [OF le_rows(1) _ assms(2)]
    le.row_remainder [OF le_rows(2) _ assms(2)] le.row_remainder [OF le_rows(3) _ assms(2)] le.row_remainder [OF le_rows(4) _ assms(2)] le.row_remainder [OF le_rows(5) _ assms(2)] le.row_remainder [OF le_rows(6) _ assms(2)] le.row_remainder [OF le_rows(7) _ assms(2)] le.row_remainder [OF le_rows(8) _ assms(2)] assms(2)
  by (elim disjE) (simp_all add: crc32ctable_le_def)

lemma crc32table_be_entries:
  assumes "k < 8" and "i < 256"
  shows "crc32table_be tobe ! k ! i = tobe ((step_be ^^ (8 * (k + 1))) (inject_be (of_nat i)))"
  using be_entries [OF assms] by (simp add: be.remainder_def)

lemma crc32ctable_le_entries:
  assumes "k < 8" and "i < 256"
  shows "crc32ctable_le tole ! k ! i = tole ((step_le ^^ (8 * (k + 1))) (inject_le (of_nat i)))"
  using le_entries [OF assms] by (simp add: le.remainder_def)

text \<open>C29: The two tables are those of CRC-32 and of CRC-32C for eight bytes at a time, for each of their 2048
  entries. Entry \<open>i\<close> of row \<open>k\<close> of the big-endian table is what the bitwise shift register with the
  polynomial \<open>0x04c11db7\<close>, highest bit first, leaves of the byte \<open>i\<close> followed by \<open>k\<close> zero bytes; for the
  little-endian table it is the register with the reflected Castagnoli polynomial \<open>0x82f63b78\<close>, lowest bit
  first.\<close>

theorem crc_tables_entries:
  assumes "k < 8" and "i < 256"
  shows "crc32table_be tobe ! k ! i = tobe ((step_be ^^ (8 * (k + 1))) (inject_be (of_nat i))) \<and>
    crc32ctable_le tole ! k ! i = tole ((step_le ^^ (8 * (k + 1))) (inject_le (of_nat i)))"
  using crc32table_be_entries [OF assms] crc32ctable_le_entries [OF assms] by simp

theorem crc_tables_entries_witness:
  "crc32table_be (\<lambda>w. w) ! 1 ! 3 = (step_be ^^ 16) (inject_be 3) \<and>
   crc32ctable_le (\<lambda>w. w) ! 1 ! 3 = (step_le ^^ 16) (inject_le 3)"
  using crc_tables_entries [of 1 3 "\<lambda>w. w" "\<lambda>w. w"] by simp

end
