(* ===== verification/ErrorText.thy ===== *)
theory ErrorText
  imports Prelude
begin

text \<open>
  The messages and codes of the two error tables of the ext4 tools: the arrays \<^verbatim>\<open>text\<close> of
  \<^verbatim>\<open>src/packages/e2fsprogs/files/prof_err.c\<close> and \<^verbatim>\<open>ext2_err.c\<close> (without the final null pointer), and the
  code definitions of \<^verbatim>\<open>prof_err.h\<close> and \<^verbatim>\<open>ext2_err.h\<close> in their order.
\<close>

definition prof_text :: "string list" where
  "prof_text = [
    ''Profile version 0.0'',
    ''Bad magic value in profile_node'',
    ''Profile section not found'',
    ''Profile relation not found'',
    ''Attempt to add a relation to node which is not a section'',
    ''A profile section header has a non-zero value'',
    ''Bad linked list in profile structures'',
    ''Bad group level in profile structures'',
    ''Bad parent pointer in profile structures'',
    ''Bad magic value in profile iterator'',
    ''Can't set value on section node'',
    ''Invalid argument passed to profile library'',
    ''Attempt to modify read-only profile'',
    ''Profile section header not at top level'',
    ''Syntax error in profile section header'',
    ''Syntax error in profile relation'',
    ''Extra closing brace in profile'',
    ''Missing open brace in profile'',
    ''Bad magic value in profile_t'',
    ''Bad magic value in profile_section_t'',
    ''Iteration through all top level section not supported'',
    ''Invalid profile_section object'',
    ''No more sections'',
    ''Bad nameset passed to query routine'',
    ''No profile file open'',
    ''Bad magic value in profile_file_t'',
    ''Couldn't open profile file'',
    ''Section already exists'',
    ''Invalid boolean value'',
    ''Invalid integer value'',
    ''Bad magic value in profile_file_data_t'']"

definition prof_codes :: "(string \<times> int) list" where
  "prof_codes = [
    (''PROF_VERSION'', -1429577728),
    (''PROF_MAGIC_NODE'', -1429577727),
    (''PROF_NO_SECTION'', -1429577726),
    (''PROF_NO_RELATION'', -1429577725),
    (''PROF_ADD_NOT_SECTION'', -1429577724),
    (''PROF_SECTION_WITH_VALUE'', -1429577723),
    (''PROF_BAD_LINK_LIST'', -1429577722),
    (''PROF_BAD_GROUP_LVL'', -1429577721),
    (''PROF_BAD_PARENT_PTR'', -1429577720),
    (''PROF_MAGIC_ITERATOR'', -1429577719),
    (''PROF_SET_SECTION_VALUE'', -1429577718),
    (''PROF_EINVAL'', -1429577717),
    (''PROF_READ_ONLY'', -1429577716),
    (''PROF_SECTION_NOTOP'', -1429577715),
    (''PROF_SECTION_SYNTAX'', -1429577714),
    (''PROF_RELATION_SYNTAX'', -1429577713),
    (''PROF_EXTRA_CBRACE'', -1429577712),
    (''PROF_MISSING_OBRACE'', -1429577711),
    (''PROF_MAGIC_PROFILE'', -1429577710),
    (''PROF_MAGIC_SECTION'', -1429577709),
    (''PROF_TOPSECTION_ITER_NOSUPP'', -1429577708),
    (''PROF_INVALID_SECTION'', -1429577707),
    (''PROF_END_OF_SECTIONS'', -1429577706),
    (''PROF_BAD_NAMESET'', -1429577705),
    (''PROF_NO_PROFILE'', -1429577704),
    (''PROF_MAGIC_FILE'', -1429577703),
    (''PROF_FAIL_OPEN'', -1429577702),
    (''PROF_EXISTS'', -1429577701),
    (''PROF_BAD_BOOLEAN'', -1429577700),
    (''PROF_BAD_INTEGER'', -1429577699),
    (''PROF_MAGIC_FILE_DATA'', -1429577698)]"

definition ext2_text0 :: "string list" where
  "ext2_text0 = [
    ''EXT2FS Library version 1.47.2'',
    ''Wrong magic number for ext2_filsys structure'',
    ''Wrong magic number for badblocks_list structure'',
    ''Wrong magic number for badblocks_iterate structure'',
    ''Wrong magic number for inode_scan structure'',
    ''Wrong magic number for io_channel structure'',
    ''Wrong magic number for unix io_channel structure'',
    ''Wrong magic number for io_manager structure'',
    ''Wrong magic number for block_bitmap structure'',
    ''Wrong magic number for inode_bitmap structure'',
    ''Wrong magic number for generic_bitmap structure'',
    ''Wrong magic number for test io_channel structure'',
    ''Wrong magic number for directory block list structure'',
    ''Wrong magic number for icount structure'',
    ''Wrong magic number for Powerquest io_channel structure'',
    ''Wrong magic number for ext2 file structure'',
    ''Wrong magic number for Ext2 Image Header'',
    ''Wrong magic number for inode io_channel structure'',
    ''Wrong magic number for ext4 extent handle'',
    ''Bad magic number in super-block'',
    ''Filesystem revision too high'',
    ''Attempt to write to filesystem opened read-only'',
    ''Can't read group descriptors'',
    ''Can't write group descriptors'',
    ''Corrupt group descriptor: bad block for block bitmap'',
    ''Corrupt group descriptor: bad block for inode bitmap'',
    ''Corrupt group descriptor: bad block for inode table'',
    ''Can't write an inode bitmap'',
    ''Can't read an inode bitmap'',
    ''Can't write a block bitmap'',
    ''Can't read a block bitmap'',
    ''Can't write an inode table'',
    ''Can't read an inode table'',
    ''Can't read next inode'',
    ''Filesystem has unexpected block size'',
    ''EXT2 directory corrupted'',
    ''Attempt to read block from filesystem resulted in short read'',
    ''Attempt to write block to filesystem resulted in short write'',
    ''No free space in the directory'',
    ''Inode bitmap not loaded'',
    ''Block bitmap not loaded'',
    ''Illegal inode number'',
    ''Illegal block number'',
    ''Internal error in ext2fs_expand_dir'',
    ''Not enough space to build proposed filesystem'',
    ''Illegal block number passed to ext2fs_mark_block_bitmap'']"

definition ext2_text1 :: "string list" where
  "ext2_text1 = [
    ''Illegal block number passed to ext2fs_unmark_block_bitmap'',
    ''Illegal block number passed to ext2fs_test_block_bitmap'',
    ''Illegal inode number passed to ext2fs_mark_inode_bitmap'',
    ''Illegal inode number passed to ext2fs_unmark_inode_bitmap'',
    ''Illegal inode number passed to ext2fs_test_inode_bitmap'',
    ''Attempt to fudge end of block bitmap past the real end'',
    ''Attempt to fudge end of inode bitmap past the real end'',
    ''Illegal indirect block found'',
    ''Illegal doubly indirect block found'',
    ''Illegal triply indirect block found'',
    ''Block bitmaps are not the same'',
    ''Inode bitmaps are not the same'',
    ''Illegal or malformed device name'',
    ''A block group is missing an inode table'',
    ''The ext2 superblock is corrupt'',
    ''Illegal generic bit number passed to ext2fs_mark_generic_bitmap'',
    ''Illegal generic bit number passed to ext2fs_unmark_generic_bitmap'',
    ''Illegal generic bit number passed to ext2fs_test_generic_bitmap'',
    ''Too many symbolic links encountered.'',
    ''The callback function will not handle this case'',
    ''The inode is from a bad block in the inode table'',
    ''Filesystem has unsupported feature(s)'',
    ''Filesystem has unsupported read-only feature(s)'',
    ''IO Channel failed to seek on read or write'',
    ''Memory allocation failed'',
    ''Invalid argument passed to ext2 library'',
    ''Could not allocate block in ext2 filesystem'',
    ''Could not allocate inode in ext2 filesystem'',
    ''Ext2 inode is not a directory'',
    ''Too many references in table'',
    ''File not found by ext2_lookup'',
    ''File open read-only'',
    ''Ext2 directory block not found'',
    ''Ext2 directory already exists'',
    ''Unimplemented ext2 library function'',
    ''User cancel requested'',
    ''Ext2 file too big'',
    ''Supplied journal device not a block device'',
    ''Journal superblock not found'',
    ''Journal must be at least 1024 blocks'',
    ''Unsupported journal version'',
    ''Error loading external journal'',
    ''Journal not found'',
    ''Directory hash unsupported'',
    ''Illegal extended attribute block number'',
    ''Cannot create filesystem with requested number of inodes'']"

definition ext2_text2 :: "string list" where
  "ext2_text2 = [
    ''E2image snapshot not in use'',
    ''Too many reserved group descriptor blocks'',
    ''Resize inode is corrupt'',
    ''Tried to set block bmap with missing indirect block'',
    ''TDB: Success'',
    ''TDB: Corrupt database'',
    ''TDB: IO Error'',
    ''TDB: Locking error'',
    ''TDB: Out of memory'',
    ''TDB: Record exists'',
    ''TDB: Lock exists on other keys'',
    ''TDB: Invalid parameter'',
    ''TDB: Record does not exist'',
    ''TDB: Write not permitted'',
    ''Ext2fs directory block list is empty'',
    ''Attempt to modify a block mapping via a read-only block iterator'',
    ''Wrong magic number for ext4 extent saved path'',
    ''Wrong magic number for 64-bit generic bitmap'',
    ''Wrong magic number for 64-bit block bitmap'',
    ''Wrong magic number for 64-bit inode bitmap'',
    ''Wrong magic number --- RESERVED_13'',
    ''Wrong magic number --- RESERVED_14'',
    ''Wrong magic number --- RESERVED_15'',
    ''Wrong magic number --- RESERVED_16'',
    ''Wrong magic number --- RESERVED_17'',
    ''Wrong magic number --- RESERVED_18'',
    ''Wrong magic number --- RESERVED_19'',
    ''Corrupt extent header'',
    ''Corrupt extent index'',
    ''Corrupt extent'',
    ''No free space in extent map'',
    ''Inode does not use extents'',
    ''No 'next' extent'',
    ''No 'previous' extent'',
    ''No 'up' extent'',
    ''No 'down' extent'',
    ''No current node'',
    ''Ext2fs operation not supported'',
    ''No room to insert extent in node'',
    ''Splitting would result in empty node'',
    ''Extent not found'',
    ''Operation not supported for inodes containing extents'',
    ''Extent length is invalid'',
    ''I/O Channel does not support 64-bit block numbers'',
    ''Can't check if filesystem is mounted due to missing mtab file'',
    ''Filesystem too large to use legacy bitmaps'']"

definition ext2_text3 :: "string list" where
  "ext2_text3 = [
    ''MMP: invalid magic number'',
    ''MMP: device currently active'',
    ''MMP: e2fsck being run'',
    ''MMP: block number beyond filesystem range'',
    ''MMP: undergoing an unknown operation'',
    ''MMP: filesystem still in use'',
    ''MMP: open with O_DIRECT failed'',
    ''Block group descriptor size incorrect'',
    ''Inode checksum does not match inode'',
    ''Inode bitmap checksum does not match bitmap'',
    ''Extent block checksum does not match extent block'',
    ''Directory block does not have space for checksum'',
    ''Directory block checksum does not match directory block'',
    ''Extended attribute block checksum does not match block'',
    ''Superblock checksum does not match superblock'',
    ''Unknown checksum algorithm'',
    ''MMP block checksum does not match'',
    ''Ext2 file already exists'',
    ''Block bitmap checksum does not match bitmap'',
    ''Cannot iterate data blocks of an inode containing inline data'',
    ''Extended attribute has an invalid name length'',
    ''Extended attribute has an invalid value length'',
    ''Extended attribute has an incorrect hash'',
    ''Extended attribute block has a bad header'',
    ''Extended attribute key not found'',
    ''Insufficient space to store extended attribute data'',
    ''Filesystem is missing ext_attr or inline_data feature'',
    ''Inode doesn't have inline data'',
    ''No block for an inode with inline data'',
    ''No free space in inline data'',
    ''Wrong magic number for extended attribute structure'',
    ''Inode seems to contain garbage'',
    ''Extended attribute has an invalid value offset'',
    ''Journal flags inconsistent'',
    ''Undo file corrupt'',
    ''Wrong undo file for this filesystem'',
    ''File system is corrupted'',
    ''Bad CRC detected in file system'',
    ''The journal superblock is corrupt'',
    ''Inode is corrupted'',
    ''Inode containing extended attribute value is corrupted'',
    ''Group descriptors not loaded'',
    ''The internal ext2_filsys data structure appears to be corrupted'',
    ''Found cyclic loop in extent tree'',
    ''Operation not supported on an external journal'']"

definition ext2_text :: "string list" where
  "ext2_text = ext2_text0 @ ext2_text1 @ ext2_text2 @ ext2_text3"

definition ext2_codes0 :: "(string \<times> int) list" where
  "ext2_codes0 = [
    (''EXT2_ET_BASE'', 2133571328),
    (''EXT2_ET_MAGIC_EXT2FS_FILSYS'', 2133571329),
    (''EXT2_ET_MAGIC_BADBLOCKS_LIST'', 2133571330),
    (''EXT2_ET_MAGIC_BADBLOCKS_ITERATE'', 2133571331),
    (''EXT2_ET_MAGIC_INODE_SCAN'', 2133571332),
    (''EXT2_ET_MAGIC_IO_CHANNEL'', 2133571333),
    (''EXT2_ET_MAGIC_UNIX_IO_CHANNEL'', 2133571334),
    (''EXT2_ET_MAGIC_IO_MANAGER'', 2133571335),
    (''EXT2_ET_MAGIC_BLOCK_BITMAP'', 2133571336),
    (''EXT2_ET_MAGIC_INODE_BITMAP'', 2133571337),
    (''EXT2_ET_MAGIC_GENERIC_BITMAP'', 2133571338),
    (''EXT2_ET_MAGIC_TEST_IO_CHANNEL'', 2133571339),
    (''EXT2_ET_MAGIC_DBLIST'', 2133571340),
    (''EXT2_ET_MAGIC_ICOUNT'', 2133571341),
    (''EXT2_ET_MAGIC_PQ_IO_CHANNEL'', 2133571342),
    (''EXT2_ET_MAGIC_EXT2_FILE'', 2133571343),
    (''EXT2_ET_MAGIC_E2IMAGE'', 2133571344),
    (''EXT2_ET_MAGIC_INODE_IO_CHANNEL'', 2133571345),
    (''EXT2_ET_MAGIC_EXTENT_HANDLE'', 2133571346),
    (''EXT2_ET_BAD_MAGIC'', 2133571347),
    (''EXT2_ET_REV_TOO_HIGH'', 2133571348),
    (''EXT2_ET_RO_FILSYS'', 2133571349),
    (''EXT2_ET_GDESC_READ'', 2133571350),
    (''EXT2_ET_GDESC_WRITE'', 2133571351),
    (''EXT2_ET_GDESC_BAD_BLOCK_MAP'', 2133571352),
    (''EXT2_ET_GDESC_BAD_INODE_MAP'', 2133571353),
    (''EXT2_ET_GDESC_BAD_INODE_TABLE'', 2133571354),
    (''EXT2_ET_INODE_BITMAP_WRITE'', 2133571355),
    (''EXT2_ET_INODE_BITMAP_READ'', 2133571356),
    (''EXT2_ET_BLOCK_BITMAP_WRITE'', 2133571357),
    (''EXT2_ET_BLOCK_BITMAP_READ'', 2133571358),
    (''EXT2_ET_INODE_TABLE_WRITE'', 2133571359),
    (''EXT2_ET_INODE_TABLE_READ'', 2133571360),
    (''EXT2_ET_NEXT_INODE_READ'', 2133571361),
    (''EXT2_ET_UNEXPECTED_BLOCK_SIZE'', 2133571362),
    (''EXT2_ET_DIR_CORRUPTED'', 2133571363),
    (''EXT2_ET_SHORT_READ'', 2133571364),
    (''EXT2_ET_SHORT_WRITE'', 2133571365),
    (''EXT2_ET_DIR_NO_SPACE'', 2133571366),
    (''EXT2_ET_NO_INODE_BITMAP'', 2133571367),
    (''EXT2_ET_NO_BLOCK_BITMAP'', 2133571368),
    (''EXT2_ET_BAD_INODE_NUM'', 2133571369),
    (''EXT2_ET_BAD_BLOCK_NUM'', 2133571370),
    (''EXT2_ET_EXPAND_DIR_ERR'', 2133571371),
    (''EXT2_ET_TOOSMALL'', 2133571372),
    (''EXT2_ET_BAD_BLOCK_MARK'', 2133571373)]"

definition ext2_codes1 :: "(string \<times> int) list" where
  "ext2_codes1 = [
    (''EXT2_ET_BAD_BLOCK_UNMARK'', 2133571374),
    (''EXT2_ET_BAD_BLOCK_TEST'', 2133571375),
    (''EXT2_ET_BAD_INODE_MARK'', 2133571376),
    (''EXT2_ET_BAD_INODE_UNMARK'', 2133571377),
    (''EXT2_ET_BAD_INODE_TEST'', 2133571378),
    (''EXT2_ET_FUDGE_BLOCK_BITMAP_END'', 2133571379),
    (''EXT2_ET_FUDGE_INODE_BITMAP_END'', 2133571380),
    (''EXT2_ET_BAD_IND_BLOCK'', 2133571381),
    (''EXT2_ET_BAD_DIND_BLOCK'', 2133571382),
    (''EXT2_ET_BAD_TIND_BLOCK'', 2133571383),
    (''EXT2_ET_NEQ_BLOCK_BITMAP'', 2133571384),
    (''EXT2_ET_NEQ_INODE_BITMAP'', 2133571385),
    (''EXT2_ET_BAD_DEVICE_NAME'', 2133571386),
    (''EXT2_ET_MISSING_INODE_TABLE'', 2133571387),
    (''EXT2_ET_CORRUPT_SUPERBLOCK'', 2133571388),
    (''EXT2_ET_BAD_GENERIC_MARK'', 2133571389),
    (''EXT2_ET_BAD_GENERIC_UNMARK'', 2133571390),
    (''EXT2_ET_BAD_GENERIC_TEST'', 2133571391),
    (''EXT2_ET_SYMLINK_LOOP'', 2133571392),
    (''EXT2_ET_CALLBACK_NOTHANDLED'', 2133571393),
    (''EXT2_ET_BAD_BLOCK_IN_INODE_TABLE'', 2133571394),
    (''EXT2_ET_UNSUPP_FEATURE'', 2133571395),
    (''EXT2_ET_RO_UNSUPP_FEATURE'', 2133571396),
    (''EXT2_ET_LLSEEK_FAILED'', 2133571397),
    (''EXT2_ET_NO_MEMORY'', 2133571398),
    (''EXT2_ET_INVALID_ARGUMENT'', 2133571399),
    (''EXT2_ET_BLOCK_ALLOC_FAIL'', 2133571400),
    (''EXT2_ET_INODE_ALLOC_FAIL'', 2133571401),
    (''EXT2_ET_NO_DIRECTORY'', 2133571402),
    (''EXT2_ET_TOO_MANY_REFS'', 2133571403),
    (''EXT2_ET_FILE_NOT_FOUND'', 2133571404),
    (''EXT2_ET_FILE_RO'', 2133571405),
    (''EXT2_ET_DB_NOT_FOUND'', 2133571406),
    (''EXT2_ET_DIR_EXISTS'', 2133571407),
    (''EXT2_ET_UNIMPLEMENTED'', 2133571408),
    (''EXT2_ET_CANCEL_REQUESTED'', 2133571409),
    (''EXT2_ET_FILE_TOO_BIG'', 2133571410),
    (''EXT2_ET_JOURNAL_NOT_BLOCK'', 2133571411),
    (''EXT2_ET_NO_JOURNAL_SB'', 2133571412),
    (''EXT2_ET_JOURNAL_TOO_SMALL'', 2133571413),
    (''EXT2_ET_JOURNAL_UNSUPP_VERSION'', 2133571414),
    (''EXT2_ET_LOAD_EXT_JOURNAL'', 2133571415),
    (''EXT2_ET_NO_JOURNAL'', 2133571416),
    (''EXT2_ET_DIRHASH_UNSUPP'', 2133571417),
    (''EXT2_ET_BAD_EA_BLOCK_NUM'', 2133571418),
    (''EXT2_ET_TOO_MANY_INODES'', 2133571419)]"

definition ext2_codes2 :: "(string \<times> int) list" where
  "ext2_codes2 = [
    (''EXT2_ET_NOT_IMAGE_FILE'', 2133571420),
    (''EXT2_ET_RES_GDT_BLOCKS'', 2133571421),
    (''EXT2_ET_RESIZE_INODE_CORRUPT'', 2133571422),
    (''EXT2_ET_SET_BMAP_NO_IND'', 2133571423),
    (''EXT2_ET_TDB_SUCCESS'', 2133571424),
    (''EXT2_ET_TDB_ERR_CORRUPT'', 2133571425),
    (''EXT2_ET_TDB_ERR_IO'', 2133571426),
    (''EXT2_ET_TDB_ERR_LOCK'', 2133571427),
    (''EXT2_ET_TDB_ERR_OOM'', 2133571428),
    (''EXT2_ET_TDB_ERR_EXISTS'', 2133571429),
    (''EXT2_ET_TDB_ERR_NOLOCK'', 2133571430),
    (''EXT2_ET_TDB_ERR_EINVAL'', 2133571431),
    (''EXT2_ET_TDB_ERR_NOEXIST'', 2133571432),
    (''EXT2_ET_TDB_ERR_RDONLY'', 2133571433),
    (''EXT2_ET_DBLIST_EMPTY'', 2133571434),
    (''EXT2_ET_RO_BLOCK_ITERATE'', 2133571435),
    (''EXT2_ET_MAGIC_EXTENT_PATH'', 2133571436),
    (''EXT2_ET_MAGIC_GENERIC_BITMAP64'', 2133571437),
    (''EXT2_ET_MAGIC_BLOCK_BITMAP64'', 2133571438),
    (''EXT2_ET_MAGIC_INODE_BITMAP64'', 2133571439),
    (''EXT2_ET_MAGIC_RESERVED_13'', 2133571440),
    (''EXT2_ET_MAGIC_RESERVED_14'', 2133571441),
    (''EXT2_ET_MAGIC_RESERVED_15'', 2133571442),
    (''EXT2_ET_MAGIC_RESERVED_16'', 2133571443),
    (''EXT2_ET_MAGIC_RESERVED_17'', 2133571444),
    (''EXT2_ET_MAGIC_RESERVED_18'', 2133571445),
    (''EXT2_ET_MAGIC_RESERVED_19'', 2133571446),
    (''EXT2_ET_EXTENT_HEADER_BAD'', 2133571447),
    (''EXT2_ET_EXTENT_INDEX_BAD'', 2133571448),
    (''EXT2_ET_EXTENT_LEAF_BAD'', 2133571449),
    (''EXT2_ET_EXTENT_NO_SPACE'', 2133571450),
    (''EXT2_ET_INODE_NOT_EXTENT'', 2133571451),
    (''EXT2_ET_EXTENT_NO_NEXT'', 2133571452),
    (''EXT2_ET_EXTENT_NO_PREV'', 2133571453),
    (''EXT2_ET_EXTENT_NO_UP'', 2133571454),
    (''EXT2_ET_EXTENT_NO_DOWN'', 2133571455),
    (''EXT2_ET_NO_CURRENT_NODE'', 2133571456),
    (''EXT2_ET_OP_NOT_SUPPORTED'', 2133571457),
    (''EXT2_ET_CANT_INSERT_EXTENT'', 2133571458),
    (''EXT2_ET_CANT_SPLIT_EXTENT'', 2133571459),
    (''EXT2_ET_EXTENT_NOT_FOUND'', 2133571460),
    (''EXT2_ET_EXTENT_NOT_SUPPORTED'', 2133571461),
    (''EXT2_ET_EXTENT_INVALID_LENGTH'', 2133571462),
    (''EXT2_ET_IO_CHANNEL_NO_SUPPORT_64'', 2133571463),
    (''EXT2_ET_NO_MTAB_FILE'', 2133571464),
    (''EXT2_ET_CANT_USE_LEGACY_BITMAPS'', 2133571465)]"

definition ext2_codes3 :: "(string \<times> int) list" where
  "ext2_codes3 = [
    (''EXT2_ET_MMP_MAGIC_INVALID'', 2133571466),
    (''EXT2_ET_MMP_FAILED'', 2133571467),
    (''EXT2_ET_MMP_FSCK_ON'', 2133571468),
    (''EXT2_ET_MMP_BAD_BLOCK'', 2133571469),
    (''EXT2_ET_MMP_UNKNOWN_SEQ'', 2133571470),
    (''EXT2_ET_MMP_CHANGE_ABORT'', 2133571471),
    (''EXT2_ET_MMP_OPEN_DIRECT'', 2133571472),
    (''EXT2_ET_BAD_DESC_SIZE'', 2133571473),
    (''EXT2_ET_INODE_CSUM_INVALID'', 2133571474),
    (''EXT2_ET_INODE_BITMAP_CSUM_INVALID'', 2133571475),
    (''EXT2_ET_EXTENT_CSUM_INVALID'', 2133571476),
    (''EXT2_ET_DIR_NO_SPACE_FOR_CSUM'', 2133571477),
    (''EXT2_ET_DIR_CSUM_INVALID'', 2133571478),
    (''EXT2_ET_EXT_ATTR_CSUM_INVALID'', 2133571479),
    (''EXT2_ET_SB_CSUM_INVALID'', 2133571480),
    (''EXT2_ET_UNKNOWN_CSUM'', 2133571481),
    (''EXT2_ET_MMP_CSUM_INVALID'', 2133571482),
    (''EXT2_ET_FILE_EXISTS'', 2133571483),
    (''EXT2_ET_BLOCK_BITMAP_CSUM_INVALID'', 2133571484),
    (''EXT2_ET_INLINE_DATA_CANT_ITERATE'', 2133571485),
    (''EXT2_ET_EA_BAD_NAME_LEN'', 2133571486),
    (''EXT2_ET_EA_BAD_VALUE_SIZE'', 2133571487),
    (''EXT2_ET_BAD_EA_HASH'', 2133571488),
    (''EXT2_ET_BAD_EA_HEADER'', 2133571489),
    (''EXT2_ET_EA_KEY_NOT_FOUND'', 2133571490),
    (''EXT2_ET_EA_NO_SPACE'', 2133571491),
    (''EXT2_ET_MISSING_EA_FEATURE'', 2133571492),
    (''EXT2_ET_NO_INLINE_DATA'', 2133571493),
    (''EXT2_ET_INLINE_DATA_NO_BLOCK'', 2133571494),
    (''EXT2_ET_INLINE_DATA_NO_SPACE'', 2133571495),
    (''EXT2_ET_MAGIC_EA_HANDLE'', 2133571496),
    (''EXT2_ET_INODE_IS_GARBAGE'', 2133571497),
    (''EXT2_ET_EA_BAD_VALUE_OFFSET'', 2133571498),
    (''EXT2_ET_JOURNAL_FLAGS_WRONG'', 2133571499),
    (''EXT2_ET_UNDO_FILE_CORRUPT'', 2133571500),
    (''EXT2_ET_UNDO_FILE_WRONG'', 2133571501),
    (''EXT2_ET_FILESYSTEM_CORRUPTED'', 2133571502),
    (''EXT2_ET_BAD_CRC'', 2133571503),
    (''EXT2_ET_CORRUPT_JOURNAL_SB'', 2133571504),
    (''EXT2_ET_INODE_CORRUPTED'', 2133571505),
    (''EXT2_ET_EA_INODE_CORRUPTED'', 2133571506),
    (''EXT2_ET_NO_GDESC'', 2133571507),
    (''EXT2_FILSYS_CORRUPTED'', 2133571508),
    (''EXT2_ET_EXTENT_CYCLE'', 2133571509),
    (''EXT2_ET_EXTERNAL_JOURNAL_NOSUPP'', 2133571510)]"

definition ext2_codes :: "(string \<times> int) list" where
  "ext2_codes = ext2_codes0 @ ext2_codes1 @ ext2_codes2 @ ext2_codes3"

end
