(* ===== verification/ErrorTables.thy ===== *)
theory ErrorTables
  imports ErrorText
begin

text \<open>
  The registration of the two error tables, \<^verbatim>\<open>initialize_prof_error_table\<close> of
  \<^verbatim>\<open>src/packages/e2fsprogs/files/prof_err.c\<close> and \<^verbatim>\<open>initialize_ext2_error_table\<close> of \<^verbatim>\<open>ext2_err.c\<close>. The
  linked list is kept as the code has it: nodes at addresses, one of them the static node \<^verbatim>\<open>link\<close> of
  each file, a head pointer per list, and a pointer to the pointer that ends the list. The results of
  \<^verbatim>\<open>malloc\<close> are a parameter, one for each call made so far. The walk along the list is a partial
  function, since the code does not return from a cyclic list; following a null table is a crash.
\<close>

section \<open>Tables and lists\<close>

text \<open>The message arrays are compared by address only.\<close>

datatype text_ref = Prof_text | Ext2_text | Other_text nat

record error_table =
  msgs :: text_ref
  base :: int
  n_msgs :: int

datatype addr = Prof_link | Ext2_link | Heap nat

record et_list =
  nxt :: "addr option"
  tab :: "error_table option"

record et_state =
  nodes :: "addr \<Rightarrow> et_list option"
  heads :: "nat \<Rightarrow> addr option"
  mallocs :: nat

definition et_prof_error_table :: error_table where
  "et_prof_error_table = \<lparr>msgs = Prof_text, base = -1429577728, n_msgs = 31\<rparr>"

definition et_ext2_error_table :: error_table where
  "et_ext2_error_table = \<lparr>msgs = Ext2_text, base = 2133571328, n_msgs = 183\<rparr>"

text \<open>The number of the list whose head is the global variable \<^verbatim>\<open>_et_list\<close>.\<close>

definition et_list_global :: nat where
  "et_list_global = 0"

section \<open>Registration\<close>

datatype slot = Head nat | Next addr

datatype found = Present | End slot | Null_table

partial_function (option) walk :: "text_ref \<Rightarrow> (addr \<Rightarrow> et_list option) \<Rightarrow> slot \<Rightarrow> addr option \<Rightarrow> found option" where
  "walk txt ns slt et =
    (if et = None then Some (End slt)
     else if Option.bind (ns (the et)) tab = None then Some Null_table
     else if msgs (the (Option.bind (ns (the et)) tab)) = txt then Some Present
     else walk txt ns (Next (the et)) (Option.bind (ns (the et)) nxt))"

definition write_slot :: "slot \<Rightarrow> addr \<Rightarrow> et_state \<Rightarrow> et_state" where
  "write_slot slt a st =
    (case slt of
       Head l \<Rightarrow> st\<lparr>heads := (heads st)(l := Some a)\<rparr>
     | Next b \<Rightarrow> st\<lparr>nodes := (nodes st)(b := map_option (\<lambda>n. n\<lparr>nxt := Some a\<rparr>) (nodes st b))\<rparr>)"

definition link_node :: "error_table \<Rightarrow> addr \<Rightarrow> slot \<Rightarrow> et_state \<Rightarrow> et_state" where
  "link_node t a slt st =
    write_slot slt a (st\<lparr>nodes := (nodes st)(a \<mapsto> \<lparr>nxt = None, tab = Some t\<rparr>)\<rparr>)"

datatype init = Returned et_state | Crashed

definition append_table ::
  "error_table \<Rightarrow> addr \<Rightarrow> (nat \<Rightarrow> (addr \<Rightarrow> et_list option) \<Rightarrow> nat option) \<Rightarrow> slot \<Rightarrow> et_state \<Rightarrow> et_state" where
  "append_table t link malloc slt st =
    (let st' = st\<lparr>mallocs := mallocs st + 1\<rparr> in
     case malloc (mallocs st) (nodes st) of
       Some a \<Rightarrow> link_node t (Heap a) slt st'
     | None \<Rightarrow>
         if Option.bind (nodes st link) tab = None then link_node t link slt st' else st')"

definition initialize_table_r ::
  "error_table \<Rightarrow> addr \<Rightarrow> (nat \<Rightarrow> (addr \<Rightarrow> et_list option) \<Rightarrow> nat option) \<Rightarrow> nat \<Rightarrow> et_state \<Rightarrow> init option" where
  "initialize_table_r t link malloc l st =
    (case walk (msgs t) (nodes st) (Head l) (heads st l) of
       None \<Rightarrow> None
     | Some Null_table \<Rightarrow> Some Crashed
     | Some Present \<Rightarrow> Some (Returned st)
     | Some (End slt) \<Rightarrow> Some (Returned (append_table t link malloc slt st)))"

definition initialize_prof_error_table_r where
  "initialize_prof_error_table_r = initialize_table_r et_prof_error_table Prof_link"

definition initialize_ext2_error_table_r where
  "initialize_ext2_error_table_r = initialize_table_r et_ext2_error_table Ext2_link"

definition initialize_prof_error_table where
  "initialize_prof_error_table malloc = initialize_prof_error_table_r malloc et_list_global"

definition initialize_ext2_error_table where
  "initialize_ext2_error_table malloc = initialize_ext2_error_table_r malloc et_list_global"

text \<open>A program that calls the two functions in any order.\<close>

datatype which = Prof | Ext2

fun initialize where
  "initialize malloc Prof = initialize_prof_error_table malloc"
| "initialize malloc Ext2 = initialize_ext2_error_table malloc"

fun initialize_all where
  "initialize_all malloc [] st = Some (Returned st)"
| "initialize_all malloc (w # ws) st =
    (case initialize malloc w st of
       Some (Returned st') \<Rightarrow> initialize_all malloc ws st'
     | r \<Rightarrow> r)"

fun table_of :: "which \<Rightarrow> error_table" where
  "table_of Prof = et_prof_error_table"
| "table_of Ext2 = et_ext2_error_table"

fun link_of :: "which \<Rightarrow> addr" where
  "link_of Prof = Prof_link"
| "link_of Ext2 = Ext2_link"

section \<open>What the list holds\<close>

text \<open>The nodes along a list, in order, with their tables.\<close>

fun chain :: "(addr \<Rightarrow> et_list option) \<Rightarrow> addr option \<Rightarrow> (addr \<times> error_table) list \<Rightarrow> bool" where
  "chain ns p [] \<longleftrightarrow> p = None"
| "chain ns p ((a, t) # xs) \<longleftrightarrow> p = Some a \<and> (\<exists>q. ns a = Some \<lparr>nxt = q, tab = Some t\<rparr> \<and> chain ns q xs)"

fun last_slot :: "slot \<Rightarrow> (addr \<times> error_table) list \<Rightarrow> slot" where
  "last_slot s [] = s"
| "last_slot s ((a, t) # xs) = last_slot (Next a) xs"

lemma walk_chain:
  "chain ns p xs \<Longrightarrow>
   walk txt ns s p = Some (if \<exists>x\<in>set xs. msgs (snd x) = txt then Present else End (last_slot s xs))"
proof (induction xs arbitrary: p s)
  case Nil
  then show ?case by (subst walk.simps) simp
next
  case (Cons x xs)
  obtain a t where x: "x = (a, t)" by (cases x)
  with Cons.prems obtain q where "p = Some a" "ns a = Some \<lparr>nxt = q, tab = Some t\<rparr>" "chain ns q xs" by auto
  then show ?case using Cons.IH [of q "Next a"] x by (subst walk.simps) simp
qed

lemma chain_update:
  "chain ns p xs \<Longrightarrow> a \<notin> fst ` set xs \<Longrightarrow> chain (ns(a := v)) p xs"
  by (induction xs arbitrary: p) auto

lemma last_slot_append: "last_slot s (xs @ [(a, t)]) = Next a"
  by (induction xs arbitrary: s) auto

lemma chain_append:
  assumes "chain ns p (xs @ [(b, u)])" and "distinct (map fst (xs @ [(b, u)]))"
    and "a \<notin> fst ` set (xs @ [(b, u)])"
  shows "chain ((ns(a \<mapsto> \<lparr>nxt = None, tab = Some t\<rparr>))
      (b := map_option (\<lambda>n. n\<lparr>nxt := Some a\<rparr>) (ns b))) p (xs @ [(b, u), (a, t)])"
  using assms by (induction xs arbitrary: p) auto

lemma link_node_chain:
  assumes "chain (nodes st) (heads st l) xs" and "distinct (map fst xs)" and "a \<notin> fst ` set xs"
  shows "chain (nodes (link_node t a (last_slot (Head l) xs) st))
    (heads (link_node t a (last_slot (Head l) xs) st) l) (xs @ [(a, t)])"
proof (cases xs rule: rev_cases)
  case Nil
  then show ?thesis using assms by (simp add: link_node_def write_slot_def)
next
  case (snoc ys y)
  obtain b u where y: "y = (b, u)" by (cases y)
  have "b \<noteq> a" using assms snoc y by auto
  then show ?thesis
    using chain_append [of "nodes st" "heads st l" ys b u a t] assms snoc y
    by (simp add: link_node_def write_slot_def last_slot_append)
qed

section \<open>Registration in the global list\<close>

text \<open>What every call keeps, when only the global list is used: the list is finite, without a node
  twice; a static node carries a table exactly if it is in the list, and then the table of its file.\<close>

definition et_inv :: "et_state \<Rightarrow> (addr \<times> error_table) list \<Rightarrow> bool" where
  "et_inv st xs \<longleftrightarrow> chain (nodes st) (heads st et_list_global) xs \<and> distinct (map fst xs) \<and>
    (\<forall>w. map_option tab (nodes st (link_of w)) = Some None \<or> (link_of w, table_of w) \<in> set xs)"

definition malloc_ok :: "(nat \<Rightarrow> (addr \<Rightarrow> et_list option) \<Rightarrow> nat option) \<Rightarrow> bool" where
  "malloc_ok malloc \<longleftrightarrow> (\<forall>k ns a. malloc k ns = Some a \<longrightarrow> ns (Heap a) = None)"

lemma chain_nodes: "chain ns p xs \<Longrightarrow> (a, t) \<in> set xs \<Longrightarrow> map_option tab (ns a) = Some (Some t)"
  by (induction xs arbitrary: p) auto

lemma link_of_inj [simp]: "link_of v = link_of w \<longleftrightarrow> v = w"
  by (cases v; cases w) simp_all

lemma link_of_heap [simp]: "link_of w \<noteq> Heap a" "Heap a \<noteq> link_of w"
  by (cases w; simp)+

lemma initialize_table_of:
  "initialize malloc w = initialize_table_r (table_of w) (link_of w) malloc et_list_global"
  by (cases w) (simp_all add: initialize_prof_error_table_def initialize_prof_error_table_r_def
    initialize_ext2_error_table_def initialize_ext2_error_table_r_def)

lemma write_slot_other:
  "map_option tab (nodes (write_slot s a st) b) = map_option tab (nodes st b)"
  by (cases s; cases "nodes st b") (auto simp: write_slot_def)

lemma link_node_other:
  "map_option tab (nodes (link_node t a s st) b) = (if b = a then Some (Some t) else map_option tab (nodes st b))"
  by (simp add: link_node_def write_slot_other)

text \<open>The effect on the list of tables: a table whose messages are listed is not entered again.\<close>

definition register :: "error_table \<Rightarrow> error_table list \<Rightarrow> error_table list" where
  "register t ts = (if msgs t \<in> msgs ` set ts then ts else ts @ [t])"

lemma link_node_inv:
  assumes "et_inv st xs" and "a \<notin> fst ` set xs" and "a = link_of w \<or> (\<exists>k. a = Heap k)"
  shows "et_inv (link_node (table_of w) a (last_slot (Head et_list_global) xs) (st\<lparr>mallocs := k\<rparr>))
    (xs @ [(a, table_of w)])"
  using assms link_node_chain [of "st\<lparr>mallocs := k\<rparr>" et_list_global xs a "table_of w"]
  by (auto simp: et_inv_def link_node_other)

lemma append_table_inv:
  assumes inv: "et_inv st xs" and ok: "malloc_ok malloc" and new: "\<nexists>x. x \<in> set xs \<and> msgs (snd x) = msgs (table_of w)"
  obtains a where "et_inv (append_table (table_of w) (link_of w) malloc (last_slot (Head et_list_global) xs) st)
    (xs @ [(a, table_of w)])"
proof (cases "malloc (mallocs st) (nodes st)")
  case None
  have free: "map_option tab (nodes st (link_of w)) = Some None" using inv new by (force simp: et_inv_def)
  then have "link_of w \<notin> fst ` set xs" using inv chain_nodes by (fastforce simp: et_inv_def)
  moreover have "Option.bind (nodes st (link_of w)) tab = None" using free by auto
  ultimately show ?thesis using that [of "link_of w"] link_node_inv [OF inv, of "link_of w" w] None by (simp add: append_table_def)
next
  case (Some k)
  then have "nodes st (Heap k) = None" using ok by (simp add: malloc_ok_def)
  then have "Heap k \<notin> fst ` set xs" using inv chain_nodes by (fastforce simp: et_inv_def)
  then show ?thesis using that [of "Heap k"] link_node_inv [OF inv, of "Heap k" w] Some by (simp add: append_table_def)
qed

lemma initialize_result:
  assumes "et_inv st xs"
  shows "initialize malloc w st = Some (Returned
    (if \<exists>x\<in>set xs. msgs (snd x) = msgs (table_of w) then st
     else append_table (table_of w) (link_of w) malloc (last_slot (Head et_list_global) xs) st))"
  using assms by (simp add: initialize_table_of initialize_table_r_def et_inv_def
    walk_chain [of "nodes st" "heads st et_list_global" xs])

lemma initialize_registers:
  assumes "et_inv st xs" and "malloc_ok malloc"
  shows "\<exists>st' ys. initialize malloc w st = Some (Returned st') \<and> et_inv st' ys \<and>
    map snd ys = register (table_of w) (map snd xs)"
proof (cases "\<exists>x\<in>set xs. msgs (snd x) = msgs (table_of w)")
  case True
  then have "msgs (table_of w) \<in> msgs ` set (map snd xs)" by (metis image_eqI list.set_map)
  then have "register (table_of w) (map snd xs) = map snd xs" by (simp add: register_def)
  moreover have "initialize malloc w st = Some (Returned st)"
    using True assms by (simp add: initialize_result)
  ultimately show ?thesis using assms by auto
next
  case False
  then have r: "register (table_of w) (map snd xs) = map snd xs @ [table_of w]" by (auto simp: register_def)
  from False assms obtain a where
    "et_inv (append_table (table_of w) (link_of w) malloc (last_slot (Head et_list_global) xs) st) (xs @ [(a, table_of w)])"
    using append_table_inv by blast
  then show ?thesis
    using False r initialize_result [OF assms(1), of malloc w] by force
qed

lemma initialize_all_registers:
  assumes "malloc_ok malloc"
  shows "et_inv st xs \<Longrightarrow> \<exists>st' ys. initialize_all malloc ws st = Some (Returned st') \<and> et_inv st' ys \<and>
    map snd ys = fold register (map table_of ws) (map snd xs)"
proof (induction ws arbitrary: st xs)
  case Nil
  then show ?case by auto
next
  case (Cons w ws)
  obtain st' ys where s: "initialize malloc w st = Some (Returned st')" "et_inv st' ys"
    "map snd ys = register (table_of w) (map snd xs)"
    using initialize_registers [OF Cons.prems assms] by blast
  then show ?case using Cons.IH [OF s(2)] by simp
qed

text \<open>The first occurrence of every element of a list.\<close>

fun firsts :: "'a list \<Rightarrow> 'a list" where
  "firsts [] = []"
| "firsts (x # xs) = x # firsts (filter (\<lambda>y. y \<noteq> x) xs)"

lemma table_of_inj [simp]: "msgs (table_of v) = msgs (table_of w) \<longleftrightarrow> v = w"
  by (cases v; cases w) (simp_all add: et_prof_error_table_def et_ext2_error_table_def)

lemma fold_register:
  "fold register (map table_of ws) ts =
   ts @ map table_of (firsts (filter (\<lambda>w. msgs (table_of w) \<notin> msgs ` set ts) ws))"
proof (induction ws arbitrary: ts)
  case (Cons w ws)
  have "filter (\<lambda>v. msgs (table_of v) \<notin> msgs ` set (ts @ [table_of w])) ws =
      filter (\<lambda>v. v \<noteq> w) (filter (\<lambda>v. msgs (table_of v) \<notin> msgs ` set ts) ws)"
    by (auto intro: filter_cong)
  then show ?case using Cons.IH [of "ts @ [table_of w]"] Cons.IH [of ts] by (simp add: register_def)
qed simp

text \<open>C28: Registration in the global list always succeeds, even when memory is exhausted: whatever calls
  of \<^verbatim>\<open>initialize_prof_error_table\<close> and \<^verbatim>\<open>initialize_ext2_error_table\<close> a program makes, and whichever of the
  \<^verbatim>\<open>malloc\<close> calls in them fail, every call returns, the tables that were listed stay listed in their
  order, and the called tables that were not yet listed follow once each, in the order of their first
  calls.\<close>

theorem error_tables_registered:
  assumes "malloc_ok malloc" and "et_inv st xs"
  shows "\<exists>st' ys. initialize_all malloc ws st = Some (Returned st') \<and> et_inv st' ys \<and>
    map snd ys = map snd xs @
      map table_of (firsts (filter (\<lambda>w. msgs (table_of w) \<notin> (msgs \<circ> snd) ` set xs) ws))"
  using initialize_all_registers [OF assms, of ws] by (simp add: fold_register image_comp)

definition fresh_state :: et_state where
  "fresh_state = \<lparr>nodes = (\<lambda>a. if a = Prof_link \<or> a = Ext2_link then Some \<lparr>nxt = None, tab = None\<rparr> else None),
    heads = (\<lambda>_. None), mallocs = 0\<rparr>"

definition one_block :: "nat \<Rightarrow> (addr \<Rightarrow> et_list option) \<Rightarrow> nat option" where
  "one_block k ns = (if k = 1 \<and> ns (Heap 7) = None then Some 7 else None)"

theorem error_tables_registered_witness:
  "malloc_ok one_block \<and> et_inv fresh_state [] \<and>
   (\<exists>st ys. initialize_all one_block [Ext2, Prof, Ext2] fresh_state = Some (Returned st) \<and>
     et_inv st ys \<and> map snd ys = [et_ext2_error_table, et_prof_error_table])"
proof -
  have "malloc_ok one_block" by (simp add: malloc_ok_def one_block_def)
  moreover have "link_of w = Prof_link \<or> link_of w = Ext2_link" for w by (cases w) simp_all
  then have "et_inv fresh_state []" by (auto simp: et_inv_def fresh_state_def)
  ultimately show ?thesis
    using error_tables_registered [of one_block fresh_state "[]" "[Ext2, Prof, Ext2]"] by simp
qed

section \<open>Codes and messages\<close>

lemma prof_codes_run: "map snd prof_codes = [-1429577728..-1429577698] \<and> length prof_text = 31 \<and> [] \<notin> set prof_text"
  by code_simp

lemma ext2_text_length: "length ext2_text = 183" "[] \<notin> set ext2_text"
  unfolding ext2_text_def ext2_text0_def ext2_text1_def ext2_text2_def ext2_text3_def by simp_all

lemma ext2_codes_run: "map snd ext2_codes = [2133571328..2133571510]"
  by code_simp

text \<open>The codes of a header count up from the base of its table, one for each message of the table.\<close>

definition codes_fit :: "error_table \<Rightarrow> string list \<Rightarrow> (string \<times> int) list \<Rightarrow> bool" where
  "codes_fit t txt codes \<longleftrightarrow>
     int (length txt) = n_msgs t \<and> map snd codes = map (\<lambda>i. base t + int i) [0..<length txt]"

lemma upto_offsets: "[a..b] = map (\<lambda>i. a + int i) [0..<nat (b - a + 1)]"
  by (rule nth_equalityI) (simp_all add: nth_upto)

lemma codes_range: "map snd codes = [a..b] \<Longrightarrow> snd ` set codes = {a..b}"
  by (metis list.set_map set_upto)

lemma codes_fitI:
  assumes "map snd codes = [base t..base t + n_msgs t - 1]" and "int (length txt) = n_msgs t"
  shows "codes_fit t txt codes"
proof -
  have "nat (base t + n_msgs t - 1 - base t + 1) = length txt" using assms(2) by simp
  then show ?thesis using assms by (simp only: codes_fit_def upto_offsets simp_thms)
qed

text \<open>C30: The codes of the headers and the messages of the tables fit together: the codes of each header
  run without a gap from the base of its table, one for every message, so that the message of a code is
  the one at the distance of the code from the base; no message is empty, the codes are signed 32-bit
  values, and no code is used by both tables.\<close>

theorem error_codes_index_texts:
  "codes_fit et_prof_error_table prof_text prof_codes \<and> codes_fit et_ext2_error_table ext2_text ext2_codes \<and>
   [] \<notin> set prof_text \<and> [] \<notin> set ext2_text \<and>
   snd ` set prof_codes \<subseteq> {- (2 ^ 31)..<0} \<and> snd ` set ext2_codes \<subseteq> {0..<2 ^ 31}"
proof -
  have "codes_fit et_prof_error_table prof_text prof_codes"
    by (rule codes_fitI) (use prof_codes_run in \<open>auto simp: et_prof_error_table_def\<close>)
  moreover have "codes_fit et_ext2_error_table ext2_text ext2_codes"
    by (rule codes_fitI) (use ext2_codes_run in \<open>simp_all add: et_ext2_error_table_def ext2_text_length\<close>)
  moreover note codes_range [OF prof_codes_run [THEN conjunct1]] codes_range [OF ext2_codes_run]
  moreover have "{-1429577728..-1429577698} \<subseteq> {- (2 ^ 31)..<0 :: int}" "{2133571328..2133571510} \<subseteq> {0..<2 ^ 31 :: int}"
    by auto
  ultimately show ?thesis using prof_codes_run [THEN conjunct2] ext2_text_length by simp
qed

end
