(* ===== verification/ErrnoNames.thy ===== *)
theory ErrnoNames
  imports Prelude
begin

text \<open>
  The names of error numbers by machine, \<^verbatim>\<open>arch_syscalls__strerrno\<close> of
  \<^verbatim>\<open>src/packages/perf/files/generated/trace/beauty/generated/arch_errno_name_array.c\<close>: one \<^verbatim>\<open>switch\<close> for
  each family of machines, kept as the list of its cases, and the selection by ELF machine number.
\<close>

section \<open>The switches\<close>

text \<open>A \<^verbatim>\<open>switch\<close> whose cases all return a constant.\<close>

fun switch :: "int \<Rightarrow> (int \<times> string) list \<Rightarrow> string" where
  "switch err [] = ''(unknown)''"
| "switch err ((c, name) # cs) = (if err = c then name else switch err cs)"

definition generic_cases :: "(int \<times> string) list" where
  "generic_cases = [
    (1, ''EPERM''), (2, ''ENOENT''), (3, ''ESRCH''), (4, ''EINTR''), (5, ''EIO''), (6, ''ENXIO''),
    (7, ''E2BIG''), (8, ''ENOEXEC''), (9, ''EBADF''), (10, ''ECHILD''), (11, ''EAGAIN''),
    (12, ''ENOMEM''), (13, ''EACCES''), (14, ''EFAULT''), (15, ''ENOTBLK''), (16, ''EBUSY''),
    (17, ''EEXIST''), (18, ''EXDEV''), (19, ''ENODEV''), (20, ''ENOTDIR''), (21, ''EISDIR''),
    (22, ''EINVAL''), (23, ''ENFILE''), (24, ''EMFILE''), (25, ''ENOTTY''), (26, ''ETXTBSY''),
    (27, ''EFBIG''), (28, ''ENOSPC''), (29, ''ESPIPE''), (30, ''EROFS''), (31, ''EMLINK''),
    (32, ''EPIPE''), (33, ''EDOM''), (34, ''ERANGE''), (35, ''EDEADLK''), (36, ''ENAMETOOLONG''),
    (37, ''ENOLCK''), (38, ''ENOSYS''), (39, ''ENOTEMPTY''), (40, ''ELOOP''), (42, ''ENOMSG''),
    (43, ''EIDRM''), (44, ''ECHRNG''), (45, ''EL2NSYNC''), (46, ''EL3HLT''), (47, ''EL3RST''),
    (48, ''ELNRNG''), (49, ''EUNATCH''), (50, ''ENOCSI''), (51, ''EL2HLT''), (52, ''EBADE''),
    (53, ''EBADR''), (54, ''EXFULL''), (55, ''ENOANO''), (56, ''EBADRQC''), (57, ''EBADSLT''),
    (59, ''EBFONT''), (60, ''ENOSTR''), (61, ''ENODATA''), (62, ''ETIME''), (63, ''ENOSR''),
    (64, ''ENONET''), (65, ''ENOPKG''), (66, ''EREMOTE''), (67, ''ENOLINK''), (68, ''EADV''),
    (69, ''ESRMNT''), (70, ''ECOMM''), (71, ''EPROTO''), (72, ''EMULTIHOP''), (73, ''EDOTDOT''),
    (74, ''EBADMSG''), (75, ''EOVERFLOW''), (76, ''ENOTUNIQ''), (77, ''EBADFD''), (78, ''EREMCHG''),
    (79, ''ELIBACC''), (80, ''ELIBBAD''), (81, ''ELIBSCN''), (82, ''ELIBMAX''), (83, ''ELIBEXEC''),
    (84, ''EILSEQ''), (85, ''ERESTART''), (86, ''ESTRPIPE''), (87, ''EUSERS''), (88, ''ENOTSOCK''),
    (89, ''EDESTADDRREQ''), (90, ''EMSGSIZE''), (91, ''EPROTOTYPE''), (92, ''ENOPROTOOPT''),
    (93, ''EPROTONOSUPPORT''), (94, ''ESOCKTNOSUPPORT''), (95, ''EOPNOTSUPP''),
    (96, ''EPFNOSUPPORT''), (97, ''EAFNOSUPPORT''), (98, ''EADDRINUSE''), (99, ''EADDRNOTAVAIL''),
    (100, ''ENETDOWN''), (101, ''ENETUNREACH''), (102, ''ENETRESET''), (103, ''ECONNABORTED''),
    (104, ''ECONNRESET''), (105, ''ENOBUFS''), (106, ''EISCONN''), (107, ''ENOTCONN''),
    (108, ''ESHUTDOWN''), (109, ''ETOOMANYREFS''), (110, ''ETIMEDOUT''), (111, ''ECONNREFUSED''),
    (112, ''EHOSTDOWN''), (113, ''EHOSTUNREACH''), (114, ''EALREADY''), (115, ''EINPROGRESS''),
    (116, ''ESTALE''), (117, ''EUCLEAN''), (118, ''ENOTNAM''), (119, ''ENAVAIL''), (120, ''EISNAM''),
    (121, ''EREMOTEIO''), (122, ''EDQUOT''), (123, ''ENOMEDIUM''), (124, ''EMEDIUMTYPE''),
    (125, ''ECANCELED''), (126, ''ENOKEY''), (127, ''EKEYEXPIRED''), (128, ''EKEYREVOKED''),
    (129, ''EKEYREJECTED''), (130, ''EOWNERDEAD''), (131, ''ENOTRECOVERABLE''), (132, ''ERFKILL''),
    (133, ''EHWPOISON''), (134, ''EFTYPE'')]"

definition errno_to_name__generic :: "int \<Rightarrow> string" where
  "errno_to_name__generic err = switch err generic_cases"

definition alpha_cases :: "(int \<times> string) list" where
  "alpha_cases = [
    (1, ''EPERM''), (2, ''ENOENT''), (3, ''ESRCH''), (4, ''EINTR''), (5, ''EIO''), (6, ''ENXIO''),
    (7, ''E2BIG''), (8, ''ENOEXEC''), (9, ''EBADF''), (10, ''ECHILD''), (11, ''EDEADLK''),
    (12, ''ENOMEM''), (13, ''EACCES''), (14, ''EFAULT''), (15, ''ENOTBLK''), (16, ''EBUSY''),
    (17, ''EEXIST''), (18, ''EXDEV''), (19, ''ENODEV''), (20, ''ENOTDIR''), (21, ''EISDIR''),
    (22, ''EINVAL''), (23, ''ENFILE''), (24, ''EMFILE''), (25, ''ENOTTY''), (26, ''ETXTBSY''),
    (27, ''EFBIG''), (28, ''ENOSPC''), (29, ''ESPIPE''), (30, ''EROFS''), (31, ''EMLINK''),
    (32, ''EPIPE''), (33, ''EDOM''), (34, ''ERANGE''), (35, ''EAGAIN''), (36, ''EINPROGRESS''),
    (37, ''EALREADY''), (38, ''ENOTSOCK''), (39, ''EDESTADDRREQ''), (40, ''EMSGSIZE''),
    (41, ''EPROTOTYPE''), (42, ''ENOPROTOOPT''), (43, ''EPROTONOSUPPORT''), (44, ''ESOCKTNOSUPPORT''),
    (45, ''EOPNOTSUPP''), (46, ''EPFNOSUPPORT''), (47, ''EAFNOSUPPORT''), (48, ''EADDRINUSE''),
    (49, ''EADDRNOTAVAIL''), (50, ''ENETDOWN''), (51, ''ENETUNREACH''), (52, ''ENETRESET''),
    (53, ''ECONNABORTED''), (54, ''ECONNRESET''), (55, ''ENOBUFS''), (56, ''EISCONN''),
    (57, ''ENOTCONN''), (58, ''ESHUTDOWN''), (59, ''ETOOMANYREFS''), (60, ''ETIMEDOUT''),
    (61, ''ECONNREFUSED''), (62, ''ELOOP''), (63, ''ENAMETOOLONG''), (64, ''EHOSTDOWN''),
    (65, ''EHOSTUNREACH''), (66, ''ENOTEMPTY''), (68, ''EUSERS''), (69, ''EDQUOT''), (70, ''ESTALE''),
    (71, ''EREMOTE''), (77, ''ENOLCK''), (78, ''ENOSYS''), (80, ''ENOMSG''), (81, ''EIDRM''),
    (82, ''ENOSR''), (83, ''ETIME''), (84, ''EBADMSG''), (85, ''EPROTO''), (86, ''ENODATA''),
    (87, ''ENOSTR''), (88, ''ECHRNG''), (89, ''EL2NSYNC''), (90, ''EL3HLT''), (91, ''EL3RST''),
    (92, ''ENOPKG''), (93, ''ELNRNG''), (94, ''EUNATCH''), (95, ''ENOCSI''), (96, ''EL2HLT''),
    (97, ''EBADE''), (98, ''EBADR''), (99, ''EXFULL''), (100, ''ENOANO''), (101, ''EBADRQC''),
    (102, ''EBADSLT''), (104, ''EBFONT''), (105, ''ENONET''), (106, ''ENOLINK''), (107, ''EADV''),
    (108, ''ESRMNT''), (109, ''ECOMM''), (110, ''EMULTIHOP''), (111, ''EDOTDOT''),
    (112, ''EOVERFLOW''), (113, ''ENOTUNIQ''), (114, ''EBADFD''), (115, ''EREMCHG''),
    (116, ''EILSEQ''), (117, ''EUCLEAN''), (118, ''ENOTNAM''), (119, ''ENAVAIL''), (120, ''EISNAM''),
    (121, ''EREMOTEIO''), (122, ''ELIBACC''), (123, ''ELIBBAD''), (124, ''ELIBSCN''),
    (125, ''ELIBMAX''), (126, ''ELIBEXEC''), (127, ''ERESTART''), (128, ''ESTRPIPE''),
    (129, ''ENOMEDIUM''), (130, ''EMEDIUMTYPE''), (131, ''ECANCELED''), (132, ''ENOKEY''),
    (133, ''EKEYEXPIRED''), (134, ''EKEYREVOKED''), (135, ''EKEYREJECTED''), (136, ''EOWNERDEAD''),
    (137, ''ENOTRECOVERABLE''), (138, ''ERFKILL''), (139, ''EHWPOISON''), (140, ''EFTYPE'')]"

definition errno_to_name__alpha :: "int \<Rightarrow> string" where
  "errno_to_name__alpha err = switch err alpha_cases"

definition mips_cases :: "(int \<times> string) list" where
  "mips_cases = [
    (1, ''EPERM''), (2, ''ENOENT''), (3, ''ESRCH''), (4, ''EINTR''), (5, ''EIO''), (6, ''ENXIO''),
    (7, ''E2BIG''), (8, ''ENOEXEC''), (9, ''EBADF''), (10, ''ECHILD''), (11, ''EAGAIN''),
    (12, ''ENOMEM''), (13, ''EACCES''), (14, ''EFAULT''), (15, ''ENOTBLK''), (16, ''EBUSY''),
    (17, ''EEXIST''), (18, ''EXDEV''), (19, ''ENODEV''), (20, ''ENOTDIR''), (21, ''EISDIR''),
    (22, ''EINVAL''), (23, ''ENFILE''), (24, ''EMFILE''), (25, ''ENOTTY''), (26, ''ETXTBSY''),
    (27, ''EFBIG''), (28, ''ENOSPC''), (29, ''ESPIPE''), (30, ''EROFS''), (31, ''EMLINK''),
    (32, ''EPIPE''), (33, ''EDOM''), (34, ''ERANGE''), (35, ''ENOMSG''), (36, ''EIDRM''),
    (37, ''ECHRNG''), (38, ''EL2NSYNC''), (39, ''EL3HLT''), (40, ''EL3RST''), (41, ''ELNRNG''),
    (42, ''EUNATCH''), (43, ''ENOCSI''), (44, ''EL2HLT''), (45, ''EDEADLK''), (46, ''ENOLCK''),
    (50, ''EBADE''), (51, ''EBADR''), (52, ''EXFULL''), (53, ''ENOANO''), (54, ''EBADRQC''),
    (55, ''EBADSLT''), (56, ''EDEADLOCK''), (59, ''EBFONT''), (60, ''ENOSTR''), (61, ''ENODATA''),
    (62, ''ETIME''), (63, ''ENOSR''), (64, ''ENONET''), (65, ''ENOPKG''), (66, ''EREMOTE''),
    (67, ''ENOLINK''), (68, ''EADV''), (69, ''ESRMNT''), (70, ''ECOMM''), (71, ''EPROTO''),
    (73, ''EDOTDOT''), (74, ''EMULTIHOP''), (77, ''EBADMSG''), (78, ''ENAMETOOLONG''),
    (79, ''EOVERFLOW''), (80, ''ENOTUNIQ''), (81, ''EBADFD''), (82, ''EREMCHG''), (83, ''ELIBACC''),
    (84, ''ELIBBAD''), (85, ''ELIBSCN''), (86, ''ELIBMAX''), (87, ''ELIBEXEC''), (88, ''EILSEQ''),
    (89, ''ENOSYS''), (90, ''ELOOP''), (91, ''ERESTART''), (92, ''ESTRPIPE''), (93, ''ENOTEMPTY''),
    (94, ''EUSERS''), (95, ''ENOTSOCK''), (96, ''EDESTADDRREQ''), (97, ''EMSGSIZE''),
    (98, ''EPROTOTYPE''), (99, ''ENOPROTOOPT''), (120, ''EPROTONOSUPPORT''),
    (121, ''ESOCKTNOSUPPORT''), (122, ''EOPNOTSUPP''), (123, ''EPFNOSUPPORT''),
    (124, ''EAFNOSUPPORT''), (125, ''EADDRINUSE''), (126, ''EADDRNOTAVAIL''), (127, ''ENETDOWN''),
    (128, ''ENETUNREACH''), (129, ''ENETRESET''), (130, ''ECONNABORTED''), (131, ''ECONNRESET''),
    (132, ''ENOBUFS''), (133, ''EISCONN''), (134, ''ENOTCONN''), (135, ''EUCLEAN''),
    (137, ''ENOTNAM''), (138, ''ENAVAIL''), (139, ''EISNAM''), (140, ''EREMOTEIO''), (141, ''EINIT''),
    (142, ''EREMDEV''), (143, ''ESHUTDOWN''), (144, ''ETOOMANYREFS''), (145, ''ETIMEDOUT''),
    (146, ''ECONNREFUSED''), (147, ''EHOSTDOWN''), (148, ''EHOSTUNREACH''), (149, ''EALREADY''),
    (150, ''EINPROGRESS''), (151, ''ESTALE''), (158, ''ECANCELED''), (159, ''ENOMEDIUM''),
    (160, ''EMEDIUMTYPE''), (161, ''ENOKEY''), (162, ''EKEYEXPIRED''), (163, ''EKEYREVOKED''),
    (164, ''EKEYREJECTED''), (165, ''EOWNERDEAD''), (166, ''ENOTRECOVERABLE''), (167, ''ERFKILL''),
    (168, ''EHWPOISON''), (169, ''EFTYPE''), (1133, ''EDQUOT'')]"

definition errno_to_name__mips :: "int \<Rightarrow> string" where
  "errno_to_name__mips err = switch err mips_cases"

definition parisc_cases :: "(int \<times> string) list" where
  "parisc_cases = [
    (1, ''EPERM''), (2, ''ENOENT''), (3, ''ESRCH''), (4, ''EINTR''), (5, ''EIO''), (6, ''ENXIO''),
    (7, ''E2BIG''), (8, ''ENOEXEC''), (9, ''EBADF''), (10, ''ECHILD''), (11, ''EAGAIN''),
    (12, ''ENOMEM''), (13, ''EACCES''), (14, ''EFAULT''), (15, ''ENOTBLK''), (16, ''EBUSY''),
    (17, ''EEXIST''), (18, ''EXDEV''), (19, ''ENODEV''), (20, ''ENOTDIR''), (21, ''EISDIR''),
    (22, ''EINVAL''), (23, ''ENFILE''), (24, ''EMFILE''), (25, ''ENOTTY''), (26, ''ETXTBSY''),
    (27, ''EFBIG''), (28, ''ENOSPC''), (29, ''ESPIPE''), (30, ''EROFS''), (31, ''EMLINK''),
    (32, ''EPIPE''), (33, ''EDOM''), (34, ''ERANGE''), (35, ''ENOMSG''), (36, ''EIDRM''),
    (37, ''ECHRNG''), (38, ''EL2NSYNC''), (39, ''EL3HLT''), (40, ''EL3RST''), (41, ''ELNRNG''),
    (42, ''EUNATCH''), (43, ''ENOCSI''), (44, ''EL2HLT''), (45, ''EDEADLK''), (46, ''ENOLCK''),
    (47, ''EILSEQ''), (50, ''ENONET''), (51, ''ENODATA''), (52, ''ETIME''), (53, ''ENOSR''),
    (54, ''ENOSTR''), (55, ''ENOPKG''), (57, ''ENOLINK''), (58, ''EADV''), (59, ''ESRMNT''),
    (60, ''ECOMM''), (61, ''EPROTO''), (64, ''EMULTIHOP''), (66, ''EDOTDOT''), (67, ''EBADMSG''),
    (68, ''EUSERS''), (69, ''EDQUOT''), (70, ''ESTALE''), (71, ''EREMOTE''), (72, ''EOVERFLOW''),
    (160, ''EBADE''), (161, ''EBADR''), (162, ''EXFULL''), (163, ''ENOANO''), (164, ''EBADRQC''),
    (165, ''EBADSLT''), (166, ''EBFONT''), (167, ''ENOTUNIQ''), (168, ''EBADFD''), (169, ''EREMCHG''),
    (170, ''ELIBACC''), (171, ''ELIBBAD''), (172, ''ELIBSCN''), (173, ''ELIBMAX''),
    (174, ''ELIBEXEC''), (175, ''ERESTART''), (176, ''ESTRPIPE''), (177, ''EUCLEAN''),
    (178, ''ENOTNAM''), (179, ''ENAVAIL''), (180, ''EISNAM''), (181, ''EREMOTEIO''),
    (182, ''ENOMEDIUM''), (183, ''EMEDIUMTYPE''), (184, ''ENOKEY''), (185, ''EKEYEXPIRED''),
    (186, ''EKEYREVOKED''), (187, ''EKEYREJECTED''), (216, ''ENOTSOCK''), (217, ''EDESTADDRREQ''),
    (218, ''EMSGSIZE''), (219, ''EPROTOTYPE''), (220, ''ENOPROTOOPT''), (221, ''EPROTONOSUPPORT''),
    (222, ''ESOCKTNOSUPPORT''), (223, ''EOPNOTSUPP''), (224, ''EPFNOSUPPORT''),
    (225, ''EAFNOSUPPORT''), (226, ''EADDRINUSE''), (227, ''EADDRNOTAVAIL''), (228, ''ENETDOWN''),
    (229, ''ENETUNREACH''), (230, ''ENETRESET''), (231, ''ECONNABORTED''), (232, ''ECONNRESET''),
    (233, ''ENOBUFS''), (234, ''EISCONN''), (235, ''ENOTCONN''), (236, ''ESHUTDOWN''),
    (237, ''ETOOMANYREFS''), (238, ''ETIMEDOUT''), (239, ''ECONNREFUSED''), (241, ''EHOSTDOWN''),
    (242, ''EHOSTUNREACH''), (244, ''EALREADY''), (245, ''EINPROGRESS''), (247, ''ENOTEMPTY''),
    (248, ''ENAMETOOLONG''), (249, ''ELOOP''), (251, ''ENOSYS''), (253, ''ECANCELLED''),
    (254, ''EOWNERDEAD''), (255, ''ENOTRECOVERABLE''), (256, ''ERFKILL''), (257, ''EHWPOISON''),
    (258, ''EFTYPE'')]"

definition errno_to_name__parisc :: "int \<Rightarrow> string" where
  "errno_to_name__parisc err = switch err parisc_cases"

definition powerpc_cases :: "(int \<times> string) list" where
  "powerpc_cases = [
    (1, ''EPERM''), (2, ''ENOENT''), (3, ''ESRCH''), (4, ''EINTR''), (5, ''EIO''), (6, ''ENXIO''),
    (7, ''E2BIG''), (8, ''ENOEXEC''), (9, ''EBADF''), (10, ''ECHILD''), (11, ''EAGAIN''),
    (12, ''ENOMEM''), (13, ''EACCES''), (14, ''EFAULT''), (15, ''ENOTBLK''), (16, ''EBUSY''),
    (17, ''EEXIST''), (18, ''EXDEV''), (19, ''ENODEV''), (20, ''ENOTDIR''), (21, ''EISDIR''),
    (22, ''EINVAL''), (23, ''ENFILE''), (24, ''EMFILE''), (25, ''ENOTTY''), (26, ''ETXTBSY''),
    (27, ''EFBIG''), (28, ''ENOSPC''), (29, ''ESPIPE''), (30, ''EROFS''), (31, ''EMLINK''),
    (32, ''EPIPE''), (33, ''EDOM''), (34, ''ERANGE''), (35, ''EDEADLK''), (36, ''ENAMETOOLONG''),
    (37, ''ENOLCK''), (38, ''ENOSYS''), (39, ''ENOTEMPTY''), (40, ''ELOOP''), (42, ''ENOMSG''),
    (43, ''EIDRM''), (44, ''ECHRNG''), (45, ''EL2NSYNC''), (46, ''EL3HLT''), (47, ''EL3RST''),
    (48, ''ELNRNG''), (49, ''EUNATCH''), (50, ''ENOCSI''), (51, ''EL2HLT''), (52, ''EBADE''),
    (53, ''EBADR''), (54, ''EXFULL''), (55, ''ENOANO''), (56, ''EBADRQC''), (57, ''EBADSLT''),
    (58, ''EDEADLOCK''), (59, ''EBFONT''), (60, ''ENOSTR''), (61, ''ENODATA''), (62, ''ETIME''),
    (63, ''ENOSR''), (64, ''ENONET''), (65, ''ENOPKG''), (66, ''EREMOTE''), (67, ''ENOLINK''),
    (68, ''EADV''), (69, ''ESRMNT''), (70, ''ECOMM''), (71, ''EPROTO''), (72, ''EMULTIHOP''),
    (73, ''EDOTDOT''), (74, ''EBADMSG''), (75, ''EOVERFLOW''), (76, ''ENOTUNIQ''), (77, ''EBADFD''),
    (78, ''EREMCHG''), (79, ''ELIBACC''), (80, ''ELIBBAD''), (81, ''ELIBSCN''), (82, ''ELIBMAX''),
    (83, ''ELIBEXEC''), (84, ''EILSEQ''), (85, ''ERESTART''), (86, ''ESTRPIPE''), (87, ''EUSERS''),
    (88, ''ENOTSOCK''), (89, ''EDESTADDRREQ''), (90, ''EMSGSIZE''), (91, ''EPROTOTYPE''),
    (92, ''ENOPROTOOPT''), (93, ''EPROTONOSUPPORT''), (94, ''ESOCKTNOSUPPORT''), (95, ''EOPNOTSUPP''),
    (96, ''EPFNOSUPPORT''), (97, ''EAFNOSUPPORT''), (98, ''EADDRINUSE''), (99, ''EADDRNOTAVAIL''),
    (100, ''ENETDOWN''), (101, ''ENETUNREACH''), (102, ''ENETRESET''), (103, ''ECONNABORTED''),
    (104, ''ECONNRESET''), (105, ''ENOBUFS''), (106, ''EISCONN''), (107, ''ENOTCONN''),
    (108, ''ESHUTDOWN''), (109, ''ETOOMANYREFS''), (110, ''ETIMEDOUT''), (111, ''ECONNREFUSED''),
    (112, ''EHOSTDOWN''), (113, ''EHOSTUNREACH''), (114, ''EALREADY''), (115, ''EINPROGRESS''),
    (116, ''ESTALE''), (117, ''EUCLEAN''), (118, ''ENOTNAM''), (119, ''ENAVAIL''), (120, ''EISNAM''),
    (121, ''EREMOTEIO''), (122, ''EDQUOT''), (123, ''ENOMEDIUM''), (124, ''EMEDIUMTYPE''),
    (125, ''ECANCELED''), (126, ''ENOKEY''), (127, ''EKEYEXPIRED''), (128, ''EKEYREVOKED''),
    (129, ''EKEYREJECTED''), (130, ''EOWNERDEAD''), (131, ''ENOTRECOVERABLE''), (132, ''ERFKILL''),
    (133, ''EHWPOISON''), (134, ''EFTYPE'')]"

definition errno_to_name__powerpc :: "int \<Rightarrow> string" where
  "errno_to_name__powerpc err = switch err powerpc_cases"

definition sparc_cases :: "(int \<times> string) list" where
  "sparc_cases = [
    (1, ''EPERM''), (2, ''ENOENT''), (3, ''ESRCH''), (4, ''EINTR''), (5, ''EIO''), (6, ''ENXIO''),
    (7, ''E2BIG''), (8, ''ENOEXEC''), (9, ''EBADF''), (10, ''ECHILD''), (11, ''EAGAIN''),
    (12, ''ENOMEM''), (13, ''EACCES''), (14, ''EFAULT''), (15, ''ENOTBLK''), (16, ''EBUSY''),
    (17, ''EEXIST''), (18, ''EXDEV''), (19, ''ENODEV''), (20, ''ENOTDIR''), (21, ''EISDIR''),
    (22, ''EINVAL''), (23, ''ENFILE''), (24, ''EMFILE''), (25, ''ENOTTY''), (26, ''ETXTBSY''),
    (27, ''EFBIG''), (28, ''ENOSPC''), (29, ''ESPIPE''), (30, ''EROFS''), (31, ''EMLINK''),
    (32, ''EPIPE''), (33, ''EDOM''), (34, ''ERANGE''), (36, ''EINPROGRESS''), (37, ''EALREADY''),
    (38, ''ENOTSOCK''), (39, ''EDESTADDRREQ''), (40, ''EMSGSIZE''), (41, ''EPROTOTYPE''),
    (42, ''ENOPROTOOPT''), (43, ''EPROTONOSUPPORT''), (44, ''ESOCKTNOSUPPORT''), (45, ''EOPNOTSUPP''),
    (46, ''EPFNOSUPPORT''), (47, ''EAFNOSUPPORT''), (48, ''EADDRINUSE''), (49, ''EADDRNOTAVAIL''),
    (50, ''ENETDOWN''), (51, ''ENETUNREACH''), (52, ''ENETRESET''), (53, ''ECONNABORTED''),
    (54, ''ECONNRESET''), (55, ''ENOBUFS''), (56, ''EISCONN''), (57, ''ENOTCONN''),
    (58, ''ESHUTDOWN''), (59, ''ETOOMANYREFS''), (60, ''ETIMEDOUT''), (61, ''ECONNREFUSED''),
    (62, ''ELOOP''), (63, ''ENAMETOOLONG''), (64, ''EHOSTDOWN''), (65, ''EHOSTUNREACH''),
    (66, ''ENOTEMPTY''), (67, ''EPROCLIM''), (68, ''EUSERS''), (69, ''EDQUOT''), (70, ''ESTALE''),
    (71, ''EREMOTE''), (72, ''ENOSTR''), (73, ''ETIME''), (74, ''ENOSR''), (75, ''ENOMSG''),
    (76, ''EBADMSG''), (77, ''EIDRM''), (78, ''EDEADLK''), (79, ''ENOLCK''), (80, ''ENONET''),
    (81, ''ERREMOTE''), (82, ''ENOLINK''), (83, ''EADV''), (84, ''ESRMNT''), (85, ''ECOMM''),
    (86, ''EPROTO''), (87, ''EMULTIHOP''), (88, ''EDOTDOT''), (89, ''EREMCHG''), (90, ''ENOSYS''),
    (91, ''ESTRPIPE''), (92, ''EOVERFLOW''), (93, ''EBADFD''), (94, ''ECHRNG''), (95, ''EL2NSYNC''),
    (96, ''EL3HLT''), (97, ''EL3RST''), (98, ''ELNRNG''), (99, ''EUNATCH''), (100, ''ENOCSI''),
    (101, ''EL2HLT''), (102, ''EBADE''), (103, ''EBADR''), (104, ''EXFULL''), (105, ''ENOANO''),
    (106, ''EBADRQC''), (107, ''EBADSLT''), (108, ''EDEADLOCK''), (109, ''EBFONT''),
    (110, ''ELIBEXEC''), (111, ''ENODATA''), (112, ''ELIBBAD''), (113, ''ENOPKG''),
    (114, ''ELIBACC''), (115, ''ENOTUNIQ''), (116, ''ERESTART''), (117, ''EUCLEAN''),
    (118, ''ENOTNAM''), (119, ''ENAVAIL''), (120, ''EISNAM''), (121, ''EREMOTEIO''),
    (122, ''EILSEQ''), (123, ''ELIBMAX''), (124, ''ELIBSCN''), (125, ''ENOMEDIUM''),
    (126, ''EMEDIUMTYPE''), (127, ''ECANCELED''), (128, ''ENOKEY''), (129, ''EKEYEXPIRED''),
    (130, ''EKEYREVOKED''), (131, ''EKEYREJECTED''), (132, ''EOWNERDEAD''),
    (133, ''ENOTRECOVERABLE''), (134, ''ERFKILL''), (135, ''EHWPOISON''), (136, ''EFTYPE'')]"

definition errno_to_name__sparc :: "int \<Rightarrow> string" where
  "errno_to_name__sparc err = switch err sparc_cases"

definition x86_cases :: "(int \<times> string) list" where
  "x86_cases = [
    (1, ''EPERM''), (2, ''ENOENT''), (3, ''ESRCH''), (4, ''EINTR''), (5, ''EIO''), (6, ''ENXIO''),
    (7, ''E2BIG''), (8, ''ENOEXEC''), (9, ''EBADF''), (10, ''ECHILD''), (11, ''EAGAIN''),
    (12, ''ENOMEM''), (13, ''EACCES''), (14, ''EFAULT''), (15, ''ENOTBLK''), (16, ''EBUSY''),
    (17, ''EEXIST''), (18, ''EXDEV''), (19, ''ENODEV''), (20, ''ENOTDIR''), (21, ''EISDIR''),
    (22, ''EINVAL''), (23, ''ENFILE''), (24, ''EMFILE''), (25, ''ENOTTY''), (26, ''ETXTBSY''),
    (27, ''EFBIG''), (28, ''ENOSPC''), (29, ''ESPIPE''), (30, ''EROFS''), (31, ''EMLINK''),
    (32, ''EPIPE''), (33, ''EDOM''), (34, ''ERANGE''), (35, ''EDEADLK''), (36, ''ENAMETOOLONG''),
    (37, ''ENOLCK''), (38, ''ENOSYS''), (39, ''ENOTEMPTY''), (40, ''ELOOP''), (42, ''ENOMSG''),
    (43, ''EIDRM''), (44, ''ECHRNG''), (45, ''EL2NSYNC''), (46, ''EL3HLT''), (47, ''EL3RST''),
    (48, ''ELNRNG''), (49, ''EUNATCH''), (50, ''ENOCSI''), (51, ''EL2HLT''), (52, ''EBADE''),
    (53, ''EBADR''), (54, ''EXFULL''), (55, ''ENOANO''), (56, ''EBADRQC''), (57, ''EBADSLT''),
    (59, ''EBFONT''), (60, ''ENOSTR''), (61, ''ENODATA''), (62, ''ETIME''), (63, ''ENOSR''),
    (64, ''ENONET''), (65, ''ENOPKG''), (66, ''EREMOTE''), (67, ''ENOLINK''), (68, ''EADV''),
    (69, ''ESRMNT''), (70, ''ECOMM''), (71, ''EPROTO''), (72, ''EMULTIHOP''), (73, ''EDOTDOT''),
    (74, ''EBADMSG''), (75, ''EOVERFLOW''), (76, ''ENOTUNIQ''), (77, ''EBADFD''), (78, ''EREMCHG''),
    (79, ''ELIBACC''), (80, ''ELIBBAD''), (81, ''ELIBSCN''), (82, ''ELIBMAX''), (83, ''ELIBEXEC''),
    (84, ''EILSEQ''), (85, ''ERESTART''), (86, ''ESTRPIPE''), (87, ''EUSERS''), (88, ''ENOTSOCK''),
    (89, ''EDESTADDRREQ''), (90, ''EMSGSIZE''), (91, ''EPROTOTYPE''), (92, ''ENOPROTOOPT''),
    (93, ''EPROTONOSUPPORT''), (94, ''ESOCKTNOSUPPORT''), (95, ''EOPNOTSUPP''),
    (96, ''EPFNOSUPPORT''), (97, ''EAFNOSUPPORT''), (98, ''EADDRINUSE''), (99, ''EADDRNOTAVAIL''),
    (100, ''ENETDOWN''), (101, ''ENETUNREACH''), (102, ''ENETRESET''), (103, ''ECONNABORTED''),
    (104, ''ECONNRESET''), (105, ''ENOBUFS''), (106, ''EISCONN''), (107, ''ENOTCONN''),
    (108, ''ESHUTDOWN''), (109, ''ETOOMANYREFS''), (110, ''ETIMEDOUT''), (111, ''ECONNREFUSED''),
    (112, ''EHOSTDOWN''), (113, ''EHOSTUNREACH''), (114, ''EALREADY''), (115, ''EINPROGRESS''),
    (116, ''ESTALE''), (117, ''EUCLEAN''), (118, ''ENOTNAM''), (119, ''ENAVAIL''), (120, ''EISNAM''),
    (121, ''EREMOTEIO''), (122, ''EDQUOT''), (123, ''ENOMEDIUM''), (124, ''EMEDIUMTYPE''),
    (125, ''ECANCELED''), (126, ''ENOKEY''), (127, ''EKEYEXPIRED''), (128, ''EKEYREVOKED''),
    (129, ''EKEYREJECTED''), (130, ''EOWNERDEAD''), (131, ''ENOTRECOVERABLE''), (132, ''ERFKILL''),
    (133, ''EHWPOISON''), (134, ''EFTYPE'')]"

definition errno_to_name__x86 :: "int \<Rightarrow> string" where
  "errno_to_name__x86 err = switch err x86_cases"

section \<open>Selection by machine\<close>

text \<open>Machine numbers of \<^verbatim>\<open>elf.h\<close>.\<close>

definition EM_SPARC :: "16 word" where "EM_SPARC = 2"
definition EM_386 :: "16 word" where "EM_386 = 3"
definition EM_MIPS :: "16 word" where "EM_MIPS = 8"
definition EM_PARISC :: "16 word" where "EM_PARISC = 15"
definition EM_PPC :: "16 word" where "EM_PPC = 20"
definition EM_PPC64 :: "16 word" where "EM_PPC64 = 21"
definition EM_SPARCV9 :: "16 word" where "EM_SPARCV9 = 43"
definition EM_X86_64 :: "16 word" where "EM_X86_64 = 62"
definition EM_ALPHA :: "16 word" where "EM_ALPHA = 0x9026"

definition arch_syscalls__strerrno :: "16 word \<Rightarrow> int \<Rightarrow> string" where
  "arch_syscalls__strerrno e_machine err =
    (if e_machine = EM_ALPHA then errno_to_name__alpha err
     else if e_machine = EM_MIPS then errno_to_name__mips err
     else if e_machine = EM_PARISC then errno_to_name__parisc err
     else if e_machine = EM_PPC \<or> e_machine = EM_PPC64 then errno_to_name__powerpc err
     else if e_machine = EM_SPARC \<or> e_machine = EM_SPARCV9 then errno_to_name__sparc err
     else if e_machine = EM_386 \<or> e_machine = EM_X86_64 then errno_to_name__x86 err
     else errno_to_name__generic err)"

end
