(* ===== verification/StringSearch.thy ===== *)
theory StringSearch
  imports Main
begin

text \<open>
  Comparison of C strings and binary search of the C library.
\<close>

section \<open>Comparing and searching\<close>

text \<open>\<^verbatim>\<open>strcmp\<close> compares unsigned characters. The order \<open>before\<close> decides on their bits.\<close>

fun strcmp :: "string \<Rightarrow> string \<Rightarrow> int" where
  "strcmp (x # xs) (y # ys) = (if x = y then strcmp xs ys else of_char x - of_char y)"
| "strcmp [] (y # ys) = - of_char y"
| "strcmp (x # xs) [] = of_char x"
| "strcmp [] [] = 0"

fun bits_less :: "bool list \<Rightarrow> bool list \<Rightarrow> bool" where
  "bits_less (b # bs) (c # cs) = (if b = c then bits_less bs cs else c)"
| "bits_less _ _ = False"

fun bits_of :: "char \<Rightarrow> bool list" where
  "bits_of (Char b0 b1 b2 b3 b4 b5 b6 b7) = [b7, b6, b5, b4, b3, b2, b1, b0]"

fun before :: "string \<Rightarrow> string \<Rightarrow> bool" where
  "before (x # xs) (y # ys) = (if x = y then before xs ys else bits_less (bits_of x) (bits_of y))"
| "before [] (y # ys) = True"
| "before xs [] = False"

lemma bits_less_irrefl [simp]: "\<not> bits_less bs bs"
  by (induction bs) simp_all

lemma bits_less_trans: "bits_less as bs \<Longrightarrow> bits_less bs cs \<Longrightarrow> bits_less as cs"
proof (induction as bs arbitrary: cs rule: bits_less.induct)
  case (1 a as b bs)
  then show ?case by (cases cs) (auto split: if_splits)
qed simp_all

lemma before_irrefl [simp]: "\<not> before xs xs"
  by (induction xs) simp_all

lemma before_trans: "before xs ys \<Longrightarrow> before ys zs \<Longrightarrow> before xs zs"
proof (induction xs ys arbitrary: zs rule: before.induct)
  case (1 x xs y ys)
  show ?case
  proof (cases zs)
    case (Cons z zs')
    have "\<not> (bits_less (bits_of x) (bits_of y) \<and> bits_less (bits_of y) (bits_of x))"
      using bits_less_trans bits_less_irrefl by blast
    then show ?thesis using 1 Cons by (auto split: if_splits intro: bits_less_trans)
  qed (use 1 in simp)
next
  case (2 y ys)
  then show ?case by (cases zs) auto
qed simp

fun bits_value :: "bool list \<Rightarrow> int" where
  "bits_value [] = 0"
| "bits_value (b # bs) = of_bool b * 2 ^ length bs + bits_value bs"

lemma bits_value_range: "0 \<le> bits_value bs" "bits_value bs < 2 ^ length bs"
  by (induction bs) auto

lemma bits_less_value: "length bs = length cs \<Longrightarrow> bits_less bs cs \<longleftrightarrow> bits_value bs < bits_value cs"
proof (induction bs cs rule: list_induct2)
  case (Cons b bs c cs)
  then show ?case using bits_value_range [of bs] bits_value_range [of cs] by (cases b; cases c) auto
qed simp

lemma of_char_bits: "of_char x = bits_value (bits_of x)"
  by (cases x) (simp add: of_char_def of_bool_def)

lemma bits_less_of_char: "bits_less (bits_of x) (bits_of y) \<longleftrightarrow> (of_char x :: int) < of_char y"
proof -
  have "length (bits_of x) = length (bits_of y)" by (cases x; cases y) simp
  then show ?thesis by (simp add: of_char_bits bits_less_value)
qed

lemma of_char_positive: "x \<noteq> CHR 0x00 \<Longrightarrow> 0 < (of_char x :: int)"
proof -
  assume "x \<noteq> CHR 0x00"
  then have "(of_char x :: int) \<noteq> of_char (CHR 0x00)" by (metis of_char_eq_iff)
  moreover have "0 \<le> (of_char x :: int)" by (simp add: of_char_bits bits_value_range)
  ultimately show ?thesis by simp
qed

text \<open>A C string has no zero character.\<close>

abbreviation c_string :: "string \<Rightarrow> bool" where
  "c_string s \<equiv> CHR 0x00 \<notin> set s"

lemma strcmp_order:
  assumes "c_string xs" "c_string ys"
  shows "strcmp xs ys < 0 \<longleftrightarrow> before xs ys" "0 < strcmp xs ys \<longleftrightarrow> before ys xs" "strcmp xs ys = 0 \<longleftrightarrow> xs = ys"
  using assms
proof (induction xs ys rule: strcmp.induct)
  case (1 x xs y ys)
  {
    case 1
    then show ?case using "1.IH"(1) by (auto simp: bits_less_of_char)
  next
    case 2
    then show ?case using "1.IH"(2) by (auto simp: bits_less_of_char)
  next
    case 3
    then show ?case using "1.IH"(3) by auto
  }
next
  case (2 y ys)
  {
    case 1
    then show ?case using of_char_positive [of y] by auto
  next
    case 2
    then show ?case using of_char_positive [of y] by auto
  next
    case 3
    then show ?case using of_char_positive [of y] by auto
  }
next
  case (3 x xs)
  {
    case 1
    then show ?case using of_char_positive [of x] by auto
  next
    case 2
    then show ?case using of_char_positive [of x] by auto
  next
    case 3
    then show ?case using of_char_positive [of x] by auto
  }
qed simp_all

text \<open>\<^verbatim>\<open>bsearch\<close>, with the comparison of the key and an element.\<close>

function bsearch_in :: "('a \<Rightarrow> int) \<Rightarrow> 'a list \<Rightarrow> nat \<Rightarrow> nat \<Rightarrow> 'a option" where
  "bsearch_in compar base l u =
    (if l < u then
       let idx = (l + u) div 2 in
       if compar (base ! idx) < 0 then bsearch_in compar base l idx
       else if 0 < compar (base ! idx) then bsearch_in compar base (idx + 1) u
       else Some (base ! idx)
     else None)"
  by pat_completeness auto
termination
  by (relation "measure (\<lambda>(compar, base, l, u). u - l)") auto

declare bsearch_in.simps [simp del]

definition bsearch :: "('a \<Rightarrow> int) \<Rightarrow> 'a list \<Rightarrow> 'a option" where
  "bsearch compar base = bsearch_in compar base 0 (length base)"

text \<open>The search succeeds on an array on which the comparison is positive up to some element, zero there at
  most once, and negative after it.\<close>

lemma bsearch_in_Some: "bsearch_in compar base l u = Some x \<Longrightarrow> u \<le> length base \<Longrightarrow> x \<in> set base \<and> compar x = 0"
proof (induction compar base l u rule: bsearch_in.induct)
  case (1 compar base l u)
  then show ?case
    by (subst (asm) (3) bsearch_in.simps) (auto simp: Let_def split: if_splits)
qed

lemma bsearch_in_finds:
  assumes "sorted_wrt (\<lambda>x y. (compar x \<le> 0 \<longrightarrow> compar y < 0) \<and> (0 \<le> compar y \<longrightarrow> 0 < compar x)) base"
  shows "l \<le> i \<Longrightarrow> i < u \<Longrightarrow> u \<le> length base \<Longrightarrow> compar (base ! i) = 0 \<Longrightarrow> bsearch_in compar base l u = Some (base ! i)"
  using assms
proof (induction compar base l u rule: bsearch_in.induct)
  case (1 compar base l u)
  let ?m = "(l + u) div 2"
  have m: "l \<le> ?m" "?m < u" using 1 by auto
  have after: "compar (base ! ?m) < 0" if "i < ?m"
    using sorted_wrt_nth_less [OF 1(7) that] m 1(5,6) by simp
  have until: "0 < compar (base ! ?m)" if "?m < i"
    using sorted_wrt_nth_less [OF 1(7) that] 1(4-6) by simp
  consider "i < ?m" | "i = ?m" | "?m < i" by linarith
  then show ?case
  proof cases
    case 1
    then show ?thesis using after "1.IH"(1) "1.prems" m by (subst bsearch_in.simps) (simp add: Let_def)
  next
    case 2
    then show ?thesis using "1.prems" m by (subst bsearch_in.simps) (simp add: Let_def)
  next
    case 3
    then show ?thesis using until "1.IH"(2) "1.prems" m by (subst bsearch_in.simps) (simp add: Let_def)
  qed
qed

lemma bsearch_correct:
  assumes "sorted_wrt (\<lambda>x y. (compar x \<le> 0 \<longrightarrow> compar y < 0) \<and> (0 \<le> compar y \<longrightarrow> 0 < compar x)) base"
  shows "bsearch compar base = Some x \<longleftrightarrow> x \<in> set base \<and> compar x = 0"
proof
  assume "x \<in> set base \<and> compar x = 0"
  then obtain i where "i < length base" "base ! i = x" "compar (base ! i) = 0" by (auto simp: in_set_conv_nth)
  then show "bsearch compar base = Some x" using bsearch_in_finds [OF assms, of 0 i "length base"] by (simp add: bsearch_def)
qed (use bsearch_in_Some in \<open>fastforce simp: bsearch_def\<close>)

end
