(* ===== verification/ErrnoSpec.thy ===== *)
theory ErrnoSpec
  imports ErrnoNames StringSearch "HOL-Library.Multiset"
begin

text \<open>
  The names of error numbers identify the numbers, and they agree across machines as far as they can.
  Both follow from the lists of cases; that a list has no name twice is checked on a sorted copy of it
  (merge sort on an order of strings that is decided on the bits of their characters).
\<close>

section \<open>Sorting names\<close>

fun merge_names :: "string list \<Rightarrow> string list \<Rightarrow> string list" where
  "merge_names (x # xs) (y # ys) = (if before x y then x # merge_names xs (y # ys) else y # merge_names (x # xs) ys)"
| "merge_names [] ys = ys"
| "merge_names xs [] = xs"

fun merge_pairs :: "string list list \<Rightarrow> string list list" where
  "merge_pairs (xs # ys # zss) = merge_names xs ys # merge_pairs zss"
| "merge_pairs xss = xss"

lemma length_merge_pairs [simp]: "length (merge_pairs xss) \<le> length xss"
  by (induction xss rule: merge_pairs.induct) auto

function merge_all :: "string list list \<Rightarrow> string list" where
  "merge_all [] = []"
| "merge_all [xs] = xs"
| "merge_all (xs # ys # zss) = merge_all (merge_names xs ys # merge_pairs zss)"
  by pat_completeness auto
termination
  by (relation "measure length") (auto simp: le_imp_less_Suc le_SucI)

definition sort_names :: "string list \<Rightarrow> string list" where
  "sort_names ns = merge_all (map (\<lambda>n. [n]) ns)"

lemma mset_merge_names [simp]: "mset (merge_names xs ys) = mset xs + mset ys"
  by (induction xs ys rule: merge_names.induct) auto

lemma mset_merge_pairs [simp]: "mset (concat (merge_pairs xss)) = mset (concat xss)"
  by (induction xss rule: merge_pairs.induct) auto

lemma mset_merge_all [simp]: "mset (merge_all xss) = mset (concat xss)"
  by (induction xss rule: merge_all.induct) (auto simp flip: mset_concat)

lemma mset_sort_names [simp]: "mset (sort_names ns) = mset ns"
  by (simp add: sort_names_def flip: mset_concat)

fun ascending :: "string list \<Rightarrow> bool" where
  "ascending (x # y # zs) \<longleftrightarrow> before x y \<and> ascending (y # zs)"
| "ascending _ \<longleftrightarrow> True"

lemma ascending_distinct:
  assumes "ascending (sort_names ns)"
  shows "distinct ns"
proof -
  have "ascending xs \<Longrightarrow> sorted_wrt before xs" for xs
    by (induction xs rule: ascending.induct) (auto intro: before_trans)
  moreover have "sorted_wrt before xs \<Longrightarrow> distinct xs" for xs
    by (induction xs) auto
  ultimately have "distinct (sort_names ns)" using assms by blast
  then show ?thesis by (metis mset_sort_names mset_eq_imp_distinct_iff)
qed

text \<open>Inclusion of a sorted list in another.\<close>

fun within :: "string list \<Rightarrow> string list \<Rightarrow> bool" where
  "within [] ys \<longleftrightarrow> True"
| "within (x # xs) [] \<longleftrightarrow> False"
| "within (x # xs) (y # ys) \<longleftrightarrow> (if x = y then within xs ys else within (x # xs) ys)"

lemma within_subset: "within xs ys \<Longrightarrow> set xs \<subseteq> set ys"
  by (induction xs ys rule: within.induct) (auto split: if_splits)

lemma within_sorted: "within (sort_names ms) (sort_names ns) \<Longrightarrow> set ms \<subseteq> set ns"
  using within_subset [of "sort_names ms" "sort_names ns"] by (metis mset_sort_names mset_eq_setD)

section \<open>Switches on lists of cases\<close>

fun climbing :: "int list \<Rightarrow> bool" where
  "climbing (x # y # zs) \<longleftrightarrow> x < y \<and> climbing (y # zs)"
| "climbing _ \<longleftrightarrow> True"

lemma climbing_distinct: "climbing xs \<Longrightarrow> distinct xs"
proof -
  have "climbing xs \<Longrightarrow> sorted_wrt (<) xs" for xs
    by (induction xs rule: climbing.induct) auto
  then show "climbing xs \<Longrightarrow> distinct xs" by (simp add: strict_sorted_iff)
qed

lemma switch_known: "switch e cs \<noteq> ''(unknown)'' \<Longrightarrow> (e, switch e cs) \<in> set cs"
  by (induction e cs rule: switch.induct) (auto split: if_splits)

lemma switch_case: "distinct (map fst cs) \<Longrightarrow> (e, n) \<in> set cs \<Longrightarrow> switch e cs = n"
  by (induction e cs rule: switch.induct) (auto simp: image_iff split: if_splits)

lemma switch_inj:
  assumes "distinct (map snd cs)" and "switch e cs = switch e' cs" and "switch e cs \<noteq> ''(unknown)''"
  shows "e = e'"
  using assms switch_known [of e cs] switch_known [of e' cs]
  by (metis eq_key_imp_eq_value distinct_map inj_onD snd_conv prod.inject)

lemma switch_append: "e \<in> fst ` set cs \<Longrightarrow> switch e (cs @ ds) = switch e cs"
proof (induction cs)
  case (Cons x cs)
  then show ?case by (cases x; cases "e = fst x") simp_all
qed simp

lemma switch_take: "e \<in> fst ` set (take n cs) \<Longrightarrow> switch e cs = switch e (take n cs)"
  by (metis append_take_drop_id switch_append)

lemma switch_update:
  "e \<noteq> c \<Longrightarrow> k < length cs \<Longrightarrow> fst (cs ! k) = c \<Longrightarrow> switch e (cs[k := (c, n)]) = switch e cs"
proof (induction cs arbitrary: k)
  case (Cons x cs)
  then show ?case by (cases k; cases x) auto
qed simp

section \<open>The tables\<close>

definition cases_of :: "16 word \<Rightarrow> (int \<times> string) list" where
  "cases_of m =
    (if m = EM_ALPHA then alpha_cases
     else if m = EM_MIPS then mips_cases
     else if m = EM_PARISC then parisc_cases
     else if m = EM_PPC \<or> m = EM_PPC64 then powerpc_cases
     else if m = EM_SPARC \<or> m = EM_SPARCV9 then sparc_cases
     else generic_cases)"

lemma x86_is_generic: "x86_cases = generic_cases"
  by (simp only: x86_cases_def generic_cases_def)

lemma strerrno_switch: "arch_syscalls__strerrno m e = switch e (cases_of m)"
  by (simp add: arch_syscalls__strerrno_def cases_of_def errno_to_name__alpha_def errno_to_name__mips_def
    errno_to_name__parisc_def errno_to_name__powerpc_def errno_to_name__sparc_def errno_to_name__x86_def
    errno_to_name__generic_def x86_is_generic)

text \<open>What is checked of a table against the names of another: no name and no code twice, and every name
  of the other table present.\<close>

definition table_ok :: "string list \<Rightarrow> (int \<times> string) list \<Rightarrow> bool" where
  "table_ok names cs \<longleftrightarrow> climbing (map fst cs) \<and>
    (let ns = sort_names (map snd cs) in ascending ns \<and> within (sort_names names) ns)"

lemma table_okD:
  assumes "table_ok names cs"
  shows "distinct (map fst cs)" and "distinct (map snd cs)" and "set names \<subseteq> snd ` set cs"
  using assms climbing_distinct ascending_distinct within_sorted [of names "map snd cs"]
  by (auto simp: table_ok_def Let_def)

lemma generic_ok: "table_ok [] generic_cases"
  by code_simp

lemma alpha_ok: "table_ok (map snd generic_cases) alpha_cases"
  by code_simp

lemma mips_ok: "table_ok (map snd generic_cases) mips_cases"
  by code_simp

lemma parisc_ok: "table_ok (filter (\<lambda>n. n \<noteq> ''ECANCELED'') (map snd generic_cases)) parisc_cases"
  by code_simp

lemma powerpc_ok: "table_ok (map snd generic_cases) powerpc_cases"
  by code_simp

lemma sparc_ok: "table_ok (map snd generic_cases) sparc_cases"
  by code_simp

lemmas tables_ok = generic_ok alpha_ok mips_ok parisc_ok powerpc_ok sparc_ok

lemma cases_of_distinct: "distinct (map fst (cases_of m))" "distinct (map snd (cases_of m))"
  using tables_ok [THEN table_okD(1)] tables_ok [THEN table_okD(2)] by (simp_all add: cases_of_def)

lemma cases_of_names:
  assumes "(e, n) \<in> set generic_cases" and "m = EM_PARISC \<longrightarrow> n \<noteq> ''ECANCELED''"
  shows "\<exists>e'. (e', n) \<in> set (cases_of m)"
proof -
  have "n \<in> snd ` set (cases_of m)"
    using assms tables_ok(2-) [THEN table_okD(3)]
    by (auto simp: cases_of_def image_iff subset_iff Bex_def)
  then show ?thesis by force
qed

text \<open>The first 34 numbers, with one exception on Alpha.\<close>

lemma first_codes: "map fst (take 34 generic_cases) = [1..34]"
  by code_simp

lemma first_equal:
  "take 34 mips_cases = take 34 generic_cases" "take 34 parisc_cases = take 34 generic_cases"
  "take 34 powerpc_cases = take 34 generic_cases" "take 34 sparc_cases = take 34 generic_cases"
  "take 34 alpha_cases = (take 34 generic_cases)[10 := (11, ''EDEADLK'')]"
  by (simp_all add: generic_cases_def mips_cases_def parisc_cases_def powerpc_cases_def sparc_cases_def alpha_cases_def)

lemma alpha_eleven: "fst (take 34 generic_cases ! 10) = 11" "10 < length (take 34 generic_cases)"
  by (simp_all add: generic_cases_def)

lemma first_switch:
  assumes "e \<in> {1..34}" and "m = EM_ALPHA \<longrightarrow> e \<noteq> 11"
  shows "switch e (cases_of m) = switch e generic_cases"
proof -
  let ?g = "take 34 generic_cases"
  let ?a = "?g[10 := (11, ''EDEADLK'')]"
  have "map fst ?a = map fst ?g"
    using alpha_eleven by (metis fst_conv list_update_id map_update nth_map)
  then have "e \<in> fst ` set ?g \<and> e \<in> fst ` set ?a"
    using assms(1) first_codes by (metis list.set_map set_upto)
  then have "switch e generic_cases = switch e ?g" "switch e mips_cases = switch e ?g"
    "switch e parisc_cases = switch e ?g" "switch e powerpc_cases = switch e ?g"
    "switch e sparc_cases = switch e ?g" "switch e alpha_cases = switch e ?a"
    by (metis switch_take first_equal)+
  moreover have "m = EM_ALPHA \<Longrightarrow> switch e ?a = switch e ?g"
    using switch_update [of e 11 10 ?g] alpha_eleven assms(2) by simp
  ultimately show ?thesis by (simp add: cases_of_def)
qed

lemma zero_unknown:
  "switch 0 generic_cases = ''(unknown)''" "switch 0 alpha_cases = ''(unknown)''"
  "switch 0 mips_cases = ''(unknown)''" "switch 0 parisc_cases = ''(unknown)''"
  "switch 0 powerpc_cases = ''(unknown)''" "switch 0 sparc_cases = ''(unknown)''"
  by (simp_all add: generic_cases_def alpha_cases_def mips_cases_def parisc_cases_def powerpc_cases_def sparc_cases_def)

lemma strerrno_injective:
  assumes "arch_syscalls__strerrno m e = arch_syscalls__strerrno m e'"
    and "arch_syscalls__strerrno m e \<noteq> ''(unknown)''"
  shows "e = e'"
  using switch_inj [OF cases_of_distinct(2) assms [unfolded strerrno_switch]] .

lemma strerrno_portable:
  "(1 \<le> e \<and> e \<le> 34 \<and> (m, e) \<noteq> (EM_ALPHA, 11) \<longrightarrow>
     arch_syscalls__strerrno m e = arch_syscalls__strerrno EM_X86_64 e) \<and>
   (arch_syscalls__strerrno EM_X86_64 k = name \<and> (m, name) \<noteq> (EM_PARISC, ''ECANCELED'') \<longrightarrow>
     (\<exists>e. arch_syscalls__strerrno m e = name)) \<and>
   (\<exists>e. arch_syscalls__strerrno EM_PARISC e = ''ECANCELLED'')"
proof -
  have "cases_of EM_X86_64 = generic_cases"
    by (simp add: cases_of_def EM_X86_64_def EM_ALPHA_def EM_MIPS_def EM_PARISC_def EM_PPC_def EM_PPC64_def
      EM_SPARC_def EM_SPARCV9_def)
  note x86 = strerrno_switch [of EM_X86_64, unfolded this]
  have z: "arch_syscalls__strerrno m 0 = ''(unknown)''"
    by (simp add: strerrno_switch cases_of_def zero_unknown)
  have "\<exists>e. arch_syscalls__strerrno m e = switch k generic_cases"
    if "m = EM_PARISC \<longrightarrow> switch k generic_cases \<noteq> ''ECANCELED''"
  proof (cases "switch k generic_cases = ''(unknown)''")
    case False
    then show ?thesis
      using cases_of_names [OF switch_known [OF False] that] switch_case [OF cases_of_distinct(1)]
      by (metis strerrno_switch)
  qed (use z in auto)
  moreover have "arch_syscalls__strerrno EM_PARISC 253 = ''ECANCELLED''" by code_simp
  ultimately show ?thesis
    using first_switch [of e m] unfolding x86 by (auto simp: strerrno_switch)
qed

text \<open>C31: On every machine the name of an error number identifies the number: two numbers with the same
  name are equal, unless the name is the one for unknown numbers. The names agree across machines: the
  numbers 1 to 34 have on every machine the name they have on x86-64, except 11 on Alpha, and every name
  known on x86-64 is the name of some number on every machine, except \<^verbatim>\<open>ECANCELED\<close> on PA-RISC, where the
  name of that error is spelled \<^verbatim>\<open>ECANCELLED\<close>.\<close>

theorem strerrno_names:
  "(arch_syscalls__strerrno m d = arch_syscalls__strerrno m d' \<and> arch_syscalls__strerrno m d \<noteq> ''(unknown)'' \<longrightarrow> d = d') \<and>
   (1 \<le> e \<and> e \<le> 34 \<and> (m, e) \<noteq> (EM_ALPHA, 11) \<longrightarrow>
     arch_syscalls__strerrno m e = arch_syscalls__strerrno EM_X86_64 e) \<and>
   (arch_syscalls__strerrno EM_X86_64 k = name \<and> (m, name) \<noteq> (EM_PARISC, ''ECANCELED'') \<longrightarrow>
     (\<exists>e. arch_syscalls__strerrno m e = name)) \<and>
   (\<exists>e. arch_syscalls__strerrno EM_PARISC e = ''ECANCELLED'')"
  by (rule conjI [OF _ strerrno_portable]) (use strerrno_injective [of m d d'] in blast)

theorem strerrno_names_witness:
  "{e. arch_syscalls__strerrno EM_MIPS e = ''EDEADLK''} = {45} \<and> arch_syscalls__strerrno EM_SPARC 13 = ''EACCES'' \<and>
   (\<exists>e. arch_syscalls__strerrno EM_SPARC e = ''ETIMEDOUT'')"
proof -
  have m: "arch_syscalls__strerrno EM_MIPS 45 = ''EDEADLK''" "arch_syscalls__strerrno EM_X86_64 13 = ''EACCES''"
    "arch_syscalls__strerrno EM_X86_64 110 = ''ETIMEDOUT''"
    by code_simp+
  have u: "e = 45" if "arch_syscalls__strerrno EM_MIPS e = ''EDEADLK''" for e
    using strerrno_names [THEN conjunct1, of EM_MIPS 45 e] m(1) that by simp
  have "e \<in> {e. arch_syscalls__strerrno EM_MIPS e = ''EDEADLK''} \<longleftrightarrow> e \<in> {45}" for e
    using u [of e] m(1) by (cases "e = 45") auto
  then have "{e. arch_syscalls__strerrno EM_MIPS e = ''EDEADLK''} = {45}" by (rule set_eqI)
  moreover have d: "EM_SPARC \<noteq> EM_ALPHA" "EM_SPARC \<noteq> EM_PARISC" by (simp_all add: EM_SPARC_def EM_ALPHA_def EM_PARISC_def)
  have "arch_syscalls__strerrno EM_SPARC 13 = ''EACCES''"
    using strerrno_names [THEN conjunct2, THEN conjunct1, of 13 EM_SPARC] m(2) d(1) by simp
  moreover have "\<exists>e. arch_syscalls__strerrno EM_SPARC e = ''ETIMEDOUT''"
    using strerrno_names [THEN conjunct2, THEN conjunct2, THEN conjunct1, of 110 "''ETIMEDOUT''" EM_SPARC] m(3) d(2) by blast
  ultimately show ?thesis by (intro conjI)
qed

end
