(* ===== verification/SyscallTable.thy ===== *)
theory SyscallTable
  imports StringSearch "HOL-Library.Word"
begin

text \<open>
  The shape of the system call tables of
  \<^verbatim>\<open>src/packages/perf/files/generated/trace/beauty/generated/syscalltbl.c\<close>: for each machine the names by
  number, and the numbers sorted by name for a binary search. A checker decides in one pass that a table
  is what it has to be; the theories with the tables run it.
\<close>

section \<open>Tables\<close>

text \<open>The machines of \<^verbatim>\<open>elf.h\<close> that have a table.\<close>

datatype elf_machine =
  EM_NONE | EM_SPARC | EM_386 | EM_MIPS | EM_PARISC | EM_PPC | EM_PPC64 | EM_S390 | EM_ARM | EM_SH | EM_X86_64 |
  EM_XTENSA | EM_AARCH64 | EM_RISCV | EM_CSKY | EM_ALPHA

text \<open>An array with designated initializers is the list of its entries; the others are null pointers.\<close>

record syscalltbl =
  num_to_name :: "(int \<times> string) list"
  sorted_names :: "int list"
  e_machine :: elf_machine
  num_to_name_len :: "16 word"
  sorted_names_len :: "16 word"

fun designated_size :: "(int \<times> 'a) list \<Rightarrow> int" where
  "designated_size [] = 0"
| "designated_size ((i, x) # es) = max (i + 1) (designated_size es)"

fun array_size :: "'a list \<Rightarrow> int" where
  "array_size [] = 0"
| "array_size (x # xs) = array_size xs + 1"

definition table_of :: "(int \<times> string) list \<Rightarrow> int list \<Rightarrow> elf_machine \<Rightarrow> syscalltbl" where
  "table_of es ns m =
    \<lparr>num_to_name = es, sorted_names = ns, e_machine = m,
     num_to_name_len = of_int (designated_size es), sorted_names_len = of_int (array_size ns)\<rparr>"

text \<open>Finding the number of a name by binary search.\<close>

definition compare_name :: "syscalltbl \<Rightarrow> string \<Rightarrow> int \<Rightarrow> int" where
  "compare_name t name n = (case map_of (num_to_name t) n of Some s \<Rightarrow> strcmp name s | None \<Rightarrow> 0)"

definition search_name :: "syscalltbl \<Rightarrow> string \<Rightarrow> int option" where
  "search_name t name = bsearch (compare_name t name) (sorted_names t)"

section \<open>Checking a table\<close>

text \<open>A search tree over the entries, so that a number is found fast. Only what it finds matters, not its order.
  Conditions are arguments here, so that evaluation by rewriting does not look at the rest of a table twice.\<close>

datatype finder = Entry int string | Split finder int finder

fun side :: "bool \<Rightarrow> finder \<Rightarrow> finder \<Rightarrow> finder" where
  "side True l r = l"
| "side False l r = r"

lemma size_side: "size (side b l r) < Suc (size l + size r)"
  by (cases b) auto

function find_number :: "finder \<Rightarrow> int \<Rightarrow> string option" where
  "find_number (Entry m s) n = (if n = m then Some s else None)"
| "find_number (Split l k r) n = find_number (side (n < k) l r) n"
  by pat_completeness auto
termination
  by (relation "measure (size \<circ> fst)") (auto simp: size_side)

fun join_finders :: "(int \<times> finder) list \<Rightarrow> (int \<times> finder) list" where
  "join_finders ((j, l) # (k, r) # fs) = (j, Split l k r) # join_finders fs"
| "join_finders fs = fs"

lemma length_join_finders: "length (join_finders fs) \<le> length fs"
  by (induction fs rule: join_finders.induct) auto

function build_finder :: "(int \<times> finder) list \<Rightarrow> finder option" where
  "build_finder [] = None"
| "build_finder [(k, f)] = Some f"
| "build_finder ((j, l) # (k, r) # fs) = build_finder ((j, Split l k r) # join_finders fs)"
  by pat_completeness auto
termination
  by (relation "measure length") (auto simp: length_join_finders le_imp_less_Suc)

fun entries :: "finder \<Rightarrow> (int \<times> string) set" where
  "entries (Entry n s) = {(n, s)}"
| "entries (Split l k r) = entries l \<union> entries r"

lemma find_number_entries: "find_number f n = Some s \<Longrightarrow> (n, s) \<in> entries f"
proof (induction f n rule: find_number.induct)
  case (2 l k r n)
  then show ?case by (cases "n < k") auto
qed (simp split: if_splits)

lemma entries_join: "\<Union> ((entries \<circ> snd) ` set (join_finders fs)) = \<Union> ((entries \<circ> snd) ` set fs)"
  by (induction fs rule: join_finders.induct) auto

lemma entries_build: "build_finder fs = Some f \<Longrightarrow> entries f = \<Union> ((entries \<circ> snd) ` set fs)"
proof (induction fs rule: build_finder.induct)
  case (3 j l k r fs)
  then show ?case using entries_join [of fs] by (simp add: Un_assoc)
qed auto

fun both :: "bool \<Rightarrow> bool \<Rightarrow> bool" where
  "both True b = b"
| "both False b = False"

lemma both_iff [simp]: "both a b \<longleftrightarrow> a \<and> b"
  by (cases a) simp_all

fun sound_name :: "string \<Rightarrow> bool" where
  "sound_name [] = True"
| "sound_name (c # cs) = both (c \<noteq> CHR 0x00) (sound_name cs)"

fun ascends :: "int \<Rightarrow> (int \<times> string) list \<Rightarrow> bool" where
  "ascends m [] = both (m < 65535) True"
| "ascends m ((n, s) # es) = both (m < n) (both (sound_name s) (ascends n es))"

fun same_length :: "'a list \<Rightarrow> 'b list \<Rightarrow> bool" where
  "same_length (x # xs) (y # ys) = same_length xs ys"
| "same_length [] [] = True"
| "same_length _ _ = False"

fun climbs :: "finder \<Rightarrow> string \<Rightarrow> int list \<Rightarrow> bool"
  and climbs_on :: "string option \<Rightarrow> finder \<Rightarrow> string \<Rightarrow> int list \<Rightarrow> bool" where
  "climbs f p [] = True"
| "climbs f p (n # ns) = climbs_on (find_number f n) f p ns"
| "climbs_on None f p ns = False"
| "climbs_on (Some s) f p ns = both (before p s) (climbs f s ns)"

fun indexed_by :: "finder option \<Rightarrow> int list \<Rightarrow> bool" where
  "indexed_by None ns = False"
| "indexed_by (Some f) ns = climbs f [] ns"

definition indexed :: "(int \<times> string) list \<Rightarrow> int list \<Rightarrow> bool" where
  "indexed es ns \<longleftrightarrow>
    both (ascends (-1) es) (both (same_length es ns) (indexed_by (build_finder (map (\<lambda>(n, s). (n, Entry n s)) es)) ns))"

section \<open>What the check shows\<close>

lemma sound_name_iff: "sound_name s \<longleftrightarrow> c_string s"
  by (induction s) auto

lemma ascends_range: "ascends m es \<Longrightarrow> m < 65535"
  by (induction m es rule: ascends.induct) auto

lemma ascends_above: "ascends m es \<Longrightarrow> (n, s) \<in> set es \<Longrightarrow> m < n \<and> n < 65535 \<and> c_string s"
proof (induction m es rule: ascends.induct)
  case (2 m n' s' es)
  then have a: "m < n'" "c_string s'" "ascends n' es" by (simp_all add: sound_name_iff)
  show ?case
  proof (cases "(n, s) = (n', s')")
    case False
    then show ?thesis using 2 a by auto
  qed (use a ascends_range in auto)
qed simp

lemma ascends_distinct: "ascends m es \<Longrightarrow> distinct (map fst es)"
  by (induction m es rule: ascends.induct) (auto dest: ascends_above)

lemma same_length_iff: "same_length xs ys \<longleftrightarrow> length xs = length ys"
  by (induction xs ys rule: same_length.induct) auto

lemma climbs_Cons: "climbs f p (n # ns) \<longleftrightarrow> (\<exists>s. find_number f n = Some s \<and> before p s \<and> climbs f s ns)"
  by (cases "find_number f n") simp_all

lemma climbs_names:
  "climbs f p ns \<Longrightarrow> n \<in> set ns \<Longrightarrow> \<exists>s. find_number f n = Some s \<and> before p s"
  by (induction ns arbitrary: p) (auto simp: climbs_Cons simp del: climbs.simps(2) intro: before_trans)

lemma climbs_sorted:
  "climbs f p ns \<Longrightarrow> sorted_wrt (\<lambda>m n. before (the (find_number f m)) (the (find_number f n))) ns"
proof (induction ns arbitrary: p)
  case (Cons n ns)
  then obtain s where s: "find_number f n = Some s" "climbs f s ns" unfolding climbs_Cons by blast
  have "before (the (find_number f n)) (the (find_number f m))" if "m \<in> set ns" for m
    using climbs_names [OF s(2) that] s(1) by auto
  then show ?case using Cons.IH [OF s(2)] by simp
qed simp

lemma sorted_before_distinct: "sorted_wrt (\<lambda>m n. before (g m) (g n)) ns \<Longrightarrow> distinct (map g ns)"
  by (induction ns) (auto dest!: bspec)

lemma indexed_finder:
  assumes "indexed es ns"
  obtains f where "climbs f [] ns" "\<And>n s. find_number f n = Some s \<Longrightarrow> map_of es n = Some s"
proof -
  obtain f where f: "build_finder (map (\<lambda>(n, s). (n, Entry n s)) es) = Some f" "climbs f [] ns"
    and a: "ascends (-1) es"
    using assms by (cases "build_finder (map (\<lambda>(n, s). (n, Entry n s)) es)") (auto simp: indexed_def)
  have "entries f = set es" using entries_build [OF f(1)] by force
  then have "map_of es n = Some s" if "find_number f n = Some s" for n s
    using find_number_entries [OF that] ascends_distinct [OF a] by simp
  then show thesis using f(2) that by blast
qed

lemma indexed_sorted:
  assumes "indexed es ns"
  shows "sorted_wrt (\<lambda>m n. \<exists>s t. map_of es m = Some s \<and> map_of es n = Some t \<and> before s t) ns"
    "set ns = fst ` set es" "inj_on (map_of es) (set ns)" "distinct ns"
proof -
  obtain f where f: "climbs f [] ns" and m: "\<And>n s. find_number f n = Some s \<Longrightarrow> map_of es n = Some s"
    using indexed_finder [OF assms] by blast
  have dom: "\<exists>s. find_number f n = Some s \<and> map_of es n = Some s" if "n \<in> set ns" for n
    using climbs_names [OF f that] m by blast
  show sorted: "sorted_wrt (\<lambda>m n. \<exists>s t. map_of es m = Some s \<and> map_of es n = Some t \<and> before s t) ns"
  proof (rule sorted_wrt_mono_rel [OF _ climbs_sorted [OF f]])
    fix m n assume "m \<in> set ns" "n \<in> set ns" and b: "before (the (find_number f m)) (the (find_number f n))"
    then obtain s t where "find_number f m = Some s" "map_of es m = Some s" "find_number f n = Some t" "map_of es n = Some t"
      using dom by blast
    then show "\<exists>s t. map_of es m = Some s \<and> map_of es n = Some t \<and> before s t" using b by simp
  qed
  have "sorted_wrt (\<lambda>m n. before (the (map_of es m)) (the (map_of es n))) ns"
    by (rule sorted_wrt_mono_rel [OF _ sorted]) auto
  then have d: "distinct (map (\<lambda>n. the (map_of es n)) ns)" by (rule sorted_before_distinct)
  then show "distinct ns" by (simp add: distinct_map)
  have "inj_on (\<lambda>n. the (map_of es n)) (set ns)" using d by (simp add: distinct_map)
  then show "inj_on (map_of es) (set ns)" by (auto simp: inj_on_def)
  have sub: "set ns \<subseteq> fst ` set es"
  proof
    fix n assume "n \<in> set ns"
    then obtain s where "map_of es n = Some s" using dom by blast
    then show "n \<in> fst ` set es" using map_of_eq_None_iff [of es n] by simp
  qed
  have "card (fst ` set es) = length es"
    using assms distinct_card [OF ascends_distinct [of "-1" es]] by (simp add: indexed_def)
  moreover have "length ns = length es" using assms by (simp add: indexed_def same_length_iff)
  ultimately show "set ns = fst ` set es"
    using card_subset_eq [OF _ sub] distinct_card [OF \<open>distinct ns\<close>] by simp
qed

text \<open>The binary search over a checked table is the inverse of the table.\<close>

lemma indexed_search:
  assumes i: "indexed (num_to_name t) (sorted_names t)" and name: "c_string name"
  shows "search_name t name = Some n \<longleftrightarrow> map_of (num_to_name t) n = Some name"
proof -
  let ?es = "num_to_name t"
  have c: "c_string s" if "map_of ?es m = Some s" for m s
    using i ascends_above [OF _ map_of_SomeD [OF that], of "-1"] by (simp add: indexed_def)
  have "sorted_wrt (\<lambda>x y. (compare_name t name x \<le> 0 \<longrightarrow> compare_name t name y < 0) \<and>
      (0 \<le> compare_name t name y \<longrightarrow> 0 < compare_name t name x)) (sorted_names t)"
  proof (rule sorted_wrt_mono_rel [OF _ indexed_sorted(1) [OF i]])
    fix x y
    assume "\<exists>s u. map_of ?es x = Some s \<and> map_of ?es y = Some u \<and> before s u"
    then obtain s u where s: "map_of ?es x = Some s" "map_of ?es y = Some u" "before s u" by blast
    note su = strcmp_order [OF name c [OF s(1)]] strcmp_order [OF name c [OF s(2)]]
    have "before name u" if "strcmp name s \<le> 0"
      using that su(1,3) s(3) before_trans by (metis order_le_less)
    moreover have "before s name" if "0 \<le> strcmp name u"
      using that su(5,6) s(3) before_trans by (metis order_le_less)
    ultimately show "(compare_name t name x \<le> 0 \<longrightarrow> compare_name t name y < 0) \<and>
        (0 \<le> compare_name t name y \<longrightarrow> 0 < compare_name t name x)"
      using s su by (simp add: compare_name_def)
  qed
  then have "search_name t name = Some n \<longleftrightarrow> n \<in> set (sorted_names t) \<and> compare_name t name n = 0"
    by (simp add: search_name_def bsearch_correct)
  also have "\<dots> \<longleftrightarrow> map_of ?es n = Some name"
  proof (cases "map_of ?es n")
    case None
    then have "n \<notin> set (sorted_names t)" using indexed_sorted(2) [OF i] map_of_eq_None_iff [of ?es n] by simp
    then show ?thesis using None by simp
  next
    case (Some s)
    then have "n \<in> set (sorted_names t)" using indexed_sorted(2) [OF i] map_of_eq_None_iff [of ?es n] by simp
    then show ?thesis using Some strcmp_order(3) [OF name c [OF Some]] by (auto simp: compare_name_def)
  qed
  finally show ?thesis .
qed

end
