(* ===== verification/SyscallTablesA.thy ===== *)
theory SyscallTablesA
  imports SyscallTable
begin

text \<open>
  System call tables, and their checks: ALPHA, ARM, AARCH64, CSKY, MIPS.
\<close>

section \<open>ALPHA\<close>

definition syscall_num_to_name_EM_ALPHA_1 :: "(int \<times> string) list" where
  "syscall_num_to_name_EM_ALPHA_1 = [
    (0, ''osf_syscall''), (1, ''exit''), (2, ''fork''), (3, ''read''), (4, ''write''),
    (5, ''osf_old_open''), (6, ''close''), (7, ''osf_wait4''), (8, ''osf_old_creat''), (9, ''link''),
    (10, ''unlink''), (11, ''osf_execve''), (12, ''chdir''), (13, ''fchdir''), (14, ''mknod''),
    (15, ''chmod''), (16, ''chown''), (17, ''brk''), (18, ''osf_getfsstat''), (19, ''lseek''),
    (20, ''getxpid''), (21, ''osf_mount''), (22, ''umount2''), (23, ''setuid''), (24, ''getxuid''),
    (25, ''exec_with_loader''), (26, ''ptrace''), (27, ''osf_nrecvmsg''), (28, ''osf_nsendmsg''),
    (29, ''osf_nrecvfrom''), (30, ''osf_naccept''), (31, ''osf_ngetpeername''), (32, ''osf_ngetsockname''),
    (33, ''access''), (34, ''osf_chflags''), (35, ''osf_fchflags''), (36, ''sync''), (37, ''kill''),
    (38, ''osf_old_stat''), (39, ''setpgid''), (40, ''osf_old_lstat''), (41, ''dup''), (42, ''pipe''),
    (43, ''osf_set_program_attributes''), (44, ''osf_profil''), (45, ''open''), (46, ''osf_old_sigaction''),
    (47, ''getxgid''), (48, ''osf_sigprocmask''), (49, ''osf_getlogin''), (50, ''osf_setlogin''),
    (51, ''acct''), (52, ''sigpending''), (54, ''ioctl''), (55, ''osf_reboot''), (56, ''osf_revoke''),
    (57, ''symlink''), (58, ''readlink''), (59, ''execve''), (60, ''umask''), (61, ''chroot''),
    (62, ''osf_old_fstat''), (63, ''getpgrp''), (64, ''getpagesize''), (65, ''osf_mremap''),
    (66, ''vfork''), (67, ''stat''), (68, ''lstat''), (69, ''osf_sbrk''), (70, ''osf_sstk''),
    (71, ''mmap''), (72, ''osf_old_vadvise''), (73, ''munmap''), (74, ''mprotect''), (75, ''madvise''),
    (76, ''vhangup''), (77, ''osf_kmodcall''), (78, ''osf_mincore''), (79, ''getgroups''),
    (80, ''setgroups''), (81, ''osf_old_getpgrp''), (82, ''setpgrp''), (83, ''osf_setitimer''),
    (84, ''osf_old_wait''), (85, ''osf_table''), (86, ''osf_getitimer''), (87, ''gethostname''),
    (88, ''sethostname''), (89, ''getdtablesize''), (90, ''dup2''), (91, ''fstat''), (92, ''fcntl''),
    (93, ''osf_select''), (94, ''poll''), (95, ''fsync''), (96, ''setpriority''), (97, ''socket''),
    (98, ''connect''), (99, ''accept''), (100, ''getpriority''), (101, ''send''), (102, ''recv''),
    (103, ''sigreturn''), (104, ''bind''), (105, ''setsockopt''), (106, ''listen''), (107, ''osf_plock''),
    (108, ''osf_old_sigvec''), (109, ''osf_old_sigblock''), (110, ''osf_old_sigsetmask''),
    (111, ''sigsuspend''), (112, ''osf_sigstack''), (113, ''recvmsg''), (114, ''sendmsg''),
    (115, ''osf_old_vtrace''), (116, ''osf_gettimeofday''), (117, ''osf_getrusage''), (118, ''getsockopt''),
    (120, ''readv''), (121, ''writev''), (122, ''osf_settimeofday''), (123, ''fchown''), (124, ''fchmod'')]"

definition syscall_num_to_name_EM_ALPHA_2 :: "(int \<times> string) list" where
  "syscall_num_to_name_EM_ALPHA_2 = [
    (125, ''recvfrom''), (126, ''setreuid''), (127, ''setregid''), (128, ''rename''), (129, ''truncate''),
    (130, ''ftruncate''), (131, ''flock''), (132, ''setgid''), (133, ''sendto''), (134, ''shutdown''),
    (135, ''socketpair''), (136, ''mkdir''), (137, ''rmdir''), (138, ''osf_utimes''),
    (139, ''osf_old_sigreturn''), (140, ''osf_adjtime''), (141, ''getpeername''), (142, ''osf_gethostid''),
    (143, ''osf_sethostid''), (144, ''getrlimit''), (145, ''setrlimit''), (146, ''osf_old_killpg''),
    (147, ''setsid''), (148, ''quotactl''), (149, ''osf_oldquota''), (150, ''getsockname''),
    (153, ''osf_pid_block''), (154, ''osf_pid_unblock''), (156, ''sigaction''), (157, ''osf_sigwaitprim''),
    (158, ''osf_nfssvc''), (159, ''osf_getdirentries''), (160, ''osf_statfs''), (161, ''osf_fstatfs''),
    (163, ''osf_asynch_daemon''), (164, ''osf_getfh''), (165, ''osf_getdomainname''),
    (166, ''setdomainname''), (169, ''osf_exportfs''), (181, ''osf_alt_plock''), (184, ''osf_getmnt''),
    (187, ''osf_alt_sigpending''), (188, ''osf_alt_setsid''), (199, ''osf_swapon''), (200, ''msgctl''),
    (201, ''msgget''), (202, ''msgrcv''), (203, ''msgsnd''), (204, ''semctl''), (205, ''semget''),
    (206, ''semop''), (207, ''osf_utsname''), (208, ''lchown''), (209, ''shmat''), (210, ''shmctl''),
    (211, ''shmdt''), (212, ''shmget''), (213, ''osf_mvalid''), (214, ''osf_getaddressconf''),
    (215, ''osf_msleep''), (216, ''osf_mwakeup''), (217, ''msync''), (218, ''osf_signal''),
    (219, ''osf_utc_gettime''), (220, ''osf_utc_adjtime''), (222, ''osf_security''),
    (223, ''osf_kloadcall''), (224, ''osf_stat''), (225, ''osf_lstat''), (226, ''osf_fstat''),
    (227, ''osf_statfs64''), (228, ''osf_fstatfs64''), (233, ''getpgid''), (234, ''getsid''),
    (235, ''sigaltstack''), (236, ''osf_waitid''), (237, ''osf_priocntlset''), (238, ''osf_sigsendset''),
    (239, ''osf_set_speculative''), (240, ''osf_msfs_syscall''), (241, ''osf_sysinfo''),
    (242, ''osf_uadmin''), (243, ''osf_fuser''), (244, ''osf_proplist_syscall''),
    (245, ''osf_ntp_adjtime''), (246, ''osf_ntp_gettime''), (247, ''osf_pathconf''),
    (248, ''osf_fpathconf''), (250, ''osf_uswitch''), (251, ''osf_usleep_thread''), (252, ''osf_audcntl''),
    (253, ''osf_audgen''), (254, ''sysfs''), (255, ''osf_subsys_info''), (256, ''osf_getsysinfo''),
    (257, ''osf_setsysinfo''), (258, ''osf_afs_syscall''), (259, ''osf_swapctl''), (260, ''osf_memcntl''),
    (261, ''osf_fdatasync''), (300, ''bdflush''), (301, ''sethae''), (302, ''mount''),
    (303, ''old_adjtimex''), (304, ''swapoff''), (305, ''getdents''), (306, ''create_module''),
    (307, ''init_module''), (308, ''delete_module''), (309, ''get_kernel_syms''), (310, ''syslog''),
    (311, ''reboot''), (312, ''clone''), (313, ''uselib''), (314, ''mlock''), (315, ''munlock''),
    (316, ''mlockall''), (317, ''munlockall''), (318, ''sysinfo''), (319, ''_sysctl''),
    (321, ''oldumount''), (322, ''swapon''), (323, ''times'')]"

definition syscall_num_to_name_EM_ALPHA_3 :: "(int \<times> string) list" where
  "syscall_num_to_name_EM_ALPHA_3 = [
    (324, ''personality''), (325, ''setfsuid''), (326, ''setfsgid''), (327, ''ustat''), (328, ''statfs''),
    (329, ''fstatfs''), (330, ''sched_setparam''), (331, ''sched_getparam''), (332, ''sched_setscheduler''),
    (333, ''sched_getscheduler''), (334, ''sched_yield''), (335, ''sched_get_priority_max''),
    (336, ''sched_get_priority_min''), (337, ''sched_rr_get_interval''), (338, ''afs_syscall''),
    (339, ''uname''), (340, ''nanosleep''), (341, ''mremap''), (342, ''nfsservctl''), (343, ''setresuid''),
    (344, ''getresuid''), (345, ''pciconfig_read''), (346, ''pciconfig_write''), (347, ''query_module''),
    (348, ''prctl''), (349, ''pread64''), (350, ''pwrite64''), (351, ''rt_sigreturn''),
    (352, ''rt_sigaction''), (353, ''rt_sigprocmask''), (354, ''rt_sigpending''),
    (355, ''rt_sigtimedwait''), (356, ''rt_sigqueueinfo''), (357, ''rt_sigsuspend''), (358, ''select''),
    (359, ''gettimeofday''), (360, ''settimeofday''), (361, ''getitimer''), (362, ''setitimer''),
    (363, ''utimes''), (364, ''getrusage''), (365, ''wait4''), (366, ''adjtimex''), (367, ''getcwd''),
    (368, ''capget''), (369, ''capset''), (370, ''sendfile''), (371, ''setresgid''), (372, ''getresgid''),
    (373, ''dipc''), (374, ''pivot_root''), (375, ''mincore''), (376, ''pciconfig_iobase''),
    (377, ''getdents64''), (378, ''gettid''), (379, ''readahead''), (381, ''tkill''), (382, ''setxattr''),
    (383, ''lsetxattr''), (384, ''fsetxattr''), (385, ''getxattr''), (386, ''lgetxattr''),
    (387, ''fgetxattr''), (388, ''listxattr''), (389, ''llistxattr''), (390, ''flistxattr''),
    (391, ''removexattr''), (392, ''lremovexattr''), (393, ''fremovexattr''), (394, ''futex''),
    (395, ''sched_setaffinity''), (396, ''sched_getaffinity''), (397, ''tuxcall''), (398, ''io_setup''),
    (399, ''io_destroy''), (400, ''io_getevents''), (401, ''io_submit''), (402, ''io_cancel''),
    (405, ''exit_group''), (406, ''lookup_dcookie''), (407, ''epoll_create''), (408, ''epoll_ctl''),
    (409, ''epoll_wait''), (410, ''remap_file_pages''), (411, ''set_tid_address''),
    (412, ''restart_syscall''), (413, ''fadvise64''), (414, ''timer_create''), (415, ''timer_settime''),
    (416, ''timer_gettime''), (417, ''timer_getoverrun''), (418, ''timer_delete''),
    (419, ''clock_settime''), (420, ''clock_gettime''), (421, ''clock_getres''), (422, ''clock_nanosleep''),
    (423, ''semtimedop''), (424, ''tgkill''), (425, ''stat64''), (426, ''lstat64''), (427, ''fstat64''),
    (428, ''vserver''), (429, ''mbind''), (430, ''get_mempolicy''), (431, ''set_mempolicy''),
    (432, ''mq_open''), (433, ''mq_unlink''), (434, ''mq_timedsend''), (435, ''mq_timedreceive''),
    (436, ''mq_notify''), (437, ''mq_getsetattr''), (438, ''waitid''), (439, ''add_key''),
    (440, ''request_key''), (441, ''keyctl''), (442, ''ioprio_set''), (443, ''ioprio_get''),
    (444, ''inotify_init''), (445, ''inotify_add_watch''), (446, ''inotify_rm_watch''),
    (447, ''fdatasync''), (448, ''kexec_load''), (449, ''migrate_pages'')]"

definition syscall_num_to_name_EM_ALPHA_4 :: "(int \<times> string) list" where
  "syscall_num_to_name_EM_ALPHA_4 = [
    (450, ''openat''), (451, ''mkdirat''), (452, ''mknodat''), (453, ''fchownat''), (454, ''futimesat''),
    (455, ''fstatat64''), (456, ''unlinkat''), (457, ''renameat''), (458, ''linkat''), (459, ''symlinkat''),
    (460, ''readlinkat''), (461, ''fchmodat''), (462, ''faccessat''), (463, ''pselect6''), (464, ''ppoll''),
    (465, ''unshare''), (466, ''set_robust_list''), (467, ''get_robust_list''), (468, ''splice''),
    (469, ''sync_file_range''), (470, ''tee''), (471, ''vmsplice''), (472, ''move_pages''),
    (473, ''getcpu''), (474, ''epoll_pwait''), (475, ''utimensat''), (476, ''signalfd''),
    (477, ''timerfd''), (478, ''eventfd''), (479, ''recvmmsg''), (480, ''fallocate''),
    (481, ''timerfd_create''), (482, ''timerfd_settime''), (483, ''timerfd_gettime''), (484, ''signalfd4''),
    (485, ''eventfd2''), (486, ''epoll_create1''), (487, ''dup3''), (488, ''pipe2''),
    (489, ''inotify_init1''), (490, ''preadv''), (491, ''pwritev''), (492, ''rt_tgsigqueueinfo''),
    (493, ''perf_event_open''), (494, ''fanotify_init''), (495, ''fanotify_mark''), (496, ''prlimit64''),
    (497, ''name_to_handle_at''), (498, ''open_by_handle_at''), (499, ''clock_adjtime''), (500, ''syncfs''),
    (501, ''setns''), (502, ''accept4''), (503, ''sendmmsg''), (504, ''process_vm_readv''),
    (505, ''process_vm_writev''), (506, ''kcmp''), (507, ''finit_module''), (508, ''sched_setattr''),
    (509, ''sched_getattr''), (510, ''renameat2''), (511, ''getrandom''), (512, ''memfd_create''),
    (513, ''execveat''), (514, ''seccomp''), (515, ''bpf''), (516, ''userfaultfd''), (517, ''membarrier''),
    (518, ''mlock2''), (519, ''copy_file_range''), (520, ''preadv2''), (521, ''pwritev2''),
    (522, ''statx''), (523, ''io_pgetevents''), (524, ''pkey_mprotect''), (525, ''pkey_alloc''),
    (526, ''pkey_free''), (527, ''rseq''), (528, ''statfs64''), (529, ''fstatfs64''), (530, ''getegid''),
    (531, ''geteuid''), (532, ''getppid''), (534, ''pidfd_send_signal''), (535, ''io_uring_setup''),
    (536, ''io_uring_enter''), (537, ''io_uring_register''), (538, ''open_tree''), (539, ''move_mount''),
    (540, ''fsopen''), (541, ''fsconfig''), (542, ''fsmount''), (543, ''fspick''), (544, ''pidfd_open''),
    (545, ''clone3''), (546, ''close_range''), (547, ''openat2''), (548, ''pidfd_getfd''),
    (549, ''faccessat2''), (550, ''process_madvise''), (551, ''epoll_pwait2''), (552, ''mount_setattr''),
    (553, ''quotactl_fd''), (554, ''landlock_create_ruleset''), (555, ''landlock_add_rule''),
    (556, ''landlock_restrict_self''), (558, ''process_mrelease''), (559, ''futex_waitv''),
    (560, ''set_mempolicy_home_node''), (561, ''cachestat''), (562, ''fchmodat2''),
    (563, ''map_shadow_stack''), (564, ''futex_wake''), (565, ''futex_wait''), (566, ''futex_requeue''),
    (567, ''statmount''), (568, ''listmount''), (569, ''lsm_get_self_attr''), (570, ''lsm_set_self_attr''),
    (571, ''lsm_list_modules''), (572, ''mseal'')]"

definition syscall_sorted_names_EM_ALPHA_1 :: "int list" where
  "syscall_sorted_names_EM_ALPHA_1 = [
    319, 99, 502, 33, 51, 439, 366, 338, 300, 104, 515, 17, 561, 368, 369, 12, 15, 16, 61, 499, 421, 420,
    422, 419, 312, 545, 6, 546, 98, 519, 306, 308, 373, 41, 90, 487, 407, 486, 408, 474, 551, 409, 478, 485,
    25, 59, 513, 1, 405, 462, 549, 413, 480, 494, 495, 13, 124, 461, 562, 123, 453, 92, 447, 387, 507, 390,
    131, 2, 393, 541, 384, 542, 540, 543, 91, 427, 455, 329, 529, 95, 130, 394, 566, 565, 559, 564, 454,
    309, 430, 467, 473, 367, 305, 377, 89, 530, 531, 79, 87, 361, 64, 141, 233, 63, 532, 100, 511, 372, 344,
    144, 364, 234, 150, 118, 378, 359, 385, 47, 20, 24, 307, 445, 444]"

definition syscall_sorted_names_EM_ALPHA_2 :: "int list" where
  "syscall_sorted_names_EM_ALPHA_2 = [
    489, 446, 402, 399, 400, 523, 398, 401, 536, 537, 535, 54, 443, 442, 506, 448, 441, 37, 555, 554, 556,
    208, 386, 9, 458, 106, 568, 388, 389, 406, 392, 19, 383, 569, 571, 570, 68, 426, 75, 563, 429, 517, 512,
    449, 375, 136, 451, 14, 452, 314, 518, 316, 71, 302, 552, 539, 472, 74, 437, 436, 432, 435, 434, 433,
    341, 572, 200, 201, 202, 203, 217, 315, 317, 73, 497, 340, 342, 303, 321, 45, 498, 538, 450, 547, 140,
    258, 181, 188, 187, 163, 252, 253, 34, 11, 169, 35, 261, 248, 226, 161, 228, 243, 214, 159, 165, 164,
    18, 142, 86, 49, 184, 117, 256, 116, 223, 77, 225, 260, 78, 21, 65, 240, 215]"

definition syscall_sorted_names_EM_ALPHA_3 :: "int list" where
  "syscall_sorted_names_EM_ALPHA_3 = [
    213, 216, 30, 158, 31, 32, 29, 27, 28, 245, 246, 8, 62, 81, 146, 40, 5, 46, 109, 139, 110, 108, 38, 72,
    115, 84, 149, 247, 153, 154, 107, 237, 44, 244, 55, 56, 69, 222, 93, 43, 239, 143, 83, 50, 257, 122,
    218, 48, 238, 112, 157, 70, 224, 160, 227, 255, 259, 199, 0, 241, 85, 242, 251, 250, 220, 219, 138, 207,
    7, 236, 376, 345, 346, 493, 324, 548, 544, 534, 42, 488, 374, 525, 526, 524, 94, 464, 348, 349, 490,
    520, 496, 550, 558, 504, 505, 463, 26, 350, 491, 521, 347, 148, 553, 3, 379, 58, 460, 120, 311, 102,
    125, 479, 113, 410, 391, 128, 457, 510, 440, 412, 137, 527, 352]"

definition syscall_sorted_names_EM_ALPHA_4 :: "int list" where
  "syscall_sorted_names_EM_ALPHA_4 = [
    354, 353, 356, 351, 357, 355, 492, 335, 336, 396, 509, 331, 333, 337, 395, 508, 330, 332, 334, 514, 358,
    204, 205, 206, 423, 101, 370, 503, 114, 133, 431, 560, 466, 411, 166, 326, 325, 132, 80, 301, 88, 362,
    501, 39, 82, 96, 127, 371, 343, 126, 145, 147, 105, 360, 23, 382, 209, 210, 211, 212, 134, 156, 235,
    476, 484, 52, 103, 111, 97, 135, 468, 67, 425, 328, 528, 567, 522, 304, 322, 57, 459, 36, 469, 500, 254,
    318, 310, 470, 424, 414, 418, 417, 416, 415, 477, 481, 483, 482, 323, 381, 129, 397, 60, 22, 339, 10,
    456, 465, 313, 516, 327, 475, 363, 66, 76, 471, 428, 365, 438, 4, 121]"

lemma indexed_ALPHA:
  "indexed (syscall_num_to_name_EM_ALPHA_1 @ syscall_num_to_name_EM_ALPHA_2 @ syscall_num_to_name_EM_ALPHA_3 @ syscall_num_to_name_EM_ALPHA_4)
    (syscall_sorted_names_EM_ALPHA_1 @ syscall_sorted_names_EM_ALPHA_2 @ syscall_sorted_names_EM_ALPHA_3 @ syscall_sorted_names_EM_ALPHA_4)"
  by code_simp

section \<open>ARM\<close>

definition syscall_num_to_name_EM_ARM_1 :: "(int \<times> string) list" where
  "syscall_num_to_name_EM_ARM_1 = [
    (0, ''restart_syscall''), (1, ''exit''), (2, ''fork''), (3, ''read''), (4, ''write''), (5, ''open''),
    (6, ''close''), (8, ''creat''), (9, ''link''), (10, ''unlink''), (11, ''execve''), (12, ''chdir''),
    (13, ''time''), (14, ''mknod''), (15, ''chmod''), (16, ''lchown''), (19, ''lseek''), (20, ''getpid''),
    (21, ''mount''), (22, ''umount''), (23, ''setuid''), (24, ''getuid''), (25, ''stime''),
    (26, ''ptrace''), (27, ''alarm''), (29, ''pause''), (30, ''utime''), (33, ''access''), (34, ''nice''),
    (36, ''sync''), (37, ''kill''), (38, ''rename''), (39, ''mkdir''), (40, ''rmdir''), (41, ''dup''),
    (42, ''pipe''), (43, ''times''), (45, ''brk''), (46, ''setgid''), (47, ''getgid''), (49, ''geteuid''),
    (50, ''getegid''), (51, ''acct''), (52, ''umount2''), (54, ''ioctl''), (55, ''fcntl''),
    (57, ''setpgid''), (60, ''umask''), (61, ''chroot''), (62, ''ustat''), (63, ''dup2''),
    (64, ''getppid''), (65, ''getpgrp''), (66, ''setsid''), (67, ''sigaction''), (70, ''setreuid''),
    (71, ''setregid''), (72, ''sigsuspend''), (73, ''sigpending''), (74, ''sethostname''),
    (75, ''setrlimit''), (76, ''getrlimit''), (77, ''getrusage''), (78, ''gettimeofday''),
    (79, ''settimeofday''), (80, ''getgroups''), (81, ''setgroups''), (82, ''select''), (83, ''symlink''),
    (85, ''readlink''), (86, ''uselib''), (87, ''swapon''), (88, ''reboot''), (89, ''readdir''),
    (90, ''mmap''), (91, ''munmap''), (92, ''truncate''), (93, ''ftruncate''), (94, ''fchmod''),
    (95, ''fchown''), (96, ''getpriority''), (97, ''setpriority''), (99, ''statfs''), (100, ''fstatfs''),
    (102, ''socketcall''), (103, ''syslog''), (104, ''setitimer''), (105, ''getitimer''), (106, ''stat''),
    (107, ''lstat''), (108, ''fstat''), (111, ''vhangup''), (113, ''syscall''), (114, ''wait4''),
    (115, ''swapoff''), (116, ''sysinfo''), (117, ''ipc''), (118, ''fsync''), (119, ''sigreturn''),
    (120, ''clone''), (121, ''setdomainname''), (122, ''uname''), (124, ''adjtimex''), (125, ''mprotect''),
    (126, ''sigprocmask''), (128, ''init_module''), (129, ''delete_module''), (131, ''quotactl''),
    (132, ''getpgid''), (133, ''fchdir''), (134, ''bdflush''), (135, ''sysfs''), (136, ''personality''),
    (138, ''setfsuid''), (139, ''setfsgid''), (140, ''_llseek''), (141, ''getdents''),
    (142, ''_newselect''), (143, ''flock''), (144, ''msync''), (145, ''readv''), (146, ''writev''),
    (147, ''getsid''), (148, ''fdatasync''), (149, ''_sysctl''), (150, ''mlock''), (151, ''munlock''),
    (152, ''mlockall''), (153, ''munlockall''), (154, ''sched_setparam''), (155, ''sched_getparam''),
    (156, ''sched_setscheduler''), (157, ''sched_getscheduler''), (158, ''sched_yield''),
    (159, ''sched_get_priority_max''), (160, ''sched_get_priority_min''), (161, ''sched_rr_get_interval''),
    (162, ''nanosleep''), (163, ''mremap''), (164, ''setresuid''), (165, ''getresuid''), (168, ''poll''),
    (169, ''nfsservctl''), (170, ''setresgid''), (171, ''getresgid''), (172, ''prctl'')]"

definition syscall_num_to_name_EM_ARM_2 :: "(int \<times> string) list" where
  "syscall_num_to_name_EM_ARM_2 = [
    (173, ''rt_sigreturn''), (174, ''rt_sigaction''), (175, ''rt_sigprocmask''), (176, ''rt_sigpending''),
    (177, ''rt_sigtimedwait''), (178, ''rt_sigqueueinfo''), (179, ''rt_sigsuspend''), (180, ''pread64''),
    (181, ''pwrite64''), (182, ''chown''), (183, ''getcwd''), (184, ''capget''), (185, ''capset''),
    (186, ''sigaltstack''), (187, ''sendfile''), (190, ''vfork''), (191, ''ugetrlimit''), (192, ''mmap2''),
    (193, ''truncate64''), (194, ''ftruncate64''), (195, ''stat64''), (196, ''lstat64''),
    (197, ''fstat64''), (198, ''lchown32''), (199, ''getuid32''), (200, ''getgid32''), (201, ''geteuid32''),
    (202, ''getegid32''), (203, ''setreuid32''), (204, ''setregid32''), (205, ''getgroups32''),
    (206, ''setgroups32''), (207, ''fchown32''), (208, ''setresuid32''), (209, ''getresuid32''),
    (210, ''setresgid32''), (211, ''getresgid32''), (212, ''chown32''), (213, ''setuid32''),
    (214, ''setgid32''), (215, ''setfsuid32''), (216, ''setfsgid32''), (217, ''getdents64''),
    (218, ''pivot_root''), (219, ''mincore''), (220, ''madvise''), (221, ''fcntl64''), (224, ''gettid''),
    (225, ''readahead''), (226, ''setxattr''), (227, ''lsetxattr''), (228, ''fsetxattr''),
    (229, ''getxattr''), (230, ''lgetxattr''), (231, ''fgetxattr''), (232, ''listxattr''),
    (233, ''llistxattr''), (234, ''flistxattr''), (235, ''removexattr''), (236, ''lremovexattr''),
    (237, ''fremovexattr''), (238, ''tkill''), (239, ''sendfile64''), (240, ''futex''),
    (241, ''sched_setaffinity''), (242, ''sched_getaffinity''), (243, ''io_setup''), (244, ''io_destroy''),
    (245, ''io_getevents''), (246, ''io_submit''), (247, ''io_cancel''), (248, ''exit_group''),
    (249, ''lookup_dcookie''), (250, ''epoll_create''), (251, ''epoll_ctl''), (252, ''epoll_wait''),
    (253, ''remap_file_pages''), (256, ''set_tid_address''), (257, ''timer_create''),
    (258, ''timer_settime''), (259, ''timer_gettime''), (260, ''timer_getoverrun''),
    (261, ''timer_delete''), (262, ''clock_settime''), (263, ''clock_gettime''), (264, ''clock_getres''),
    (265, ''clock_nanosleep''), (266, ''statfs64''), (267, ''fstatfs64''), (268, ''tgkill''),
    (269, ''utimes''), (270, ''arm_fadvise64_64''), (271, ''pciconfig_iobase''), (272, ''pciconfig_read''),
    (273, ''pciconfig_write''), (274, ''mq_open''), (275, ''mq_unlink''), (276, ''mq_timedsend''),
    (277, ''mq_timedreceive''), (278, ''mq_notify''), (279, ''mq_getsetattr''), (280, ''waitid''),
    (281, ''socket''), (282, ''bind''), (283, ''connect''), (284, ''listen''), (285, ''accept''),
    (286, ''getsockname''), (287, ''getpeername''), (288, ''socketpair''), (289, ''send''),
    (290, ''sendto''), (291, ''recv''), (292, ''recvfrom''), (293, ''shutdown''), (294, ''setsockopt''),
    (295, ''getsockopt''), (296, ''sendmsg''), (297, ''recvmsg''), (298, ''semop''), (299, ''semget''),
    (300, ''semctl''), (301, ''msgsnd''), (302, ''msgrcv''), (303, ''msgget''), (304, ''msgctl''),
    (305, ''shmat''), (306, ''shmdt''), (307, ''shmget''), (308, ''shmctl''), (309, ''add_key''),
    (310, ''request_key''), (311, ''keyctl''), (312, ''semtimedop''), (313, ''vserver''),
    (314, ''ioprio_set''), (315, ''ioprio_get''), (316, ''inotify_init''), (317, ''inotify_add_watch''),
    (318, ''inotify_rm_watch''), (319, ''mbind''), (320, ''get_mempolicy''), (321, ''set_mempolicy''),
    (322, ''openat''), (323, ''mkdirat''), (324, ''mknodat'')]"

definition syscall_num_to_name_EM_ARM_3 :: "(int \<times> string) list" where
  "syscall_num_to_name_EM_ARM_3 = [
    (325, ''fchownat''), (326, ''futimesat''), (327, ''fstatat64''), (328, ''unlinkat''),
    (329, ''renameat''), (330, ''linkat''), (331, ''symlinkat''), (332, ''readlinkat''),
    (333, ''fchmodat''), (334, ''faccessat''), (335, ''pselect6''), (336, ''ppoll''), (337, ''unshare''),
    (338, ''set_robust_list''), (339, ''get_robust_list''), (340, ''splice''),
    (341, ''arm_sync_file_range''), (342, ''tee''), (343, ''vmsplice''), (344, ''move_pages''),
    (345, ''getcpu''), (346, ''epoll_pwait''), (347, ''kexec_load''), (348, ''utimensat''),
    (349, ''signalfd''), (350, ''timerfd_create''), (351, ''eventfd''), (352, ''fallocate''),
    (353, ''timerfd_settime''), (354, ''timerfd_gettime''), (355, ''signalfd4''), (356, ''eventfd2''),
    (357, ''epoll_create1''), (358, ''dup3''), (359, ''pipe2''), (360, ''inotify_init1''),
    (361, ''preadv''), (362, ''pwritev''), (363, ''rt_tgsigqueueinfo''), (364, ''perf_event_open''),
    (365, ''recvmmsg''), (366, ''accept4''), (367, ''fanotify_init''), (368, ''fanotify_mark''),
    (369, ''prlimit64''), (370, ''name_to_handle_at''), (371, ''open_by_handle_at''),
    (372, ''clock_adjtime''), (373, ''syncfs''), (374, ''sendmmsg''), (375, ''setns''),
    (376, ''process_vm_readv''), (377, ''process_vm_writev''), (378, ''kcmp''), (379, ''finit_module''),
    (380, ''sched_setattr''), (381, ''sched_getattr''), (382, ''renameat2''), (383, ''seccomp''),
    (384, ''getrandom''), (385, ''memfd_create''), (386, ''bpf''), (387, ''execveat''),
    (388, ''userfaultfd''), (389, ''membarrier''), (390, ''mlock2''), (391, ''copy_file_range''),
    (392, ''preadv2''), (393, ''pwritev2''), (394, ''pkey_mprotect''), (395, ''pkey_alloc''),
    (396, ''pkey_free''), (397, ''statx''), (398, ''rseq''), (399, ''io_pgetevents''),
    (400, ''migrate_pages''), (401, ''kexec_file_load''), (403, ''clock_gettime64''),
    (404, ''clock_settime64''), (405, ''clock_adjtime64''), (406, ''clock_getres_time64''),
    (407, ''clock_nanosleep_time64''), (408, ''timer_gettime64''), (409, ''timer_settime64''),
    (410, ''timerfd_gettime64''), (411, ''timerfd_settime64''), (412, ''utimensat_time64''),
    (413, ''pselect6_time64''), (414, ''ppoll_time64''), (416, ''io_pgetevents_time64''),
    (417, ''recvmmsg_time64''), (418, ''mq_timedsend_time64''), (419, ''mq_timedreceive_time64''),
    (420, ''semtimedop_time64''), (421, ''rt_sigtimedwait_time64''), (422, ''futex_time64''),
    (423, ''sched_rr_get_interval_time64''), (424, ''pidfd_send_signal''), (425, ''io_uring_setup''),
    (426, ''io_uring_enter''), (427, ''io_uring_register''), (428, ''open_tree''), (429, ''move_mount''),
    (430, ''fsopen''), (431, ''fsconfig''), (432, ''fsmount''), (433, ''fspick''), (434, ''pidfd_open''),
    (435, ''clone3''), (436, ''close_range''), (437, ''openat2''), (438, ''pidfd_getfd''),
    (439, ''faccessat2''), (440, ''process_madvise''), (441, ''epoll_pwait2''), (442, ''mount_setattr''),
    (443, ''quotactl_fd''), (444, ''landlock_create_ruleset''), (445, ''landlock_add_rule''),
    (446, ''landlock_restrict_self''), (448, ''process_mrelease''), (449, ''futex_waitv''),
    (450, ''set_mempolicy_home_node''), (451, ''cachestat''), (452, ''fchmodat2''),
    (453, ''map_shadow_stack''), (454, ''futex_wake''), (455, ''futex_wait''), (456, ''futex_requeue''),
    (457, ''statmount''), (458, ''listmount''), (459, ''lsm_get_self_attr''), (460, ''lsm_set_self_attr''),
    (461, ''lsm_list_modules''), (462, ''mseal''), (463, ''setxattrat''), (464, ''getxattrat''),
    (465, ''listxattrat''), (466, ''removexattrat''), (467, ''open_tree_attr''), (468, ''file_getattr''),
    (469, ''file_setattr''), (470, ''listns''), (471, ''rseq_slice_yield'')]"

definition syscall_sorted_names_EM_ARM_1 :: "int list" where
  "syscall_sorted_names_EM_ARM_1 = [
    140, 142, 149, 285, 366, 33, 51, 309, 124, 27, 270, 341, 134, 282, 386, 45, 451, 184, 185, 12, 15, 182,
    212, 61, 372, 405, 264, 406, 263, 403, 265, 407, 262, 404, 120, 435, 6, 436, 283, 391, 8, 129, 41, 63,
    358, 250, 357, 251, 346, 441, 252, 351, 356, 11, 387, 1, 248, 334, 439, 352, 367, 368, 133, 94, 333,
    452, 95, 207, 325, 55, 221, 148, 231, 468, 469, 379, 234, 143, 2, 237, 431, 228, 432, 430, 433, 108,
    197, 327, 100, 267, 118, 93, 194, 240, 456, 422, 455, 449, 454, 326, 320, 339, 345, 183, 141, 217, 50,
    202, 49, 201, 47, 200, 80, 205, 105, 287, 132, 65, 20, 64, 96, 384, 171, 211, 165, 209, 76, 77, 147,
    286, 295, 224, 78, 24, 199, 229, 464, 128, 317, 316, 360, 318, 247, 244, 245, 399]"

definition syscall_sorted_names_EM_ARM_2 :: "int list" where
  "syscall_sorted_names_EM_ARM_2 = [
    416, 243, 246, 426, 427, 425, 54, 315, 314, 117, 378, 401, 347, 311, 37, 445, 444, 446, 16, 198, 230, 9,
    330, 284, 458, 470, 232, 465, 233, 249, 236, 19, 227, 459, 461, 460, 107, 196, 220, 453, 319, 389, 385,
    400, 219, 39, 323, 14, 324, 150, 390, 152, 90, 192, 21, 442, 429, 344, 125, 279, 278, 274, 277, 419,
    276, 418, 275, 163, 462, 304, 303, 302, 301, 144, 151, 153, 91, 370, 162, 169, 34, 5, 371, 428, 467,
    322, 437, 29, 271, 272, 273, 364, 136, 438, 434, 424, 42, 359, 218, 395, 396, 394, 168, 336, 414, 172,
    180, 361, 392, 369, 440, 448, 376, 377, 335, 413, 26, 181, 362, 393, 131, 443, 3, 225, 89, 85, 332, 145,
    88, 291, 292, 365, 417, 297, 253, 235, 466, 38, 329, 382, 310, 0, 40, 398, 471, 174]"

definition syscall_sorted_names_EM_ARM_3 :: "int list" where
  "syscall_sorted_names_EM_ARM_3 = [
    176, 175, 178, 173, 179, 177, 421, 363, 159, 160, 242, 381, 155, 157, 161, 423, 241, 380, 154, 156, 158,
    383, 82, 300, 299, 298, 312, 420, 289, 187, 239, 374, 296, 290, 321, 450, 338, 256, 121, 139, 216, 138,
    215, 46, 214, 81, 206, 74, 104, 375, 57, 97, 71, 204, 170, 210, 164, 208, 70, 203, 75, 66, 294, 79, 23,
    213, 226, 463, 305, 308, 306, 307, 293, 67, 186, 349, 355, 73, 126, 119, 72, 281, 102, 288, 340, 106,
    195, 99, 266, 457, 397, 25, 115, 87, 83, 331, 36, 373, 113, 135, 116, 103, 342, 268, 13, 257, 261, 260,
    259, 408, 258, 409, 350, 354, 410, 353, 411, 43, 238, 92, 193, 191, 60, 22, 52, 122, 10, 328, 337, 86,
    388, 62, 30, 348, 412, 269, 190, 111, 343, 313, 114, 280, 4, 146]"

lemma indexed_ARM:
  "indexed (syscall_num_to_name_EM_ARM_1 @ syscall_num_to_name_EM_ARM_2 @ syscall_num_to_name_EM_ARM_3)
    (syscall_sorted_names_EM_ARM_1 @ syscall_sorted_names_EM_ARM_2 @ syscall_sorted_names_EM_ARM_3)"
  by code_simp

section \<open>AARCH64\<close>

definition syscall_num_to_name_EM_AARCH64_1 :: "(int \<times> string) list" where
  "syscall_num_to_name_EM_AARCH64_1 = [
    (0, ''io_setup''), (1, ''io_destroy''), (2, ''io_submit''), (3, ''io_cancel''), (4, ''io_getevents''),
    (5, ''setxattr''), (6, ''lsetxattr''), (7, ''fsetxattr''), (8, ''getxattr''), (9, ''lgetxattr''),
    (10, ''fgetxattr''), (11, ''listxattr''), (12, ''llistxattr''), (13, ''flistxattr''),
    (14, ''removexattr''), (15, ''lremovexattr''), (16, ''fremovexattr''), (17, ''getcwd''),
    (18, ''lookup_dcookie''), (19, ''eventfd2''), (20, ''epoll_create1''), (21, ''epoll_ctl''),
    (22, ''epoll_pwait''), (23, ''dup''), (24, ''dup3''), (25, ''fcntl''), (26, ''inotify_init1''),
    (27, ''inotify_add_watch''), (28, ''inotify_rm_watch''), (29, ''ioctl''), (30, ''ioprio_set''),
    (31, ''ioprio_get''), (32, ''flock''), (33, ''mknodat''), (34, ''mkdirat''), (35, ''unlinkat''),
    (36, ''symlinkat''), (37, ''linkat''), (38, ''renameat''), (39, ''umount2''), (40, ''mount''),
    (41, ''pivot_root''), (42, ''nfsservctl''), (43, ''statfs''), (44, ''fstatfs''), (45, ''truncate''),
    (46, ''ftruncate''), (47, ''fallocate''), (48, ''faccessat''), (49, ''chdir''), (50, ''fchdir''),
    (51, ''chroot''), (52, ''fchmod''), (53, ''fchmodat''), (54, ''fchownat''), (55, ''fchown''),
    (56, ''openat''), (57, ''close''), (58, ''vhangup''), (59, ''pipe2''), (60, ''quotactl''),
    (61, ''getdents64''), (62, ''lseek''), (63, ''read''), (64, ''write''), (65, ''readv''),
    (66, ''writev''), (67, ''pread64''), (68, ''pwrite64''), (69, ''preadv''), (70, ''pwritev''),
    (71, ''sendfile''), (72, ''pselect6''), (73, ''ppoll''), (74, ''signalfd4''), (75, ''vmsplice''),
    (76, ''splice''), (77, ''tee''), (78, ''readlinkat''), (79, ''newfstatat''), (80, ''fstat''),
    (81, ''sync''), (82, ''fsync''), (83, ''fdatasync''), (84, ''sync_file_range''),
    (85, ''timerfd_create''), (86, ''timerfd_settime''), (87, ''timerfd_gettime''), (88, ''utimensat''),
    (89, ''acct''), (90, ''capget''), (91, ''capset''), (92, ''personality''), (93, ''exit''),
    (94, ''exit_group''), (95, ''waitid''), (96, ''set_tid_address''), (97, ''unshare''), (98, ''futex''),
    (99, ''set_robust_list''), (100, ''get_robust_list''), (101, ''nanosleep''), (102, ''getitimer''),
    (103, ''setitimer''), (104, ''kexec_load''), (105, ''init_module''), (106, ''delete_module''),
    (107, ''timer_create''), (108, ''timer_gettime'')]"

definition syscall_num_to_name_EM_AARCH64_2 :: "(int \<times> string) list" where
  "syscall_num_to_name_EM_AARCH64_2 = [
    (109, ''timer_getoverrun''), (110, ''timer_settime''), (111, ''timer_delete''),
    (112, ''clock_settime''), (113, ''clock_gettime''), (114, ''clock_getres''), (115, ''clock_nanosleep''),
    (116, ''syslog''), (117, ''ptrace''), (118, ''sched_setparam''), (119, ''sched_setscheduler''),
    (120, ''sched_getscheduler''), (121, ''sched_getparam''), (122, ''sched_setaffinity''),
    (123, ''sched_getaffinity''), (124, ''sched_yield''), (125, ''sched_get_priority_max''),
    (126, ''sched_get_priority_min''), (127, ''sched_rr_get_interval''), (128, ''restart_syscall''),
    (129, ''kill''), (130, ''tkill''), (131, ''tgkill''), (132, ''sigaltstack''), (133, ''rt_sigsuspend''),
    (134, ''rt_sigaction''), (135, ''rt_sigprocmask''), (136, ''rt_sigpending''),
    (137, ''rt_sigtimedwait''), (138, ''rt_sigqueueinfo''), (139, ''rt_sigreturn''), (140, ''setpriority''),
    (141, ''getpriority''), (142, ''reboot''), (143, ''setregid''), (144, ''setgid''), (145, ''setreuid''),
    (146, ''setuid''), (147, ''setresuid''), (148, ''getresuid''), (149, ''setresgid''),
    (150, ''getresgid''), (151, ''setfsuid''), (152, ''setfsgid''), (153, ''times''), (154, ''setpgid''),
    (155, ''getpgid''), (156, ''getsid''), (157, ''setsid''), (158, ''getgroups''), (159, ''setgroups''),
    (160, ''uname''), (161, ''sethostname''), (162, ''setdomainname''), (163, ''getrlimit''),
    (164, ''setrlimit''), (165, ''getrusage''), (166, ''umask''), (167, ''prctl''), (168, ''getcpu''),
    (169, ''gettimeofday''), (170, ''settimeofday''), (171, ''adjtimex''), (172, ''getpid''),
    (173, ''getppid''), (174, ''getuid''), (175, ''geteuid''), (176, ''getgid''), (177, ''getegid''),
    (178, ''gettid''), (179, ''sysinfo''), (180, ''mq_open''), (181, ''mq_unlink''),
    (182, ''mq_timedsend''), (183, ''mq_timedreceive''), (184, ''mq_notify''), (185, ''mq_getsetattr''),
    (186, ''msgget''), (187, ''msgctl''), (188, ''msgrcv''), (189, ''msgsnd''), (190, ''semget''),
    (191, ''semctl''), (192, ''semtimedop''), (193, ''semop''), (194, ''shmget''), (195, ''shmctl''),
    (196, ''shmat''), (197, ''shmdt''), (198, ''socket''), (199, ''socketpair''), (200, ''bind''),
    (201, ''listen''), (202, ''accept''), (203, ''connect''), (204, ''getsockname''),
    (205, ''getpeername''), (206, ''sendto''), (207, ''recvfrom''), (208, ''setsockopt''),
    (209, ''getsockopt''), (210, ''shutdown''), (211, ''sendmsg''), (212, ''recvmsg''),
    (213, ''readahead''), (214, ''brk''), (215, ''munmap''), (216, ''mremap''), (217, ''add_key'')]"

definition syscall_num_to_name_EM_AARCH64_3 :: "(int \<times> string) list" where
  "syscall_num_to_name_EM_AARCH64_3 = [
    (218, ''request_key''), (219, ''keyctl''), (220, ''clone''), (221, ''execve''), (222, ''mmap''),
    (223, ''fadvise64''), (224, ''swapon''), (225, ''swapoff''), (226, ''mprotect''), (227, ''msync''),
    (228, ''mlock''), (229, ''munlock''), (230, ''mlockall''), (231, ''munlockall''), (232, ''mincore''),
    (233, ''madvise''), (234, ''remap_file_pages''), (235, ''mbind''), (236, ''get_mempolicy''),
    (237, ''set_mempolicy''), (238, ''migrate_pages''), (239, ''move_pages''), (240, ''rt_tgsigqueueinfo''),
    (241, ''perf_event_open''), (242, ''accept4''), (243, ''recvmmsg''), (260, ''wait4''),
    (261, ''prlimit64''), (262, ''fanotify_init''), (263, ''fanotify_mark''), (264, ''name_to_handle_at''),
    (265, ''open_by_handle_at''), (266, ''clock_adjtime''), (267, ''syncfs''), (268, ''setns''),
    (269, ''sendmmsg''), (270, ''process_vm_readv''), (271, ''process_vm_writev''), (272, ''kcmp''),
    (273, ''finit_module''), (274, ''sched_setattr''), (275, ''sched_getattr''), (276, ''renameat2''),
    (277, ''seccomp''), (278, ''getrandom''), (279, ''memfd_create''), (280, ''bpf''), (281, ''execveat''),
    (282, ''userfaultfd''), (283, ''membarrier''), (284, ''mlock2''), (285, ''copy_file_range''),
    (286, ''preadv2''), (287, ''pwritev2''), (288, ''pkey_mprotect''), (289, ''pkey_alloc''),
    (290, ''pkey_free''), (291, ''statx''), (292, ''io_pgetevents''), (293, ''rseq''),
    (294, ''kexec_file_load''), (424, ''pidfd_send_signal''), (425, ''io_uring_setup''),
    (426, ''io_uring_enter''), (427, ''io_uring_register''), (428, ''open_tree''), (429, ''move_mount''),
    (430, ''fsopen''), (431, ''fsconfig''), (432, ''fsmount''), (433, ''fspick''), (434, ''pidfd_open''),
    (435, ''clone3''), (436, ''close_range''), (437, ''openat2''), (438, ''pidfd_getfd''),
    (439, ''faccessat2''), (440, ''process_madvise''), (441, ''epoll_pwait2''), (442, ''mount_setattr''),
    (443, ''quotactl_fd''), (444, ''landlock_create_ruleset''), (445, ''landlock_add_rule''),
    (446, ''landlock_restrict_self''), (447, ''memfd_secret''), (448, ''process_mrelease''),
    (449, ''futex_waitv''), (450, ''set_mempolicy_home_node''), (451, ''cachestat''), (452, ''fchmodat2''),
    (453, ''map_shadow_stack''), (454, ''futex_wake''), (455, ''futex_wait''), (456, ''futex_requeue''),
    (457, ''statmount''), (458, ''listmount''), (459, ''lsm_get_self_attr''), (460, ''lsm_set_self_attr''),
    (461, ''lsm_list_modules''), (462, ''mseal''), (463, ''setxattrat''), (464, ''getxattrat''),
    (465, ''listxattrat''), (466, ''removexattrat''), (467, ''open_tree_attr''), (468, ''file_getattr''),
    (469, ''file_setattr''), (470, ''listns''), (471, ''rseq_slice_yield'')]"

definition syscall_sorted_names_EM_AARCH64_1 :: "int list" where
  "syscall_sorted_names_EM_AARCH64_1 = [
    202, 242, 89, 217, 171, 200, 280, 214, 451, 90, 91, 49, 51, 266, 114, 113, 115, 112, 220, 435, 57, 436,
    203, 285, 106, 23, 24, 20, 21, 22, 441, 19, 221, 281, 93, 94, 48, 439, 223, 47, 262, 263, 50, 52, 53,
    452, 55, 54, 25, 83, 10, 468, 469, 273, 13, 32, 16, 431, 7, 432, 430, 433, 80, 44, 82, 46, 98, 456, 455,
    449, 454, 236, 100, 168, 17, 61, 177, 175, 176, 158, 102, 205, 155, 172, 173, 141, 278, 150, 148, 163,
    165, 156, 204, 209, 178, 169, 174, 8, 464, 105, 27, 26, 28, 3, 1, 4, 292, 0, 2]"

definition syscall_sorted_names_EM_AARCH64_2 :: "int list" where
  "syscall_sorted_names_EM_AARCH64_2 = [
    426, 427, 425, 29, 31, 30, 272, 294, 104, 219, 129, 445, 444, 446, 9, 37, 201, 458, 470, 11, 465, 12,
    18, 15, 62, 6, 459, 461, 460, 233, 453, 235, 283, 279, 447, 238, 232, 34, 33, 228, 284, 230, 222, 40,
    442, 429, 239, 226, 185, 184, 180, 183, 182, 181, 216, 462, 187, 186, 188, 189, 227, 229, 231, 215, 264,
    101, 79, 42, 265, 428, 467, 56, 437, 241, 92, 438, 434, 424, 59, 41, 289, 290, 288, 73, 167, 67, 69,
    286, 261, 440, 448, 270, 271, 72, 117, 68, 70, 287, 60, 443, 63, 213, 78, 65, 142, 207, 243, 212, 234]"

definition syscall_sorted_names_EM_AARCH64_3 :: "int list" where
  "syscall_sorted_names_EM_AARCH64_3 = [
    14, 466, 38, 276, 218, 128, 293, 471, 134, 136, 135, 138, 139, 133, 137, 240, 125, 126, 123, 275, 121,
    120, 127, 122, 274, 118, 119, 124, 277, 191, 190, 193, 192, 71, 269, 211, 206, 237, 450, 99, 96, 162,
    152, 151, 144, 159, 161, 103, 268, 154, 140, 143, 149, 147, 145, 164, 157, 208, 170, 146, 5, 463, 196,
    195, 197, 194, 210, 132, 74, 198, 199, 76, 43, 457, 291, 225, 224, 36, 81, 84, 267, 179, 116, 77, 131,
    107, 111, 109, 108, 110, 85, 87, 86, 153, 130, 45, 166, 39, 160, 35, 97, 282, 88, 58, 75, 260, 95, 64,
    66]"

lemma indexed_AARCH64:
  "indexed (syscall_num_to_name_EM_AARCH64_1 @ syscall_num_to_name_EM_AARCH64_2 @ syscall_num_to_name_EM_AARCH64_3)
    (syscall_sorted_names_EM_AARCH64_1 @ syscall_sorted_names_EM_AARCH64_2 @ syscall_sorted_names_EM_AARCH64_3)"
  by code_simp

section \<open>CSKY\<close>

definition syscall_num_to_name_EM_CSKY_1 :: "(int \<times> string) list" where
  "syscall_num_to_name_EM_CSKY_1 = [
    (0, ''io_setup''), (1, ''io_destroy''), (2, ''io_submit''), (3, ''io_cancel''), (4, ''io_getevents''),
    (5, ''setxattr''), (6, ''lsetxattr''), (7, ''fsetxattr''), (8, ''getxattr''), (9, ''lgetxattr''),
    (10, ''fgetxattr''), (11, ''listxattr''), (12, ''llistxattr''), (13, ''flistxattr''),
    (14, ''removexattr''), (15, ''lremovexattr''), (16, ''fremovexattr''), (17, ''getcwd''),
    (18, ''lookup_dcookie''), (19, ''eventfd2''), (20, ''epoll_create1''), (21, ''epoll_ctl''),
    (22, ''epoll_pwait''), (23, ''dup''), (24, ''dup3''), (25, ''fcntl64''), (26, ''inotify_init1''),
    (27, ''inotify_add_watch''), (28, ''inotify_rm_watch''), (29, ''ioctl''), (30, ''ioprio_set''),
    (31, ''ioprio_get''), (32, ''flock''), (33, ''mknodat''), (34, ''mkdirat''), (35, ''unlinkat''),
    (36, ''symlinkat''), (37, ''linkat''), (39, ''umount2''), (40, ''mount''), (41, ''pivot_root''),
    (42, ''nfsservctl''), (43, ''statfs64''), (44, ''fstatfs64''), (45, ''truncate64''),
    (46, ''ftruncate64''), (47, ''fallocate''), (48, ''faccessat''), (49, ''chdir''), (50, ''fchdir''),
    (51, ''chroot''), (52, ''fchmod''), (53, ''fchmodat''), (54, ''fchownat''), (55, ''fchown''),
    (56, ''openat''), (57, ''close''), (58, ''vhangup''), (59, ''pipe2''), (60, ''quotactl''),
    (61, ''getdents64''), (62, ''llseek''), (63, ''read''), (64, ''write''), (65, ''readv''),
    (66, ''writev''), (67, ''pread64''), (68, ''pwrite64''), (69, ''preadv''), (70, ''pwritev''),
    (71, ''sendfile64''), (72, ''pselect6''), (73, ''ppoll''), (74, ''signalfd4''), (75, ''vmsplice''),
    (76, ''splice''), (77, ''tee''), (78, ''readlinkat''), (79, ''fstatat64''), (80, ''fstat64''),
    (81, ''sync''), (82, ''fsync''), (83, ''fdatasync''), (84, ''sync_file_range''),
    (85, ''timerfd_create''), (86, ''timerfd_settime''), (87, ''timerfd_gettime''), (88, ''utimensat''),
    (89, ''acct''), (90, ''capget''), (91, ''capset''), (92, ''personality''), (93, ''exit''),
    (94, ''exit_group''), (95, ''waitid''), (96, ''set_tid_address''), (97, ''unshare''), (98, ''futex''),
    (99, ''set_robust_list''), (100, ''get_robust_list''), (101, ''nanosleep''), (102, ''getitimer''),
    (103, ''setitimer''), (104, ''kexec_load''), (105, ''init_module''), (106, ''delete_module''),
    (107, ''timer_create''), (108, ''timer_gettime''), (109, ''timer_getoverrun''),
    (110, ''timer_settime''), (111, ''timer_delete''), (112, ''clock_settime''), (113, ''clock_gettime''),
    (114, ''clock_getres''), (115, ''clock_nanosleep''), (116, ''syslog'')]"

definition syscall_num_to_name_EM_CSKY_2 :: "(int \<times> string) list" where
  "syscall_num_to_name_EM_CSKY_2 = [
    (117, ''ptrace''), (118, ''sched_setparam''), (119, ''sched_setscheduler''),
    (120, ''sched_getscheduler''), (121, ''sched_getparam''), (122, ''sched_setaffinity''),
    (123, ''sched_getaffinity''), (124, ''sched_yield''), (125, ''sched_get_priority_max''),
    (126, ''sched_get_priority_min''), (127, ''sched_rr_get_interval''), (128, ''restart_syscall''),
    (129, ''kill''), (130, ''tkill''), (131, ''tgkill''), (132, ''sigaltstack''), (133, ''rt_sigsuspend''),
    (134, ''rt_sigaction''), (135, ''rt_sigprocmask''), (136, ''rt_sigpending''),
    (137, ''rt_sigtimedwait''), (138, ''rt_sigqueueinfo''), (139, ''rt_sigreturn''), (140, ''setpriority''),
    (141, ''getpriority''), (142, ''reboot''), (143, ''setregid''), (144, ''setgid''), (145, ''setreuid''),
    (146, ''setuid''), (147, ''setresuid''), (148, ''getresuid''), (149, ''setresgid''),
    (150, ''getresgid''), (151, ''setfsuid''), (152, ''setfsgid''), (153, ''times''), (154, ''setpgid''),
    (155, ''getpgid''), (156, ''getsid''), (157, ''setsid''), (158, ''getgroups''), (159, ''setgroups''),
    (160, ''uname''), (161, ''sethostname''), (162, ''setdomainname''), (163, ''getrlimit''),
    (164, ''setrlimit''), (165, ''getrusage''), (166, ''umask''), (167, ''prctl''), (168, ''getcpu''),
    (169, ''gettimeofday''), (170, ''settimeofday''), (171, ''adjtimex''), (172, ''getpid''),
    (173, ''getppid''), (174, ''getuid''), (175, ''geteuid''), (176, ''getgid''), (177, ''getegid''),
    (178, ''gettid''), (179, ''sysinfo''), (180, ''mq_open''), (181, ''mq_unlink''),
    (182, ''mq_timedsend''), (183, ''mq_timedreceive''), (184, ''mq_notify''), (185, ''mq_getsetattr''),
    (186, ''msgget''), (187, ''msgctl''), (188, ''msgrcv''), (189, ''msgsnd''), (190, ''semget''),
    (191, ''semctl''), (192, ''semtimedop''), (193, ''semop''), (194, ''shmget''), (195, ''shmctl''),
    (196, ''shmat''), (197, ''shmdt''), (198, ''socket''), (199, ''socketpair''), (200, ''bind''),
    (201, ''listen''), (202, ''accept''), (203, ''connect''), (204, ''getsockname''),
    (205, ''getpeername''), (206, ''sendto''), (207, ''recvfrom''), (208, ''setsockopt''),
    (209, ''getsockopt''), (210, ''shutdown''), (211, ''sendmsg''), (212, ''recvmsg''),
    (213, ''readahead''), (214, ''brk''), (215, ''munmap''), (216, ''mremap''), (217, ''add_key''),
    (218, ''request_key''), (219, ''keyctl''), (220, ''clone''), (221, ''execve''), (222, ''mmap2''),
    (223, ''fadvise64_64''), (224, ''swapon''), (225, ''swapoff''), (226, ''mprotect''), (227, ''msync''),
    (228, ''mlock''), (229, ''munlock''), (230, ''mlockall''), (231, ''munlockall''), (232, ''mincore'')]"

definition syscall_num_to_name_EM_CSKY_3 :: "(int \<times> string) list" where
  "syscall_num_to_name_EM_CSKY_3 = [
    (233, ''madvise''), (234, ''remap_file_pages''), (235, ''mbind''), (236, ''get_mempolicy''),
    (237, ''set_mempolicy''), (238, ''migrate_pages''), (239, ''move_pages''), (240, ''rt_tgsigqueueinfo''),
    (241, ''perf_event_open''), (242, ''accept4''), (243, ''recvmmsg''), (244, ''set_thread_area''),
    (245, ''cacheflush''), (260, ''wait4''), (261, ''prlimit64''), (262, ''fanotify_init''),
    (263, ''fanotify_mark''), (264, ''name_to_handle_at''), (265, ''open_by_handle_at''),
    (266, ''clock_adjtime''), (267, ''syncfs''), (268, ''setns''), (269, ''sendmmsg''),
    (270, ''process_vm_readv''), (271, ''process_vm_writev''), (272, ''kcmp''), (273, ''finit_module''),
    (274, ''sched_setattr''), (275, ''sched_getattr''), (276, ''renameat2''), (277, ''seccomp''),
    (278, ''getrandom''), (279, ''memfd_create''), (280, ''bpf''), (281, ''execveat''),
    (282, ''userfaultfd''), (283, ''membarrier''), (284, ''mlock2''), (285, ''copy_file_range''),
    (286, ''preadv2''), (287, ''pwritev2''), (288, ''pkey_mprotect''), (289, ''pkey_alloc''),
    (290, ''pkey_free''), (291, ''statx''), (292, ''io_pgetevents''), (293, ''rseq''),
    (294, ''kexec_file_load''), (403, ''clock_gettime64''), (404, ''clock_settime64''),
    (405, ''clock_adjtime64''), (406, ''clock_getres_time64''), (407, ''clock_nanosleep_time64''),
    (408, ''timer_gettime64''), (409, ''timer_settime64''), (410, ''timerfd_gettime64''),
    (411, ''timerfd_settime64''), (412, ''utimensat_time64''), (413, ''pselect6_time64''),
    (414, ''ppoll_time64''), (416, ''io_pgetevents_time64''), (417, ''recvmmsg_time64''),
    (418, ''mq_timedsend_time64''), (419, ''mq_timedreceive_time64''), (420, ''semtimedop_time64''),
    (421, ''rt_sigtimedwait_time64''), (422, ''futex_time64''), (423, ''sched_rr_get_interval_time64''),
    (424, ''pidfd_send_signal''), (425, ''io_uring_setup''), (426, ''io_uring_enter''),
    (427, ''io_uring_register''), (428, ''open_tree''), (429, ''move_mount''), (430, ''fsopen''),
    (431, ''fsconfig''), (432, ''fsmount''), (433, ''fspick''), (434, ''pidfd_open''), (435, ''clone3''),
    (436, ''close_range''), (437, ''openat2''), (438, ''pidfd_getfd''), (439, ''faccessat2''),
    (440, ''process_madvise''), (441, ''epoll_pwait2''), (442, ''mount_setattr''), (443, ''quotactl_fd''),
    (444, ''landlock_create_ruleset''), (445, ''landlock_add_rule''), (446, ''landlock_restrict_self''),
    (448, ''process_mrelease''), (449, ''futex_waitv''), (450, ''set_mempolicy_home_node''),
    (451, ''cachestat''), (452, ''fchmodat2''), (453, ''map_shadow_stack''), (454, ''futex_wake''),
    (455, ''futex_wait''), (456, ''futex_requeue''), (457, ''statmount''), (458, ''listmount''),
    (459, ''lsm_get_self_attr''), (460, ''lsm_set_self_attr''), (461, ''lsm_list_modules''),
    (462, ''mseal''), (463, ''setxattrat''), (464, ''getxattrat''), (465, ''listxattrat''),
    (466, ''removexattrat''), (467, ''open_tree_attr''), (468, ''file_getattr''), (469, ''file_setattr''),
    (470, ''listns''), (471, ''rseq_slice_yield'')]"

definition syscall_sorted_names_EM_CSKY_1 :: "int list" where
  "syscall_sorted_names_EM_CSKY_1 = [
    202, 242, 89, 217, 171, 200, 280, 214, 245, 451, 90, 91, 49, 51, 266, 405, 114, 406, 113, 403, 115, 407,
    112, 404, 220, 435, 57, 436, 203, 285, 106, 23, 24, 20, 21, 22, 441, 19, 221, 281, 93, 94, 48, 439, 223,
    47, 262, 263, 50, 52, 53, 452, 55, 54, 25, 83, 10, 468, 469, 273, 13, 32, 16, 431, 7, 432, 430, 433, 80,
    79, 44, 82, 46, 98, 456, 422, 455, 449, 454, 236, 100, 168, 17, 61, 177, 175, 176, 158, 102, 205, 155,
    172, 173, 141, 278, 150, 148, 163, 165, 156, 204, 209, 178, 169, 174, 8, 464, 105, 27, 26, 28, 3, 1, 4,
    292, 416]"

definition syscall_sorted_names_EM_CSKY_2 :: "int list" where
  "syscall_sorted_names_EM_CSKY_2 = [
    0, 2, 426, 427, 425, 29, 31, 30, 272, 294, 104, 219, 129, 445, 444, 446, 9, 37, 201, 458, 470, 11, 465,
    12, 62, 18, 15, 6, 459, 461, 460, 233, 453, 235, 283, 279, 238, 232, 34, 33, 228, 284, 230, 222, 40,
    442, 429, 239, 226, 185, 184, 180, 183, 419, 182, 418, 181, 216, 462, 187, 186, 188, 189, 227, 229, 231,
    215, 264, 101, 42, 265, 428, 467, 56, 437, 241, 92, 438, 434, 424, 59, 41, 289, 290, 288, 73, 414, 167,
    67, 69, 286, 261, 440, 448, 270, 271, 72, 413, 117, 68, 70, 287, 60, 443, 63, 213, 78, 65, 142, 207,
    243, 417, 212, 234, 14, 466]"

definition syscall_sorted_names_EM_CSKY_3 :: "int list" where
  "syscall_sorted_names_EM_CSKY_3 = [
    276, 218, 128, 293, 471, 134, 136, 135, 138, 139, 133, 137, 421, 240, 125, 126, 123, 275, 121, 120, 127,
    423, 122, 274, 118, 119, 124, 277, 191, 190, 193, 192, 420, 71, 269, 211, 206, 237, 450, 99, 244, 96,
    162, 152, 151, 144, 159, 161, 103, 268, 154, 140, 143, 149, 147, 145, 164, 157, 208, 170, 146, 5, 463,
    196, 195, 197, 194, 210, 132, 74, 198, 199, 76, 43, 457, 291, 225, 224, 36, 81, 84, 267, 179, 116, 77,
    131, 107, 111, 109, 108, 408, 110, 409, 85, 87, 410, 86, 411, 153, 130, 45, 166, 39, 160, 35, 97, 282,
    88, 412, 58, 75, 260, 95, 64, 66]"

lemma indexed_CSKY:
  "indexed (syscall_num_to_name_EM_CSKY_1 @ syscall_num_to_name_EM_CSKY_2 @ syscall_num_to_name_EM_CSKY_3)
    (syscall_sorted_names_EM_CSKY_1 @ syscall_sorted_names_EM_CSKY_2 @ syscall_sorted_names_EM_CSKY_3)"
  by code_simp

section \<open>MIPS\<close>

definition syscall_num_to_name_EM_MIPS_1 :: "(int \<times> string) list" where
  "syscall_num_to_name_EM_MIPS_1 = [
    (0, ''read''), (1, ''write''), (2, ''open''), (3, ''close''), (4, ''stat''), (5, ''fstat''),
    (6, ''lstat''), (7, ''poll''), (8, ''lseek''), (9, ''mmap''), (10, ''mprotect''), (11, ''munmap''),
    (12, ''brk''), (13, ''rt_sigaction''), (14, ''rt_sigprocmask''), (15, ''ioctl''), (16, ''pread64''),
    (17, ''pwrite64''), (18, ''readv''), (19, ''writev''), (20, ''access''), (21, ''pipe''),
    (22, ''_newselect''), (23, ''sched_yield''), (24, ''mremap''), (25, ''msync''), (26, ''mincore''),
    (27, ''madvise''), (28, ''shmget''), (29, ''shmat''), (30, ''shmctl''), (31, ''dup''), (32, ''dup2''),
    (33, ''pause''), (34, ''nanosleep''), (35, ''getitimer''), (36, ''setitimer''), (37, ''alarm''),
    (38, ''getpid''), (39, ''sendfile''), (40, ''socket''), (41, ''connect''), (42, ''accept''),
    (43, ''sendto''), (44, ''recvfrom''), (45, ''sendmsg''), (46, ''recvmsg''), (47, ''shutdown''),
    (48, ''bind''), (49, ''listen''), (50, ''getsockname''), (51, ''getpeername''), (52, ''socketpair''),
    (53, ''setsockopt''), (54, ''getsockopt''), (55, ''clone''), (56, ''fork''), (57, ''execve''),
    (58, ''exit''), (59, ''wait4''), (60, ''kill''), (61, ''uname''), (62, ''semget''), (63, ''semop''),
    (64, ''semctl''), (65, ''shmdt''), (66, ''msgget''), (67, ''msgsnd''), (68, ''msgrcv''),
    (69, ''msgctl''), (70, ''fcntl''), (71, ''flock''), (72, ''fsync''), (73, ''fdatasync''),
    (74, ''truncate''), (75, ''ftruncate''), (76, ''getdents''), (77, ''getcwd''), (78, ''chdir''),
    (79, ''fchdir''), (80, ''rename''), (81, ''mkdir''), (82, ''rmdir''), (83, ''creat''), (84, ''link''),
    (85, ''unlink''), (86, ''symlink''), (87, ''readlink''), (88, ''chmod''), (89, ''fchmod''),
    (90, ''chown''), (91, ''fchown''), (92, ''lchown''), (93, ''umask''), (94, ''gettimeofday''),
    (95, ''getrlimit''), (96, ''getrusage''), (97, ''sysinfo''), (98, ''times''), (99, ''ptrace''),
    (100, ''getuid''), (101, ''syslog''), (102, ''getgid''), (103, ''setuid''), (104, ''setgid''),
    (105, ''geteuid''), (106, ''getegid''), (107, ''setpgid''), (108, ''getppid''), (109, ''getpgrp''),
    (110, ''setsid''), (111, ''setreuid''), (112, ''setregid''), (113, ''getgroups''), (114, ''setgroups''),
    (115, ''setresuid''), (116, ''getresuid''), (117, ''setresgid''), (118, ''getresgid''),
    (119, ''getpgid''), (120, ''setfsuid''), (121, ''setfsgid''), (122, ''getsid''), (123, ''capget''),
    (124, ''capset'')]"

definition syscall_num_to_name_EM_MIPS_2 :: "(int \<times> string) list" where
  "syscall_num_to_name_EM_MIPS_2 = [
    (125, ''rt_sigpending''), (126, ''rt_sigtimedwait''), (127, ''rt_sigqueueinfo''),
    (128, ''rt_sigsuspend''), (129, ''sigaltstack''), (130, ''utime''), (131, ''mknod''),
    (132, ''personality''), (133, ''ustat''), (134, ''statfs''), (135, ''fstatfs''), (136, ''sysfs''),
    (137, ''getpriority''), (138, ''setpriority''), (139, ''sched_setparam''), (140, ''sched_getparam''),
    (141, ''sched_setscheduler''), (142, ''sched_getscheduler''), (143, ''sched_get_priority_max''),
    (144, ''sched_get_priority_min''), (145, ''sched_rr_get_interval''), (146, ''mlock''),
    (147, ''munlock''), (148, ''mlockall''), (149, ''munlockall''), (150, ''vhangup''),
    (151, ''pivot_root''), (152, ''_sysctl''), (153, ''prctl''), (154, ''adjtimex''), (155, ''setrlimit''),
    (156, ''chroot''), (157, ''sync''), (158, ''acct''), (159, ''settimeofday''), (160, ''mount''),
    (161, ''umount2''), (162, ''swapon''), (163, ''swapoff''), (164, ''reboot''), (165, ''sethostname''),
    (166, ''setdomainname''), (167, ''create_module''), (168, ''init_module''), (169, ''delete_module''),
    (170, ''get_kernel_syms''), (171, ''query_module''), (172, ''quotactl''), (173, ''nfsservctl''),
    (174, ''getpmsg''), (175, ''putpmsg''), (176, ''afs_syscall''), (177, ''reserved177''),
    (178, ''gettid''), (179, ''readahead''), (180, ''setxattr''), (181, ''lsetxattr''),
    (182, ''fsetxattr''), (183, ''getxattr''), (184, ''lgetxattr''), (185, ''fgetxattr''),
    (186, ''listxattr''), (187, ''llistxattr''), (188, ''flistxattr''), (189, ''removexattr''),
    (190, ''lremovexattr''), (191, ''fremovexattr''), (192, ''tkill''), (193, ''reserved193''),
    (194, ''futex''), (195, ''sched_setaffinity''), (196, ''sched_getaffinity''), (197, ''cacheflush''),
    (198, ''cachectl''), (199, ''sysmips''), (200, ''io_setup''), (201, ''io_destroy''),
    (202, ''io_getevents''), (203, ''io_submit''), (204, ''io_cancel''), (205, ''exit_group''),
    (206, ''lookup_dcookie''), (207, ''epoll_create''), (208, ''epoll_ctl''), (209, ''epoll_wait''),
    (210, ''remap_file_pages''), (211, ''rt_sigreturn''), (212, ''set_tid_address''),
    (213, ''restart_syscall''), (214, ''semtimedop''), (215, ''fadvise64''), (216, ''timer_create''),
    (217, ''timer_settime''), (218, ''timer_gettime''), (219, ''timer_getoverrun''),
    (220, ''timer_delete''), (221, ''clock_settime''), (222, ''clock_gettime''), (223, ''clock_getres''),
    (224, ''clock_nanosleep''), (225, ''tgkill''), (226, ''utimes''), (227, ''mbind''),
    (228, ''get_mempolicy''), (229, ''set_mempolicy''), (230, ''mq_open''), (231, ''mq_unlink''),
    (232, ''mq_timedsend''), (233, ''mq_timedreceive''), (234, ''mq_notify''), (235, ''mq_getsetattr''),
    (236, ''vserver''), (237, ''waitid''), (239, ''add_key''), (240, ''request_key''), (241, ''keyctl''),
    (242, ''set_thread_area''), (243, ''inotify_init''), (244, ''inotify_add_watch''),
    (245, ''inotify_rm_watch''), (246, ''migrate_pages''), (247, ''openat''), (248, ''mkdirat''),
    (249, ''mknodat''), (250, ''fchownat'')]"

definition syscall_num_to_name_EM_MIPS_3 :: "(int \<times> string) list" where
  "syscall_num_to_name_EM_MIPS_3 = [
    (251, ''futimesat''), (252, ''newfstatat''), (253, ''unlinkat''), (254, ''renameat''),
    (255, ''linkat''), (256, ''symlinkat''), (257, ''readlinkat''), (258, ''fchmodat''),
    (259, ''faccessat''), (260, ''pselect6''), (261, ''ppoll''), (262, ''unshare''), (263, ''splice''),
    (264, ''sync_file_range''), (265, ''tee''), (266, ''vmsplice''), (267, ''move_pages''),
    (268, ''set_robust_list''), (269, ''get_robust_list''), (270, ''kexec_load''), (271, ''getcpu''),
    (272, ''epoll_pwait''), (273, ''ioprio_set''), (274, ''ioprio_get''), (275, ''utimensat''),
    (276, ''signalfd''), (277, ''timerfd''), (278, ''eventfd''), (279, ''fallocate''),
    (280, ''timerfd_create''), (281, ''timerfd_gettime''), (282, ''timerfd_settime''), (283, ''signalfd4''),
    (284, ''eventfd2''), (285, ''epoll_create1''), (286, ''dup3''), (287, ''pipe2''),
    (288, ''inotify_init1''), (289, ''preadv''), (290, ''pwritev''), (291, ''rt_tgsigqueueinfo''),
    (292, ''perf_event_open''), (293, ''accept4''), (294, ''recvmmsg''), (295, ''fanotify_init''),
    (296, ''fanotify_mark''), (297, ''prlimit64''), (298, ''name_to_handle_at''),
    (299, ''open_by_handle_at''), (300, ''clock_adjtime''), (301, ''syncfs''), (302, ''sendmmsg''),
    (303, ''setns''), (304, ''process_vm_readv''), (305, ''process_vm_writev''), (306, ''kcmp''),
    (307, ''finit_module''), (308, ''getdents64''), (309, ''sched_setattr''), (310, ''sched_getattr''),
    (311, ''renameat2''), (312, ''seccomp''), (313, ''getrandom''), (314, ''memfd_create''), (315, ''bpf''),
    (316, ''execveat''), (317, ''userfaultfd''), (318, ''membarrier''), (319, ''mlock2''),
    (320, ''copy_file_range''), (321, ''preadv2''), (322, ''pwritev2''), (323, ''pkey_mprotect''),
    (324, ''pkey_alloc''), (325, ''pkey_free''), (326, ''statx''), (327, ''rseq''),
    (328, ''io_pgetevents''), (424, ''pidfd_send_signal''), (425, ''io_uring_setup''),
    (426, ''io_uring_enter''), (427, ''io_uring_register''), (428, ''open_tree''), (429, ''move_mount''),
    (430, ''fsopen''), (431, ''fsconfig''), (432, ''fsmount''), (433, ''fspick''), (434, ''pidfd_open''),
    (435, ''clone3''), (436, ''close_range''), (437, ''openat2''), (438, ''pidfd_getfd''),
    (439, ''faccessat2''), (440, ''process_madvise''), (441, ''epoll_pwait2''), (442, ''mount_setattr''),
    (443, ''quotactl_fd''), (444, ''landlock_create_ruleset''), (445, ''landlock_add_rule''),
    (446, ''landlock_restrict_self''), (448, ''process_mrelease''), (449, ''futex_waitv''),
    (450, ''set_mempolicy_home_node''), (451, ''cachestat''), (452, ''fchmodat2''),
    (453, ''map_shadow_stack''), (454, ''futex_wake''), (455, ''futex_wait''), (456, ''futex_requeue''),
    (457, ''statmount''), (458, ''listmount''), (459, ''lsm_get_self_attr''), (460, ''lsm_set_self_attr''),
    (461, ''lsm_list_modules''), (462, ''mseal''), (463, ''setxattrat''), (464, ''getxattrat''),
    (465, ''listxattrat''), (466, ''removexattrat''), (467, ''open_tree_attr''), (468, ''file_getattr''),
    (469, ''file_setattr''), (470, ''listns''), (471, ''rseq_slice_yield'')]"

definition syscall_sorted_names_EM_MIPS_1 :: "int list" where
  "syscall_sorted_names_EM_MIPS_1 = [
    22, 152, 42, 293, 20, 158, 239, 154, 176, 37, 48, 315, 12, 198, 197, 451, 123, 124, 78, 88, 90, 156,
    300, 223, 222, 224, 221, 55, 435, 3, 436, 41, 320, 83, 167, 169, 31, 32, 286, 207, 285, 208, 272, 441,
    209, 278, 284, 57, 316, 58, 205, 259, 439, 215, 279, 295, 296, 79, 89, 258, 452, 91, 250, 70, 73, 185,
    468, 469, 307, 188, 71, 56, 191, 431, 182, 432, 430, 433, 5, 135, 72, 75, 194, 456, 455, 449, 454, 251,
    170, 228, 269, 271, 77, 76, 308, 106, 105, 102, 113, 35, 51, 119, 109, 38, 174, 108, 137, 313, 118, 116,
    95, 96, 122, 50, 54, 178, 94, 100, 183, 464, 168, 244, 243, 288, 245]"

definition syscall_sorted_names_EM_MIPS_2 :: "int list" where
  "syscall_sorted_names_EM_MIPS_2 = [
    204, 201, 202, 328, 200, 203, 426, 427, 425, 15, 274, 273, 306, 270, 241, 60, 445, 444, 446, 92, 184,
    84, 255, 49, 458, 470, 186, 465, 187, 206, 190, 8, 181, 459, 461, 460, 6, 27, 453, 227, 318, 314, 246,
    26, 81, 248, 131, 249, 146, 319, 148, 9, 160, 442, 429, 267, 10, 235, 234, 230, 233, 232, 231, 24, 462,
    69, 66, 68, 67, 25, 147, 149, 11, 298, 34, 252, 173, 2, 299, 428, 467, 247, 437, 33, 292, 132, 438, 434,
    424, 21, 287, 151, 324, 325, 323, 7, 261, 153, 16, 289, 321, 297, 440, 448, 304, 305, 260, 99, 175, 17,
    290, 322, 171, 172, 443, 0, 179, 87, 257, 18, 164, 44, 294, 46, 210]"

definition syscall_sorted_names_EM_MIPS_3 :: "int list" where
  "syscall_sorted_names_EM_MIPS_3 = [
    189, 466, 80, 254, 311, 240, 177, 193, 213, 82, 327, 471, 13, 125, 14, 127, 211, 128, 126, 291, 143,
    144, 196, 310, 140, 142, 145, 195, 309, 139, 141, 23, 312, 64, 62, 63, 214, 39, 302, 45, 43, 229, 450,
    268, 242, 212, 166, 121, 120, 104, 114, 165, 36, 303, 107, 138, 112, 117, 115, 111, 155, 110, 53, 159,
    103, 180, 463, 29, 30, 65, 28, 47, 129, 276, 283, 40, 52, 263, 4, 134, 457, 326, 163, 162, 86, 256, 157,
    264, 301, 136, 97, 101, 199, 265, 225, 216, 220, 219, 218, 217, 277, 280, 281, 282, 98, 192, 74, 93,
    161, 61, 85, 253, 262, 317, 133, 130, 275, 226, 150, 266, 236, 59, 237, 1, 19]"

lemma indexed_MIPS:
  "indexed (syscall_num_to_name_EM_MIPS_1 @ syscall_num_to_name_EM_MIPS_2 @ syscall_num_to_name_EM_MIPS_3)
    (syscall_sorted_names_EM_MIPS_1 @ syscall_sorted_names_EM_MIPS_2 @ syscall_sorted_names_EM_MIPS_3)"
  by code_simp

end
