(* ===== verification/SyscallTablesB.thy ===== *)
theory SyscallTablesB
  imports SyscallTable
begin

text \<open>
  System call tables, and their checks: PARISC (32 bits), PARISC (64 bits), PPC, PPC64, RISCV (32 bits).
\<close>

section \<open>PARISC (32 bits)\<close>

definition syscall_num_to_name_EM_PARISC_32_1 :: "(int \<times> string) list" where
  "syscall_num_to_name_EM_PARISC_32_1 = [
    (0, ''restart_syscall''), (1, ''exit''), (2, ''fork''), (3, ''read''), (4, ''write''), (5, ''open''),
    (6, ''close''), (7, ''waitpid''), (8, ''creat''), (9, ''link''), (10, ''unlink''), (11, ''execve''),
    (12, ''chdir''), (13, ''time''), (14, ''mknod''), (15, ''chmod''), (16, ''lchown''), (17, ''socket''),
    (18, ''stat''), (19, ''lseek''), (20, ''getpid''), (21, ''mount''), (22, ''bind''), (23, ''setuid''),
    (24, ''getuid''), (25, ''stime''), (26, ''ptrace''), (27, ''alarm''), (28, ''fstat''), (29, ''pause''),
    (30, ''utime''), (31, ''connect''), (32, ''listen''), (33, ''access''), (34, ''nice''),
    (35, ''accept''), (36, ''sync''), (37, ''kill''), (38, ''rename''), (39, ''mkdir''), (40, ''rmdir''),
    (41, ''dup''), (42, ''pipe''), (43, ''times''), (44, ''getsockname''), (45, ''brk''), (46, ''setgid''),
    (47, ''getgid''), (48, ''signal''), (49, ''geteuid''), (50, ''getegid''), (51, ''acct''),
    (52, ''umount2''), (53, ''getpeername''), (54, ''ioctl''), (55, ''fcntl''), (56, ''socketpair''),
    (57, ''setpgid''), (58, ''send''), (59, ''uname''), (60, ''umask''), (61, ''chroot''), (62, ''ustat''),
    (63, ''dup2''), (64, ''getppid''), (65, ''getpgrp''), (66, ''setsid''), (67, ''pivot_root''),
    (68, ''sgetmask''), (69, ''ssetmask''), (70, ''setreuid''), (71, ''setregid''), (72, ''mincore''),
    (73, ''sigpending''), (74, ''sethostname''), (75, ''setrlimit''), (76, ''getrlimit''),
    (77, ''getrusage''), (78, ''gettimeofday''), (79, ''settimeofday''), (80, ''getgroups''),
    (81, ''setgroups''), (82, ''sendto''), (83, ''symlink''), (84, ''lstat''), (85, ''readlink''),
    (86, ''uselib''), (87, ''swapon''), (88, ''reboot''), (89, ''mmap2''), (90, ''mmap''), (91, ''munmap''),
    (92, ''truncate''), (93, ''ftruncate''), (94, ''fchmod''), (95, ''fchown''), (96, ''getpriority''),
    (97, ''setpriority''), (98, ''recv''), (99, ''statfs''), (100, ''fstatfs''), (101, ''stat64''),
    (103, ''syslog''), (104, ''setitimer''), (105, ''getitimer''), (106, ''capget''), (107, ''capset''),
    (108, ''pread64''), (109, ''pwrite64''), (110, ''getcwd''), (111, ''vhangup''), (112, ''fstat64''),
    (113, ''vfork''), (114, ''wait4''), (115, ''swapoff''), (116, ''sysinfo''), (117, ''shutdown''),
    (118, ''fsync''), (119, ''madvise''), (120, ''clone''), (121, ''setdomainname''), (122, ''sendfile''),
    (123, ''recvfrom''), (124, ''adjtimex''), (125, ''mprotect''), (126, ''sigprocmask''),
    (128, ''init_module''), (129, ''delete_module''), (131, ''quotactl''), (132, ''getpgid''),
    (133, ''fchdir''), (134, ''bdflush''), (135, ''sysfs'')]"

definition syscall_num_to_name_EM_PARISC_32_2 :: "(int \<times> string) list" where
  "syscall_num_to_name_EM_PARISC_32_2 = [
    (136, ''personality''), (138, ''setfsuid''), (139, ''setfsgid''), (140, ''_llseek''),
    (141, ''getdents''), (142, ''_newselect''), (143, ''flock''), (144, ''msync''), (145, ''readv''),
    (146, ''writev''), (147, ''getsid''), (148, ''fdatasync''), (149, ''_sysctl''), (150, ''mlock''),
    (151, ''munlock''), (152, ''mlockall''), (153, ''munlockall''), (154, ''sched_setparam''),
    (155, ''sched_getparam''), (156, ''sched_setscheduler''), (157, ''sched_getscheduler''),
    (158, ''sched_yield''), (159, ''sched_get_priority_max''), (160, ''sched_get_priority_min''),
    (161, ''sched_rr_get_interval''), (162, ''nanosleep''), (163, ''mremap''), (164, ''setresuid''),
    (165, ''getresuid''), (166, ''sigaltstack''), (168, ''poll''), (170, ''setresgid''),
    (171, ''getresgid''), (172, ''prctl''), (173, ''rt_sigreturn''), (174, ''rt_sigaction''),
    (175, ''rt_sigprocmask''), (176, ''rt_sigpending''), (177, ''rt_sigtimedwait''),
    (178, ''rt_sigqueueinfo''), (179, ''rt_sigsuspend''), (180, ''chown''), (181, ''setsockopt''),
    (182, ''getsockopt''), (183, ''sendmsg''), (184, ''recvmsg''), (185, ''semop''), (186, ''semget''),
    (187, ''semctl''), (188, ''msgsnd''), (189, ''msgrcv''), (190, ''msgget''), (191, ''msgctl''),
    (192, ''shmat''), (193, ''shmdt''), (194, ''shmget''), (195, ''shmctl''), (198, ''lstat64''),
    (199, ''truncate64''), (200, ''ftruncate64''), (201, ''getdents64''), (202, ''fcntl64''),
    (206, ''gettid''), (207, ''readahead''), (208, ''tkill''), (209, ''sendfile64''), (210, ''futex''),
    (211, ''sched_setaffinity''), (212, ''sched_getaffinity''), (215, ''io_setup''), (216, ''io_destroy''),
    (217, ''io_getevents''), (218, ''io_submit''), (219, ''io_cancel''), (222, ''exit_group''),
    (223, ''lookup_dcookie''), (224, ''epoll_create''), (225, ''epoll_ctl''), (226, ''epoll_wait''),
    (227, ''remap_file_pages''), (228, ''semtimedop''), (229, ''mq_open''), (230, ''mq_unlink''),
    (231, ''mq_timedsend''), (232, ''mq_timedreceive''), (233, ''mq_notify''), (234, ''mq_getsetattr''),
    (235, ''waitid''), (236, ''fadvise64_64''), (237, ''set_tid_address''), (238, ''setxattr''),
    (239, ''lsetxattr''), (240, ''fsetxattr''), (241, ''getxattr''), (242, ''lgetxattr''),
    (243, ''fgetxattr''), (244, ''listxattr''), (245, ''llistxattr''), (246, ''flistxattr''),
    (247, ''removexattr''), (248, ''lremovexattr''), (249, ''fremovexattr''), (250, ''timer_create''),
    (251, ''timer_settime''), (252, ''timer_gettime''), (253, ''timer_getoverrun''),
    (254, ''timer_delete''), (255, ''clock_settime''), (256, ''clock_gettime''), (257, ''clock_getres''),
    (258, ''clock_nanosleep''), (259, ''tgkill''), (260, ''mbind''), (261, ''get_mempolicy''),
    (262, ''set_mempolicy''), (264, ''add_key''), (265, ''request_key''), (266, ''keyctl''),
    (267, ''ioprio_set''), (268, ''ioprio_get''), (269, ''inotify_init''), (270, ''inotify_add_watch''),
    (271, ''inotify_rm_watch''), (272, ''migrate_pages''), (273, ''pselect6''), (274, ''ppoll''),
    (275, ''openat''), (276, ''mkdirat''), (277, ''mknodat''), (278, ''fchownat''), (279, ''futimesat''),
    (280, ''fstatat64''), (281, ''unlinkat'')]"

definition syscall_num_to_name_EM_PARISC_32_3 :: "(int \<times> string) list" where
  "syscall_num_to_name_EM_PARISC_32_3 = [
    (282, ''renameat''), (283, ''linkat''), (284, ''symlinkat''), (285, ''readlinkat''),
    (286, ''fchmodat''), (287, ''faccessat''), (288, ''unshare''), (289, ''set_robust_list''),
    (290, ''get_robust_list''), (291, ''splice''), (292, ''sync_file_range''), (293, ''tee''),
    (294, ''vmsplice''), (295, ''move_pages''), (296, ''getcpu''), (297, ''epoll_pwait''),
    (298, ''statfs64''), (299, ''fstatfs64''), (300, ''kexec_load''), (301, ''utimensat''),
    (302, ''signalfd''), (304, ''eventfd''), (305, ''fallocate''), (306, ''timerfd_create''),
    (307, ''timerfd_settime''), (308, ''timerfd_gettime''), (309, ''signalfd4''), (310, ''eventfd2''),
    (311, ''epoll_create1''), (312, ''dup3''), (313, ''pipe2''), (314, ''inotify_init1''),
    (315, ''preadv''), (316, ''pwritev''), (317, ''rt_tgsigqueueinfo''), (318, ''perf_event_open''),
    (319, ''recvmmsg''), (320, ''accept4''), (321, ''prlimit64''), (322, ''fanotify_init''),
    (323, ''fanotify_mark''), (324, ''clock_adjtime''), (325, ''name_to_handle_at''),
    (326, ''open_by_handle_at''), (327, ''syncfs''), (328, ''setns''), (329, ''sendmmsg''),
    (330, ''process_vm_readv''), (331, ''process_vm_writev''), (332, ''kcmp''), (333, ''finit_module''),
    (334, ''sched_setattr''), (335, ''sched_getattr''), (336, ''utimes''), (337, ''renameat2''),
    (338, ''seccomp''), (339, ''getrandom''), (340, ''memfd_create''), (341, ''bpf''), (342, ''execveat''),
    (343, ''membarrier''), (344, ''userfaultfd''), (345, ''mlock2''), (346, ''copy_file_range''),
    (347, ''preadv2''), (348, ''pwritev2''), (349, ''statx''), (350, ''io_pgetevents''),
    (351, ''pkey_mprotect''), (352, ''pkey_alloc''), (353, ''pkey_free''), (354, ''rseq''),
    (355, ''kexec_file_load''), (356, ''cacheflush''), (403, ''clock_gettime64''),
    (404, ''clock_settime64''), (405, ''clock_adjtime64''), (406, ''clock_getres_time64''),
    (407, ''clock_nanosleep_time64''), (408, ''timer_gettime64''), (409, ''timer_settime64''),
    (410, ''timerfd_gettime64''), (411, ''timerfd_settime64''), (412, ''utimensat_time64''),
    (413, ''pselect6_time64''), (414, ''ppoll_time64''), (416, ''io_pgetevents_time64''),
    (417, ''recvmmsg_time64''), (418, ''mq_timedsend_time64''), (419, ''mq_timedreceive_time64''),
    (420, ''semtimedop_time64''), (421, ''rt_sigtimedwait_time64''), (422, ''futex_time64''),
    (423, ''sched_rr_get_interval_time64''), (424, ''pidfd_send_signal''), (425, ''io_uring_setup''),
    (426, ''io_uring_enter''), (427, ''io_uring_register''), (428, ''open_tree''), (429, ''move_mount''),
    (430, ''fsopen''), (431, ''fsconfig''), (432, ''fsmount''), (433, ''fspick''), (434, ''pidfd_open''),
    (435, ''clone3''), (436, ''close_range''), (437, ''openat2''), (438, ''pidfd_getfd''),
    (439, ''faccessat2''), (440, ''process_madvise''), (441, ''epoll_pwait2''), (442, ''mount_setattr''),
    (443, ''quotactl_fd''), (444, ''landlock_create_ruleset''), (445, ''landlock_add_rule''),
    (446, ''landlock_restrict_self''), (448, ''process_mrelease''), (449, ''futex_waitv''),
    (450, ''set_mempolicy_home_node''), (451, ''cachestat''), (452, ''fchmodat2''),
    (453, ''map_shadow_stack''), (454, ''futex_wake''), (455, ''futex_wait''), (456, ''futex_requeue''),
    (457, ''statmount''), (458, ''listmount''), (459, ''lsm_get_self_attr''), (460, ''lsm_set_self_attr''),
    (461, ''lsm_list_modules''), (462, ''mseal'')]"

definition syscall_sorted_names_EM_PARISC_32_1 :: "int list" where
  "syscall_sorted_names_EM_PARISC_32_1 = [
    140, 142, 149, 35, 320, 33, 51, 264, 124, 27, 134, 22, 341, 45, 356, 451, 106, 107, 12, 15, 180, 61,
    324, 405, 257, 406, 256, 403, 258, 407, 255, 404, 120, 435, 6, 436, 31, 346, 8, 129, 41, 63, 312, 224,
    311, 225, 297, 441, 226, 304, 310, 11, 342, 1, 222, 287, 439, 236, 305, 322, 323, 133, 94, 286, 452, 95,
    278, 55, 202, 148, 243, 333, 246, 143, 2, 249, 431, 240, 432, 430, 433, 28, 112, 280, 100, 299, 118, 93,
    200, 210, 456, 422, 455, 449, 454, 279, 261, 290, 296, 110, 141, 201, 50, 49, 47, 80, 105, 53, 132, 65,
    20, 64, 96, 339, 171, 165, 76, 77, 147, 44, 182, 206, 78, 24, 241, 128, 270, 269, 314, 271, 219, 216,
    217]"

definition syscall_sorted_names_EM_PARISC_32_2 :: "int list" where
  "syscall_sorted_names_EM_PARISC_32_2 = [
    350, 416, 215, 218, 426, 427, 425, 54, 268, 267, 332, 355, 300, 266, 37, 445, 444, 446, 16, 242, 9, 283,
    32, 458, 244, 245, 223, 248, 19, 239, 459, 461, 460, 84, 198, 119, 453, 260, 343, 340, 272, 72, 39, 276,
    14, 277, 150, 345, 152, 90, 89, 21, 442, 429, 295, 125, 234, 233, 229, 232, 419, 231, 418, 230, 163,
    462, 191, 190, 189, 188, 144, 151, 153, 91, 325, 162, 34, 5, 326, 428, 275, 437, 29, 318, 136, 438, 434,
    424, 42, 313, 67, 352, 353, 351, 168, 274, 414, 172, 108, 315, 347, 321, 440, 448, 330, 331, 273, 413,
    26, 109, 316, 348, 131, 443, 3, 207, 85, 285, 145, 88, 98, 123, 319, 417, 184, 227, 247, 38, 282, 337,
    265, 0, 40]"

definition syscall_sorted_names_EM_PARISC_32_3 :: "int list" where
  "syscall_sorted_names_EM_PARISC_32_3 = [
    354, 174, 176, 175, 178, 173, 179, 177, 421, 317, 159, 160, 212, 335, 155, 157, 161, 423, 211, 334, 154,
    156, 158, 338, 187, 186, 185, 228, 420, 58, 122, 209, 329, 183, 82, 262, 450, 289, 237, 121, 139, 138,
    46, 81, 74, 104, 328, 57, 97, 71, 170, 164, 70, 75, 66, 181, 79, 23, 238, 68, 192, 195, 193, 194, 117,
    166, 48, 302, 309, 73, 126, 17, 56, 291, 69, 18, 101, 99, 298, 457, 349, 25, 115, 87, 83, 284, 36, 292,
    327, 135, 116, 103, 293, 259, 13, 250, 254, 253, 252, 408, 251, 409, 306, 308, 410, 307, 411, 43, 208,
    92, 199, 60, 52, 59, 10, 281, 288, 86, 344, 62, 30, 301, 412, 336, 113, 111, 294, 114, 235, 7, 4, 146]"

lemma indexed_PARISC_32:
  "indexed (syscall_num_to_name_EM_PARISC_32_1 @ syscall_num_to_name_EM_PARISC_32_2 @ syscall_num_to_name_EM_PARISC_32_3)
    (syscall_sorted_names_EM_PARISC_32_1 @ syscall_sorted_names_EM_PARISC_32_2 @ syscall_sorted_names_EM_PARISC_32_3)"
  by code_simp

section \<open>PARISC (64 bits)\<close>

definition syscall_num_to_name_EM_PARISC_64_1 :: "(int \<times> string) list" where
  "syscall_num_to_name_EM_PARISC_64_1 = [
    (0, ''restart_syscall''), (1, ''exit''), (2, ''fork''), (3, ''read''), (4, ''write''), (5, ''open''),
    (6, ''close''), (7, ''waitpid''), (8, ''creat''), (9, ''link''), (10, ''unlink''), (11, ''execve''),
    (12, ''chdir''), (13, ''time''), (14, ''mknod''), (15, ''chmod''), (16, ''lchown''), (17, ''socket''),
    (18, ''stat''), (19, ''lseek''), (20, ''getpid''), (21, ''mount''), (22, ''bind''), (23, ''setuid''),
    (24, ''getuid''), (25, ''stime''), (26, ''ptrace''), (27, ''alarm''), (28, ''fstat''), (29, ''pause''),
    (30, ''utime''), (31, ''connect''), (32, ''listen''), (33, ''access''), (34, ''nice''),
    (35, ''accept''), (36, ''sync''), (37, ''kill''), (38, ''rename''), (39, ''mkdir''), (40, ''rmdir''),
    (41, ''dup''), (42, ''pipe''), (43, ''times''), (44, ''getsockname''), (45, ''brk''), (46, ''setgid''),
    (47, ''getgid''), (48, ''signal''), (49, ''geteuid''), (50, ''getegid''), (51, ''acct''),
    (52, ''umount2''), (53, ''getpeername''), (54, ''ioctl''), (55, ''fcntl''), (56, ''socketpair''),
    (57, ''setpgid''), (58, ''send''), (59, ''uname''), (60, ''umask''), (61, ''chroot''), (62, ''ustat''),
    (63, ''dup2''), (64, ''getppid''), (65, ''getpgrp''), (66, ''setsid''), (67, ''pivot_root''),
    (68, ''sgetmask''), (69, ''ssetmask''), (70, ''setreuid''), (71, ''setregid''), (72, ''mincore''),
    (73, ''sigpending''), (74, ''sethostname''), (75, ''setrlimit''), (76, ''getrlimit''),
    (77, ''getrusage''), (78, ''gettimeofday''), (79, ''settimeofday''), (80, ''getgroups''),
    (81, ''setgroups''), (82, ''sendto''), (83, ''symlink''), (84, ''lstat''), (85, ''readlink''),
    (86, ''uselib''), (87, ''swapon''), (88, ''reboot''), (89, ''mmap2''), (90, ''mmap''), (91, ''munmap''),
    (92, ''truncate''), (93, ''ftruncate''), (94, ''fchmod''), (95, ''fchown''), (96, ''getpriority''),
    (97, ''setpriority''), (98, ''recv''), (99, ''statfs''), (100, ''fstatfs''), (101, ''stat64''),
    (103, ''syslog''), (104, ''setitimer''), (105, ''getitimer''), (106, ''capget''), (107, ''capset''),
    (108, ''pread64''), (109, ''pwrite64''), (110, ''getcwd''), (111, ''vhangup''), (112, ''fstat64''),
    (113, ''vfork''), (114, ''wait4''), (115, ''swapoff''), (116, ''sysinfo''), (117, ''shutdown''),
    (118, ''fsync''), (119, ''madvise''), (120, ''clone''), (121, ''setdomainname''), (122, ''sendfile''),
    (123, ''recvfrom''), (124, ''adjtimex''), (125, ''mprotect''), (126, ''sigprocmask'')]"

definition syscall_num_to_name_EM_PARISC_64_2 :: "(int \<times> string) list" where
  "syscall_num_to_name_EM_PARISC_64_2 = [
    (128, ''init_module''), (129, ''delete_module''), (131, ''quotactl''), (132, ''getpgid''),
    (133, ''fchdir''), (134, ''bdflush''), (135, ''sysfs''), (136, ''personality''), (138, ''setfsuid''),
    (139, ''setfsgid''), (140, ''_llseek''), (141, ''getdents''), (142, ''_newselect''), (143, ''flock''),
    (144, ''msync''), (145, ''readv''), (146, ''writev''), (147, ''getsid''), (148, ''fdatasync''),
    (149, ''_sysctl''), (150, ''mlock''), (151, ''munlock''), (152, ''mlockall''), (153, ''munlockall''),
    (154, ''sched_setparam''), (155, ''sched_getparam''), (156, ''sched_setscheduler''),
    (157, ''sched_getscheduler''), (158, ''sched_yield''), (159, ''sched_get_priority_max''),
    (160, ''sched_get_priority_min''), (161, ''sched_rr_get_interval''), (162, ''nanosleep''),
    (163, ''mremap''), (164, ''setresuid''), (165, ''getresuid''), (166, ''sigaltstack''), (168, ''poll''),
    (170, ''setresgid''), (171, ''getresgid''), (172, ''prctl''), (173, ''rt_sigreturn''),
    (174, ''rt_sigaction''), (175, ''rt_sigprocmask''), (176, ''rt_sigpending''),
    (177, ''rt_sigtimedwait''), (178, ''rt_sigqueueinfo''), (179, ''rt_sigsuspend''), (180, ''chown''),
    (181, ''setsockopt''), (182, ''getsockopt''), (183, ''sendmsg''), (184, ''recvmsg''), (185, ''semop''),
    (186, ''semget''), (187, ''semctl''), (188, ''msgsnd''), (189, ''msgrcv''), (190, ''msgget''),
    (191, ''msgctl''), (192, ''shmat''), (193, ''shmdt''), (194, ''shmget''), (195, ''shmctl''),
    (198, ''lstat64''), (199, ''truncate64''), (200, ''ftruncate64''), (201, ''getdents64''),
    (202, ''fcntl64''), (206, ''gettid''), (207, ''readahead''), (208, ''tkill''), (209, ''sendfile64''),
    (210, ''futex''), (211, ''sched_setaffinity''), (212, ''sched_getaffinity''), (215, ''io_setup''),
    (216, ''io_destroy''), (217, ''io_getevents''), (218, ''io_submit''), (219, ''io_cancel''),
    (222, ''exit_group''), (223, ''lookup_dcookie''), (224, ''epoll_create''), (225, ''epoll_ctl''),
    (226, ''epoll_wait''), (227, ''remap_file_pages''), (228, ''semtimedop''), (229, ''mq_open''),
    (230, ''mq_unlink''), (231, ''mq_timedsend''), (232, ''mq_timedreceive''), (233, ''mq_notify''),
    (234, ''mq_getsetattr''), (235, ''waitid''), (236, ''fadvise64_64''), (237, ''set_tid_address''),
    (238, ''setxattr''), (239, ''lsetxattr''), (240, ''fsetxattr''), (241, ''getxattr''),
    (242, ''lgetxattr''), (243, ''fgetxattr''), (244, ''listxattr''), (245, ''llistxattr''),
    (246, ''flistxattr''), (247, ''removexattr''), (248, ''lremovexattr''), (249, ''fremovexattr''),
    (250, ''timer_create''), (251, ''timer_settime''), (252, ''timer_gettime''),
    (253, ''timer_getoverrun''), (254, ''timer_delete''), (255, ''clock_settime''),
    (256, ''clock_gettime''), (257, ''clock_getres''), (258, ''clock_nanosleep''), (259, ''tgkill''),
    (260, ''mbind''), (261, ''get_mempolicy''), (262, ''set_mempolicy''), (264, ''add_key''),
    (265, ''request_key''), (266, ''keyctl''), (267, ''ioprio_set'')]"

definition syscall_num_to_name_EM_PARISC_64_3 :: "(int \<times> string) list" where
  "syscall_num_to_name_EM_PARISC_64_3 = [
    (268, ''ioprio_get''), (269, ''inotify_init''), (270, ''inotify_add_watch''),
    (271, ''inotify_rm_watch''), (272, ''migrate_pages''), (273, ''pselect6''), (274, ''ppoll''),
    (275, ''openat''), (276, ''mkdirat''), (277, ''mknodat''), (278, ''fchownat''), (279, ''futimesat''),
    (280, ''fstatat64''), (281, ''unlinkat''), (282, ''renameat''), (283, ''linkat''), (284, ''symlinkat''),
    (285, ''readlinkat''), (286, ''fchmodat''), (287, ''faccessat''), (288, ''unshare''),
    (289, ''set_robust_list''), (290, ''get_robust_list''), (291, ''splice''), (292, ''sync_file_range''),
    (293, ''tee''), (294, ''vmsplice''), (295, ''move_pages''), (296, ''getcpu''), (297, ''epoll_pwait''),
    (298, ''statfs64''), (299, ''fstatfs64''), (300, ''kexec_load''), (301, ''utimensat''),
    (302, ''signalfd''), (304, ''eventfd''), (305, ''fallocate''), (306, ''timerfd_create''),
    (307, ''timerfd_settime''), (308, ''timerfd_gettime''), (309, ''signalfd4''), (310, ''eventfd2''),
    (311, ''epoll_create1''), (312, ''dup3''), (313, ''pipe2''), (314, ''inotify_init1''),
    (315, ''preadv''), (316, ''pwritev''), (317, ''rt_tgsigqueueinfo''), (318, ''perf_event_open''),
    (319, ''recvmmsg''), (320, ''accept4''), (321, ''prlimit64''), (322, ''fanotify_init''),
    (323, ''fanotify_mark''), (324, ''clock_adjtime''), (325, ''name_to_handle_at''),
    (326, ''open_by_handle_at''), (327, ''syncfs''), (328, ''setns''), (329, ''sendmmsg''),
    (330, ''process_vm_readv''), (331, ''process_vm_writev''), (332, ''kcmp''), (333, ''finit_module''),
    (334, ''sched_setattr''), (335, ''sched_getattr''), (336, ''utimes''), (337, ''renameat2''),
    (338, ''seccomp''), (339, ''getrandom''), (340, ''memfd_create''), (341, ''bpf''), (342, ''execveat''),
    (343, ''membarrier''), (344, ''userfaultfd''), (345, ''mlock2''), (346, ''copy_file_range''),
    (347, ''preadv2''), (348, ''pwritev2''), (349, ''statx''), (350, ''io_pgetevents''),
    (351, ''pkey_mprotect''), (352, ''pkey_alloc''), (353, ''pkey_free''), (354, ''rseq''),
    (355, ''kexec_file_load''), (356, ''cacheflush''), (424, ''pidfd_send_signal''),
    (425, ''io_uring_setup''), (426, ''io_uring_enter''), (427, ''io_uring_register''),
    (428, ''open_tree''), (429, ''move_mount''), (430, ''fsopen''), (431, ''fsconfig''), (432, ''fsmount''),
    (433, ''fspick''), (434, ''pidfd_open''), (435, ''clone3''), (436, ''close_range''), (437, ''openat2''),
    (438, ''pidfd_getfd''), (439, ''faccessat2''), (440, ''process_madvise''), (441, ''epoll_pwait2''),
    (442, ''mount_setattr''), (443, ''quotactl_fd''), (444, ''landlock_create_ruleset''),
    (445, ''landlock_add_rule''), (446, ''landlock_restrict_self''), (448, ''process_mrelease''),
    (449, ''futex_waitv''), (450, ''set_mempolicy_home_node''), (451, ''cachestat''), (452, ''fchmodat2''),
    (453, ''map_shadow_stack''), (454, ''futex_wake''), (455, ''futex_wait''), (456, ''futex_requeue''),
    (457, ''statmount''), (458, ''listmount''), (459, ''lsm_get_self_attr''), (460, ''lsm_set_self_attr''),
    (461, ''lsm_list_modules''), (462, ''mseal'')]"

definition syscall_sorted_names_EM_PARISC_64_1 :: "int list" where
  "syscall_sorted_names_EM_PARISC_64_1 = [
    140, 142, 149, 35, 320, 33, 51, 264, 124, 27, 134, 22, 341, 45, 356, 451, 106, 107, 12, 15, 180, 61,
    324, 257, 256, 258, 255, 120, 435, 6, 436, 31, 346, 8, 129, 41, 63, 312, 224, 311, 225, 297, 441, 226,
    304, 310, 11, 342, 1, 222, 287, 439, 236, 305, 322, 323, 133, 94, 286, 452, 95, 278, 55, 202, 148, 243,
    333, 246, 143, 2, 249, 431, 240, 432, 430, 433, 28, 112, 280, 100, 299, 118, 93, 200, 210, 456, 455,
    449, 454, 279, 261, 290, 296, 110, 141, 201, 50, 49, 47, 80, 105, 53, 132, 65, 20, 64, 96, 339, 171,
    165, 76, 77, 147, 44, 182, 206, 78, 24, 241, 128, 270, 269, 314, 271, 219, 216]"

definition syscall_sorted_names_EM_PARISC_64_2 :: "int list" where
  "syscall_sorted_names_EM_PARISC_64_2 = [
    217, 350, 215, 218, 426, 427, 425, 54, 268, 267, 332, 355, 300, 266, 37, 445, 444, 446, 16, 242, 9, 283,
    32, 458, 244, 245, 223, 248, 19, 239, 459, 461, 460, 84, 198, 119, 453, 260, 343, 340, 272, 72, 39, 276,
    14, 277, 150, 345, 152, 90, 89, 21, 442, 429, 295, 125, 234, 233, 229, 232, 231, 230, 163, 462, 191,
    190, 189, 188, 144, 151, 153, 91, 325, 162, 34, 5, 326, 428, 275, 437, 29, 318, 136, 438, 434, 424, 42,
    313, 67, 352, 353, 351, 168, 274, 172, 108, 315, 347, 321, 440, 448, 330, 331, 273, 26, 109, 316, 348,
    131, 443, 3, 207, 85, 285, 145, 88, 98, 123, 319, 184, 227, 247, 38, 282, 337, 265]"

definition syscall_sorted_names_EM_PARISC_64_3 :: "int list" where
  "syscall_sorted_names_EM_PARISC_64_3 = [
    0, 40, 354, 174, 176, 175, 178, 173, 179, 177, 317, 159, 160, 212, 335, 155, 157, 161, 211, 334, 154,
    156, 158, 338, 187, 186, 185, 228, 58, 122, 209, 329, 183, 82, 262, 450, 289, 237, 121, 139, 138, 46,
    81, 74, 104, 328, 57, 97, 71, 170, 164, 70, 75, 66, 181, 79, 23, 238, 68, 192, 195, 193, 194, 117, 166,
    48, 302, 309, 73, 126, 17, 56, 291, 69, 18, 101, 99, 298, 457, 349, 25, 115, 87, 83, 284, 36, 292, 327,
    135, 116, 103, 293, 259, 13, 250, 254, 253, 252, 251, 306, 308, 307, 43, 208, 92, 199, 60, 52, 59, 10,
    281, 288, 86, 344, 62, 30, 301, 336, 113, 111, 294, 114, 235, 7, 4, 146]"

lemma indexed_PARISC_64:
  "indexed (syscall_num_to_name_EM_PARISC_64_1 @ syscall_num_to_name_EM_PARISC_64_2 @ syscall_num_to_name_EM_PARISC_64_3)
    (syscall_sorted_names_EM_PARISC_64_1 @ syscall_sorted_names_EM_PARISC_64_2 @ syscall_sorted_names_EM_PARISC_64_3)"
  by code_simp

section \<open>PPC\<close>

definition syscall_num_to_name_EM_PPC_1 :: "(int \<times> string) list" where
  "syscall_num_to_name_EM_PPC_1 = [
    (0, ''restart_syscall''), (1, ''exit''), (2, ''fork''), (3, ''read''), (4, ''write''), (5, ''open''),
    (6, ''close''), (7, ''waitpid''), (8, ''creat''), (9, ''link''), (10, ''unlink''), (11, ''execve''),
    (12, ''chdir''), (13, ''time''), (14, ''mknod''), (15, ''chmod''), (16, ''lchown''), (17, ''break''),
    (18, ''oldstat''), (19, ''lseek''), (20, ''getpid''), (21, ''mount''), (22, ''umount''),
    (23, ''setuid''), (24, ''getuid''), (25, ''stime''), (26, ''ptrace''), (27, ''alarm''),
    (28, ''oldfstat''), (29, ''pause''), (30, ''utime''), (31, ''stty''), (32, ''gtty''), (33, ''access''),
    (34, ''nice''), (35, ''ftime''), (36, ''sync''), (37, ''kill''), (38, ''rename''), (39, ''mkdir''),
    (40, ''rmdir''), (41, ''dup''), (42, ''pipe''), (43, ''times''), (44, ''prof''), (45, ''brk''),
    (46, ''setgid''), (47, ''getgid''), (48, ''signal''), (49, ''geteuid''), (50, ''getegid''),
    (51, ''acct''), (52, ''umount2''), (53, ''lock''), (54, ''ioctl''), (55, ''fcntl''), (56, ''mpx''),
    (57, ''setpgid''), (58, ''ulimit''), (59, ''oldolduname''), (60, ''umask''), (61, ''chroot''),
    (62, ''ustat''), (63, ''dup2''), (64, ''getppid''), (65, ''getpgrp''), (66, ''setsid''),
    (67, ''sigaction''), (68, ''sgetmask''), (69, ''ssetmask''), (70, ''setreuid''), (71, ''setregid''),
    (72, ''sigsuspend''), (73, ''sigpending''), (74, ''sethostname''), (75, ''setrlimit''),
    (76, ''getrlimit''), (77, ''getrusage''), (78, ''gettimeofday''), (79, ''settimeofday''),
    (80, ''getgroups''), (81, ''setgroups''), (82, ''select''), (83, ''symlink''), (84, ''oldlstat''),
    (85, ''readlink''), (86, ''uselib''), (87, ''swapon''), (88, ''reboot''), (89, ''readdir''),
    (90, ''mmap''), (91, ''munmap''), (92, ''truncate''), (93, ''ftruncate''), (94, ''fchmod''),
    (95, ''fchown''), (96, ''getpriority''), (97, ''setpriority''), (98, ''profil''), (99, ''statfs''),
    (100, ''fstatfs''), (101, ''ioperm''), (102, ''socketcall''), (103, ''syslog''), (104, ''setitimer''),
    (105, ''getitimer''), (106, ''stat''), (107, ''lstat''), (108, ''fstat''), (109, ''olduname''),
    (110, ''iopl''), (111, ''vhangup''), (112, ''idle'')]"

definition syscall_num_to_name_EM_PPC_2 :: "(int \<times> string) list" where
  "syscall_num_to_name_EM_PPC_2 = [
    (113, ''vm86''), (114, ''wait4''), (115, ''swapoff''), (116, ''sysinfo''), (117, ''ipc''),
    (118, ''fsync''), (119, ''sigreturn''), (120, ''clone''), (121, ''setdomainname''), (122, ''uname''),
    (123, ''modify_ldt''), (124, ''adjtimex''), (125, ''mprotect''), (126, ''sigprocmask''),
    (127, ''create_module''), (128, ''init_module''), (129, ''delete_module''), (130, ''get_kernel_syms''),
    (131, ''quotactl''), (132, ''getpgid''), (133, ''fchdir''), (134, ''bdflush''), (135, ''sysfs''),
    (136, ''personality''), (137, ''afs_syscall''), (138, ''setfsuid''), (139, ''setfsgid''),
    (140, ''_llseek''), (141, ''getdents''), (142, ''_newselect''), (143, ''flock''), (144, ''msync''),
    (145, ''readv''), (146, ''writev''), (147, ''getsid''), (148, ''fdatasync''), (149, ''_sysctl''),
    (150, ''mlock''), (151, ''munlock''), (152, ''mlockall''), (153, ''munlockall''),
    (154, ''sched_setparam''), (155, ''sched_getparam''), (156, ''sched_setscheduler''),
    (157, ''sched_getscheduler''), (158, ''sched_yield''), (159, ''sched_get_priority_max''),
    (160, ''sched_get_priority_min''), (161, ''sched_rr_get_interval''), (162, ''nanosleep''),
    (163, ''mremap''), (164, ''setresuid''), (165, ''getresuid''), (166, ''query_module''), (167, ''poll''),
    (168, ''nfsservctl''), (169, ''setresgid''), (170, ''getresgid''), (171, ''prctl''),
    (172, ''rt_sigreturn''), (173, ''rt_sigaction''), (174, ''rt_sigprocmask''), (175, ''rt_sigpending''),
    (176, ''rt_sigtimedwait''), (177, ''rt_sigqueueinfo''), (178, ''rt_sigsuspend''), (179, ''pread64''),
    (180, ''pwrite64''), (181, ''chown''), (182, ''getcwd''), (183, ''capget''), (184, ''capset''),
    (185, ''sigaltstack''), (186, ''sendfile''), (187, ''getpmsg''), (188, ''putpmsg''), (189, ''vfork''),
    (190, ''ugetrlimit''), (191, ''readahead''), (192, ''mmap2''), (193, ''truncate64''),
    (194, ''ftruncate64''), (195, ''stat64''), (196, ''lstat64''), (197, ''fstat64''),
    (198, ''pciconfig_read''), (199, ''pciconfig_write''), (200, ''pciconfig_iobase''),
    (201, ''multiplexer''), (202, ''getdents64''), (203, ''pivot_root''), (204, ''fcntl64''),
    (205, ''madvise''), (206, ''mincore''), (207, ''gettid''), (208, ''tkill''), (209, ''setxattr''),
    (210, ''lsetxattr''), (211, ''fsetxattr''), (212, ''getxattr''), (213, ''lgetxattr''),
    (214, ''fgetxattr''), (215, ''listxattr''), (216, ''llistxattr''), (217, ''flistxattr''),
    (218, ''removexattr''), (219, ''lremovexattr''), (220, ''fremovexattr''), (221, ''futex''),
    (222, ''sched_setaffinity''), (223, ''sched_getaffinity''), (225, ''tuxcall''), (226, ''sendfile64'')]"

definition syscall_num_to_name_EM_PPC_3 :: "(int \<times> string) list" where
  "syscall_num_to_name_EM_PPC_3 = [
    (227, ''io_setup''), (228, ''io_destroy''), (229, ''io_getevents''), (230, ''io_submit''),
    (231, ''io_cancel''), (232, ''set_tid_address''), (233, ''fadvise64''), (234, ''exit_group''),
    (235, ''lookup_dcookie''), (236, ''epoll_create''), (237, ''epoll_ctl''), (238, ''epoll_wait''),
    (239, ''remap_file_pages''), (240, ''timer_create''), (241, ''timer_settime''),
    (242, ''timer_gettime''), (243, ''timer_getoverrun''), (244, ''timer_delete''),
    (245, ''clock_settime''), (246, ''clock_gettime''), (247, ''clock_getres''), (248, ''clock_nanosleep''),
    (249, ''swapcontext''), (250, ''tgkill''), (251, ''utimes''), (252, ''statfs64''), (253, ''fstatfs64''),
    (254, ''fadvise64_64''), (255, ''rtas''), (256, ''sys_debug_setcontext''), (258, ''migrate_pages''),
    (259, ''mbind''), (260, ''get_mempolicy''), (261, ''set_mempolicy''), (262, ''mq_open''),
    (263, ''mq_unlink''), (264, ''mq_timedsend''), (265, ''mq_timedreceive''), (266, ''mq_notify''),
    (267, ''mq_getsetattr''), (268, ''kexec_load''), (269, ''add_key''), (270, ''request_key''),
    (271, ''keyctl''), (272, ''waitid''), (273, ''ioprio_set''), (274, ''ioprio_get''),
    (275, ''inotify_init''), (276, ''inotify_add_watch''), (277, ''inotify_rm_watch''), (278, ''spu_run''),
    (279, ''spu_create''), (280, ''pselect6''), (281, ''ppoll''), (282, ''unshare''), (283, ''splice''),
    (284, ''tee''), (285, ''vmsplice''), (286, ''openat''), (287, ''mkdirat''), (288, ''mknodat''),
    (289, ''fchownat''), (290, ''futimesat''), (291, ''fstatat64''), (292, ''unlinkat''),
    (293, ''renameat''), (294, ''linkat''), (295, ''symlinkat''), (296, ''readlinkat''),
    (297, ''fchmodat''), (298, ''faccessat''), (299, ''get_robust_list''), (300, ''set_robust_list''),
    (301, ''move_pages''), (302, ''getcpu''), (303, ''epoll_pwait''), (304, ''utimensat''),
    (305, ''signalfd''), (306, ''timerfd_create''), (307, ''eventfd''), (308, ''sync_file_range2''),
    (309, ''fallocate''), (310, ''subpage_prot''), (311, ''timerfd_settime''), (312, ''timerfd_gettime''),
    (313, ''signalfd4''), (314, ''eventfd2''), (315, ''epoll_create1''), (316, ''dup3''), (317, ''pipe2''),
    (318, ''inotify_init1''), (319, ''perf_event_open''), (320, ''preadv''), (321, ''pwritev''),
    (322, ''rt_tgsigqueueinfo''), (323, ''fanotify_init''), (324, ''fanotify_mark''), (325, ''prlimit64''),
    (326, ''socket''), (327, ''bind''), (328, ''connect''), (329, ''listen''), (330, ''accept''),
    (331, ''getsockname''), (332, ''getpeername''), (333, ''socketpair''), (334, ''send''),
    (335, ''sendto''), (336, ''recv''), (337, ''recvfrom''), (338, ''shutdown''), (339, ''setsockopt''),
    (340, ''getsockopt'')]"

definition syscall_num_to_name_EM_PPC_4 :: "(int \<times> string) list" where
  "syscall_num_to_name_EM_PPC_4 = [
    (341, ''sendmsg''), (342, ''recvmsg''), (343, ''recvmmsg''), (344, ''accept4''),
    (345, ''name_to_handle_at''), (346, ''open_by_handle_at''), (347, ''clock_adjtime''), (348, ''syncfs''),
    (349, ''sendmmsg''), (350, ''setns''), (351, ''process_vm_readv''), (352, ''process_vm_writev''),
    (353, ''finit_module''), (354, ''kcmp''), (355, ''sched_setattr''), (356, ''sched_getattr''),
    (357, ''renameat2''), (358, ''seccomp''), (359, ''getrandom''), (360, ''memfd_create''), (361, ''bpf''),
    (362, ''execveat''), (363, ''switch_endian''), (364, ''userfaultfd''), (365, ''membarrier''),
    (378, ''mlock2''), (379, ''copy_file_range''), (380, ''preadv2''), (381, ''pwritev2''),
    (382, ''kexec_file_load''), (383, ''statx''), (384, ''pkey_alloc''), (385, ''pkey_free''),
    (386, ''pkey_mprotect''), (387, ''rseq''), (388, ''io_pgetevents''), (393, ''semget''),
    (394, ''semctl''), (395, ''shmget''), (396, ''shmctl''), (397, ''shmat''), (398, ''shmdt''),
    (399, ''msgget''), (400, ''msgsnd''), (401, ''msgrcv''), (402, ''msgctl''), (403, ''clock_gettime64''),
    (404, ''clock_settime64''), (405, ''clock_adjtime64''), (406, ''clock_getres_time64''),
    (407, ''clock_nanosleep_time64''), (408, ''timer_gettime64''), (409, ''timer_settime64''),
    (410, ''timerfd_gettime64''), (411, ''timerfd_settime64''), (412, ''utimensat_time64''),
    (413, ''pselect6_time64''), (414, ''ppoll_time64''), (416, ''io_pgetevents_time64''),
    (417, ''recvmmsg_time64''), (418, ''mq_timedsend_time64''), (419, ''mq_timedreceive_time64''),
    (420, ''semtimedop_time64''), (421, ''rt_sigtimedwait_time64''), (422, ''futex_time64''),
    (423, ''sched_rr_get_interval_time64''), (424, ''pidfd_send_signal''), (425, ''io_uring_setup''),
    (426, ''io_uring_enter''), (427, ''io_uring_register''), (428, ''open_tree''), (429, ''move_mount''),
    (430, ''fsopen''), (431, ''fsconfig''), (432, ''fsmount''), (433, ''fspick''), (434, ''pidfd_open''),
    (435, ''clone3''), (436, ''close_range''), (437, ''openat2''), (438, ''pidfd_getfd''),
    (439, ''faccessat2''), (440, ''process_madvise''), (441, ''epoll_pwait2''), (442, ''mount_setattr''),
    (443, ''quotactl_fd''), (444, ''landlock_create_ruleset''), (445, ''landlock_add_rule''),
    (446, ''landlock_restrict_self''), (448, ''process_mrelease''), (449, ''futex_waitv''),
    (450, ''set_mempolicy_home_node''), (451, ''cachestat''), (452, ''fchmodat2''),
    (453, ''map_shadow_stack''), (454, ''futex_wake''), (455, ''futex_wait''), (456, ''futex_requeue''),
    (457, ''statmount''), (458, ''listmount''), (459, ''lsm_get_self_attr''), (460, ''lsm_set_self_attr''),
    (461, ''lsm_list_modules''), (462, ''mseal''), (463, ''setxattrat''), (464, ''getxattrat''),
    (465, ''listxattrat''), (466, ''removexattrat''), (467, ''open_tree_attr''), (468, ''file_getattr''),
    (469, ''file_setattr''), (470, ''listns''), (471, ''rseq_slice_yield'')]"

definition syscall_sorted_names_EM_PPC_1 :: "int list" where
  "syscall_sorted_names_EM_PPC_1 = [
    140, 142, 149, 330, 344, 33, 51, 269, 124, 137, 27, 134, 327, 361, 17, 45, 451, 183, 184, 12, 15, 181,
    61, 347, 405, 247, 406, 246, 403, 248, 407, 245, 404, 120, 435, 6, 436, 328, 379, 8, 127, 129, 41, 63,
    316, 236, 315, 237, 303, 441, 238, 307, 314, 11, 362, 1, 234, 298, 439, 233, 254, 309, 323, 324, 133,
    94, 297, 452, 95, 289, 55, 204, 148, 214, 468, 469, 353, 217, 143, 2, 220, 431, 211, 432, 430, 433, 108,
    197, 291, 100, 253, 118, 35, 93, 194, 221, 456, 422, 455, 449, 454, 290, 130, 260, 299, 302, 182, 141,
    202, 50, 49, 47, 80]"

definition syscall_sorted_names_EM_PPC_2 :: "int list" where
  "syscall_sorted_names_EM_PPC_2 = [
    105, 332, 132, 65, 20, 187, 64, 96, 359, 170, 165, 76, 77, 147, 331, 340, 207, 78, 24, 212, 464, 32,
    112, 128, 276, 275, 318, 277, 231, 228, 229, 388, 416, 227, 230, 426, 427, 425, 54, 101, 110, 274, 273,
    117, 354, 382, 268, 271, 37, 445, 444, 446, 16, 213, 9, 294, 329, 458, 470, 215, 465, 216, 53, 235, 219,
    19, 210, 459, 461, 460, 107, 196, 205, 453, 259, 365, 360, 258, 206, 39, 287, 14, 288, 150, 378, 152,
    90, 192, 123, 21, 442, 429, 301, 125, 56, 267, 266, 262, 265, 419, 264, 418, 263, 163, 462, 402, 399,
    401, 400, 144, 201, 151, 153]"

definition syscall_sorted_names_EM_PPC_3 :: "int list" where
  "syscall_sorted_names_EM_PPC_3 = [
    91, 345, 162, 168, 34, 28, 84, 59, 18, 109, 5, 346, 428, 467, 286, 437, 29, 200, 198, 199, 319, 136,
    438, 434, 424, 42, 317, 203, 384, 385, 386, 167, 281, 414, 171, 179, 320, 380, 325, 440, 448, 351, 352,
    44, 98, 280, 413, 26, 188, 180, 321, 381, 166, 131, 443, 3, 191, 89, 85, 296, 145, 88, 336, 337, 343,
    417, 342, 239, 218, 466, 38, 293, 357, 270, 0, 40, 387, 471, 173, 175, 174, 177, 172, 178, 176, 421,
    322, 255, 159, 160, 223, 356, 155, 157, 161, 423, 222, 355, 154, 156, 158, 358, 82, 394, 393, 420, 334,
    186, 226, 349, 341, 335, 261]"

definition syscall_sorted_names_EM_PPC_4 :: "int list" where
  "syscall_sorted_names_EM_PPC_4 = [
    450, 300, 232, 121, 139, 138, 46, 81, 74, 104, 350, 57, 97, 71, 169, 164, 70, 75, 66, 339, 79, 23, 209,
    463, 68, 397, 396, 398, 395, 338, 67, 185, 48, 305, 313, 73, 126, 119, 72, 326, 102, 333, 283, 279, 278,
    69, 106, 195, 99, 252, 457, 383, 25, 31, 310, 249, 115, 87, 363, 83, 295, 36, 308, 348, 256, 135, 116,
    103, 284, 250, 13, 240, 244, 243, 242, 408, 241, 409, 306, 312, 410, 311, 411, 43, 208, 92, 193, 225,
    190, 58, 60, 22, 52, 122, 10, 292, 282, 86, 364, 62, 30, 304, 412, 251, 189, 111, 113, 285, 114, 272, 7,
    4, 146]"

lemma indexed_PPC:
  "indexed (syscall_num_to_name_EM_PPC_1 @ syscall_num_to_name_EM_PPC_2 @ syscall_num_to_name_EM_PPC_3 @ syscall_num_to_name_EM_PPC_4)
    (syscall_sorted_names_EM_PPC_1 @ syscall_sorted_names_EM_PPC_2 @ syscall_sorted_names_EM_PPC_3 @ syscall_sorted_names_EM_PPC_4)"
  by code_simp

section \<open>PPC64\<close>

definition syscall_num_to_name_EM_PPC64_1 :: "(int \<times> string) list" where
  "syscall_num_to_name_EM_PPC64_1 = [
    (0, ''restart_syscall''), (1, ''exit''), (2, ''fork''), (3, ''read''), (4, ''write''), (5, ''open''),
    (6, ''close''), (7, ''waitpid''), (8, ''creat''), (9, ''link''), (10, ''unlink''), (11, ''execve''),
    (12, ''chdir''), (13, ''time''), (14, ''mknod''), (15, ''chmod''), (16, ''lchown''), (17, ''break''),
    (18, ''oldstat''), (19, ''lseek''), (20, ''getpid''), (21, ''mount''), (22, ''umount''),
    (23, ''setuid''), (24, ''getuid''), (25, ''stime''), (26, ''ptrace''), (27, ''alarm''),
    (28, ''oldfstat''), (29, ''pause''), (30, ''utime''), (31, ''stty''), (32, ''gtty''), (33, ''access''),
    (34, ''nice''), (35, ''ftime''), (36, ''sync''), (37, ''kill''), (38, ''rename''), (39, ''mkdir''),
    (40, ''rmdir''), (41, ''dup''), (42, ''pipe''), (43, ''times''), (44, ''prof''), (45, ''brk''),
    (46, ''setgid''), (47, ''getgid''), (48, ''signal''), (49, ''geteuid''), (50, ''getegid''),
    (51, ''acct''), (52, ''umount2''), (53, ''lock''), (54, ''ioctl''), (55, ''fcntl''), (56, ''mpx''),
    (57, ''setpgid''), (58, ''ulimit''), (59, ''oldolduname''), (60, ''umask''), (61, ''chroot''),
    (62, ''ustat''), (63, ''dup2''), (64, ''getppid''), (65, ''getpgrp''), (66, ''setsid''),
    (67, ''sigaction''), (68, ''sgetmask''), (69, ''ssetmask''), (70, ''setreuid''), (71, ''setregid''),
    (72, ''sigsuspend''), (73, ''sigpending''), (74, ''sethostname''), (75, ''setrlimit''),
    (76, ''getrlimit''), (77, ''getrusage''), (78, ''gettimeofday''), (79, ''settimeofday''),
    (80, ''getgroups''), (81, ''setgroups''), (82, ''select''), (83, ''symlink''), (84, ''oldlstat''),
    (85, ''readlink''), (86, ''uselib''), (87, ''swapon''), (88, ''reboot''), (89, ''readdir''),
    (90, ''mmap''), (91, ''munmap''), (92, ''truncate''), (93, ''ftruncate''), (94, ''fchmod''),
    (95, ''fchown''), (96, ''getpriority''), (97, ''setpriority''), (98, ''profil''), (99, ''statfs''),
    (100, ''fstatfs''), (101, ''ioperm''), (102, ''socketcall''), (103, ''syslog''), (104, ''setitimer''),
    (105, ''getitimer''), (106, ''stat''), (107, ''lstat''), (108, ''fstat''), (109, ''olduname''),
    (110, ''iopl''), (111, ''vhangup''), (112, ''idle''), (113, ''vm86''), (114, ''wait4''),
    (115, ''swapoff''), (116, ''sysinfo''), (117, ''ipc''), (118, ''fsync''), (119, ''sigreturn''),
    (120, ''clone''), (121, ''setdomainname''), (122, ''uname''), (123, ''modify_ldt''),
    (124, ''adjtimex''), (125, ''mprotect''), (126, ''sigprocmask''), (127, ''create_module''),
    (128, ''init_module''), (129, ''delete_module''), (130, ''get_kernel_syms''), (131, ''quotactl''),
    (132, ''getpgid''), (133, ''fchdir''), (134, ''bdflush''), (135, ''sysfs''), (136, ''personality''),
    (137, ''afs_syscall''), (138, ''setfsuid''), (139, ''setfsgid''), (140, ''_llseek''),
    (141, ''getdents'')]"

definition syscall_num_to_name_EM_PPC64_2 :: "(int \<times> string) list" where
  "syscall_num_to_name_EM_PPC64_2 = [
    (142, ''_newselect''), (143, ''flock''), (144, ''msync''), (145, ''readv''), (146, ''writev''),
    (147, ''getsid''), (148, ''fdatasync''), (149, ''_sysctl''), (150, ''mlock''), (151, ''munlock''),
    (152, ''mlockall''), (153, ''munlockall''), (154, ''sched_setparam''), (155, ''sched_getparam''),
    (156, ''sched_setscheduler''), (157, ''sched_getscheduler''), (158, ''sched_yield''),
    (159, ''sched_get_priority_max''), (160, ''sched_get_priority_min''), (161, ''sched_rr_get_interval''),
    (162, ''nanosleep''), (163, ''mremap''), (164, ''setresuid''), (165, ''getresuid''),
    (166, ''query_module''), (167, ''poll''), (168, ''nfsservctl''), (169, ''setresgid''),
    (170, ''getresgid''), (171, ''prctl''), (172, ''rt_sigreturn''), (173, ''rt_sigaction''),
    (174, ''rt_sigprocmask''), (175, ''rt_sigpending''), (176, ''rt_sigtimedwait''),
    (177, ''rt_sigqueueinfo''), (178, ''rt_sigsuspend''), (179, ''pread64''), (180, ''pwrite64''),
    (181, ''chown''), (182, ''getcwd''), (183, ''capget''), (184, ''capset''), (185, ''sigaltstack''),
    (186, ''sendfile''), (187, ''getpmsg''), (188, ''putpmsg''), (189, ''vfork''), (190, ''ugetrlimit''),
    (191, ''readahead''), (198, ''pciconfig_read''), (199, ''pciconfig_write''),
    (200, ''pciconfig_iobase''), (201, ''multiplexer''), (202, ''getdents64''), (203, ''pivot_root''),
    (205, ''madvise''), (206, ''mincore''), (207, ''gettid''), (208, ''tkill''), (209, ''setxattr''),
    (210, ''lsetxattr''), (211, ''fsetxattr''), (212, ''getxattr''), (213, ''lgetxattr''),
    (214, ''fgetxattr''), (215, ''listxattr''), (216, ''llistxattr''), (217, ''flistxattr''),
    (218, ''removexattr''), (219, ''lremovexattr''), (220, ''fremovexattr''), (221, ''futex''),
    (222, ''sched_setaffinity''), (223, ''sched_getaffinity''), (225, ''tuxcall''), (227, ''io_setup''),
    (228, ''io_destroy''), (229, ''io_getevents''), (230, ''io_submit''), (231, ''io_cancel''),
    (232, ''set_tid_address''), (233, ''fadvise64''), (234, ''exit_group''), (235, ''lookup_dcookie''),
    (236, ''epoll_create''), (237, ''epoll_ctl''), (238, ''epoll_wait''), (239, ''remap_file_pages''),
    (240, ''timer_create''), (241, ''timer_settime''), (242, ''timer_gettime''),
    (243, ''timer_getoverrun''), (244, ''timer_delete''), (245, ''clock_settime''),
    (246, ''clock_gettime''), (247, ''clock_getres''), (248, ''clock_nanosleep''), (249, ''swapcontext''),
    (250, ''tgkill''), (251, ''utimes''), (252, ''statfs64''), (253, ''fstatfs64''), (255, ''rtas''),
    (256, ''sys_debug_setcontext''), (258, ''migrate_pages''), (259, ''mbind''), (260, ''get_mempolicy''),
    (261, ''set_mempolicy''), (262, ''mq_open''), (263, ''mq_unlink''), (264, ''mq_timedsend''),
    (265, ''mq_timedreceive''), (266, ''mq_notify''), (267, ''mq_getsetattr''), (268, ''kexec_load''),
    (269, ''add_key''), (270, ''request_key''), (271, ''keyctl''), (272, ''waitid''), (273, ''ioprio_set''),
    (274, ''ioprio_get''), (275, ''inotify_init''), (276, ''inotify_add_watch''),
    (277, ''inotify_rm_watch''), (278, ''spu_run''), (279, ''spu_create''), (280, ''pselect6''),
    (281, ''ppoll''), (282, ''unshare''), (283, ''splice''), (284, ''tee''), (285, ''vmsplice''),
    (286, ''openat''), (287, ''mkdirat''), (288, ''mknodat''), (289, ''fchownat''), (290, ''futimesat''),
    (291, ''newfstatat''), (292, ''unlinkat''), (293, ''renameat''), (294, ''linkat'')]"

definition syscall_num_to_name_EM_PPC64_3 :: "(int \<times> string) list" where
  "syscall_num_to_name_EM_PPC64_3 = [
    (295, ''symlinkat''), (296, ''readlinkat''), (297, ''fchmodat''), (298, ''faccessat''),
    (299, ''get_robust_list''), (300, ''set_robust_list''), (301, ''move_pages''), (302, ''getcpu''),
    (303, ''epoll_pwait''), (304, ''utimensat''), (305, ''signalfd''), (306, ''timerfd_create''),
    (307, ''eventfd''), (308, ''sync_file_range2''), (309, ''fallocate''), (310, ''subpage_prot''),
    (311, ''timerfd_settime''), (312, ''timerfd_gettime''), (313, ''signalfd4''), (314, ''eventfd2''),
    (315, ''epoll_create1''), (316, ''dup3''), (317, ''pipe2''), (318, ''inotify_init1''),
    (319, ''perf_event_open''), (320, ''preadv''), (321, ''pwritev''), (322, ''rt_tgsigqueueinfo''),
    (323, ''fanotify_init''), (324, ''fanotify_mark''), (325, ''prlimit64''), (326, ''socket''),
    (327, ''bind''), (328, ''connect''), (329, ''listen''), (330, ''accept''), (331, ''getsockname''),
    (332, ''getpeername''), (333, ''socketpair''), (334, ''send''), (335, ''sendto''), (336, ''recv''),
    (337, ''recvfrom''), (338, ''shutdown''), (339, ''setsockopt''), (340, ''getsockopt''),
    (341, ''sendmsg''), (342, ''recvmsg''), (343, ''recvmmsg''), (344, ''accept4''),
    (345, ''name_to_handle_at''), (346, ''open_by_handle_at''), (347, ''clock_adjtime''), (348, ''syncfs''),
    (349, ''sendmmsg''), (350, ''setns''), (351, ''process_vm_readv''), (352, ''process_vm_writev''),
    (353, ''finit_module''), (354, ''kcmp''), (355, ''sched_setattr''), (356, ''sched_getattr''),
    (357, ''renameat2''), (358, ''seccomp''), (359, ''getrandom''), (360, ''memfd_create''), (361, ''bpf''),
    (362, ''execveat''), (363, ''switch_endian''), (364, ''userfaultfd''), (365, ''membarrier''),
    (378, ''mlock2''), (379, ''copy_file_range''), (380, ''preadv2''), (381, ''pwritev2''),
    (382, ''kexec_file_load''), (383, ''statx''), (384, ''pkey_alloc''), (385, ''pkey_free''),
    (386, ''pkey_mprotect''), (387, ''rseq''), (388, ''io_pgetevents''), (392, ''semtimedop''),
    (393, ''semget''), (394, ''semctl''), (395, ''shmget''), (396, ''shmctl''), (397, ''shmat''),
    (398, ''shmdt''), (399, ''msgget''), (400, ''msgsnd''), (401, ''msgrcv''), (402, ''msgctl''),
    (424, ''pidfd_send_signal''), (425, ''io_uring_setup''), (426, ''io_uring_enter''),
    (427, ''io_uring_register''), (428, ''open_tree''), (429, ''move_mount''), (430, ''fsopen''),
    (431, ''fsconfig''), (432, ''fsmount''), (433, ''fspick''), (434, ''pidfd_open''), (435, ''clone3''),
    (436, ''close_range''), (437, ''openat2''), (438, ''pidfd_getfd''), (439, ''faccessat2''),
    (440, ''process_madvise''), (441, ''epoll_pwait2''), (442, ''mount_setattr''), (443, ''quotactl_fd''),
    (444, ''landlock_create_ruleset''), (445, ''landlock_add_rule''), (446, ''landlock_restrict_self''),
    (448, ''process_mrelease''), (449, ''futex_waitv''), (450, ''set_mempolicy_home_node''),
    (451, ''cachestat''), (452, ''fchmodat2''), (453, ''map_shadow_stack''), (454, ''futex_wake''),
    (455, ''futex_wait''), (456, ''futex_requeue''), (457, ''statmount''), (458, ''listmount''),
    (459, ''lsm_get_self_attr''), (460, ''lsm_set_self_attr''), (461, ''lsm_list_modules''),
    (462, ''mseal''), (463, ''setxattrat''), (464, ''getxattrat''), (465, ''listxattrat''),
    (466, ''removexattrat''), (467, ''open_tree_attr''), (468, ''file_getattr''), (469, ''file_setattr''),
    (470, ''listns''), (471, ''rseq_slice_yield'')]"

definition syscall_sorted_names_EM_PPC64_1 :: "int list" where
  "syscall_sorted_names_EM_PPC64_1 = [
    140, 142, 149, 330, 344, 33, 51, 269, 124, 137, 27, 134, 327, 361, 17, 45, 451, 183, 184, 12, 15, 181,
    61, 347, 247, 246, 248, 245, 120, 435, 6, 436, 328, 379, 8, 127, 129, 41, 63, 316, 236, 315, 237, 303,
    441, 238, 307, 314, 11, 362, 1, 234, 298, 439, 233, 309, 323, 324, 133, 94, 297, 452, 95, 289, 55, 148,
    214, 468, 469, 353, 217, 143, 2, 220, 431, 211, 432, 430, 433, 108, 100, 253, 118, 35, 93, 221, 456,
    455, 449, 454, 290, 130, 260, 299, 302, 182, 141, 202, 50, 49, 47, 80, 105, 332, 132, 65, 20, 187, 64,
    96, 359, 170, 165, 76, 77, 147, 331, 340, 207, 78, 24, 212, 464, 32, 112, 128, 276, 275, 318, 277, 231,
    228, 229, 388, 227, 230, 426, 427, 425, 54, 101, 110]"

definition syscall_sorted_names_EM_PPC64_2 :: "int list" where
  "syscall_sorted_names_EM_PPC64_2 = [
    274, 273, 117, 354, 382, 268, 271, 37, 445, 444, 446, 16, 213, 9, 294, 329, 458, 470, 215, 465, 216, 53,
    235, 219, 19, 210, 459, 461, 460, 107, 205, 453, 259, 365, 360, 258, 206, 39, 287, 14, 288, 150, 378,
    152, 90, 123, 21, 442, 429, 301, 125, 56, 267, 266, 262, 265, 264, 263, 163, 462, 402, 399, 401, 400,
    144, 201, 151, 153, 91, 345, 162, 291, 168, 34, 28, 84, 59, 18, 109, 5, 346, 428, 467, 286, 437, 29,
    200, 198, 199, 319, 136, 438, 434, 424, 42, 317, 203, 384, 385, 386, 167, 281, 171, 179, 320, 380, 325,
    440, 448, 351, 352, 44, 98, 280, 26, 188, 180, 321, 381, 166, 131, 443, 3, 191, 89, 85, 296, 145, 88,
    336, 337, 343, 342, 239, 218, 466, 38, 293, 357, 270, 0, 40]"

definition syscall_sorted_names_EM_PPC64_3 :: "int list" where
  "syscall_sorted_names_EM_PPC64_3 = [
    387, 471, 173, 175, 174, 177, 172, 178, 176, 322, 255, 159, 160, 223, 356, 155, 157, 161, 222, 355, 154,
    156, 158, 358, 82, 394, 393, 392, 334, 186, 349, 341, 335, 261, 450, 300, 232, 121, 139, 138, 46, 81,
    74, 104, 350, 57, 97, 71, 169, 164, 70, 75, 66, 339, 79, 23, 209, 463, 68, 397, 396, 398, 395, 338, 67,
    185, 48, 305, 313, 73, 126, 119, 72, 326, 102, 333, 283, 279, 278, 69, 106, 99, 252, 457, 383, 25, 31,
    310, 249, 115, 87, 363, 83, 295, 36, 308, 348, 256, 135, 116, 103, 284, 250, 13, 240, 244, 243, 242,
    241, 306, 312, 311, 43, 208, 92, 225, 190, 58, 60, 22, 52, 122, 10, 292, 282, 86, 364, 62, 30, 304, 251,
    189, 111, 113, 285, 114, 272, 7, 4, 146]"

lemma indexed_PPC64:
  "indexed (syscall_num_to_name_EM_PPC64_1 @ syscall_num_to_name_EM_PPC64_2 @ syscall_num_to_name_EM_PPC64_3)
    (syscall_sorted_names_EM_PPC64_1 @ syscall_sorted_names_EM_PPC64_2 @ syscall_sorted_names_EM_PPC64_3)"
  by code_simp

section \<open>RISCV (32 bits)\<close>

definition syscall_num_to_name_EM_RISCV_32_1 :: "(int \<times> string) list" where
  "syscall_num_to_name_EM_RISCV_32_1 = [
    (0, ''io_setup''), (1, ''io_destroy''), (2, ''io_submit''), (3, ''io_cancel''), (5, ''setxattr''),
    (6, ''lsetxattr''), (7, ''fsetxattr''), (8, ''getxattr''), (9, ''lgetxattr''), (10, ''fgetxattr''),
    (11, ''listxattr''), (12, ''llistxattr''), (13, ''flistxattr''), (14, ''removexattr''),
    (15, ''lremovexattr''), (16, ''fremovexattr''), (17, ''getcwd''), (18, ''lookup_dcookie''),
    (19, ''eventfd2''), (20, ''epoll_create1''), (21, ''epoll_ctl''), (22, ''epoll_pwait''), (23, ''dup''),
    (24, ''dup3''), (25, ''fcntl64''), (26, ''inotify_init1''), (27, ''inotify_add_watch''),
    (28, ''inotify_rm_watch''), (29, ''ioctl''), (30, ''ioprio_set''), (31, ''ioprio_get''),
    (32, ''flock''), (33, ''mknodat''), (34, ''mkdirat''), (35, ''unlinkat''), (36, ''symlinkat''),
    (37, ''linkat''), (39, ''umount2''), (40, ''mount''), (41, ''pivot_root''), (42, ''nfsservctl''),
    (43, ''statfs64''), (44, ''fstatfs64''), (45, ''truncate64''), (46, ''ftruncate64''),
    (47, ''fallocate''), (48, ''faccessat''), (49, ''chdir''), (50, ''fchdir''), (51, ''chroot''),
    (52, ''fchmod''), (53, ''fchmodat''), (54, ''fchownat''), (55, ''fchown''), (56, ''openat''),
    (57, ''close''), (58, ''vhangup''), (59, ''pipe2''), (60, ''quotactl''), (61, ''getdents64''),
    (62, ''llseek''), (63, ''read''), (64, ''write''), (65, ''readv''), (66, ''writev''), (67, ''pread64''),
    (68, ''pwrite64''), (69, ''preadv''), (70, ''pwritev''), (71, ''sendfile64''), (74, ''signalfd4''),
    (75, ''vmsplice''), (76, ''splice''), (77, ''tee''), (78, ''readlinkat''), (81, ''sync''),
    (82, ''fsync''), (83, ''fdatasync''), (84, ''sync_file_range''), (85, ''timerfd_create''),
    (89, ''acct''), (90, ''capget''), (91, ''capset''), (92, ''personality''), (93, ''exit''),
    (94, ''exit_group''), (95, ''waitid''), (96, ''set_tid_address''), (97, ''unshare''),
    (99, ''set_robust_list''), (100, ''get_robust_list''), (102, ''getitimer''), (103, ''setitimer''),
    (104, ''kexec_load''), (105, ''init_module''), (106, ''delete_module''), (107, ''timer_create''),
    (109, ''timer_getoverrun''), (111, ''timer_delete''), (116, ''syslog''), (117, ''ptrace''),
    (118, ''sched_setparam''), (119, ''sched_setscheduler''), (120, ''sched_getscheduler''),
    (121, ''sched_getparam''), (122, ''sched_setaffinity'')]"

definition syscall_num_to_name_EM_RISCV_32_2 :: "(int \<times> string) list" where
  "syscall_num_to_name_EM_RISCV_32_2 = [
    (123, ''sched_getaffinity''), (124, ''sched_yield''), (125, ''sched_get_priority_max''),
    (126, ''sched_get_priority_min''), (128, ''restart_syscall''), (129, ''kill''), (130, ''tkill''),
    (131, ''tgkill''), (132, ''sigaltstack''), (133, ''rt_sigsuspend''), (134, ''rt_sigaction''),
    (135, ''rt_sigprocmask''), (136, ''rt_sigpending''), (138, ''rt_sigqueueinfo''),
    (139, ''rt_sigreturn''), (140, ''setpriority''), (141, ''getpriority''), (142, ''reboot''),
    (143, ''setregid''), (144, ''setgid''), (145, ''setreuid''), (146, ''setuid''), (147, ''setresuid''),
    (148, ''getresuid''), (149, ''setresgid''), (150, ''getresgid''), (151, ''setfsuid''),
    (152, ''setfsgid''), (153, ''times''), (154, ''setpgid''), (155, ''getpgid''), (156, ''getsid''),
    (157, ''setsid''), (158, ''getgroups''), (159, ''setgroups''), (160, ''uname''), (161, ''sethostname''),
    (162, ''setdomainname''), (165, ''getrusage''), (166, ''umask''), (167, ''prctl''), (168, ''getcpu''),
    (172, ''getpid''), (173, ''getppid''), (174, ''getuid''), (175, ''geteuid''), (176, ''getgid''),
    (177, ''getegid''), (178, ''gettid''), (179, ''sysinfo''), (180, ''mq_open''), (181, ''mq_unlink''),
    (184, ''mq_notify''), (185, ''mq_getsetattr''), (186, ''msgget''), (187, ''msgctl''), (188, ''msgrcv''),
    (189, ''msgsnd''), (190, ''semget''), (191, ''semctl''), (193, ''semop''), (194, ''shmget''),
    (195, ''shmctl''), (196, ''shmat''), (197, ''shmdt''), (198, ''socket''), (199, ''socketpair''),
    (200, ''bind''), (201, ''listen''), (202, ''accept''), (203, ''connect''), (204, ''getsockname''),
    (205, ''getpeername''), (206, ''sendto''), (207, ''recvfrom''), (208, ''setsockopt''),
    (209, ''getsockopt''), (210, ''shutdown''), (211, ''sendmsg''), (212, ''recvmsg''),
    (213, ''readahead''), (214, ''brk''), (215, ''munmap''), (216, ''mremap''), (217, ''add_key''),
    (218, ''request_key''), (219, ''keyctl''), (220, ''clone''), (221, ''execve''), (222, ''mmap2''),
    (223, ''fadvise64_64''), (224, ''swapon''), (225, ''swapoff''), (226, ''mprotect''), (227, ''msync''),
    (228, ''mlock''), (229, ''munlock''), (230, ''mlockall''), (231, ''munlockall''), (232, ''mincore''),
    (233, ''madvise''), (234, ''remap_file_pages''), (235, ''mbind''), (236, ''get_mempolicy''),
    (237, ''set_mempolicy''), (238, ''migrate_pages'')]"

definition syscall_num_to_name_EM_RISCV_32_3 :: "(int \<times> string) list" where
  "syscall_num_to_name_EM_RISCV_32_3 = [
    (239, ''move_pages''), (240, ''rt_tgsigqueueinfo''), (241, ''perf_event_open''), (242, ''accept4''),
    (258, ''riscv_hwprobe''), (259, ''riscv_flush_icache''), (261, ''prlimit64''), (262, ''fanotify_init''),
    (263, ''fanotify_mark''), (264, ''name_to_handle_at''), (265, ''open_by_handle_at''), (267, ''syncfs''),
    (268, ''setns''), (269, ''sendmmsg''), (270, ''process_vm_readv''), (271, ''process_vm_writev''),
    (272, ''kcmp''), (273, ''finit_module''), (274, ''sched_setattr''), (275, ''sched_getattr''),
    (276, ''renameat2''), (277, ''seccomp''), (278, ''getrandom''), (279, ''memfd_create''), (280, ''bpf''),
    (281, ''execveat''), (282, ''userfaultfd''), (283, ''membarrier''), (284, ''mlock2''),
    (285, ''copy_file_range''), (286, ''preadv2''), (287, ''pwritev2''), (288, ''pkey_mprotect''),
    (289, ''pkey_alloc''), (290, ''pkey_free''), (291, ''statx''), (293, ''rseq''),
    (294, ''kexec_file_load''), (403, ''clock_gettime64''), (404, ''clock_settime64''),
    (405, ''clock_adjtime64''), (406, ''clock_getres_time64''), (407, ''clock_nanosleep_time64''),
    (408, ''timer_gettime64''), (409, ''timer_settime64''), (410, ''timerfd_gettime64''),
    (411, ''timerfd_settime64''), (412, ''utimensat_time64''), (413, ''pselect6_time64''),
    (414, ''ppoll_time64''), (416, ''io_pgetevents_time64''), (417, ''recvmmsg_time64''),
    (418, ''mq_timedsend_time64''), (419, ''mq_timedreceive_time64''), (420, ''semtimedop_time64''),
    (421, ''rt_sigtimedwait_time64''), (422, ''futex_time64''), (423, ''sched_rr_get_interval_time64''),
    (424, ''pidfd_send_signal''), (425, ''io_uring_setup''), (426, ''io_uring_enter''),
    (427, ''io_uring_register''), (428, ''open_tree''), (429, ''move_mount''), (430, ''fsopen''),
    (431, ''fsconfig''), (432, ''fsmount''), (433, ''fspick''), (434, ''pidfd_open''), (435, ''clone3''),
    (436, ''close_range''), (437, ''openat2''), (438, ''pidfd_getfd''), (439, ''faccessat2''),
    (440, ''process_madvise''), (441, ''epoll_pwait2''), (442, ''mount_setattr''), (443, ''quotactl_fd''),
    (444, ''landlock_create_ruleset''), (445, ''landlock_add_rule''), (446, ''landlock_restrict_self''),
    (447, ''memfd_secret''), (448, ''process_mrelease''), (449, ''futex_waitv''),
    (450, ''set_mempolicy_home_node''), (451, ''cachestat''), (452, ''fchmodat2''),
    (453, ''map_shadow_stack''), (454, ''futex_wake''), (455, ''futex_wait''), (456, ''futex_requeue''),
    (457, ''statmount''), (458, ''listmount''), (459, ''lsm_get_self_attr''), (460, ''lsm_set_self_attr''),
    (461, ''lsm_list_modules''), (462, ''mseal''), (463, ''setxattrat''), (464, ''getxattrat''),
    (465, ''listxattrat''), (466, ''removexattrat''), (467, ''open_tree_attr''), (468, ''file_getattr''),
    (469, ''file_setattr''), (470, ''listns''), (471, ''rseq_slice_yield'')]"

definition syscall_sorted_names_EM_RISCV_32_1 :: "int list" where
  "syscall_sorted_names_EM_RISCV_32_1 = [
    202, 242, 89, 217, 200, 280, 214, 451, 90, 91, 49, 51, 405, 406, 403, 407, 404, 220, 435, 57, 436, 203,
    285, 106, 23, 24, 20, 21, 22, 441, 19, 221, 281, 93, 94, 48, 439, 223, 47, 262, 263, 50, 52, 53, 452,
    55, 54, 25, 83, 10, 468, 469, 273, 13, 32, 16, 431, 7, 432, 430, 433, 44, 82, 46, 456, 422, 455, 449,
    454, 236, 100, 168, 17, 61, 177, 175, 176, 158, 102, 205, 155, 172, 173, 141, 278, 150, 148, 165, 156,
    204, 209, 178, 174, 8, 464, 105, 27, 26, 28, 3, 1, 416, 0, 2, 426, 427]"

definition syscall_sorted_names_EM_RISCV_32_2 :: "int list" where
  "syscall_sorted_names_EM_RISCV_32_2 = [
    425, 29, 31, 30, 272, 294, 104, 219, 129, 445, 444, 446, 9, 37, 201, 458, 470, 11, 465, 12, 62, 18, 15,
    6, 459, 461, 460, 233, 453, 235, 283, 279, 447, 238, 232, 34, 33, 228, 284, 230, 222, 40, 442, 429, 239,
    226, 185, 184, 180, 419, 418, 181, 216, 462, 187, 186, 188, 189, 227, 229, 231, 215, 264, 42, 265, 428,
    467, 56, 437, 241, 92, 438, 434, 424, 59, 41, 289, 290, 288, 414, 167, 67, 69, 286, 261, 440, 448, 270,
    271, 413, 117, 68, 70, 287, 60, 443, 63, 213, 78, 65, 142, 207, 417, 212, 234, 14]"

definition syscall_sorted_names_EM_RISCV_32_3 :: "int list" where
  "syscall_sorted_names_EM_RISCV_32_3 = [
    466, 276, 218, 128, 259, 258, 293, 471, 134, 136, 135, 138, 139, 133, 421, 240, 125, 126, 123, 275, 121,
    120, 423, 122, 274, 118, 119, 124, 277, 191, 190, 193, 420, 71, 269, 211, 206, 237, 450, 99, 96, 162,
    152, 151, 144, 159, 161, 103, 268, 154, 140, 143, 149, 147, 145, 157, 208, 146, 5, 463, 196, 195, 197,
    194, 210, 132, 74, 198, 199, 76, 43, 457, 291, 225, 224, 36, 81, 84, 267, 179, 116, 77, 131, 107, 111,
    109, 408, 409, 85, 410, 411, 153, 130, 45, 166, 39, 160, 35, 97, 282, 412, 58, 75, 95, 64, 66]"

lemma indexed_RISCV_32:
  "indexed (syscall_num_to_name_EM_RISCV_32_1 @ syscall_num_to_name_EM_RISCV_32_2 @ syscall_num_to_name_EM_RISCV_32_3)
    (syscall_sorted_names_EM_RISCV_32_1 @ syscall_sorted_names_EM_RISCV_32_2 @ syscall_sorted_names_EM_RISCV_32_3)"
  by code_simp

end
