(* ===== verification/SyscallTablesC.thy ===== *)
theory SyscallTablesC
  imports SyscallTable
begin

text \<open>
  System call tables, and their checks: RISCV (64 bits), S390, SH, SPARC (32 bits), SPARC (64 bits).
\<close>

section \<open>RISCV (64 bits)\<close>

definition syscall_num_to_name_EM_RISCV_64_1 :: "(int \<times> string) list" where
  "syscall_num_to_name_EM_RISCV_64_1 = [
    (0, ''io_setup''), (1, ''io_destroy''), (2, ''io_submit''), (3, ''io_cancel''), (4, ''io_getevents''),
    (5, ''setxattr''), (6, ''lsetxattr''), (7, ''fsetxattr''), (8, ''getxattr''), (9, ''lgetxattr''),
    (10, ''fgetxattr''), (11, ''listxattr''), (12, ''llistxattr''), (13, ''flistxattr''),
    (14, ''removexattr''), (15, ''lremovexattr''), (16, ''fremovexattr''), (17, ''getcwd''),
    (18, ''lookup_dcookie''), (19, ''eventfd2''), (20, ''epoll_create1''), (21, ''epoll_ctl''),
    (22, ''epoll_pwait''), (23, ''dup''), (24, ''dup3''), (25, ''fcntl''), (26, ''inotify_init1''),
    (27, ''inotify_add_watch''), (28, ''inotify_rm_watch''), (29, ''ioctl''), (30, ''ioprio_set''),
    (31, ''ioprio_get''), (32, ''flock''), (33, ''mknodat''), (34, ''mkdirat''), (35, ''unlinkat''),
    (36, ''symlinkat''), (37, ''linkat''), (39, ''umount2''), (40, ''mount''), (41, ''pivot_root''),
    (42, ''nfsservctl''), (43, ''statfs''), (44, ''fstatfs''), (45, ''truncate''), (46, ''ftruncate''),
    (47, ''fallocate''), (48, ''faccessat''), (49, ''chdir''), (50, ''fchdir''), (51, ''chroot''),
    (52, ''fchmod''), (53, ''fchmodat''), (54, ''fchownat''), (55, ''fchown''), (56, ''openat''),
    (57, ''close''), (58, ''vhangup''), (59, ''pipe2''), (60, ''quotactl''), (61, ''getdents64''),
    (62, ''lseek''), (63, ''read''), (64, ''write''), (65, ''readv''), (66, ''writev''), (67, ''pread64''),
    (68, ''pwrite64''), (69, ''preadv''), (70, ''pwritev''), (71, ''sendfile''), (72, ''pselect6''),
    (73, ''ppoll''), (74, ''signalfd4''), (75, ''vmsplice''), (76, ''splice''), (77, ''tee''),
    (78, ''readlinkat''), (79, ''newfstatat''), (80, ''fstat''), (81, ''sync''), (82, ''fsync''),
    (83, ''fdatasync''), (84, ''sync_file_range''), (85, ''timerfd_create''), (86, ''timerfd_settime''),
    (87, ''timerfd_gettime''), (88, ''utimensat''), (89, ''acct''), (90, ''capget''), (91, ''capset''),
    (92, ''personality''), (93, ''exit''), (94, ''exit_group''), (95, ''waitid''),
    (96, ''set_tid_address''), (97, ''unshare''), (98, ''futex''), (99, ''set_robust_list''),
    (100, ''get_robust_list''), (101, ''nanosleep''), (102, ''getitimer''), (103, ''setitimer''),
    (104, ''kexec_load''), (105, ''init_module''), (106, ''delete_module''), (107, ''timer_create''),
    (108, ''timer_gettime''), (109, ''timer_getoverrun''), (110, ''timer_settime'')]"

definition syscall_num_to_name_EM_RISCV_64_2 :: "(int \<times> string) list" where
  "syscall_num_to_name_EM_RISCV_64_2 = [
    (111, ''timer_delete''), (112, ''clock_settime''), (113, ''clock_gettime''), (114, ''clock_getres''),
    (115, ''clock_nanosleep''), (116, ''syslog''), (117, ''ptrace''), (118, ''sched_setparam''),
    (119, ''sched_setscheduler''), (120, ''sched_getscheduler''), (121, ''sched_getparam''),
    (122, ''sched_setaffinity''), (123, ''sched_getaffinity''), (124, ''sched_yield''),
    (125, ''sched_get_priority_max''), (126, ''sched_get_priority_min''), (127, ''sched_rr_get_interval''),
    (128, ''restart_syscall''), (129, ''kill''), (130, ''tkill''), (131, ''tgkill''),
    (132, ''sigaltstack''), (133, ''rt_sigsuspend''), (134, ''rt_sigaction''), (135, ''rt_sigprocmask''),
    (136, ''rt_sigpending''), (137, ''rt_sigtimedwait''), (138, ''rt_sigqueueinfo''),
    (139, ''rt_sigreturn''), (140, ''setpriority''), (141, ''getpriority''), (142, ''reboot''),
    (143, ''setregid''), (144, ''setgid''), (145, ''setreuid''), (146, ''setuid''), (147, ''setresuid''),
    (148, ''getresuid''), (149, ''setresgid''), (150, ''getresgid''), (151, ''setfsuid''),
    (152, ''setfsgid''), (153, ''times''), (154, ''setpgid''), (155, ''getpgid''), (156, ''getsid''),
    (157, ''setsid''), (158, ''getgroups''), (159, ''setgroups''), (160, ''uname''), (161, ''sethostname''),
    (162, ''setdomainname''), (163, ''getrlimit''), (164, ''setrlimit''), (165, ''getrusage''),
    (166, ''umask''), (167, ''prctl''), (168, ''getcpu''), (169, ''gettimeofday''), (170, ''settimeofday''),
    (171, ''adjtimex''), (172, ''getpid''), (173, ''getppid''), (174, ''getuid''), (175, ''geteuid''),
    (176, ''getgid''), (177, ''getegid''), (178, ''gettid''), (179, ''sysinfo''), (180, ''mq_open''),
    (181, ''mq_unlink''), (182, ''mq_timedsend''), (183, ''mq_timedreceive''), (184, ''mq_notify''),
    (185, ''mq_getsetattr''), (186, ''msgget''), (187, ''msgctl''), (188, ''msgrcv''), (189, ''msgsnd''),
    (190, ''semget''), (191, ''semctl''), (192, ''semtimedop''), (193, ''semop''), (194, ''shmget''),
    (195, ''shmctl''), (196, ''shmat''), (197, ''shmdt''), (198, ''socket''), (199, ''socketpair''),
    (200, ''bind''), (201, ''listen''), (202, ''accept''), (203, ''connect''), (204, ''getsockname''),
    (205, ''getpeername''), (206, ''sendto''), (207, ''recvfrom''), (208, ''setsockopt''),
    (209, ''getsockopt''), (210, ''shutdown''), (211, ''sendmsg''), (212, ''recvmsg''),
    (213, ''readahead''), (214, ''brk''), (215, ''munmap''), (216, ''mremap''), (217, ''add_key''),
    (218, ''request_key''), (219, ''keyctl''), (220, ''clone'')]"

definition syscall_num_to_name_EM_RISCV_64_3 :: "(int \<times> string) list" where
  "syscall_num_to_name_EM_RISCV_64_3 = [
    (221, ''execve''), (222, ''mmap''), (223, ''fadvise64''), (224, ''swapon''), (225, ''swapoff''),
    (226, ''mprotect''), (227, ''msync''), (228, ''mlock''), (229, ''munlock''), (230, ''mlockall''),
    (231, ''munlockall''), (232, ''mincore''), (233, ''madvise''), (234, ''remap_file_pages''),
    (235, ''mbind''), (236, ''get_mempolicy''), (237, ''set_mempolicy''), (238, ''migrate_pages''),
    (239, ''move_pages''), (240, ''rt_tgsigqueueinfo''), (241, ''perf_event_open''), (242, ''accept4''),
    (243, ''recvmmsg''), (258, ''riscv_hwprobe''), (259, ''riscv_flush_icache''), (260, ''wait4''),
    (261, ''prlimit64''), (262, ''fanotify_init''), (263, ''fanotify_mark''), (264, ''name_to_handle_at''),
    (265, ''open_by_handle_at''), (266, ''clock_adjtime''), (267, ''syncfs''), (268, ''setns''),
    (269, ''sendmmsg''), (270, ''process_vm_readv''), (271, ''process_vm_writev''), (272, ''kcmp''),
    (273, ''finit_module''), (274, ''sched_setattr''), (275, ''sched_getattr''), (276, ''renameat2''),
    (277, ''seccomp''), (278, ''getrandom''), (279, ''memfd_create''), (280, ''bpf''), (281, ''execveat''),
    (282, ''userfaultfd''), (283, ''membarrier''), (284, ''mlock2''), (285, ''copy_file_range''),
    (286, ''preadv2''), (287, ''pwritev2''), (288, ''pkey_mprotect''), (289, ''pkey_alloc''),
    (290, ''pkey_free''), (291, ''statx''), (292, ''io_pgetevents''), (293, ''rseq''),
    (294, ''kexec_file_load''), (424, ''pidfd_send_signal''), (425, ''io_uring_setup''),
    (426, ''io_uring_enter''), (427, ''io_uring_register''), (428, ''open_tree''), (429, ''move_mount''),
    (430, ''fsopen''), (431, ''fsconfig''), (432, ''fsmount''), (433, ''fspick''), (434, ''pidfd_open''),
    (435, ''clone3''), (436, ''close_range''), (437, ''openat2''), (438, ''pidfd_getfd''),
    (439, ''faccessat2''), (440, ''process_madvise''), (441, ''epoll_pwait2''), (442, ''mount_setattr''),
    (443, ''quotactl_fd''), (444, ''landlock_create_ruleset''), (445, ''landlock_add_rule''),
    (446, ''landlock_restrict_self''), (447, ''memfd_secret''), (448, ''process_mrelease''),
    (449, ''futex_waitv''), (450, ''set_mempolicy_home_node''), (451, ''cachestat''), (452, ''fchmodat2''),
    (453, ''map_shadow_stack''), (454, ''futex_wake''), (455, ''futex_wait''), (456, ''futex_requeue''),
    (457, ''statmount''), (458, ''listmount''), (459, ''lsm_get_self_attr''), (460, ''lsm_set_self_attr''),
    (461, ''lsm_list_modules''), (462, ''mseal''), (463, ''setxattrat''), (464, ''getxattrat''),
    (465, ''listxattrat''), (466, ''removexattrat''), (467, ''open_tree_attr''), (468, ''file_getattr''),
    (469, ''file_setattr''), (470, ''listns''), (471, ''rseq_slice_yield'')]"

definition syscall_sorted_names_EM_RISCV_64_1 :: "int list" where
  "syscall_sorted_names_EM_RISCV_64_1 = [
    202, 242, 89, 217, 171, 200, 280, 214, 451, 90, 91, 49, 51, 266, 114, 113, 115, 112, 220, 435, 57, 436,
    203, 285, 106, 23, 24, 20, 21, 22, 441, 19, 221, 281, 93, 94, 48, 439, 223, 47, 262, 263, 50, 52, 53,
    452, 55, 54, 25, 83, 10, 468, 469, 273, 13, 32, 16, 431, 7, 432, 430, 433, 80, 44, 82, 46, 98, 456, 455,
    449, 454, 236, 100, 168, 17, 61, 177, 175, 176, 158, 102, 205, 155, 172, 173, 141, 278, 150, 148, 163,
    165, 156, 204, 209, 178, 169, 174, 8, 464, 105, 27, 26, 28, 3, 1, 4, 292, 0, 2, 426]"

definition syscall_sorted_names_EM_RISCV_64_2 :: "int list" where
  "syscall_sorted_names_EM_RISCV_64_2 = [
    427, 425, 29, 31, 30, 272, 294, 104, 219, 129, 445, 444, 446, 9, 37, 201, 458, 470, 11, 465, 12, 18, 15,
    62, 6, 459, 461, 460, 233, 453, 235, 283, 279, 447, 238, 232, 34, 33, 228, 284, 230, 222, 40, 442, 429,
    239, 226, 185, 184, 180, 183, 182, 181, 216, 462, 187, 186, 188, 189, 227, 229, 231, 215, 264, 101, 79,
    42, 265, 428, 467, 56, 437, 241, 92, 438, 434, 424, 59, 41, 289, 290, 288, 73, 167, 67, 69, 286, 261,
    440, 448, 270, 271, 72, 117, 68, 70, 287, 60, 443, 63, 213, 78, 65, 142, 207, 243, 212, 234, 14, 466]"

definition syscall_sorted_names_EM_RISCV_64_3 :: "int list" where
  "syscall_sorted_names_EM_RISCV_64_3 = [
    276, 218, 128, 259, 258, 293, 471, 134, 136, 135, 138, 139, 133, 137, 240, 125, 126, 123, 275, 121, 120,
    127, 122, 274, 118, 119, 124, 277, 191, 190, 193, 192, 71, 269, 211, 206, 237, 450, 99, 96, 162, 152,
    151, 144, 159, 161, 103, 268, 154, 140, 143, 149, 147, 145, 164, 157, 208, 170, 146, 5, 463, 196, 195,
    197, 194, 210, 132, 74, 198, 199, 76, 43, 457, 291, 225, 224, 36, 81, 84, 267, 179, 116, 77, 131, 107,
    111, 109, 108, 110, 85, 87, 86, 153, 130, 45, 166, 39, 160, 35, 97, 282, 88, 58, 75, 260, 95, 64, 66]"

lemma indexed_RISCV_64:
  "indexed (syscall_num_to_name_EM_RISCV_64_1 @ syscall_num_to_name_EM_RISCV_64_2 @ syscall_num_to_name_EM_RISCV_64_3)
    (syscall_sorted_names_EM_RISCV_64_1 @ syscall_sorted_names_EM_RISCV_64_2 @ syscall_sorted_names_EM_RISCV_64_3)"
  by code_simp

section \<open>S390\<close>

definition syscall_num_to_name_EM_S390_1 :: "(int \<times> string) list" where
  "syscall_num_to_name_EM_S390_1 = [
    (1, ''exit''), (2, ''fork''), (3, ''read''), (4, ''write''), (5, ''open''), (6, ''close''),
    (7, ''restart_syscall''), (8, ''creat''), (9, ''link''), (10, ''unlink''), (11, ''execve''),
    (12, ''chdir''), (14, ''mknod''), (15, ''chmod''), (19, ''lseek''), (20, ''getpid''), (21, ''mount''),
    (22, ''umount''), (26, ''ptrace''), (27, ''alarm''), (29, ''pause''), (30, ''utime''), (33, ''access''),
    (34, ''nice''), (36, ''sync''), (37, ''kill''), (38, ''rename''), (39, ''mkdir''), (40, ''rmdir''),
    (41, ''dup''), (42, ''pipe''), (43, ''times''), (45, ''brk''), (48, ''signal''), (51, ''acct''),
    (52, ''umount2''), (54, ''ioctl''), (55, ''fcntl''), (57, ''setpgid''), (60, ''umask''),
    (61, ''chroot''), (62, ''ustat''), (63, ''dup2''), (64, ''getppid''), (65, ''getpgrp''),
    (66, ''setsid''), (67, ''sigaction''), (72, ''sigsuspend''), (73, ''sigpending''),
    (74, ''sethostname''), (75, ''setrlimit''), (77, ''getrusage''), (78, ''gettimeofday''),
    (79, ''settimeofday''), (83, ''symlink''), (85, ''readlink''), (86, ''uselib''), (87, ''swapon''),
    (88, ''reboot''), (89, ''readdir''), (90, ''mmap''), (91, ''munmap''), (92, ''truncate''),
    (93, ''ftruncate''), (94, ''fchmod''), (96, ''getpriority''), (97, ''setpriority''), (99, ''statfs''),
    (100, ''fstatfs''), (102, ''socketcall''), (103, ''syslog''), (104, ''setitimer''),
    (105, ''getitimer''), (106, ''stat''), (107, ''lstat''), (108, ''fstat''), (110, ''lookup_dcookie''),
    (111, ''vhangup''), (112, ''idle''), (114, ''wait4''), (115, ''swapoff''), (116, ''sysinfo''),
    (117, ''ipc''), (118, ''fsync''), (119, ''sigreturn''), (120, ''clone''), (121, ''setdomainname''),
    (122, ''uname''), (124, ''adjtimex''), (125, ''mprotect''), (126, ''sigprocmask''),
    (127, ''create_module''), (128, ''init_module''), (129, ''delete_module''), (130, ''get_kernel_syms''),
    (131, ''quotactl''), (132, ''getpgid''), (133, ''fchdir''), (134, ''bdflush''), (135, ''sysfs''),
    (136, ''personality''), (137, ''afs_syscall''), (141, ''getdents''), (142, ''select''),
    (143, ''flock''), (144, ''msync''), (145, ''readv''), (146, ''writev''), (147, ''getsid''),
    (148, ''fdatasync''), (149, ''_sysctl''), (150, ''mlock''), (151, ''munlock''), (152, ''mlockall''),
    (153, ''munlockall''), (154, ''sched_setparam''), (155, ''sched_getparam''),
    (156, ''sched_setscheduler''), (157, ''sched_getscheduler''), (158, ''sched_yield''),
    (159, ''sched_get_priority_max''), (160, ''sched_get_priority_min''), (161, ''sched_rr_get_interval''),
    (162, ''nanosleep''), (163, ''mremap''), (167, ''query_module''), (168, ''poll''),
    (169, ''nfsservctl''), (172, ''prctl''), (173, ''rt_sigreturn'')]"

definition syscall_num_to_name_EM_S390_2 :: "(int \<times> string) list" where
  "syscall_num_to_name_EM_S390_2 = [
    (174, ''rt_sigaction''), (175, ''rt_sigprocmask''), (176, ''rt_sigpending''),
    (177, ''rt_sigtimedwait''), (178, ''rt_sigqueueinfo''), (179, ''rt_sigsuspend''), (180, ''pread64''),
    (181, ''pwrite64''), (183, ''getcwd''), (184, ''capget''), (185, ''capset''), (186, ''sigaltstack''),
    (187, ''sendfile''), (188, ''getpmsg''), (189, ''putpmsg''), (190, ''vfork''), (191, ''getrlimit''),
    (198, ''lchown''), (199, ''getuid''), (200, ''getgid''), (201, ''geteuid''), (202, ''getegid''),
    (203, ''setreuid''), (204, ''setregid''), (205, ''getgroups''), (206, ''setgroups''), (207, ''fchown''),
    (208, ''setresuid''), (209, ''getresuid''), (210, ''setresgid''), (211, ''getresgid''),
    (212, ''chown''), (213, ''setuid''), (214, ''setgid''), (215, ''setfsuid''), (216, ''setfsgid''),
    (217, ''pivot_root''), (218, ''mincore''), (219, ''madvise''), (220, ''getdents64''),
    (222, ''readahead''), (224, ''setxattr''), (225, ''lsetxattr''), (226, ''fsetxattr''),
    (227, ''getxattr''), (228, ''lgetxattr''), (229, ''fgetxattr''), (230, ''listxattr''),
    (231, ''llistxattr''), (232, ''flistxattr''), (233, ''removexattr''), (234, ''lremovexattr''),
    (235, ''fremovexattr''), (236, ''gettid''), (237, ''tkill''), (238, ''futex''),
    (239, ''sched_setaffinity''), (240, ''sched_getaffinity''), (241, ''tgkill''), (243, ''io_setup''),
    (244, ''io_destroy''), (245, ''io_getevents''), (246, ''io_submit''), (247, ''io_cancel''),
    (248, ''exit_group''), (249, ''epoll_create''), (250, ''epoll_ctl''), (251, ''epoll_wait''),
    (252, ''set_tid_address''), (253, ''fadvise64''), (254, ''timer_create''), (255, ''timer_settime''),
    (256, ''timer_gettime''), (257, ''timer_getoverrun''), (258, ''timer_delete''),
    (259, ''clock_settime''), (260, ''clock_gettime''), (261, ''clock_getres''), (262, ''clock_nanosleep''),
    (265, ''statfs64''), (266, ''fstatfs64''), (267, ''remap_file_pages''), (268, ''mbind''),
    (269, ''get_mempolicy''), (270, ''set_mempolicy''), (271, ''mq_open''), (272, ''mq_unlink''),
    (273, ''mq_timedsend''), (274, ''mq_timedreceive''), (275, ''mq_notify''), (276, ''mq_getsetattr''),
    (277, ''kexec_load''), (278, ''add_key''), (279, ''request_key''), (280, ''keyctl''), (281, ''waitid''),
    (282, ''ioprio_set''), (283, ''ioprio_get''), (284, ''inotify_init''), (285, ''inotify_add_watch''),
    (286, ''inotify_rm_watch''), (287, ''migrate_pages''), (288, ''openat''), (289, ''mkdirat''),
    (290, ''mknodat''), (291, ''fchownat''), (292, ''futimesat''), (293, ''newfstatat''),
    (294, ''unlinkat''), (295, ''renameat''), (296, ''linkat''), (297, ''symlinkat''),
    (298, ''readlinkat''), (299, ''fchmodat''), (300, ''faccessat''), (301, ''pselect6''), (302, ''ppoll''),
    (303, ''unshare''), (304, ''set_robust_list''), (305, ''get_robust_list''), (306, ''splice''),
    (307, ''sync_file_range''), (308, ''tee''), (309, ''vmsplice''), (310, ''move_pages''),
    (311, ''getcpu''), (312, ''epoll_pwait''), (313, ''utimes''), (314, ''fallocate''), (315, ''utimensat'')]"

definition syscall_num_to_name_EM_S390_3 :: "(int \<times> string) list" where
  "syscall_num_to_name_EM_S390_3 = [
    (316, ''signalfd''), (317, ''timerfd''), (318, ''eventfd''), (319, ''timerfd_create''),
    (320, ''timerfd_settime''), (321, ''timerfd_gettime''), (322, ''signalfd4''), (323, ''eventfd2''),
    (324, ''inotify_init1''), (325, ''pipe2''), (326, ''dup3''), (327, ''epoll_create1''),
    (328, ''preadv''), (329, ''pwritev''), (330, ''rt_tgsigqueueinfo''), (331, ''perf_event_open''),
    (332, ''fanotify_init''), (333, ''fanotify_mark''), (334, ''prlimit64''), (335, ''name_to_handle_at''),
    (336, ''open_by_handle_at''), (337, ''clock_adjtime''), (338, ''syncfs''), (339, ''setns''),
    (340, ''process_vm_readv''), (341, ''process_vm_writev''), (342, ''s390_runtime_instr''),
    (343, ''kcmp''), (344, ''finit_module''), (345, ''sched_setattr''), (346, ''sched_getattr''),
    (347, ''renameat2''), (348, ''seccomp''), (349, ''getrandom''), (350, ''memfd_create''), (351, ''bpf''),
    (352, ''s390_pci_mmio_write''), (353, ''s390_pci_mmio_read''), (354, ''execveat''),
    (355, ''userfaultfd''), (356, ''membarrier''), (357, ''recvmmsg''), (358, ''sendmmsg''),
    (359, ''socket''), (360, ''socketpair''), (361, ''bind''), (362, ''connect''), (363, ''listen''),
    (364, ''accept4''), (365, ''getsockopt''), (366, ''setsockopt''), (367, ''getsockname''),
    (368, ''getpeername''), (369, ''sendto''), (370, ''sendmsg''), (371, ''recvfrom''), (372, ''recvmsg''),
    (373, ''shutdown''), (374, ''mlock2''), (375, ''copy_file_range''), (376, ''preadv2''),
    (377, ''pwritev2''), (378, ''s390_guarded_storage''), (379, ''statx''), (380, ''s390_sthyi''),
    (381, ''kexec_file_load''), (382, ''io_pgetevents''), (383, ''rseq''), (384, ''pkey_mprotect''),
    (385, ''pkey_alloc''), (386, ''pkey_free''), (392, ''semtimedop''), (393, ''semget''),
    (394, ''semctl''), (395, ''shmget''), (396, ''shmctl''), (397, ''shmat''), (398, ''shmdt''),
    (399, ''msgget''), (400, ''msgsnd''), (401, ''msgrcv''), (402, ''msgctl''),
    (424, ''pidfd_send_signal''), (425, ''io_uring_setup''), (426, ''io_uring_enter''),
    (427, ''io_uring_register''), (428, ''open_tree''), (429, ''move_mount''), (430, ''fsopen''),
    (431, ''fsconfig''), (432, ''fsmount''), (433, ''fspick''), (434, ''pidfd_open''), (435, ''clone3''),
    (436, ''close_range''), (437, ''openat2''), (438, ''pidfd_getfd''), (439, ''faccessat2''),
    (440, ''process_madvise''), (441, ''epoll_pwait2''), (442, ''mount_setattr''), (443, ''quotactl_fd''),
    (444, ''landlock_create_ruleset''), (445, ''landlock_add_rule''), (446, ''landlock_restrict_self''),
    (447, ''memfd_secret''), (448, ''process_mrelease''), (449, ''futex_waitv''),
    (450, ''set_mempolicy_home_node''), (451, ''cachestat''), (452, ''fchmodat2''),
    (453, ''map_shadow_stack''), (454, ''futex_wake''), (455, ''futex_wait''), (456, ''futex_requeue''),
    (457, ''statmount''), (458, ''listmount''), (459, ''lsm_get_self_attr''), (460, ''lsm_set_self_attr''),
    (461, ''lsm_list_modules''), (462, ''mseal''), (463, ''setxattrat''), (464, ''getxattrat''),
    (465, ''listxattrat''), (466, ''removexattrat''), (467, ''open_tree_attr''), (468, ''file_getattr''),
    (469, ''file_setattr''), (470, ''listns''), (471, ''rseq_slice_yield'')]"

definition syscall_sorted_names_EM_S390_1 :: "int list" where
  "syscall_sorted_names_EM_S390_1 = [
    149, 364, 33, 51, 278, 124, 137, 27, 134, 361, 351, 45, 451, 184, 185, 12, 15, 212, 61, 337, 261, 260,
    262, 259, 120, 435, 6, 436, 362, 375, 8, 127, 129, 41, 63, 326, 249, 327, 250, 312, 441, 251, 318, 323,
    11, 354, 1, 248, 300, 439, 253, 314, 332, 333, 133, 94, 299, 452, 207, 291, 55, 148, 229, 468, 469, 344,
    232, 143, 2, 235, 431, 226, 432, 430, 433, 108, 100, 266, 118, 93, 238, 456, 455, 449, 454, 292, 130,
    269, 305, 311, 183, 141, 220, 202, 201, 200, 205, 105, 368, 132, 65, 20, 188, 64, 96, 349, 211, 209,
    191, 77, 147, 367, 365, 236, 78, 199, 227, 464, 112, 128, 285, 284, 324, 286, 247, 244, 245, 382, 243,
    246]"

definition syscall_sorted_names_EM_S390_2 :: "int list" where
  "syscall_sorted_names_EM_S390_2 = [
    426, 427, 425, 54, 283, 282, 117, 343, 381, 277, 280, 37, 445, 444, 446, 198, 228, 9, 296, 363, 458,
    470, 230, 465, 231, 110, 234, 19, 225, 459, 461, 460, 107, 219, 453, 268, 356, 350, 447, 287, 218, 39,
    289, 14, 290, 150, 374, 152, 90, 21, 442, 429, 310, 125, 276, 275, 271, 274, 273, 272, 163, 462, 402,
    399, 401, 400, 144, 151, 153, 91, 335, 162, 293, 169, 34, 5, 336, 428, 467, 288, 437, 29, 331, 136, 438,
    434, 424, 42, 325, 217, 385, 386, 384, 168, 302, 172, 180, 328, 376, 334, 440, 448, 340, 341, 301, 26,
    189, 181, 329, 377, 167, 131, 443, 3, 222, 89, 85, 298, 145, 88, 371, 357, 372, 267, 233, 466, 38, 295,
    347, 279]"

definition syscall_sorted_names_EM_S390_3 :: "int list" where
  "syscall_sorted_names_EM_S390_3 = [
    7, 40, 383, 471, 174, 176, 175, 178, 173, 179, 177, 330, 378, 353, 352, 342, 380, 159, 160, 240, 346,
    155, 157, 161, 239, 345, 154, 156, 158, 348, 142, 394, 393, 392, 187, 358, 370, 369, 270, 450, 304, 252,
    121, 216, 215, 214, 206, 74, 104, 339, 57, 97, 204, 210, 208, 203, 75, 66, 366, 79, 213, 224, 463, 397,
    396, 398, 395, 373, 67, 186, 48, 316, 322, 73, 126, 119, 72, 359, 102, 360, 306, 106, 99, 265, 457, 379,
    115, 87, 83, 297, 36, 307, 338, 135, 116, 103, 308, 241, 254, 258, 257, 256, 255, 317, 319, 321, 320,
    43, 237, 92, 60, 22, 52, 122, 10, 294, 303, 86, 355, 62, 30, 315, 313, 190, 111, 309, 114, 281, 4, 146]"

lemma indexed_S390:
  "indexed (syscall_num_to_name_EM_S390_1 @ syscall_num_to_name_EM_S390_2 @ syscall_num_to_name_EM_S390_3)
    (syscall_sorted_names_EM_S390_1 @ syscall_sorted_names_EM_S390_2 @ syscall_sorted_names_EM_S390_3)"
  by code_simp

section \<open>SH\<close>

definition syscall_num_to_name_EM_SH_1 :: "(int \<times> string) list" where
  "syscall_num_to_name_EM_SH_1 = [
    (0, ''restart_syscall''), (1, ''exit''), (2, ''fork''), (3, ''read''), (4, ''write''), (5, ''open''),
    (6, ''close''), (7, ''waitpid''), (8, ''creat''), (9, ''link''), (10, ''unlink''), (11, ''execve''),
    (12, ''chdir''), (13, ''time''), (14, ''mknod''), (15, ''chmod''), (16, ''lchown''), (18, ''oldstat''),
    (19, ''lseek''), (20, ''getpid''), (21, ''mount''), (22, ''umount''), (23, ''setuid''),
    (24, ''getuid''), (25, ''stime''), (26, ''ptrace''), (27, ''alarm''), (28, ''oldfstat''),
    (29, ''pause''), (30, ''utime''), (33, ''access''), (34, ''nice''), (36, ''sync''), (37, ''kill''),
    (38, ''rename''), (39, ''mkdir''), (40, ''rmdir''), (41, ''dup''), (42, ''pipe''), (43, ''times''),
    (45, ''brk''), (46, ''setgid''), (47, ''getgid''), (48, ''signal''), (49, ''geteuid''),
    (50, ''getegid''), (51, ''acct''), (52, ''umount2''), (54, ''ioctl''), (55, ''fcntl''),
    (57, ''setpgid''), (60, ''umask''), (61, ''chroot''), (62, ''ustat''), (63, ''dup2''),
    (64, ''getppid''), (65, ''getpgrp''), (66, ''setsid''), (67, ''sigaction''), (68, ''sgetmask''),
    (69, ''ssetmask''), (70, ''setreuid''), (71, ''setregid''), (72, ''sigsuspend''), (73, ''sigpending''),
    (74, ''sethostname''), (75, ''setrlimit''), (76, ''getrlimit''), (77, ''getrusage''),
    (78, ''gettimeofday''), (79, ''settimeofday''), (80, ''getgroups''), (81, ''setgroups''),
    (83, ''symlink''), (84, ''oldlstat''), (85, ''readlink''), (86, ''uselib''), (87, ''swapon''),
    (88, ''reboot''), (89, ''readdir''), (90, ''mmap''), (91, ''munmap''), (92, ''truncate''),
    (93, ''ftruncate''), (94, ''fchmod''), (95, ''fchown''), (96, ''getpriority''), (97, ''setpriority''),
    (99, ''statfs''), (100, ''fstatfs''), (102, ''socketcall''), (103, ''syslog''), (104, ''setitimer''),
    (105, ''getitimer''), (106, ''stat''), (107, ''lstat''), (108, ''fstat''), (109, ''olduname''),
    (111, ''vhangup''), (114, ''wait4''), (115, ''swapoff''), (116, ''sysinfo''), (117, ''ipc''),
    (118, ''fsync''), (119, ''sigreturn''), (120, ''clone''), (121, ''setdomainname''), (122, ''uname''),
    (123, ''cacheflush''), (124, ''adjtimex''), (125, ''mprotect''), (126, ''sigprocmask''),
    (128, ''init_module''), (129, ''delete_module''), (131, ''quotactl''), (132, ''getpgid''),
    (133, ''fchdir''), (134, ''bdflush''), (135, ''sysfs''), (136, ''personality''), (138, ''setfsuid''),
    (139, ''setfsgid''), (140, ''_llseek''), (141, ''getdents''), (142, ''_newselect''), (143, ''flock''),
    (144, ''msync''), (145, ''readv''), (146, ''writev''), (147, ''getsid''), (148, ''fdatasync''),
    (149, ''_sysctl''), (150, ''mlock''), (151, ''munlock''), (152, ''mlockall''), (153, ''munlockall''),
    (154, ''sched_setparam''), (155, ''sched_getparam''), (156, ''sched_setscheduler''),
    (157, ''sched_getscheduler''), (158, ''sched_yield''), (159, ''sched_get_priority_max''),
    (160, ''sched_get_priority_min''), (161, ''sched_rr_get_interval''), (162, ''nanosleep''),
    (163, ''mremap'')]"

definition syscall_num_to_name_EM_SH_2 :: "(int \<times> string) list" where
  "syscall_num_to_name_EM_SH_2 = [
    (164, ''setresuid''), (165, ''getresuid''), (168, ''poll''), (169, ''nfsservctl''),
    (170, ''setresgid''), (171, ''getresgid''), (172, ''prctl''), (173, ''rt_sigreturn''),
    (174, ''rt_sigaction''), (175, ''rt_sigprocmask''), (176, ''rt_sigpending''),
    (177, ''rt_sigtimedwait''), (178, ''rt_sigqueueinfo''), (179, ''rt_sigsuspend''), (180, ''pread64''),
    (181, ''pwrite64''), (182, ''chown''), (183, ''getcwd''), (184, ''capget''), (185, ''capset''),
    (186, ''sigaltstack''), (187, ''sendfile''), (190, ''vfork''), (191, ''ugetrlimit''), (192, ''mmap2''),
    (193, ''truncate64''), (194, ''ftruncate64''), (195, ''stat64''), (196, ''lstat64''),
    (197, ''fstat64''), (198, ''lchown32''), (199, ''getuid32''), (200, ''getgid32''), (201, ''geteuid32''),
    (202, ''getegid32''), (203, ''setreuid32''), (204, ''setregid32''), (205, ''getgroups32''),
    (206, ''setgroups32''), (207, ''fchown32''), (208, ''setresuid32''), (209, ''getresuid32''),
    (210, ''setresgid32''), (211, ''getresgid32''), (212, ''chown32''), (213, ''setuid32''),
    (214, ''setgid32''), (215, ''setfsuid32''), (216, ''setfsgid32''), (217, ''pivot_root''),
    (218, ''mincore''), (219, ''madvise''), (220, ''getdents64''), (221, ''fcntl64''), (224, ''gettid''),
    (225, ''readahead''), (226, ''setxattr''), (227, ''lsetxattr''), (228, ''fsetxattr''),
    (229, ''getxattr''), (230, ''lgetxattr''), (231, ''fgetxattr''), (232, ''listxattr''),
    (233, ''llistxattr''), (234, ''flistxattr''), (235, ''removexattr''), (236, ''lremovexattr''),
    (237, ''fremovexattr''), (238, ''tkill''), (239, ''sendfile64''), (240, ''futex''),
    (241, ''sched_setaffinity''), (242, ''sched_getaffinity''), (245, ''io_setup''), (246, ''io_destroy''),
    (247, ''io_getevents''), (248, ''io_submit''), (249, ''io_cancel''), (250, ''fadvise64''),
    (252, ''exit_group''), (253, ''lookup_dcookie''), (254, ''epoll_create''), (255, ''epoll_ctl''),
    (256, ''epoll_wait''), (257, ''remap_file_pages''), (258, ''set_tid_address''), (259, ''timer_create''),
    (260, ''timer_settime''), (261, ''timer_gettime''), (262, ''timer_getoverrun''),
    (263, ''timer_delete''), (264, ''clock_settime''), (265, ''clock_gettime''), (266, ''clock_getres''),
    (267, ''clock_nanosleep''), (268, ''statfs64''), (269, ''fstatfs64''), (270, ''tgkill''),
    (271, ''utimes''), (272, ''fadvise64_64''), (274, ''mbind''), (275, ''get_mempolicy''),
    (276, ''set_mempolicy''), (277, ''mq_open''), (278, ''mq_unlink''), (279, ''mq_timedsend''),
    (280, ''mq_timedreceive''), (281, ''mq_notify''), (282, ''mq_getsetattr''), (283, ''kexec_load''),
    (284, ''waitid''), (285, ''add_key''), (286, ''request_key''), (287, ''keyctl''), (288, ''ioprio_set''),
    (289, ''ioprio_get''), (290, ''inotify_init''), (291, ''inotify_add_watch''),
    (292, ''inotify_rm_watch''), (294, ''migrate_pages''), (295, ''openat''), (296, ''mkdirat''),
    (297, ''mknodat''), (298, ''fchownat''), (299, ''futimesat''), (300, ''fstatat64''),
    (301, ''unlinkat''), (302, ''renameat''), (303, ''linkat''), (304, ''symlinkat''),
    (305, ''readlinkat''), (306, ''fchmodat''), (307, ''faccessat''), (308, ''pselect6''), (309, ''ppoll''),
    (310, ''unshare''), (311, ''set_robust_list''), (312, ''get_robust_list''), (313, ''splice''),
    (314, ''sync_file_range''), (315, ''tee''), (316, ''vmsplice''), (317, ''move_pages''),
    (318, ''getcpu''), (319, ''epoll_pwait''), (320, ''utimensat'')]"

definition syscall_num_to_name_EM_SH_3 :: "(int \<times> string) list" where
  "syscall_num_to_name_EM_SH_3 = [
    (321, ''signalfd''), (322, ''timerfd_create''), (323, ''eventfd''), (324, ''fallocate''),
    (325, ''timerfd_settime''), (326, ''timerfd_gettime''), (327, ''signalfd4''), (328, ''eventfd2''),
    (329, ''epoll_create1''), (330, ''dup3''), (331, ''pipe2''), (332, ''inotify_init1''),
    (333, ''preadv''), (334, ''pwritev''), (335, ''rt_tgsigqueueinfo''), (336, ''perf_event_open''),
    (337, ''fanotify_init''), (338, ''fanotify_mark''), (339, ''prlimit64''), (340, ''socket''),
    (341, ''bind''), (342, ''connect''), (343, ''listen''), (344, ''accept''), (345, ''getsockname''),
    (346, ''getpeername''), (347, ''socketpair''), (348, ''send''), (349, ''sendto''), (350, ''recv''),
    (351, ''recvfrom''), (352, ''shutdown''), (353, ''setsockopt''), (354, ''getsockopt''),
    (355, ''sendmsg''), (356, ''recvmsg''), (357, ''recvmmsg''), (358, ''accept4''),
    (359, ''name_to_handle_at''), (360, ''open_by_handle_at''), (361, ''clock_adjtime''), (362, ''syncfs''),
    (363, ''sendmmsg''), (364, ''setns''), (365, ''process_vm_readv''), (366, ''process_vm_writev''),
    (367, ''kcmp''), (368, ''finit_module''), (369, ''sched_getattr''), (370, ''sched_setattr''),
    (371, ''renameat2''), (372, ''seccomp''), (373, ''getrandom''), (374, ''memfd_create''), (375, ''bpf''),
    (376, ''execveat''), (377, ''userfaultfd''), (378, ''membarrier''), (379, ''mlock2''),
    (380, ''copy_file_range''), (381, ''preadv2''), (382, ''pwritev2''), (383, ''statx''),
    (384, ''pkey_mprotect''), (385, ''pkey_alloc''), (386, ''pkey_free''), (387, ''rseq''),
    (388, ''sync_file_range2''), (393, ''semget''), (394, ''semctl''), (395, ''shmget''), (396, ''shmctl''),
    (397, ''shmat''), (398, ''shmdt''), (399, ''msgget''), (400, ''msgsnd''), (401, ''msgrcv''),
    (402, ''msgctl''), (403, ''clock_gettime64''), (404, ''clock_settime64''), (405, ''clock_adjtime64''),
    (406, ''clock_getres_time64''), (407, ''clock_nanosleep_time64''), (408, ''timer_gettime64''),
    (409, ''timer_settime64''), (410, ''timerfd_gettime64''), (411, ''timerfd_settime64''),
    (412, ''utimensat_time64''), (413, ''pselect6_time64''), (414, ''ppoll_time64''),
    (416, ''io_pgetevents_time64''), (417, ''recvmmsg_time64''), (418, ''mq_timedsend_time64''),
    (419, ''mq_timedreceive_time64''), (420, ''semtimedop_time64''), (421, ''rt_sigtimedwait_time64''),
    (422, ''futex_time64''), (423, ''sched_rr_get_interval_time64''), (424, ''pidfd_send_signal''),
    (425, ''io_uring_setup''), (426, ''io_uring_enter''), (427, ''io_uring_register''),
    (428, ''open_tree''), (429, ''move_mount''), (430, ''fsopen''), (431, ''fsconfig''), (432, ''fsmount''),
    (433, ''fspick''), (434, ''pidfd_open''), (436, ''close_range''), (437, ''openat2''),
    (438, ''pidfd_getfd''), (439, ''faccessat2''), (440, ''process_madvise''), (441, ''epoll_pwait2''),
    (442, ''mount_setattr''), (443, ''quotactl_fd''), (444, ''landlock_create_ruleset''),
    (445, ''landlock_add_rule''), (446, ''landlock_restrict_self''), (448, ''process_mrelease''),
    (449, ''futex_waitv''), (450, ''set_mempolicy_home_node''), (451, ''cachestat''), (452, ''fchmodat2''),
    (453, ''map_shadow_stack''), (454, ''futex_wake''), (455, ''futex_wait''), (456, ''futex_requeue''),
    (457, ''statmount''), (458, ''listmount''), (459, ''lsm_get_self_attr''), (460, ''lsm_set_self_attr''),
    (461, ''lsm_list_modules''), (462, ''mseal''), (463, ''setxattrat''), (464, ''getxattrat''),
    (465, ''listxattrat''), (466, ''removexattrat''), (467, ''open_tree_attr''), (468, ''file_getattr''),
    (469, ''file_setattr''), (470, ''listns''), (471, ''rseq_slice_yield'')]"

definition syscall_sorted_names_EM_SH_1 :: "int list" where
  "syscall_sorted_names_EM_SH_1 = [
    140, 142, 149, 344, 358, 33, 51, 285, 124, 27, 134, 341, 375, 45, 123, 451, 184, 185, 12, 15, 182, 212,
    61, 361, 405, 266, 406, 265, 403, 267, 407, 264, 404, 120, 6, 436, 342, 380, 8, 129, 41, 63, 330, 254,
    329, 255, 319, 441, 256, 323, 328, 11, 376, 1, 252, 307, 439, 250, 272, 324, 337, 338, 133, 94, 306,
    452, 95, 207, 298, 55, 221, 148, 231, 468, 469, 368, 234, 143, 2, 237, 431, 228, 432, 430, 433, 108,
    197, 300, 100, 269, 118, 93, 194, 240, 456, 422, 455, 449, 454, 299, 275, 312, 318, 183, 141, 220, 50,
    202, 49, 201, 47, 200, 80, 205, 105, 346, 132, 65, 20, 64, 96, 373, 171, 211, 165, 209, 76, 77, 147,
    345, 354, 224, 78, 24, 199, 229, 464, 128, 291, 290, 332, 292, 249, 246, 247, 416]"

definition syscall_sorted_names_EM_SH_2 :: "int list" where
  "syscall_sorted_names_EM_SH_2 = [
    245, 248, 426, 427, 425, 54, 289, 288, 117, 367, 283, 287, 37, 445, 444, 446, 16, 198, 230, 9, 303, 343,
    458, 470, 232, 465, 233, 253, 236, 19, 227, 459, 461, 460, 107, 196, 219, 453, 274, 378, 374, 294, 218,
    39, 296, 14, 297, 150, 379, 152, 90, 192, 21, 442, 429, 317, 125, 282, 281, 277, 280, 419, 279, 418,
    278, 163, 462, 402, 399, 401, 400, 144, 151, 153, 91, 359, 162, 169, 34, 28, 84, 18, 109, 5, 360, 428,
    467, 295, 437, 29, 336, 136, 438, 434, 424, 42, 331, 217, 385, 386, 384, 168, 309, 414, 172, 180, 333,
    381, 339, 440, 448, 365, 366, 308, 413, 26, 181, 334, 382, 131, 443, 3, 225, 89, 85, 305, 145, 88, 350,
    351, 357, 417, 356, 257, 235, 466, 38, 302, 371, 286, 0, 40, 387, 471, 174, 176]"

definition syscall_sorted_names_EM_SH_3 :: "int list" where
  "syscall_sorted_names_EM_SH_3 = [
    175, 178, 173, 179, 177, 421, 335, 159, 160, 242, 369, 155, 157, 161, 423, 241, 370, 154, 156, 158, 372,
    394, 393, 420, 348, 187, 239, 363, 355, 349, 276, 450, 311, 258, 121, 139, 216, 138, 215, 46, 214, 81,
    206, 74, 104, 364, 57, 97, 71, 204, 170, 210, 164, 208, 70, 203, 75, 66, 353, 79, 23, 213, 226, 463, 68,
    397, 396, 398, 395, 352, 67, 186, 48, 321, 327, 73, 126, 119, 72, 340, 102, 347, 313, 69, 106, 195, 99,
    268, 457, 383, 25, 115, 87, 83, 304, 36, 314, 388, 362, 135, 116, 103, 315, 270, 13, 259, 263, 262, 261,
    408, 260, 409, 322, 326, 410, 325, 411, 43, 238, 92, 193, 191, 60, 22, 52, 122, 10, 301, 310, 86, 377,
    62, 30, 320, 412, 271, 190, 111, 316, 114, 284, 7, 4, 146]"

lemma indexed_SH:
  "indexed (syscall_num_to_name_EM_SH_1 @ syscall_num_to_name_EM_SH_2 @ syscall_num_to_name_EM_SH_3)
    (syscall_sorted_names_EM_SH_1 @ syscall_sorted_names_EM_SH_2 @ syscall_sorted_names_EM_SH_3)"
  by code_simp

section \<open>SPARC (32 bits)\<close>

definition syscall_num_to_name_EM_SPARC_32_1 :: "(int \<times> string) list" where
  "syscall_num_to_name_EM_SPARC_32_1 = [
    (0, ''restart_syscall''), (1, ''exit''), (2, ''fork''), (3, ''read''), (4, ''write''), (5, ''open''),
    (6, ''close''), (7, ''wait4''), (8, ''creat''), (9, ''link''), (10, ''unlink''), (11, ''execv''),
    (12, ''chdir''), (13, ''chown''), (14, ''mknod''), (15, ''chmod''), (16, ''lchown''), (17, ''brk''),
    (18, ''perfctr''), (19, ''lseek''), (20, ''getpid''), (21, ''capget''), (22, ''capset''),
    (23, ''setuid''), (24, ''getuid''), (25, ''vmsplice''), (26, ''ptrace''), (27, ''alarm''),
    (28, ''sigaltstack''), (29, ''pause''), (30, ''utime''), (31, ''lchown32''), (32, ''fchown32''),
    (33, ''access''), (34, ''nice''), (35, ''chown32''), (36, ''sync''), (37, ''kill''), (38, ''stat''),
    (39, ''sendfile''), (40, ''lstat''), (41, ''dup''), (42, ''pipe''), (43, ''times''), (44, ''getuid32''),
    (45, ''umount2''), (46, ''setgid''), (47, ''getgid''), (48, ''signal''), (49, ''geteuid''),
    (50, ''getegid''), (51, ''acct''), (53, ''getgid32''), (54, ''ioctl''), (55, ''reboot''),
    (56, ''mmap2''), (57, ''symlink''), (58, ''readlink''), (59, ''execve''), (60, ''umask''),
    (61, ''chroot''), (62, ''fstat''), (63, ''fstat64''), (64, ''getpagesize''), (65, ''msync''),
    (66, ''vfork''), (67, ''pread64''), (68, ''pwrite64''), (69, ''geteuid32''), (70, ''getegid32''),
    (71, ''mmap''), (72, ''setreuid32''), (73, ''munmap''), (74, ''mprotect''), (75, ''madvise''),
    (76, ''vhangup''), (77, ''truncate64''), (78, ''mincore''), (79, ''getgroups''), (80, ''setgroups''),
    (81, ''getpgrp''), (82, ''setgroups32''), (83, ''setitimer''), (84, ''ftruncate64''), (85, ''swapon''),
    (86, ''getitimer''), (87, ''setuid32''), (88, ''sethostname''), (89, ''setgid32''), (90, ''dup2''),
    (91, ''setfsuid32''), (92, ''fcntl''), (93, ''select''), (94, ''setfsgid32''), (95, ''fsync''),
    (96, ''setpriority''), (97, ''socket''), (98, ''connect''), (99, ''accept''), (100, ''getpriority''),
    (101, ''rt_sigreturn''), (102, ''rt_sigaction''), (103, ''rt_sigprocmask''), (104, ''rt_sigpending''),
    (105, ''rt_sigtimedwait''), (106, ''rt_sigqueueinfo''), (107, ''rt_sigsuspend''),
    (108, ''setresuid32''), (109, ''getresuid32''), (110, ''setresgid32''), (111, ''getresgid32''),
    (112, ''setregid32''), (113, ''recvmsg''), (114, ''sendmsg''), (115, ''getgroups32''),
    (116, ''gettimeofday''), (117, ''getrusage''), (118, ''getsockopt''), (119, ''getcwd''),
    (120, ''readv''), (121, ''writev''), (122, ''settimeofday''), (123, ''fchown''), (124, ''fchmod''),
    (125, ''recvfrom''), (126, ''setreuid''), (127, ''setregid''), (128, ''rename''), (129, ''truncate''),
    (130, ''ftruncate''), (131, ''flock''), (132, ''lstat64''), (133, ''sendto''), (134, ''shutdown''),
    (135, ''socketpair''), (136, ''mkdir''), (137, ''rmdir''), (138, ''utimes''), (139, ''stat64''),
    (140, ''sendfile64''), (141, ''getpeername''), (142, ''futex''), (143, ''gettid''),
    (144, ''getrlimit''), (145, ''setrlimit''), (146, ''pivot_root''), (147, ''prctl'')]"

definition syscall_num_to_name_EM_SPARC_32_2 :: "(int \<times> string) list" where
  "syscall_num_to_name_EM_SPARC_32_2 = [
    (148, ''pciconfig_read''), (149, ''pciconfig_write''), (150, ''getsockname''), (151, ''inotify_init''),
    (152, ''inotify_add_watch''), (153, ''poll''), (154, ''getdents64''), (155, ''fcntl64''),
    (156, ''inotify_rm_watch''), (157, ''statfs''), (158, ''fstatfs''), (159, ''umount''),
    (160, ''sched_set_affinity''), (161, ''sched_get_affinity''), (162, ''getdomainname''),
    (163, ''setdomainname''), (165, ''quotactl''), (166, ''set_tid_address''), (167, ''mount''),
    (168, ''ustat''), (169, ''setxattr''), (170, ''lsetxattr''), (171, ''fsetxattr''), (172, ''getxattr''),
    (173, ''lgetxattr''), (174, ''getdents''), (175, ''setsid''), (176, ''fchdir''), (177, ''fgetxattr''),
    (178, ''listxattr''), (179, ''llistxattr''), (180, ''flistxattr''), (181, ''removexattr''),
    (182, ''lremovexattr''), (183, ''sigpending''), (184, ''query_module''), (185, ''setpgid''),
    (186, ''fremovexattr''), (187, ''tkill''), (188, ''exit_group''), (189, ''uname''),
    (190, ''init_module''), (191, ''personality''), (192, ''remap_file_pages''), (193, ''epoll_create''),
    (194, ''epoll_ctl''), (195, ''epoll_wait''), (196, ''ioprio_set''), (197, ''getppid''),
    (198, ''sigaction''), (199, ''sgetmask''), (200, ''ssetmask''), (201, ''sigsuspend''),
    (202, ''oldlstat''), (203, ''uselib''), (204, ''readdir''), (205, ''readahead''), (206, ''socketcall''),
    (207, ''syslog''), (208, ''lookup_dcookie''), (209, ''fadvise64''), (210, ''fadvise64_64''),
    (211, ''tgkill''), (212, ''waitpid''), (213, ''swapoff''), (214, ''sysinfo''), (215, ''ipc''),
    (216, ''sigreturn''), (217, ''clone''), (218, ''ioprio_get''), (219, ''adjtimex''),
    (220, ''sigprocmask''), (221, ''create_module''), (222, ''delete_module''), (223, ''get_kernel_syms''),
    (224, ''getpgid''), (225, ''bdflush''), (226, ''sysfs''), (227, ''afs_syscall''), (228, ''setfsuid''),
    (229, ''setfsgid''), (230, ''_newselect''), (231, ''time''), (232, ''splice''), (233, ''stime''),
    (234, ''statfs64''), (235, ''fstatfs64''), (236, ''_llseek''), (237, ''mlock''), (238, ''munlock''),
    (239, ''mlockall''), (240, ''munlockall''), (241, ''sched_setparam''), (242, ''sched_getparam''),
    (243, ''sched_setscheduler''), (244, ''sched_getscheduler''), (245, ''sched_yield''),
    (246, ''sched_get_priority_max''), (247, ''sched_get_priority_min''), (248, ''sched_rr_get_interval''),
    (249, ''nanosleep''), (250, ''mremap''), (251, ''_sysctl''), (252, ''getsid''), (253, ''fdatasync''),
    (254, ''nfsservctl''), (255, ''sync_file_range''), (256, ''clock_settime''), (257, ''clock_gettime''),
    (258, ''clock_getres''), (259, ''clock_nanosleep''), (260, ''sched_getaffinity''),
    (261, ''sched_setaffinity''), (262, ''timer_settime''), (263, ''timer_gettime''),
    (264, ''timer_getoverrun''), (265, ''timer_delete''), (266, ''timer_create''), (267, ''vserver''),
    (268, ''io_setup''), (269, ''io_destroy''), (270, ''io_submit''), (271, ''io_cancel''),
    (272, ''io_getevents''), (273, ''mq_open''), (274, ''mq_unlink''), (275, ''mq_timedsend''),
    (276, ''mq_timedreceive''), (277, ''mq_notify''), (278, ''mq_getsetattr''), (279, ''waitid''),
    (280, ''tee''), (281, ''add_key''), (282, ''request_key''), (283, ''keyctl''), (284, ''openat''),
    (285, ''mkdirat''), (286, ''mknodat''), (287, ''fchownat''), (288, ''futimesat''), (289, ''fstatat64''),
    (290, ''unlinkat''), (291, ''renameat''), (292, ''linkat''), (293, ''symlinkat''),
    (294, ''readlinkat''), (295, ''fchmodat'')]"

definition syscall_num_to_name_EM_SPARC_32_3 :: "(int \<times> string) list" where
  "syscall_num_to_name_EM_SPARC_32_3 = [
    (296, ''faccessat''), (297, ''pselect6''), (298, ''ppoll''), (299, ''unshare''),
    (300, ''set_robust_list''), (301, ''get_robust_list''), (302, ''migrate_pages''), (303, ''mbind''),
    (304, ''get_mempolicy''), (305, ''set_mempolicy''), (306, ''kexec_load''), (307, ''move_pages''),
    (308, ''getcpu''), (309, ''epoll_pwait''), (310, ''utimensat''), (311, ''signalfd''),
    (312, ''timerfd_create''), (313, ''eventfd''), (314, ''fallocate''), (315, ''timerfd_settime''),
    (316, ''timerfd_gettime''), (317, ''signalfd4''), (318, ''eventfd2''), (319, ''epoll_create1''),
    (320, ''dup3''), (321, ''pipe2''), (322, ''inotify_init1''), (323, ''accept4''), (324, ''preadv''),
    (325, ''pwritev''), (326, ''rt_tgsigqueueinfo''), (327, ''perf_event_open''), (328, ''recvmmsg''),
    (329, ''fanotify_init''), (330, ''fanotify_mark''), (331, ''prlimit64''), (332, ''name_to_handle_at''),
    (333, ''open_by_handle_at''), (334, ''clock_adjtime''), (335, ''syncfs''), (336, ''sendmmsg''),
    (337, ''setns''), (338, ''process_vm_readv''), (339, ''process_vm_writev''), (340, ''kern_features''),
    (341, ''kcmp''), (342, ''finit_module''), (343, ''sched_setattr''), (344, ''sched_getattr''),
    (345, ''renameat2''), (346, ''seccomp''), (347, ''getrandom''), (348, ''memfd_create''), (349, ''bpf''),
    (350, ''execveat''), (351, ''membarrier''), (352, ''userfaultfd''), (353, ''bind''), (354, ''listen''),
    (355, ''setsockopt''), (356, ''mlock2''), (357, ''copy_file_range''), (358, ''preadv2''),
    (359, ''pwritev2''), (360, ''statx''), (361, ''io_pgetevents''), (362, ''pkey_mprotect''),
    (363, ''pkey_alloc''), (364, ''pkey_free''), (365, ''rseq''), (393, ''semget''), (394, ''semctl''),
    (395, ''shmget''), (396, ''shmctl''), (397, ''shmat''), (398, ''shmdt''), (399, ''msgget''),
    (400, ''msgsnd''), (401, ''msgrcv''), (402, ''msgctl''), (403, ''clock_gettime64''),
    (404, ''clock_settime64''), (405, ''clock_adjtime64''), (406, ''clock_getres_time64''),
    (407, ''clock_nanosleep_time64''), (408, ''timer_gettime64''), (409, ''timer_settime64''),
    (410, ''timerfd_gettime64''), (411, ''timerfd_settime64''), (412, ''utimensat_time64''),
    (413, ''pselect6_time64''), (414, ''ppoll_time64''), (416, ''io_pgetevents_time64''),
    (417, ''recvmmsg_time64''), (418, ''mq_timedsend_time64''), (419, ''mq_timedreceive_time64''),
    (420, ''semtimedop_time64''), (421, ''rt_sigtimedwait_time64''), (422, ''futex_time64''),
    (423, ''sched_rr_get_interval_time64''), (424, ''pidfd_send_signal''), (425, ''io_uring_setup''),
    (426, ''io_uring_enter''), (427, ''io_uring_register''), (428, ''open_tree''), (429, ''move_mount''),
    (430, ''fsopen''), (431, ''fsconfig''), (432, ''fsmount''), (433, ''fspick''), (434, ''pidfd_open''),
    (435, ''clone3''), (436, ''close_range''), (437, ''openat2''), (438, ''pidfd_getfd''),
    (439, ''faccessat2''), (440, ''process_madvise''), (441, ''epoll_pwait2''), (442, ''mount_setattr''),
    (443, ''quotactl_fd''), (444, ''landlock_create_ruleset''), (445, ''landlock_add_rule''),
    (446, ''landlock_restrict_self''), (448, ''process_mrelease''), (449, ''futex_waitv''),
    (450, ''set_mempolicy_home_node''), (451, ''cachestat''), (452, ''fchmodat2''),
    (453, ''map_shadow_stack''), (454, ''futex_wake''), (455, ''futex_wait''), (456, ''futex_requeue''),
    (457, ''statmount''), (458, ''listmount''), (459, ''lsm_get_self_attr''), (460, ''lsm_set_self_attr''),
    (461, ''lsm_list_modules''), (462, ''mseal''), (463, ''setxattrat''), (464, ''getxattrat''),
    (465, ''listxattrat''), (466, ''removexattrat''), (467, ''open_tree_attr''), (468, ''file_getattr''),
    (469, ''file_setattr''), (470, ''listns''), (471, ''rseq_slice_yield'')]"

definition syscall_sorted_names_EM_SPARC_32_1 :: "int list" where
  "syscall_sorted_names_EM_SPARC_32_1 = [
    236, 230, 251, 99, 323, 33, 51, 281, 219, 227, 27, 225, 353, 349, 17, 451, 21, 22, 12, 15, 13, 35, 61,
    334, 405, 258, 406, 257, 403, 259, 407, 256, 404, 217, 435, 6, 436, 98, 357, 8, 221, 222, 41, 90, 320,
    193, 319, 194, 309, 441, 195, 313, 318, 11, 59, 350, 1, 188, 296, 439, 209, 210, 314, 329, 330, 176,
    124, 295, 452, 123, 32, 287, 92, 155, 253, 177, 468, 469, 342, 180, 131, 2, 186, 431, 171, 432, 430,
    433, 62, 63, 289, 158, 235, 95, 130, 84, 142, 456, 422, 455, 449, 454, 288, 223, 304, 301, 308, 119,
    174, 154, 162, 50, 70, 49, 69, 47, 53, 79, 115, 86, 64, 141, 224, 81, 20, 197, 100, 347, 111, 109, 144,
    117, 252, 150, 118, 143, 116, 24, 44, 172, 464, 190, 152, 151, 322, 156, 271]"

definition syscall_sorted_names_EM_SPARC_32_2 :: "int list" where
  "syscall_sorted_names_EM_SPARC_32_2 = [
    269, 272, 361, 416, 268, 270, 426, 427, 425, 54, 218, 196, 215, 341, 340, 306, 283, 37, 445, 444, 446,
    16, 31, 173, 9, 292, 354, 458, 470, 178, 465, 179, 208, 182, 19, 170, 459, 461, 460, 40, 132, 75, 453,
    303, 351, 348, 302, 78, 136, 285, 14, 286, 237, 356, 239, 71, 56, 167, 442, 429, 307, 74, 278, 277, 273,
    276, 419, 275, 418, 274, 250, 462, 402, 399, 401, 400, 65, 238, 240, 73, 332, 249, 254, 34, 202, 5, 333,
    428, 467, 284, 437, 29, 148, 149, 327, 18, 191, 438, 434, 424, 42, 321, 146, 363, 364, 362, 153, 298,
    414, 147, 67, 324, 358, 331, 440, 448, 338, 339, 297, 413, 26, 68, 325, 359, 184, 165, 443, 3, 205, 204,
    58, 294, 120, 55, 125, 328, 417, 113, 192, 181, 466, 128, 291, 345, 282, 0, 137]"

definition syscall_sorted_names_EM_SPARC_32_3 :: "int list" where
  "syscall_sorted_names_EM_SPARC_32_3 = [
    365, 471, 102, 104, 103, 106, 101, 107, 105, 421, 326, 161, 246, 247, 260, 344, 242, 244, 248, 423, 160,
    261, 343, 241, 243, 245, 346, 93, 394, 393, 420, 39, 140, 336, 114, 133, 305, 450, 300, 166, 163, 229,
    94, 228, 91, 46, 89, 80, 82, 88, 83, 337, 185, 96, 127, 112, 110, 108, 126, 72, 145, 175, 355, 122, 23,
    87, 169, 463, 199, 397, 396, 398, 395, 134, 198, 28, 48, 311, 317, 183, 220, 216, 201, 97, 206, 135,
    232, 200, 38, 139, 157, 234, 457, 360, 233, 213, 85, 57, 293, 36, 255, 335, 226, 214, 207, 280, 211,
    231, 266, 265, 264, 263, 408, 262, 409, 312, 316, 410, 315, 411, 43, 187, 129, 77, 60, 159, 45, 189, 10,
    290, 299, 203, 352, 168, 30, 310, 412, 138, 66, 76, 25, 267, 7, 279, 212, 4, 121]"

lemma indexed_SPARC_32:
  "indexed (syscall_num_to_name_EM_SPARC_32_1 @ syscall_num_to_name_EM_SPARC_32_2 @ syscall_num_to_name_EM_SPARC_32_3)
    (syscall_sorted_names_EM_SPARC_32_1 @ syscall_sorted_names_EM_SPARC_32_2 @ syscall_sorted_names_EM_SPARC_32_3)"
  by code_simp

section \<open>SPARC (64 bits)\<close>

definition syscall_num_to_name_EM_SPARC_64_1 :: "(int \<times> string) list" where
  "syscall_num_to_name_EM_SPARC_64_1 = [
    (0, ''restart_syscall''), (1, ''exit''), (2, ''fork''), (3, ''read''), (4, ''write''), (5, ''open''),
    (6, ''close''), (7, ''wait4''), (8, ''creat''), (9, ''link''), (10, ''unlink''), (11, ''execv''),
    (12, ''chdir''), (13, ''chown''), (14, ''mknod''), (15, ''chmod''), (16, ''lchown''), (17, ''brk''),
    (18, ''perfctr''), (19, ''lseek''), (20, ''getpid''), (21, ''capget''), (22, ''capset''),
    (23, ''setuid''), (24, ''getuid''), (25, ''vmsplice''), (26, ''ptrace''), (27, ''alarm''),
    (28, ''sigaltstack''), (29, ''pause''), (30, ''utime''), (33, ''access''), (34, ''nice''),
    (36, ''sync''), (37, ''kill''), (38, ''stat''), (39, ''sendfile''), (40, ''lstat''), (41, ''dup''),
    (42, ''pipe''), (43, ''times''), (45, ''umount2''), (46, ''setgid''), (47, ''getgid''),
    (48, ''signal''), (49, ''geteuid''), (50, ''getegid''), (51, ''acct''), (52, ''memory_ordering''),
    (54, ''ioctl''), (55, ''reboot''), (57, ''symlink''), (58, ''readlink''), (59, ''execve''),
    (60, ''umask''), (61, ''chroot''), (62, ''fstat''), (63, ''fstat64''), (64, ''getpagesize''),
    (65, ''msync''), (66, ''vfork''), (67, ''pread64''), (68, ''pwrite64''), (71, ''mmap''),
    (73, ''munmap''), (74, ''mprotect''), (75, ''madvise''), (76, ''vhangup''), (78, ''mincore''),
    (79, ''getgroups''), (80, ''setgroups''), (81, ''getpgrp''), (83, ''setitimer''), (85, ''swapon''),
    (86, ''getitimer''), (88, ''sethostname''), (90, ''dup2''), (92, ''fcntl''), (93, ''select''),
    (95, ''fsync''), (96, ''setpriority''), (97, ''socket''), (98, ''connect''), (99, ''accept''),
    (100, ''getpriority''), (101, ''rt_sigreturn''), (102, ''rt_sigaction''), (103, ''rt_sigprocmask''),
    (104, ''rt_sigpending''), (105, ''rt_sigtimedwait''), (106, ''rt_sigqueueinfo''),
    (107, ''rt_sigsuspend''), (108, ''setresuid''), (109, ''getresuid''), (110, ''setresgid''),
    (111, ''getresgid''), (113, ''recvmsg''), (114, ''sendmsg''), (116, ''gettimeofday''),
    (117, ''getrusage''), (118, ''getsockopt''), (119, ''getcwd''), (120, ''readv''), (121, ''writev''),
    (122, ''settimeofday''), (123, ''fchown''), (124, ''fchmod''), (125, ''recvfrom''), (126, ''setreuid''),
    (127, ''setregid''), (128, ''rename''), (129, ''truncate''), (130, ''ftruncate''), (131, ''flock''),
    (132, ''lstat64''), (133, ''sendto''), (134, ''shutdown''), (135, ''socketpair''), (136, ''mkdir''),
    (137, ''rmdir''), (138, ''utimes''), (139, ''stat64''), (140, ''sendfile64''), (141, ''getpeername''),
    (142, ''futex''), (143, ''gettid''), (144, ''getrlimit''), (145, ''setrlimit''), (146, ''pivot_root''),
    (147, ''prctl''), (148, ''pciconfig_read''), (149, ''pciconfig_write''), (150, ''getsockname''),
    (151, ''inotify_init''), (152, ''inotify_add_watch'')]"

definition syscall_num_to_name_EM_SPARC_64_2 :: "(int \<times> string) list" where
  "syscall_num_to_name_EM_SPARC_64_2 = [
    (153, ''poll''), (154, ''getdents64''), (156, ''inotify_rm_watch''), (157, ''statfs''),
    (158, ''fstatfs''), (159, ''umount''), (160, ''sched_set_affinity''), (161, ''sched_get_affinity''),
    (162, ''getdomainname''), (163, ''setdomainname''), (164, ''utrap_install''), (165, ''quotactl''),
    (166, ''set_tid_address''), (167, ''mount''), (168, ''ustat''), (169, ''setxattr''),
    (170, ''lsetxattr''), (171, ''fsetxattr''), (172, ''getxattr''), (173, ''lgetxattr''),
    (174, ''getdents''), (175, ''setsid''), (176, ''fchdir''), (177, ''fgetxattr''), (178, ''listxattr''),
    (179, ''llistxattr''), (180, ''flistxattr''), (181, ''removexattr''), (182, ''lremovexattr''),
    (183, ''sigpending''), (184, ''query_module''), (185, ''setpgid''), (186, ''fremovexattr''),
    (187, ''tkill''), (188, ''exit_group''), (189, ''uname''), (190, ''init_module''),
    (191, ''personality''), (192, ''remap_file_pages''), (193, ''epoll_create''), (194, ''epoll_ctl''),
    (195, ''epoll_wait''), (196, ''ioprio_set''), (197, ''getppid''), (198, ''sigaction''),
    (199, ''sgetmask''), (200, ''ssetmask''), (201, ''sigsuspend''), (202, ''oldlstat''), (203, ''uselib''),
    (204, ''readdir''), (205, ''readahead''), (206, ''socketcall''), (207, ''syslog''),
    (208, ''lookup_dcookie''), (209, ''fadvise64''), (210, ''fadvise64_64''), (211, ''tgkill''),
    (212, ''waitpid''), (213, ''swapoff''), (214, ''sysinfo''), (215, ''ipc''), (216, ''sigreturn''),
    (217, ''clone''), (218, ''ioprio_get''), (219, ''adjtimex''), (220, ''sigprocmask''),
    (221, ''create_module''), (222, ''delete_module''), (223, ''get_kernel_syms''), (224, ''getpgid''),
    (225, ''bdflush''), (226, ''sysfs''), (227, ''afs_syscall''), (228, ''setfsuid''), (229, ''setfsgid''),
    (230, ''_newselect''), (232, ''splice''), (233, ''stime''), (234, ''statfs64''), (235, ''fstatfs64''),
    (236, ''_llseek''), (237, ''mlock''), (238, ''munlock''), (239, ''mlockall''), (240, ''munlockall''),
    (241, ''sched_setparam''), (242, ''sched_getparam''), (243, ''sched_setscheduler''),
    (244, ''sched_getscheduler''), (245, ''sched_yield''), (246, ''sched_get_priority_max''),
    (247, ''sched_get_priority_min''), (248, ''sched_rr_get_interval''), (249, ''nanosleep''),
    (250, ''mremap''), (251, ''_sysctl''), (252, ''getsid''), (253, ''fdatasync''), (254, ''nfsservctl''),
    (255, ''sync_file_range''), (256, ''clock_settime''), (257, ''clock_gettime''), (258, ''clock_getres''),
    (259, ''clock_nanosleep''), (260, ''sched_getaffinity''), (261, ''sched_setaffinity''),
    (262, ''timer_settime''), (263, ''timer_gettime''), (264, ''timer_getoverrun''),
    (265, ''timer_delete''), (266, ''timer_create''), (267, ''vserver''), (268, ''io_setup''),
    (269, ''io_destroy''), (270, ''io_submit''), (271, ''io_cancel''), (272, ''io_getevents''),
    (273, ''mq_open''), (274, ''mq_unlink''), (275, ''mq_timedsend''), (276, ''mq_timedreceive''),
    (277, ''mq_notify''), (278, ''mq_getsetattr''), (279, ''waitid''), (280, ''tee''), (281, ''add_key''),
    (282, ''request_key''), (283, ''keyctl''), (284, ''openat''), (285, ''mkdirat''), (286, ''mknodat''),
    (287, ''fchownat''), (288, ''futimesat''), (289, ''fstatat64'')]"

definition syscall_num_to_name_EM_SPARC_64_3 :: "(int \<times> string) list" where
  "syscall_num_to_name_EM_SPARC_64_3 = [
    (290, ''unlinkat''), (291, ''renameat''), (292, ''linkat''), (293, ''symlinkat''),
    (294, ''readlinkat''), (295, ''fchmodat''), (296, ''faccessat''), (297, ''pselect6''), (298, ''ppoll''),
    (299, ''unshare''), (300, ''set_robust_list''), (301, ''get_robust_list''), (302, ''migrate_pages''),
    (303, ''mbind''), (304, ''get_mempolicy''), (305, ''set_mempolicy''), (306, ''kexec_load''),
    (307, ''move_pages''), (308, ''getcpu''), (309, ''epoll_pwait''), (310, ''utimensat''),
    (311, ''signalfd''), (312, ''timerfd_create''), (313, ''eventfd''), (314, ''fallocate''),
    (315, ''timerfd_settime''), (316, ''timerfd_gettime''), (317, ''signalfd4''), (318, ''eventfd2''),
    (319, ''epoll_create1''), (320, ''dup3''), (321, ''pipe2''), (322, ''inotify_init1''),
    (323, ''accept4''), (324, ''preadv''), (325, ''pwritev''), (326, ''rt_tgsigqueueinfo''),
    (327, ''perf_event_open''), (328, ''recvmmsg''), (329, ''fanotify_init''), (330, ''fanotify_mark''),
    (331, ''prlimit64''), (332, ''name_to_handle_at''), (333, ''open_by_handle_at''),
    (334, ''clock_adjtime''), (335, ''syncfs''), (336, ''sendmmsg''), (337, ''setns''),
    (338, ''process_vm_readv''), (339, ''process_vm_writev''), (340, ''kern_features''), (341, ''kcmp''),
    (342, ''finit_module''), (343, ''sched_setattr''), (344, ''sched_getattr''), (345, ''renameat2''),
    (346, ''seccomp''), (347, ''getrandom''), (348, ''memfd_create''), (349, ''bpf''), (350, ''execveat''),
    (351, ''membarrier''), (352, ''userfaultfd''), (353, ''bind''), (354, ''listen''),
    (355, ''setsockopt''), (356, ''mlock2''), (357, ''copy_file_range''), (358, ''preadv2''),
    (359, ''pwritev2''), (360, ''statx''), (361, ''io_pgetevents''), (362, ''pkey_mprotect''),
    (363, ''pkey_alloc''), (364, ''pkey_free''), (365, ''rseq''), (392, ''semtimedop''), (393, ''semget''),
    (394, ''semctl''), (395, ''shmget''), (396, ''shmctl''), (397, ''shmat''), (398, ''shmdt''),
    (399, ''msgget''), (400, ''msgsnd''), (401, ''msgrcv''), (402, ''msgctl''),
    (424, ''pidfd_send_signal''), (425, ''io_uring_setup''), (426, ''io_uring_enter''),
    (427, ''io_uring_register''), (428, ''open_tree''), (429, ''move_mount''), (430, ''fsopen''),
    (431, ''fsconfig''), (432, ''fsmount''), (433, ''fspick''), (434, ''pidfd_open''), (435, ''clone3''),
    (436, ''close_range''), (437, ''openat2''), (438, ''pidfd_getfd''), (439, ''faccessat2''),
    (440, ''process_madvise''), (441, ''epoll_pwait2''), (442, ''mount_setattr''), (443, ''quotactl_fd''),
    (444, ''landlock_create_ruleset''), (445, ''landlock_add_rule''), (446, ''landlock_restrict_self''),
    (448, ''process_mrelease''), (449, ''futex_waitv''), (450, ''set_mempolicy_home_node''),
    (451, ''cachestat''), (452, ''fchmodat2''), (453, ''map_shadow_stack''), (454, ''futex_wake''),
    (455, ''futex_wait''), (456, ''futex_requeue''), (457, ''statmount''), (458, ''listmount''),
    (459, ''lsm_get_self_attr''), (460, ''lsm_set_self_attr''), (461, ''lsm_list_modules''),
    (462, ''mseal''), (463, ''setxattrat''), (464, ''getxattrat''), (465, ''listxattrat''),
    (466, ''removexattrat''), (467, ''open_tree_attr''), (468, ''file_getattr''), (469, ''file_setattr''),
    (470, ''listns''), (471, ''rseq_slice_yield'')]"

definition syscall_sorted_names_EM_SPARC_64_1 :: "int list" where
  "syscall_sorted_names_EM_SPARC_64_1 = [
    236, 230, 251, 99, 323, 33, 51, 281, 219, 227, 27, 225, 353, 349, 17, 451, 21, 22, 12, 15, 13, 61, 334,
    258, 257, 259, 256, 217, 435, 6, 436, 98, 357, 8, 221, 222, 41, 90, 320, 193, 319, 194, 309, 441, 195,
    313, 318, 11, 59, 350, 1, 188, 296, 439, 209, 210, 314, 329, 330, 176, 124, 295, 452, 123, 287, 92, 253,
    177, 468, 469, 342, 180, 131, 2, 186, 431, 171, 432, 430, 433, 62, 63, 289, 158, 235, 95, 130, 142, 456,
    455, 449, 454, 288, 223, 304, 301, 308, 119, 174, 154, 162, 50, 49, 47, 79, 86, 64, 141, 224, 81, 20,
    197, 100, 347, 111, 109, 144, 117, 252, 150, 118, 143, 116, 24, 172, 464, 190, 152, 151, 322, 156, 271,
    269, 272, 361]"

definition syscall_sorted_names_EM_SPARC_64_2 :: "int list" where
  "syscall_sorted_names_EM_SPARC_64_2 = [
    268, 270, 426, 427, 425, 54, 218, 196, 215, 341, 340, 306, 283, 37, 445, 444, 446, 16, 173, 9, 292, 354,
    458, 470, 178, 465, 179, 208, 182, 19, 170, 459, 461, 460, 40, 132, 75, 453, 303, 351, 348, 52, 302, 78,
    136, 285, 14, 286, 237, 356, 239, 71, 167, 442, 429, 307, 74, 278, 277, 273, 276, 275, 274, 250, 462,
    402, 399, 401, 400, 65, 238, 240, 73, 332, 249, 254, 34, 202, 5, 333, 428, 467, 284, 437, 29, 148, 149,
    327, 18, 191, 438, 434, 424, 42, 321, 146, 363, 364, 362, 153, 298, 147, 67, 324, 358, 331, 440, 448,
    338, 339, 297, 26, 68, 325, 359, 184, 165, 443, 3, 205, 204, 58, 294, 120, 55, 125, 328, 113, 192, 181,
    466, 128, 291, 345, 282]"

definition syscall_sorted_names_EM_SPARC_64_3 :: "int list" where
  "syscall_sorted_names_EM_SPARC_64_3 = [
    0, 137, 365, 471, 102, 104, 103, 106, 101, 107, 105, 326, 161, 246, 247, 260, 344, 242, 244, 248, 160,
    261, 343, 241, 243, 245, 346, 93, 394, 393, 392, 39, 140, 336, 114, 133, 305, 450, 300, 166, 163, 229,
    228, 46, 80, 88, 83, 337, 185, 96, 127, 110, 108, 126, 145, 175, 355, 122, 23, 169, 463, 199, 397, 396,
    398, 395, 134, 198, 28, 48, 311, 317, 183, 220, 216, 201, 97, 206, 135, 232, 200, 38, 139, 157, 234,
    457, 360, 233, 213, 85, 57, 293, 36, 255, 335, 226, 214, 207, 280, 211, 266, 265, 264, 263, 262, 312,
    316, 315, 43, 187, 129, 60, 159, 45, 189, 10, 290, 299, 203, 352, 168, 30, 310, 138, 164, 66, 76, 25,
    267, 7, 279, 212, 4, 121]"

lemma indexed_SPARC_64:
  "indexed (syscall_num_to_name_EM_SPARC_64_1 @ syscall_num_to_name_EM_SPARC_64_2 @ syscall_num_to_name_EM_SPARC_64_3)
    (syscall_sorted_names_EM_SPARC_64_1 @ syscall_sorted_names_EM_SPARC_64_2 @ syscall_sorted_names_EM_SPARC_64_3)"
  by code_simp

end
