(* ===== verification/SyscallTablesD.thy ===== *)
theory SyscallTablesD
  imports SyscallTable
begin

text \<open>
  System call tables, and their checks: 386, X86_64, XTENSA, NONE (32 bits), NONE (64 bits).
\<close>

section \<open>386\<close>

definition syscall_num_to_name_EM_386_1 :: "(int \<times> string) list" where
  "syscall_num_to_name_EM_386_1 = [
    (0, ''restart_syscall''), (1, ''exit''), (2, ''fork''), (3, ''read''), (4, ''write''), (5, ''open''),
    (6, ''close''), (7, ''waitpid''), (8, ''creat''), (9, ''link''), (10, ''unlink''), (11, ''execve''),
    (12, ''chdir''), (13, ''time''), (14, ''mknod''), (15, ''chmod''), (16, ''lchown''), (17, ''break''),
    (18, ''oldstat''), (19, ''lseek''), (20, ''getpid''), (21, ''mount''), (22, ''umount''),
    (23, ''setuid''), (24, ''getuid''), (25, ''stime''), (26, ''ptrace''), (27, ''alarm''),
    (28, ''oldfstat''), (29, ''pause''), (30, ''utime''), (31, ''stty''), (32, ''gtty''), (33, ''access''),
    (34, ''nice''), (35, ''ftime''), (36, ''sync''), (37, ''kill''), (38, ''rename''), (39, ''mkdir''),
    (40, ''rmdir''), (41, ''dup''), (42, ''pipe''), (43, ''times''), (44, ''prof''), (45, ''brk''),
    (46, ''setgid''), (47, ''getgid''), (48, ''signal''), (49, ''geteuid''), (50, ''getegid''),
    (51, ''acct''), (52, ''umount2''), (53, ''lock''), (54, ''ioctl''), (55, ''fcntl''), (56, ''mpx''),
    (57, ''setpgid''), (58, ''ulimit''), (59, ''oldolduname''), (60, ''umask''), (61, ''chroot''),
    (62, ''ustat''), (63, ''dup2''), (64, ''getppid''), (65, ''getpgrp''), (66, ''setsid''),
    (67, ''sigaction''), (68, ''sgetmask''), (69, ''ssetmask''), (70, ''setreuid''), (71, ''setregid''),
    (72, ''sigsuspend''), (73, ''sigpending''), (74, ''sethostname''), (75, ''setrlimit''),
    (76, ''getrlimit''), (77, ''getrusage''), (78, ''gettimeofday''), (79, ''settimeofday''),
    (80, ''getgroups''), (81, ''setgroups''), (82, ''select''), (83, ''symlink''), (84, ''oldlstat''),
    (85, ''readlink''), (86, ''uselib''), (87, ''swapon''), (88, ''reboot''), (89, ''readdir''),
    (90, ''mmap''), (91, ''munmap''), (92, ''truncate''), (93, ''ftruncate''), (94, ''fchmod''),
    (95, ''fchown''), (96, ''getpriority''), (97, ''setpriority''), (98, ''profil''), (99, ''statfs''),
    (100, ''fstatfs''), (101, ''ioperm''), (102, ''socketcall''), (103, ''syslog''), (104, ''setitimer''),
    (105, ''getitimer''), (106, ''stat''), (107, ''lstat''), (108, ''fstat''), (109, ''olduname''),
    (110, ''iopl''), (111, ''vhangup''), (112, ''idle''), (113, ''vm86old''), (114, ''wait4''),
    (115, ''swapoff'')]"

definition syscall_num_to_name_EM_386_2 :: "(int \<times> string) list" where
  "syscall_num_to_name_EM_386_2 = [
    (116, ''sysinfo''), (117, ''ipc''), (118, ''fsync''), (119, ''sigreturn''), (120, ''clone''),
    (121, ''setdomainname''), (122, ''uname''), (123, ''modify_ldt''), (124, ''adjtimex''),
    (125, ''mprotect''), (126, ''sigprocmask''), (127, ''create_module''), (128, ''init_module''),
    (129, ''delete_module''), (130, ''get_kernel_syms''), (131, ''quotactl''), (132, ''getpgid''),
    (133, ''fchdir''), (134, ''bdflush''), (135, ''sysfs''), (136, ''personality''), (137, ''afs_syscall''),
    (138, ''setfsuid''), (139, ''setfsgid''), (140, ''_llseek''), (141, ''getdents''),
    (142, ''_newselect''), (143, ''flock''), (144, ''msync''), (145, ''readv''), (146, ''writev''),
    (147, ''getsid''), (148, ''fdatasync''), (149, ''_sysctl''), (150, ''mlock''), (151, ''munlock''),
    (152, ''mlockall''), (153, ''munlockall''), (154, ''sched_setparam''), (155, ''sched_getparam''),
    (156, ''sched_setscheduler''), (157, ''sched_getscheduler''), (158, ''sched_yield''),
    (159, ''sched_get_priority_max''), (160, ''sched_get_priority_min''), (161, ''sched_rr_get_interval''),
    (162, ''nanosleep''), (163, ''mremap''), (164, ''setresuid''), (165, ''getresuid''), (166, ''vm86''),
    (167, ''query_module''), (168, ''poll''), (169, ''nfsservctl''), (170, ''setresgid''),
    (171, ''getresgid''), (172, ''prctl''), (173, ''rt_sigreturn''), (174, ''rt_sigaction''),
    (175, ''rt_sigprocmask''), (176, ''rt_sigpending''), (177, ''rt_sigtimedwait''),
    (178, ''rt_sigqueueinfo''), (179, ''rt_sigsuspend''), (180, ''pread64''), (181, ''pwrite64''),
    (182, ''chown''), (183, ''getcwd''), (184, ''capget''), (185, ''capset''), (186, ''sigaltstack''),
    (187, ''sendfile''), (188, ''getpmsg''), (189, ''putpmsg''), (190, ''vfork''), (191, ''ugetrlimit''),
    (192, ''mmap2''), (193, ''truncate64''), (194, ''ftruncate64''), (195, ''stat64''), (196, ''lstat64''),
    (197, ''fstat64''), (198, ''lchown32''), (199, ''getuid32''), (200, ''getgid32''), (201, ''geteuid32''),
    (202, ''getegid32''), (203, ''setreuid32''), (204, ''setregid32''), (205, ''getgroups32''),
    (206, ''setgroups32''), (207, ''fchown32''), (208, ''setresuid32''), (209, ''getresuid32''),
    (210, ''setresgid32''), (211, ''getresgid32''), (212, ''chown32''), (213, ''setuid32''),
    (214, ''setgid32''), (215, ''setfsuid32''), (216, ''setfsgid32''), (217, ''pivot_root''),
    (218, ''mincore''), (219, ''madvise''), (220, ''getdents64''), (221, ''fcntl64''), (224, ''gettid''),
    (225, ''readahead''), (226, ''setxattr''), (227, ''lsetxattr''), (228, ''fsetxattr''),
    (229, ''getxattr''), (230, ''lgetxattr''), (231, ''fgetxattr''), (232, ''listxattr''),
    (233, ''llistxattr'')]"

definition syscall_num_to_name_EM_386_3 :: "(int \<times> string) list" where
  "syscall_num_to_name_EM_386_3 = [
    (234, ''flistxattr''), (235, ''removexattr''), (236, ''lremovexattr''), (237, ''fremovexattr''),
    (238, ''tkill''), (239, ''sendfile64''), (240, ''futex''), (241, ''sched_setaffinity''),
    (242, ''sched_getaffinity''), (243, ''set_thread_area''), (244, ''get_thread_area''),
    (245, ''io_setup''), (246, ''io_destroy''), (247, ''io_getevents''), (248, ''io_submit''),
    (249, ''io_cancel''), (250, ''fadvise64''), (252, ''exit_group''), (253, ''lookup_dcookie''),
    (254, ''epoll_create''), (255, ''epoll_ctl''), (256, ''epoll_wait''), (257, ''remap_file_pages''),
    (258, ''set_tid_address''), (259, ''timer_create''), (260, ''timer_settime''), (261, ''timer_gettime''),
    (262, ''timer_getoverrun''), (263, ''timer_delete''), (264, ''clock_settime''),
    (265, ''clock_gettime''), (266, ''clock_getres''), (267, ''clock_nanosleep''), (268, ''statfs64''),
    (269, ''fstatfs64''), (270, ''tgkill''), (271, ''utimes''), (272, ''fadvise64_64''), (273, ''vserver''),
    (274, ''mbind''), (275, ''get_mempolicy''), (276, ''set_mempolicy''), (277, ''mq_open''),
    (278, ''mq_unlink''), (279, ''mq_timedsend''), (280, ''mq_timedreceive''), (281, ''mq_notify''),
    (282, ''mq_getsetattr''), (283, ''kexec_load''), (284, ''waitid''), (286, ''add_key''),
    (287, ''request_key''), (288, ''keyctl''), (289, ''ioprio_set''), (290, ''ioprio_get''),
    (291, ''inotify_init''), (292, ''inotify_add_watch''), (293, ''inotify_rm_watch''),
    (294, ''migrate_pages''), (295, ''openat''), (296, ''mkdirat''), (297, ''mknodat''),
    (298, ''fchownat''), (299, ''futimesat''), (300, ''fstatat64''), (301, ''unlinkat''),
    (302, ''renameat''), (303, ''linkat''), (304, ''symlinkat''), (305, ''readlinkat''),
    (306, ''fchmodat''), (307, ''faccessat''), (308, ''pselect6''), (309, ''ppoll''), (310, ''unshare''),
    (311, ''set_robust_list''), (312, ''get_robust_list''), (313, ''splice''), (314, ''sync_file_range''),
    (315, ''tee''), (316, ''vmsplice''), (317, ''move_pages''), (318, ''getcpu''), (319, ''epoll_pwait''),
    (320, ''utimensat''), (321, ''signalfd''), (322, ''timerfd_create''), (323, ''eventfd''),
    (324, ''fallocate''), (325, ''timerfd_settime''), (326, ''timerfd_gettime''), (327, ''signalfd4''),
    (328, ''eventfd2''), (329, ''epoll_create1''), (330, ''dup3''), (331, ''pipe2''),
    (332, ''inotify_init1''), (333, ''preadv''), (334, ''pwritev''), (335, ''rt_tgsigqueueinfo''),
    (336, ''perf_event_open''), (337, ''recvmmsg''), (338, ''fanotify_init''), (339, ''fanotify_mark''),
    (340, ''prlimit64''), (341, ''name_to_handle_at''), (342, ''open_by_handle_at''),
    (343, ''clock_adjtime''), (344, ''syncfs''), (345, ''sendmmsg''), (346, ''setns''),
    (347, ''process_vm_readv''), (348, ''process_vm_writev''), (349, ''kcmp''), (350, ''finit_module''),
    (351, ''sched_setattr'')]"

definition syscall_num_to_name_EM_386_4 :: "(int \<times> string) list" where
  "syscall_num_to_name_EM_386_4 = [
    (352, ''sched_getattr''), (353, ''renameat2''), (354, ''seccomp''), (355, ''getrandom''),
    (356, ''memfd_create''), (357, ''bpf''), (358, ''execveat''), (359, ''socket''), (360, ''socketpair''),
    (361, ''bind''), (362, ''connect''), (363, ''listen''), (364, ''accept4''), (365, ''getsockopt''),
    (366, ''setsockopt''), (367, ''getsockname''), (368, ''getpeername''), (369, ''sendto''),
    (370, ''sendmsg''), (371, ''recvfrom''), (372, ''recvmsg''), (373, ''shutdown''),
    (374, ''userfaultfd''), (375, ''membarrier''), (376, ''mlock2''), (377, ''copy_file_range''),
    (378, ''preadv2''), (379, ''pwritev2''), (380, ''pkey_mprotect''), (381, ''pkey_alloc''),
    (382, ''pkey_free''), (383, ''statx''), (384, ''arch_prctl''), (385, ''io_pgetevents''),
    (386, ''rseq''), (393, ''semget''), (394, ''semctl''), (395, ''shmget''), (396, ''shmctl''),
    (397, ''shmat''), (398, ''shmdt''), (399, ''msgget''), (400, ''msgsnd''), (401, ''msgrcv''),
    (402, ''msgctl''), (403, ''clock_gettime64''), (404, ''clock_settime64''), (405, ''clock_adjtime64''),
    (406, ''clock_getres_time64''), (407, ''clock_nanosleep_time64''), (408, ''timer_gettime64''),
    (409, ''timer_settime64''), (410, ''timerfd_gettime64''), (411, ''timerfd_settime64''),
    (412, ''utimensat_time64''), (413, ''pselect6_time64''), (414, ''ppoll_time64''),
    (416, ''io_pgetevents_time64''), (417, ''recvmmsg_time64''), (418, ''mq_timedsend_time64''),
    (419, ''mq_timedreceive_time64''), (420, ''semtimedop_time64''), (421, ''rt_sigtimedwait_time64''),
    (422, ''futex_time64''), (423, ''sched_rr_get_interval_time64''), (424, ''pidfd_send_signal''),
    (425, ''io_uring_setup''), (426, ''io_uring_enter''), (427, ''io_uring_register''),
    (428, ''open_tree''), (429, ''move_mount''), (430, ''fsopen''), (431, ''fsconfig''), (432, ''fsmount''),
    (433, ''fspick''), (434, ''pidfd_open''), (435, ''clone3''), (436, ''close_range''), (437, ''openat2''),
    (438, ''pidfd_getfd''), (439, ''faccessat2''), (440, ''process_madvise''), (441, ''epoll_pwait2''),
    (442, ''mount_setattr''), (443, ''quotactl_fd''), (444, ''landlock_create_ruleset''),
    (445, ''landlock_add_rule''), (446, ''landlock_restrict_self''), (447, ''memfd_secret''),
    (448, ''process_mrelease''), (449, ''futex_waitv''), (450, ''set_mempolicy_home_node''),
    (451, ''cachestat''), (452, ''fchmodat2''), (453, ''map_shadow_stack''), (454, ''futex_wake''),
    (455, ''futex_wait''), (456, ''futex_requeue''), (457, ''statmount''), (458, ''listmount''),
    (459, ''lsm_get_self_attr''), (460, ''lsm_set_self_attr''), (461, ''lsm_list_modules''),
    (462, ''mseal''), (463, ''setxattrat''), (464, ''getxattrat''), (465, ''listxattrat''),
    (466, ''removexattrat''), (467, ''open_tree_attr''), (468, ''file_getattr''), (469, ''file_setattr''),
    (470, ''listns''), (471, ''rseq_slice_yield'')]"

definition syscall_sorted_names_EM_386_1 :: "int list" where
  "syscall_sorted_names_EM_386_1 = [
    140, 142, 149, 364, 33, 51, 286, 124, 137, 27, 384, 134, 361, 357, 17, 45, 451, 184, 185, 12, 15, 182,
    212, 61, 343, 405, 266, 406, 265, 403, 267, 407, 264, 404, 120, 435, 6, 436, 362, 377, 8, 127, 129, 41,
    63, 330, 254, 329, 255, 319, 441, 256, 323, 328, 11, 358, 1, 252, 307, 439, 250, 272, 324, 338, 339,
    133, 94, 306, 452, 95, 207, 298, 55, 221, 148, 231, 468, 469, 350, 234, 143, 2, 237, 431, 228, 432, 430,
    433, 108, 197, 300, 100, 269, 118, 35, 93, 194, 240, 456, 422, 455, 449, 454, 299, 130, 275, 312, 244,
    318, 183, 141, 220, 50, 202, 49, 201]"

definition syscall_sorted_names_EM_386_2 :: "int list" where
  "syscall_sorted_names_EM_386_2 = [
    47, 200, 80, 205, 105, 368, 132, 65, 20, 188, 64, 96, 355, 171, 211, 165, 209, 76, 77, 147, 367, 365,
    224, 78, 24, 199, 229, 464, 32, 112, 128, 292, 291, 332, 293, 249, 246, 247, 385, 416, 245, 248, 426,
    427, 425, 54, 101, 110, 290, 289, 117, 349, 283, 288, 37, 445, 444, 446, 16, 198, 230, 9, 303, 363, 458,
    470, 232, 465, 233, 53, 253, 236, 19, 227, 459, 461, 460, 107, 196, 219, 453, 274, 375, 356, 447, 294,
    218, 39, 296, 14, 297, 150, 376, 152, 90, 192, 123, 21, 442, 429, 317, 125, 56, 282, 281, 277, 280, 419,
    279, 418, 278, 163, 462, 402, 399, 401]"

definition syscall_sorted_names_EM_386_3 :: "int list" where
  "syscall_sorted_names_EM_386_3 = [
    400, 144, 151, 153, 91, 341, 162, 169, 34, 28, 84, 59, 18, 109, 5, 342, 428, 467, 295, 437, 29, 336,
    136, 438, 434, 424, 42, 331, 217, 381, 382, 380, 168, 309, 414, 172, 180, 333, 378, 340, 440, 448, 347,
    348, 44, 98, 308, 413, 26, 189, 181, 334, 379, 167, 131, 443, 3, 225, 89, 85, 305, 145, 88, 371, 337,
    417, 372, 257, 235, 466, 38, 302, 353, 287, 0, 40, 386, 471, 174, 176, 175, 178, 173, 179, 177, 421,
    335, 159, 160, 242, 352, 155, 157, 161, 423, 241, 351, 154, 156, 158, 354, 82, 394, 393, 420, 187, 239,
    345, 370, 369, 276, 450, 311, 243, 258, 121]"

definition syscall_sorted_names_EM_386_4 :: "int list" where
  "syscall_sorted_names_EM_386_4 = [
    139, 216, 138, 215, 46, 214, 81, 206, 74, 104, 346, 57, 97, 71, 204, 170, 210, 164, 208, 70, 203, 75,
    66, 366, 79, 23, 213, 226, 463, 68, 397, 396, 398, 395, 373, 67, 186, 48, 321, 327, 73, 126, 119, 72,
    359, 102, 360, 313, 69, 106, 195, 99, 268, 457, 383, 25, 31, 115, 87, 83, 304, 36, 314, 344, 135, 116,
    103, 315, 270, 13, 259, 263, 262, 261, 408, 260, 409, 322, 326, 410, 325, 411, 43, 238, 92, 193, 191,
    58, 60, 22, 52, 122, 10, 301, 310, 86, 374, 62, 30, 320, 412, 271, 190, 111, 166, 113, 316, 273, 114,
    284, 7, 4, 146]"

lemma indexed_386:
  "indexed (syscall_num_to_name_EM_386_1 @ syscall_num_to_name_EM_386_2 @ syscall_num_to_name_EM_386_3 @ syscall_num_to_name_EM_386_4)
    (syscall_sorted_names_EM_386_1 @ syscall_sorted_names_EM_386_2 @ syscall_sorted_names_EM_386_3 @ syscall_sorted_names_EM_386_4)"
  by code_simp

section \<open>X86_64\<close>

definition syscall_num_to_name_EM_X86_64_1 :: "(int \<times> string) list" where
  "syscall_num_to_name_EM_X86_64_1 = [
    (0, ''read''), (1, ''write''), (2, ''open''), (3, ''close''), (4, ''stat''), (5, ''fstat''),
    (6, ''lstat''), (7, ''poll''), (8, ''lseek''), (9, ''mmap''), (10, ''mprotect''), (11, ''munmap''),
    (12, ''brk''), (13, ''rt_sigaction''), (14, ''rt_sigprocmask''), (15, ''rt_sigreturn''),
    (16, ''ioctl''), (17, ''pread64''), (18, ''pwrite64''), (19, ''readv''), (20, ''writev''),
    (21, ''access''), (22, ''pipe''), (23, ''select''), (24, ''sched_yield''), (25, ''mremap''),
    (26, ''msync''), (27, ''mincore''), (28, ''madvise''), (29, ''shmget''), (30, ''shmat''),
    (31, ''shmctl''), (32, ''dup''), (33, ''dup2''), (34, ''pause''), (35, ''nanosleep''),
    (36, ''getitimer''), (37, ''alarm''), (38, ''setitimer''), (39, ''getpid''), (40, ''sendfile''),
    (41, ''socket''), (42, ''connect''), (43, ''accept''), (44, ''sendto''), (45, ''recvfrom''),
    (46, ''sendmsg''), (47, ''recvmsg''), (48, ''shutdown''), (49, ''bind''), (50, ''listen''),
    (51, ''getsockname''), (52, ''getpeername''), (53, ''socketpair''), (54, ''setsockopt''),
    (55, ''getsockopt''), (56, ''clone''), (57, ''fork''), (58, ''vfork''), (59, ''execve''),
    (60, ''exit''), (61, ''wait4''), (62, ''kill''), (63, ''uname''), (64, ''semget''), (65, ''semop''),
    (66, ''semctl''), (67, ''shmdt''), (68, ''msgget''), (69, ''msgsnd''), (70, ''msgrcv''),
    (71, ''msgctl''), (72, ''fcntl''), (73, ''flock''), (74, ''fsync''), (75, ''fdatasync''),
    (76, ''truncate''), (77, ''ftruncate''), (78, ''getdents''), (79, ''getcwd''), (80, ''chdir''),
    (81, ''fchdir''), (82, ''rename''), (83, ''mkdir''), (84, ''rmdir''), (85, ''creat''), (86, ''link''),
    (87, ''unlink''), (88, ''symlink''), (89, ''readlink''), (90, ''chmod''), (91, ''fchmod''),
    (92, ''chown''), (93, ''fchown''), (94, ''lchown''), (95, ''umask''), (96, ''gettimeofday''),
    (97, ''getrlimit''), (98, ''getrusage''), (99, ''sysinfo''), (100, ''times''), (101, ''ptrace''),
    (102, ''getuid''), (103, ''syslog''), (104, ''getgid''), (105, ''setuid''), (106, ''setgid''),
    (107, ''geteuid''), (108, ''getegid''), (109, ''setpgid''), (110, ''getppid''), (111, ''getpgrp''),
    (112, ''setsid''), (113, ''setreuid''), (114, ''setregid''), (115, ''getgroups''), (116, ''setgroups''),
    (117, ''setresuid''), (118, ''getresuid''), (119, ''setresgid''), (120, ''getresgid''),
    (121, ''getpgid''), (122, ''setfsuid''), (123, ''setfsgid''), (124, ''getsid''), (125, ''capget''),
    (126, ''capset''), (127, ''rt_sigpending''), (128, ''rt_sigtimedwait'')]"

definition syscall_num_to_name_EM_X86_64_2 :: "(int \<times> string) list" where
  "syscall_num_to_name_EM_X86_64_2 = [
    (129, ''rt_sigqueueinfo''), (130, ''rt_sigsuspend''), (131, ''sigaltstack''), (132, ''utime''),
    (133, ''mknod''), (134, ''uselib''), (135, ''personality''), (136, ''ustat''), (137, ''statfs''),
    (138, ''fstatfs''), (139, ''sysfs''), (140, ''getpriority''), (141, ''setpriority''),
    (142, ''sched_setparam''), (143, ''sched_getparam''), (144, ''sched_setscheduler''),
    (145, ''sched_getscheduler''), (146, ''sched_get_priority_max''), (147, ''sched_get_priority_min''),
    (148, ''sched_rr_get_interval''), (149, ''mlock''), (150, ''munlock''), (151, ''mlockall''),
    (152, ''munlockall''), (153, ''vhangup''), (154, ''modify_ldt''), (155, ''pivot_root''),
    (156, ''_sysctl''), (157, ''prctl''), (158, ''arch_prctl''), (159, ''adjtimex''), (160, ''setrlimit''),
    (161, ''chroot''), (162, ''sync''), (163, ''acct''), (164, ''settimeofday''), (165, ''mount''),
    (166, ''umount2''), (167, ''swapon''), (168, ''swapoff''), (169, ''reboot''), (170, ''sethostname''),
    (171, ''setdomainname''), (172, ''iopl''), (173, ''ioperm''), (174, ''create_module''),
    (175, ''init_module''), (176, ''delete_module''), (177, ''get_kernel_syms''), (178, ''query_module''),
    (179, ''quotactl''), (180, ''nfsservctl''), (181, ''getpmsg''), (182, ''putpmsg''),
    (183, ''afs_syscall''), (184, ''tuxcall''), (185, ''security''), (186, ''gettid''),
    (187, ''readahead''), (188, ''setxattr''), (189, ''lsetxattr''), (190, ''fsetxattr''),
    (191, ''getxattr''), (192, ''lgetxattr''), (193, ''fgetxattr''), (194, ''listxattr''),
    (195, ''llistxattr''), (196, ''flistxattr''), (197, ''removexattr''), (198, ''lremovexattr''),
    (199, ''fremovexattr''), (200, ''tkill''), (201, ''time''), (202, ''futex''),
    (203, ''sched_setaffinity''), (204, ''sched_getaffinity''), (205, ''set_thread_area''),
    (206, ''io_setup''), (207, ''io_destroy''), (208, ''io_getevents''), (209, ''io_submit''),
    (210, ''io_cancel''), (211, ''get_thread_area''), (212, ''lookup_dcookie''), (213, ''epoll_create''),
    (214, ''epoll_ctl_old''), (215, ''epoll_wait_old''), (216, ''remap_file_pages''), (217, ''getdents64''),
    (218, ''set_tid_address''), (219, ''restart_syscall''), (220, ''semtimedop''), (221, ''fadvise64''),
    (222, ''timer_create''), (223, ''timer_settime''), (224, ''timer_gettime''),
    (225, ''timer_getoverrun''), (226, ''timer_delete''), (227, ''clock_settime''),
    (228, ''clock_gettime''), (229, ''clock_getres''), (230, ''clock_nanosleep''), (231, ''exit_group''),
    (232, ''epoll_wait''), (233, ''epoll_ctl''), (234, ''tgkill''), (235, ''utimes''), (236, ''vserver''),
    (237, ''mbind''), (238, ''set_mempolicy''), (239, ''get_mempolicy''), (240, ''mq_open''),
    (241, ''mq_unlink''), (242, ''mq_timedsend''), (243, ''mq_timedreceive''), (244, ''mq_notify''),
    (245, ''mq_getsetattr''), (246, ''kexec_load''), (247, ''waitid''), (248, ''add_key''),
    (249, ''request_key''), (250, ''keyctl''), (251, ''ioprio_set''), (252, ''ioprio_get''),
    (253, ''inotify_init''), (254, ''inotify_add_watch''), (255, ''inotify_rm_watch''),
    (256, ''migrate_pages''), (257, ''openat'')]"

definition syscall_num_to_name_EM_X86_64_3 :: "(int \<times> string) list" where
  "syscall_num_to_name_EM_X86_64_3 = [
    (258, ''mkdirat''), (259, ''mknodat''), (260, ''fchownat''), (261, ''futimesat''),
    (262, ''newfstatat''), (263, ''unlinkat''), (264, ''renameat''), (265, ''linkat''),
    (266, ''symlinkat''), (267, ''readlinkat''), (268, ''fchmodat''), (269, ''faccessat''),
    (270, ''pselect6''), (271, ''ppoll''), (272, ''unshare''), (273, ''set_robust_list''),
    (274, ''get_robust_list''), (275, ''splice''), (276, ''tee''), (277, ''sync_file_range''),
    (278, ''vmsplice''), (279, ''move_pages''), (280, ''utimensat''), (281, ''epoll_pwait''),
    (282, ''signalfd''), (283, ''timerfd_create''), (284, ''eventfd''), (285, ''fallocate''),
    (286, ''timerfd_settime''), (287, ''timerfd_gettime''), (288, ''accept4''), (289, ''signalfd4''),
    (290, ''eventfd2''), (291, ''epoll_create1''), (292, ''dup3''), (293, ''pipe2''),
    (294, ''inotify_init1''), (295, ''preadv''), (296, ''pwritev''), (297, ''rt_tgsigqueueinfo''),
    (298, ''perf_event_open''), (299, ''recvmmsg''), (300, ''fanotify_init''), (301, ''fanotify_mark''),
    (302, ''prlimit64''), (303, ''name_to_handle_at''), (304, ''open_by_handle_at''),
    (305, ''clock_adjtime''), (306, ''syncfs''), (307, ''sendmmsg''), (308, ''setns''), (309, ''getcpu''),
    (310, ''process_vm_readv''), (311, ''process_vm_writev''), (312, ''kcmp''), (313, ''finit_module''),
    (314, ''sched_setattr''), (315, ''sched_getattr''), (316, ''renameat2''), (317, ''seccomp''),
    (318, ''getrandom''), (319, ''memfd_create''), (320, ''kexec_file_load''), (321, ''bpf''),
    (322, ''execveat''), (323, ''userfaultfd''), (324, ''membarrier''), (325, ''mlock2''),
    (326, ''copy_file_range''), (327, ''preadv2''), (328, ''pwritev2''), (329, ''pkey_mprotect''),
    (330, ''pkey_alloc''), (331, ''pkey_free''), (332, ''statx''), (333, ''io_pgetevents''),
    (334, ''rseq''), (335, ''uretprobe''), (336, ''uprobe''), (424, ''pidfd_send_signal''),
    (425, ''io_uring_setup''), (426, ''io_uring_enter''), (427, ''io_uring_register''),
    (428, ''open_tree''), (429, ''move_mount''), (430, ''fsopen''), (431, ''fsconfig''), (432, ''fsmount''),
    (433, ''fspick''), (434, ''pidfd_open''), (435, ''clone3''), (436, ''close_range''), (437, ''openat2''),
    (438, ''pidfd_getfd''), (439, ''faccessat2''), (440, ''process_madvise''), (441, ''epoll_pwait2''),
    (442, ''mount_setattr''), (443, ''quotactl_fd''), (444, ''landlock_create_ruleset''),
    (445, ''landlock_add_rule''), (446, ''landlock_restrict_self''), (447, ''memfd_secret''),
    (448, ''process_mrelease''), (449, ''futex_waitv''), (450, ''set_mempolicy_home_node''),
    (451, ''cachestat''), (452, ''fchmodat2''), (453, ''map_shadow_stack''), (454, ''futex_wake''),
    (455, ''futex_wait''), (456, ''futex_requeue''), (457, ''statmount''), (458, ''listmount''),
    (459, ''lsm_get_self_attr''), (460, ''lsm_set_self_attr''), (461, ''lsm_list_modules''),
    (462, ''mseal''), (463, ''setxattrat''), (464, ''getxattrat''), (465, ''listxattrat''),
    (466, ''removexattrat''), (467, ''open_tree_attr''), (468, ''file_getattr''), (469, ''file_setattr''),
    (470, ''listns''), (471, ''rseq_slice_yield'')]"

definition syscall_sorted_names_EM_X86_64_1 :: "int list" where
  "syscall_sorted_names_EM_X86_64_1 = [
    156, 43, 288, 21, 163, 248, 159, 183, 37, 158, 49, 321, 12, 451, 125, 126, 80, 90, 92, 161, 305, 229,
    228, 230, 227, 56, 435, 3, 436, 42, 326, 85, 174, 176, 32, 33, 292, 213, 291, 233, 214, 281, 441, 232,
    215, 284, 290, 59, 322, 60, 231, 269, 439, 221, 285, 300, 301, 81, 91, 268, 452, 93, 260, 72, 75, 193,
    468, 469, 313, 196, 73, 57, 199, 431, 190, 432, 430, 433, 5, 138, 74, 77, 202, 456, 455, 449, 454, 261,
    177, 239, 274, 211, 309, 79, 78, 217, 108, 107, 104, 115, 36, 52, 121, 111, 39, 181, 110, 140, 318, 120,
    118, 97, 98, 124, 51, 55, 186, 96, 102, 191, 464, 175, 254, 253, 294, 255, 210, 207, 208]"

definition syscall_sorted_names_EM_X86_64_2 :: "int list" where
  "syscall_sorted_names_EM_X86_64_2 = [
    333, 206, 209, 426, 427, 425, 16, 173, 172, 252, 251, 312, 320, 246, 250, 62, 445, 444, 446, 94, 192,
    86, 265, 50, 458, 470, 194, 465, 195, 212, 198, 8, 189, 459, 461, 460, 6, 28, 453, 237, 324, 319, 447,
    256, 27, 83, 258, 133, 259, 149, 325, 151, 9, 154, 165, 442, 429, 279, 10, 245, 244, 240, 243, 242, 241,
    25, 462, 71, 68, 70, 69, 26, 150, 152, 11, 303, 35, 262, 180, 2, 304, 428, 467, 257, 437, 34, 298, 135,
    438, 434, 424, 22, 293, 155, 330, 331, 329, 7, 271, 157, 17, 295, 327, 302, 440, 448, 310, 311, 270,
    101, 182, 18, 296, 328, 178, 179, 443, 0, 187, 89, 267, 19, 169, 45, 299, 47, 216, 197, 466]"

definition syscall_sorted_names_EM_X86_64_3 :: "int list" where
  "syscall_sorted_names_EM_X86_64_3 = [
    82, 264, 316, 249, 219, 84, 334, 471, 13, 127, 14, 129, 15, 130, 128, 297, 146, 147, 204, 315, 143, 145,
    148, 203, 314, 142, 144, 24, 317, 185, 23, 66, 64, 65, 220, 40, 307, 46, 44, 238, 450, 273, 205, 218,
    171, 123, 122, 106, 116, 170, 38, 308, 109, 141, 114, 119, 117, 113, 160, 112, 54, 164, 105, 188, 463,
    30, 31, 67, 29, 48, 131, 282, 289, 41, 53, 275, 4, 137, 457, 332, 168, 167, 88, 266, 162, 277, 306, 139,
    99, 103, 276, 234, 201, 222, 226, 225, 224, 223, 283, 287, 286, 100, 200, 76, 184, 95, 166, 63, 87, 263,
    272, 336, 335, 134, 323, 136, 132, 280, 235, 58, 153, 278, 236, 61, 247, 1, 20]"

lemma indexed_X86_64:
  "indexed (syscall_num_to_name_EM_X86_64_1 @ syscall_num_to_name_EM_X86_64_2 @ syscall_num_to_name_EM_X86_64_3)
    (syscall_sorted_names_EM_X86_64_1 @ syscall_sorted_names_EM_X86_64_2 @ syscall_sorted_names_EM_X86_64_3)"
  by code_simp

section \<open>XTENSA\<close>

definition syscall_num_to_name_EM_XTENSA_1 :: "(int \<times> string) list" where
  "syscall_num_to_name_EM_XTENSA_1 = [
    (0, ''spill''), (1, ''xtensa''), (2, ''available4''), (3, ''available5''), (4, ''available6''),
    (5, ''available7''), (6, ''available8''), (7, ''available9''), (8, ''open''), (9, ''close''),
    (10, ''dup''), (11, ''dup2''), (12, ''read''), (13, ''write''), (14, ''select''), (15, ''lseek''),
    (16, ''poll''), (17, ''_llseek''), (18, ''epoll_wait''), (19, ''epoll_ctl''), (20, ''epoll_create''),
    (21, ''creat''), (22, ''truncate''), (23, ''ftruncate''), (24, ''readv''), (25, ''writev''),
    (26, ''fsync''), (27, ''fdatasync''), (28, ''truncate64''), (29, ''ftruncate64''), (30, ''pread64''),
    (31, ''pwrite64''), (32, ''link''), (33, ''rename''), (34, ''symlink''), (35, ''readlink''),
    (36, ''mknod''), (37, ''pipe''), (38, ''unlink''), (39, ''rmdir''), (40, ''mkdir''), (41, ''chdir''),
    (42, ''fchdir''), (43, ''getcwd''), (44, ''chmod''), (45, ''chown''), (46, ''stat''), (47, ''stat64''),
    (48, ''lchown''), (49, ''lstat''), (50, ''lstat64''), (51, ''available51''), (52, ''fchmod''),
    (53, ''fchown''), (54, ''fstat''), (55, ''fstat64''), (56, ''flock''), (57, ''access''),
    (58, ''umask''), (59, ''getdents''), (60, ''getdents64''), (61, ''fcntl64''), (62, ''fallocate''),
    (63, ''fadvise64_64''), (64, ''utime''), (65, ''utimes''), (66, ''ioctl''), (67, ''fcntl''),
    (68, ''setxattr''), (69, ''getxattr''), (70, ''listxattr''), (71, ''removexattr''), (72, ''lsetxattr''),
    (73, ''lgetxattr''), (74, ''llistxattr''), (75, ''lremovexattr''), (76, ''fsetxattr''),
    (77, ''fgetxattr''), (78, ''flistxattr''), (79, ''fremovexattr''), (80, ''mmap2''), (81, ''munmap''),
    (82, ''mprotect''), (83, ''brk''), (84, ''mlock''), (85, ''munlock''), (86, ''mlockall''),
    (87, ''munlockall''), (88, ''mremap''), (89, ''msync''), (90, ''mincore''), (91, ''madvise''),
    (92, ''shmget''), (93, ''shmat''), (94, ''shmctl''), (95, ''shmdt''), (96, ''socket''),
    (97, ''setsockopt''), (98, ''getsockopt''), (99, ''shutdown''), (100, ''bind''), (101, ''connect''),
    (102, ''listen''), (103, ''accept''), (104, ''getsockname''), (105, ''getpeername''),
    (106, ''sendmsg''), (107, ''recvmsg''), (108, ''send''), (109, ''recv''), (110, ''sendto''),
    (111, ''recvfrom''), (112, ''socketpair''), (113, ''sendfile''), (114, ''sendfile64''),
    (115, ''sendmmsg''), (116, ''clone''), (117, ''execve''), (118, ''exit''), (119, ''exit_group''),
    (120, ''getpid''), (121, ''wait4''), (122, ''waitid''), (123, ''kill''), (124, ''tkill''),
    (125, ''tgkill''), (126, ''set_tid_address''), (127, ''gettid''), (128, ''setsid''), (129, ''getsid''),
    (130, ''prctl''), (131, ''personality''), (132, ''getpriority''), (133, ''setpriority''),
    (134, ''setitimer''), (135, ''getitimer''), (136, ''setuid''), (137, ''getuid''), (138, ''setgid'')]"

definition syscall_num_to_name_EM_XTENSA_2 :: "(int \<times> string) list" where
  "syscall_num_to_name_EM_XTENSA_2 = [
    (139, ''getgid''), (140, ''geteuid''), (141, ''getegid''), (142, ''setreuid''), (143, ''setregid''),
    (144, ''setresuid''), (145, ''getresuid''), (146, ''setresgid''), (147, ''getresgid''),
    (148, ''setpgid''), (149, ''getpgid''), (150, ''getppid''), (151, ''getpgrp''), (152, ''reserved152''),
    (153, ''reserved153''), (154, ''times''), (155, ''acct''), (156, ''sched_setaffinity''),
    (157, ''sched_getaffinity''), (158, ''capget''), (159, ''capset''), (160, ''ptrace''),
    (161, ''semtimedop''), (162, ''semget''), (163, ''semop''), (164, ''semctl''), (165, ''available165''),
    (166, ''msgget''), (167, ''msgsnd''), (168, ''msgrcv''), (169, ''msgctl''), (170, ''available170''),
    (171, ''umount2''), (172, ''mount''), (173, ''swapon''), (174, ''chroot''), (175, ''pivot_root''),
    (176, ''umount''), (177, ''swapoff''), (178, ''sync''), (179, ''syncfs''), (180, ''setfsuid''),
    (181, ''setfsgid''), (182, ''sysfs''), (183, ''ustat''), (184, ''statfs''), (185, ''fstatfs''),
    (186, ''statfs64''), (187, ''fstatfs64''), (188, ''setrlimit''), (189, ''getrlimit''),
    (190, ''getrusage''), (191, ''futex''), (192, ''gettimeofday''), (193, ''settimeofday''),
    (194, ''adjtimex''), (195, ''nanosleep''), (196, ''getgroups''), (197, ''setgroups''),
    (198, ''sethostname''), (199, ''setdomainname''), (200, ''syslog''), (201, ''vhangup''),
    (202, ''uselib''), (203, ''reboot''), (204, ''quotactl''), (205, ''nfsservctl''), (206, ''_sysctl''),
    (207, ''bdflush''), (208, ''uname''), (209, ''sysinfo''), (210, ''init_module''),
    (211, ''delete_module''), (212, ''sched_setparam''), (213, ''sched_getparam''),
    (214, ''sched_setscheduler''), (215, ''sched_getscheduler''), (216, ''sched_get_priority_max''),
    (217, ''sched_get_priority_min''), (218, ''sched_rr_get_interval''), (219, ''sched_yield''),
    (222, ''available222''), (223, ''restart_syscall''), (224, ''sigaltstack''), (225, ''rt_sigreturn''),
    (226, ''rt_sigaction''), (227, ''rt_sigprocmask''), (228, ''rt_sigpending''),
    (229, ''rt_sigtimedwait''), (230, ''rt_sigqueueinfo''), (231, ''rt_sigsuspend''), (232, ''mq_open''),
    (233, ''mq_unlink''), (234, ''mq_timedsend''), (235, ''mq_timedreceive''), (236, ''mq_notify''),
    (237, ''mq_getsetattr''), (238, ''available238''), (239, ''io_setup''), (240, ''io_destroy''),
    (241, ''io_submit''), (242, ''io_getevents''), (243, ''io_cancel''), (244, ''clock_settime''),
    (245, ''clock_gettime''), (246, ''clock_getres''), (247, ''clock_nanosleep''), (248, ''timer_create''),
    (249, ''timer_delete''), (250, ''timer_settime''), (251, ''timer_gettime''),
    (252, ''timer_getoverrun''), (253, ''reserved253''), (254, ''lookup_dcookie''), (255, ''available255''),
    (256, ''add_key''), (257, ''request_key''), (258, ''keyctl''), (259, ''available259''),
    (260, ''readahead''), (261, ''remap_file_pages''), (262, ''migrate_pages''), (263, ''mbind''),
    (264, ''get_mempolicy''), (265, ''set_mempolicy''), (266, ''unshare''), (267, ''move_pages''),
    (268, ''splice''), (269, ''tee''), (270, ''vmsplice''), (271, ''available271''), (272, ''pselect6''),
    (273, ''ppoll''), (274, ''epoll_pwait''), (275, ''epoll_create1''), (276, ''inotify_init''),
    (277, ''inotify_add_watch''), (278, ''inotify_rm_watch''), (279, ''inotify_init1'')]"

definition syscall_num_to_name_EM_XTENSA_3 :: "(int \<times> string) list" where
  "syscall_num_to_name_EM_XTENSA_3 = [
    (280, ''getcpu''), (281, ''kexec_load''), (282, ''ioprio_set''), (283, ''ioprio_get''),
    (284, ''set_robust_list''), (285, ''get_robust_list''), (286, ''available286''),
    (287, ''available287''), (288, ''openat''), (289, ''mkdirat''), (290, ''mknodat''), (291, ''unlinkat''),
    (292, ''renameat''), (293, ''linkat''), (294, ''symlinkat''), (295, ''readlinkat''),
    (296, ''utimensat''), (297, ''fchownat''), (298, ''futimesat''), (299, ''fstatat64''),
    (300, ''fchmodat''), (301, ''faccessat''), (302, ''available302''), (303, ''available303''),
    (304, ''signalfd''), (306, ''eventfd''), (307, ''recvmmsg''), (308, ''setns''), (309, ''signalfd4''),
    (310, ''dup3''), (311, ''pipe2''), (312, ''timerfd_create''), (313, ''timerfd_settime''),
    (314, ''timerfd_gettime''), (315, ''available315''), (316, ''eventfd2''), (317, ''preadv''),
    (318, ''pwritev''), (319, ''available319''), (320, ''fanotify_init''), (321, ''fanotify_mark''),
    (322, ''process_vm_readv''), (323, ''process_vm_writev''), (324, ''name_to_handle_at''),
    (325, ''open_by_handle_at''), (326, ''sync_file_range2''), (327, ''perf_event_open''),
    (328, ''rt_tgsigqueueinfo''), (329, ''clock_adjtime''), (330, ''prlimit64''), (331, ''kcmp''),
    (332, ''finit_module''), (333, ''accept4''), (334, ''sched_setattr''), (335, ''sched_getattr''),
    (336, ''renameat2''), (337, ''seccomp''), (338, ''getrandom''), (339, ''memfd_create''), (340, ''bpf''),
    (341, ''execveat''), (342, ''userfaultfd''), (343, ''membarrier''), (344, ''mlock2''),
    (345, ''copy_file_range''), (346, ''preadv2''), (347, ''pwritev2''), (348, ''pkey_mprotect''),
    (349, ''pkey_alloc''), (350, ''pkey_free''), (351, ''statx''), (352, ''rseq''),
    (403, ''clock_gettime64''), (404, ''clock_settime64''), (405, ''clock_adjtime64''),
    (406, ''clock_getres_time64''), (407, ''clock_nanosleep_time64''), (408, ''timer_gettime64''),
    (409, ''timer_settime64''), (410, ''timerfd_gettime64''), (411, ''timerfd_settime64''),
    (412, ''utimensat_time64''), (413, ''pselect6_time64''), (414, ''ppoll_time64''),
    (416, ''io_pgetevents_time64''), (417, ''recvmmsg_time64''), (418, ''mq_timedsend_time64''),
    (419, ''mq_timedreceive_time64''), (420, ''semtimedop_time64''), (421, ''rt_sigtimedwait_time64''),
    (422, ''futex_time64''), (423, ''sched_rr_get_interval_time64''), (424, ''pidfd_send_signal''),
    (425, ''io_uring_setup''), (426, ''io_uring_enter''), (427, ''io_uring_register''),
    (428, ''open_tree''), (429, ''move_mount''), (430, ''fsopen''), (431, ''fsconfig''), (432, ''fsmount''),
    (433, ''fspick''), (434, ''pidfd_open''), (435, ''clone3''), (436, ''close_range''), (437, ''openat2''),
    (438, ''pidfd_getfd''), (439, ''faccessat2''), (440, ''process_madvise''), (441, ''epoll_pwait2''),
    (442, ''mount_setattr''), (443, ''quotactl_fd''), (444, ''landlock_create_ruleset''),
    (445, ''landlock_add_rule''), (446, ''landlock_restrict_self''), (448, ''process_mrelease''),
    (449, ''futex_waitv''), (450, ''set_mempolicy_home_node''), (451, ''cachestat''), (452, ''fchmodat2''),
    (453, ''map_shadow_stack''), (454, ''futex_wake''), (455, ''futex_wait''), (456, ''futex_requeue''),
    (457, ''statmount''), (458, ''listmount''), (459, ''lsm_get_self_attr''), (460, ''lsm_set_self_attr''),
    (461, ''lsm_list_modules''), (462, ''mseal''), (463, ''setxattrat''), (464, ''getxattrat''),
    (465, ''listxattrat''), (466, ''removexattrat''), (467, ''open_tree_attr''), (468, ''file_getattr''),
    (469, ''file_setattr''), (470, ''listns''), (471, ''rseq_slice_yield'')]"

definition syscall_sorted_names_EM_XTENSA_1 :: "int list" where
  "syscall_sorted_names_EM_XTENSA_1 = [
    17, 206, 103, 333, 57, 155, 256, 194, 165, 170, 222, 238, 255, 259, 271, 286, 287, 302, 303, 315, 319,
    2, 3, 51, 4, 5, 6, 7, 207, 100, 340, 83, 451, 158, 159, 41, 44, 45, 174, 329, 405, 246, 406, 245, 403,
    247, 407, 244, 404, 116, 435, 9, 436, 101, 345, 21, 211, 10, 11, 310, 20, 275, 19, 274, 441, 18, 306,
    316, 117, 341, 118, 119, 301, 439, 63, 62, 320, 321, 42, 52, 300, 452, 53, 297, 67, 61, 27, 77, 468,
    469, 332, 78, 56, 79, 431, 76, 432, 430, 433, 54, 55, 299, 185, 187, 26, 23, 29, 191, 456, 422, 455,
    449, 454, 298, 264, 285, 280, 43, 59, 60, 141, 140, 139, 196, 135, 105, 149, 151, 120, 150, 132, 338,
    147, 145, 189, 190, 129, 104, 98]"

definition syscall_sorted_names_EM_XTENSA_2 :: "int list" where
  "syscall_sorted_names_EM_XTENSA_2 = [
    127, 192, 137, 69, 464, 210, 277, 276, 279, 278, 243, 240, 242, 416, 239, 241, 426, 427, 425, 66, 283,
    282, 331, 281, 258, 123, 445, 444, 446, 48, 73, 32, 293, 102, 458, 470, 70, 465, 74, 254, 75, 15, 72,
    459, 461, 460, 49, 50, 91, 453, 263, 343, 339, 262, 90, 40, 289, 36, 290, 84, 344, 86, 80, 172, 442,
    429, 267, 82, 237, 236, 232, 235, 419, 234, 418, 233, 88, 462, 169, 166, 168, 167, 89, 85, 87, 81, 324,
    195, 205, 8, 325, 428, 467, 288, 437, 327, 131, 438, 434, 424, 37, 311, 175, 349, 350, 348, 16, 273,
    414, 130, 30, 317, 346, 330, 440, 448, 322, 323, 272, 413, 160, 31, 318, 347, 204, 443, 12, 260, 35,
    295, 24, 203, 109, 111, 307, 417, 107, 261, 71]"

definition syscall_sorted_names_EM_XTENSA_3 :: "int list" where
  "syscall_sorted_names_EM_XTENSA_3 = [
    466, 33, 292, 336, 257, 152, 153, 253, 223, 39, 352, 471, 226, 228, 227, 230, 225, 231, 229, 421, 328,
    216, 217, 157, 335, 213, 215, 218, 423, 156, 334, 212, 214, 219, 337, 14, 164, 162, 163, 161, 420, 108,
    113, 114, 115, 106, 110, 265, 450, 284, 126, 199, 181, 180, 138, 197, 198, 134, 308, 148, 133, 143, 146,
    144, 142, 188, 128, 97, 193, 136, 68, 463, 93, 94, 95, 92, 99, 224, 304, 309, 96, 112, 0, 268, 46, 47,
    184, 186, 457, 351, 177, 173, 34, 294, 178, 326, 179, 182, 209, 200, 269, 125, 248, 249, 252, 251, 408,
    250, 409, 312, 314, 410, 313, 411, 154, 124, 22, 28, 58, 176, 171, 208, 38, 291, 266, 202, 342, 183, 64,
    296, 412, 65, 201, 270, 121, 122, 13, 25, 1]"

lemma indexed_XTENSA:
  "indexed (syscall_num_to_name_EM_XTENSA_1 @ syscall_num_to_name_EM_XTENSA_2 @ syscall_num_to_name_EM_XTENSA_3)
    (syscall_sorted_names_EM_XTENSA_1 @ syscall_sorted_names_EM_XTENSA_2 @ syscall_sorted_names_EM_XTENSA_3)"
  by code_simp

section \<open>NONE (32 bits)\<close>

definition syscall_num_to_name_EM_NONE_32_1 :: "(int \<times> string) list" where
  "syscall_num_to_name_EM_NONE_32_1 = [
    (0, ''io_setup''), (1, ''io_destroy''), (2, ''io_submit''), (3, ''io_cancel''), (5, ''setxattr''),
    (6, ''lsetxattr''), (7, ''fsetxattr''), (8, ''getxattr''), (9, ''lgetxattr''), (10, ''fgetxattr''),
    (11, ''listxattr''), (12, ''llistxattr''), (13, ''flistxattr''), (14, ''removexattr''),
    (15, ''lremovexattr''), (16, ''fremovexattr''), (17, ''getcwd''), (18, ''lookup_dcookie''),
    (19, ''eventfd2''), (20, ''epoll_create1''), (21, ''epoll_ctl''), (22, ''epoll_pwait''), (23, ''dup''),
    (24, ''dup3''), (25, ''fcntl64''), (26, ''inotify_init1''), (27, ''inotify_add_watch''),
    (28, ''inotify_rm_watch''), (29, ''ioctl''), (30, ''ioprio_set''), (31, ''ioprio_get''),
    (32, ''flock''), (33, ''mknodat''), (34, ''mkdirat''), (35, ''unlinkat''), (36, ''symlinkat''),
    (37, ''linkat''), (39, ''umount2''), (40, ''mount''), (41, ''pivot_root''), (42, ''nfsservctl''),
    (43, ''statfs64''), (44, ''fstatfs64''), (45, ''truncate64''), (46, ''ftruncate64''),
    (47, ''fallocate''), (48, ''faccessat''), (49, ''chdir''), (50, ''fchdir''), (51, ''chroot''),
    (52, ''fchmod''), (53, ''fchmodat''), (54, ''fchownat''), (55, ''fchown''), (56, ''openat''),
    (57, ''close''), (58, ''vhangup''), (59, ''pipe2''), (60, ''quotactl''), (61, ''getdents64''),
    (62, ''llseek''), (63, ''read''), (64, ''write''), (65, ''readv''), (66, ''writev''), (67, ''pread64''),
    (68, ''pwrite64''), (69, ''preadv''), (70, ''pwritev''), (71, ''sendfile64''), (74, ''signalfd4''),
    (75, ''vmsplice''), (76, ''splice''), (77, ''tee''), (78, ''readlinkat''), (81, ''sync''),
    (82, ''fsync''), (83, ''fdatasync''), (84, ''sync_file_range''), (85, ''timerfd_create''),
    (89, ''acct''), (90, ''capget''), (91, ''capset''), (92, ''personality''), (93, ''exit''),
    (94, ''exit_group''), (95, ''waitid''), (96, ''set_tid_address''), (97, ''unshare''),
    (99, ''set_robust_list''), (100, ''get_robust_list''), (102, ''getitimer''), (103, ''setitimer''),
    (104, ''kexec_load''), (105, ''init_module''), (106, ''delete_module''), (107, ''timer_create''),
    (109, ''timer_getoverrun''), (111, ''timer_delete''), (116, ''syslog''), (117, ''ptrace''),
    (118, ''sched_setparam''), (119, ''sched_setscheduler''), (120, ''sched_getscheduler''),
    (121, ''sched_getparam'')]"

definition syscall_num_to_name_EM_NONE_32_2 :: "(int \<times> string) list" where
  "syscall_num_to_name_EM_NONE_32_2 = [
    (122, ''sched_setaffinity''), (123, ''sched_getaffinity''), (124, ''sched_yield''),
    (125, ''sched_get_priority_max''), (126, ''sched_get_priority_min''), (128, ''restart_syscall''),
    (129, ''kill''), (130, ''tkill''), (131, ''tgkill''), (132, ''sigaltstack''), (133, ''rt_sigsuspend''),
    (134, ''rt_sigaction''), (135, ''rt_sigprocmask''), (136, ''rt_sigpending''),
    (138, ''rt_sigqueueinfo''), (139, ''rt_sigreturn''), (140, ''setpriority''), (141, ''getpriority''),
    (142, ''reboot''), (143, ''setregid''), (144, ''setgid''), (145, ''setreuid''), (146, ''setuid''),
    (147, ''setresuid''), (148, ''getresuid''), (149, ''setresgid''), (150, ''getresgid''),
    (151, ''setfsuid''), (152, ''setfsgid''), (153, ''times''), (154, ''setpgid''), (155, ''getpgid''),
    (156, ''getsid''), (157, ''setsid''), (158, ''getgroups''), (159, ''setgroups''), (160, ''uname''),
    (161, ''sethostname''), (162, ''setdomainname''), (165, ''getrusage''), (166, ''umask''),
    (167, ''prctl''), (168, ''getcpu''), (172, ''getpid''), (173, ''getppid''), (174, ''getuid''),
    (175, ''geteuid''), (176, ''getgid''), (177, ''getegid''), (178, ''gettid''), (179, ''sysinfo''),
    (180, ''mq_open''), (181, ''mq_unlink''), (184, ''mq_notify''), (185, ''mq_getsetattr''),
    (186, ''msgget''), (187, ''msgctl''), (188, ''msgrcv''), (189, ''msgsnd''), (190, ''semget''),
    (191, ''semctl''), (193, ''semop''), (194, ''shmget''), (195, ''shmctl''), (196, ''shmat''),
    (197, ''shmdt''), (198, ''socket''), (199, ''socketpair''), (200, ''bind''), (201, ''listen''),
    (202, ''accept''), (203, ''connect''), (204, ''getsockname''), (205, ''getpeername''),
    (206, ''sendto''), (207, ''recvfrom''), (208, ''setsockopt''), (209, ''getsockopt''),
    (210, ''shutdown''), (211, ''sendmsg''), (212, ''recvmsg''), (213, ''readahead''), (214, ''brk''),
    (215, ''munmap''), (216, ''mremap''), (217, ''add_key''), (218, ''request_key''), (219, ''keyctl''),
    (220, ''clone''), (221, ''execve''), (222, ''mmap2''), (223, ''fadvise64_64''), (224, ''swapon''),
    (225, ''swapoff''), (226, ''mprotect''), (227, ''msync''), (228, ''mlock''), (229, ''munlock''),
    (230, ''mlockall''), (231, ''munlockall''), (232, ''mincore''), (233, ''madvise''),
    (234, ''remap_file_pages''), (235, ''mbind''), (236, ''get_mempolicy'')]"

definition syscall_num_to_name_EM_NONE_32_3 :: "(int \<times> string) list" where
  "syscall_num_to_name_EM_NONE_32_3 = [
    (237, ''set_mempolicy''), (238, ''migrate_pages''), (239, ''move_pages''), (240, ''rt_tgsigqueueinfo''),
    (241, ''perf_event_open''), (242, ''accept4''), (261, ''prlimit64''), (262, ''fanotify_init''),
    (263, ''fanotify_mark''), (264, ''name_to_handle_at''), (265, ''open_by_handle_at''), (267, ''syncfs''),
    (268, ''setns''), (269, ''sendmmsg''), (270, ''process_vm_readv''), (271, ''process_vm_writev''),
    (272, ''kcmp''), (273, ''finit_module''), (274, ''sched_setattr''), (275, ''sched_getattr''),
    (276, ''renameat2''), (277, ''seccomp''), (278, ''getrandom''), (279, ''memfd_create''), (280, ''bpf''),
    (281, ''execveat''), (282, ''userfaultfd''), (283, ''membarrier''), (284, ''mlock2''),
    (285, ''copy_file_range''), (286, ''preadv2''), (287, ''pwritev2''), (288, ''pkey_mprotect''),
    (289, ''pkey_alloc''), (290, ''pkey_free''), (291, ''statx''), (293, ''rseq''),
    (294, ''kexec_file_load''), (403, ''clock_gettime64''), (404, ''clock_settime64''),
    (405, ''clock_adjtime64''), (406, ''clock_getres_time64''), (407, ''clock_nanosleep_time64''),
    (408, ''timer_gettime64''), (409, ''timer_settime64''), (410, ''timerfd_gettime64''),
    (411, ''timerfd_settime64''), (412, ''utimensat_time64''), (413, ''pselect6_time64''),
    (414, ''ppoll_time64''), (416, ''io_pgetevents_time64''), (417, ''recvmmsg_time64''),
    (418, ''mq_timedsend_time64''), (419, ''mq_timedreceive_time64''), (420, ''semtimedop_time64''),
    (421, ''rt_sigtimedwait_time64''), (422, ''futex_time64''), (423, ''sched_rr_get_interval_time64''),
    (424, ''pidfd_send_signal''), (425, ''io_uring_setup''), (426, ''io_uring_enter''),
    (427, ''io_uring_register''), (428, ''open_tree''), (429, ''move_mount''), (430, ''fsopen''),
    (431, ''fsconfig''), (432, ''fsmount''), (433, ''fspick''), (434, ''pidfd_open''), (435, ''clone3''),
    (436, ''close_range''), (437, ''openat2''), (438, ''pidfd_getfd''), (439, ''faccessat2''),
    (440, ''process_madvise''), (441, ''epoll_pwait2''), (442, ''mount_setattr''), (443, ''quotactl_fd''),
    (444, ''landlock_create_ruleset''), (445, ''landlock_add_rule''), (446, ''landlock_restrict_self''),
    (448, ''process_mrelease''), (449, ''futex_waitv''), (450, ''set_mempolicy_home_node''),
    (451, ''cachestat''), (452, ''fchmodat2''), (453, ''map_shadow_stack''), (454, ''futex_wake''),
    (455, ''futex_wait''), (456, ''futex_requeue''), (457, ''statmount''), (458, ''listmount''),
    (459, ''lsm_get_self_attr''), (460, ''lsm_set_self_attr''), (461, ''lsm_list_modules''),
    (462, ''mseal''), (463, ''setxattrat''), (464, ''getxattrat''), (465, ''listxattrat''),
    (466, ''removexattrat''), (467, ''open_tree_attr''), (468, ''file_getattr''), (469, ''file_setattr''),
    (470, ''listns''), (471, ''rseq_slice_yield'')]"

definition syscall_sorted_names_EM_NONE_32_1 :: "int list" where
  "syscall_sorted_names_EM_NONE_32_1 = [
    202, 242, 89, 217, 200, 280, 214, 451, 90, 91, 49, 51, 405, 406, 403, 407, 404, 220, 435, 57, 436, 203,
    285, 106, 23, 24, 20, 21, 22, 441, 19, 221, 281, 93, 94, 48, 439, 223, 47, 262, 263, 50, 52, 53, 452,
    55, 54, 25, 83, 10, 468, 469, 273, 13, 32, 16, 431, 7, 432, 430, 433, 44, 82, 46, 456, 422, 455, 449,
    454, 236, 100, 168, 17, 61, 177, 175, 176, 158, 102, 205, 155, 172, 173, 141, 278, 150, 148, 165, 156,
    204, 209, 178, 174, 8, 464, 105, 27, 26, 28, 3, 1, 416, 0, 2, 426]"

definition syscall_sorted_names_EM_NONE_32_2 :: "int list" where
  "syscall_sorted_names_EM_NONE_32_2 = [
    427, 425, 29, 31, 30, 272, 294, 104, 219, 129, 445, 444, 446, 9, 37, 201, 458, 470, 11, 465, 12, 62, 18,
    15, 6, 459, 461, 460, 233, 453, 235, 283, 279, 238, 232, 34, 33, 228, 284, 230, 222, 40, 442, 429, 239,
    226, 185, 184, 180, 419, 418, 181, 216, 462, 187, 186, 188, 189, 227, 229, 231, 215, 264, 42, 265, 428,
    467, 56, 437, 241, 92, 438, 434, 424, 59, 41, 289, 290, 288, 414, 167, 67, 69, 286, 261, 440, 448, 270,
    271, 413, 117, 68, 70, 287, 60, 443, 63, 213, 78, 65, 142, 207, 417, 212, 234]"

definition syscall_sorted_names_EM_NONE_32_3 :: "int list" where
  "syscall_sorted_names_EM_NONE_32_3 = [
    14, 466, 276, 218, 128, 293, 471, 134, 136, 135, 138, 139, 133, 421, 240, 125, 126, 123, 275, 121, 120,
    423, 122, 274, 118, 119, 124, 277, 191, 190, 193, 420, 71, 269, 211, 206, 237, 450, 99, 96, 162, 152,
    151, 144, 159, 161, 103, 268, 154, 140, 143, 149, 147, 145, 157, 208, 146, 5, 463, 196, 195, 197, 194,
    210, 132, 74, 198, 199, 76, 43, 457, 291, 225, 224, 36, 81, 84, 267, 179, 116, 77, 131, 107, 111, 109,
    408, 409, 85, 410, 411, 153, 130, 45, 166, 39, 160, 35, 97, 282, 412, 58, 75, 95, 64, 66]"

lemma indexed_NONE_32:
  "indexed (syscall_num_to_name_EM_NONE_32_1 @ syscall_num_to_name_EM_NONE_32_2 @ syscall_num_to_name_EM_NONE_32_3)
    (syscall_sorted_names_EM_NONE_32_1 @ syscall_sorted_names_EM_NONE_32_2 @ syscall_sorted_names_EM_NONE_32_3)"
  by code_simp

section \<open>NONE (64 bits)\<close>

definition syscall_num_to_name_EM_NONE_64_1 :: "(int \<times> string) list" where
  "syscall_num_to_name_EM_NONE_64_1 = [
    (0, ''io_setup''), (1, ''io_destroy''), (2, ''io_submit''), (3, ''io_cancel''), (4, ''io_getevents''),
    (5, ''setxattr''), (6, ''lsetxattr''), (7, ''fsetxattr''), (8, ''getxattr''), (9, ''lgetxattr''),
    (10, ''fgetxattr''), (11, ''listxattr''), (12, ''llistxattr''), (13, ''flistxattr''),
    (14, ''removexattr''), (15, ''lremovexattr''), (16, ''fremovexattr''), (17, ''getcwd''),
    (18, ''lookup_dcookie''), (19, ''eventfd2''), (20, ''epoll_create1''), (21, ''epoll_ctl''),
    (22, ''epoll_pwait''), (23, ''dup''), (24, ''dup3''), (25, ''fcntl''), (26, ''inotify_init1''),
    (27, ''inotify_add_watch''), (28, ''inotify_rm_watch''), (29, ''ioctl''), (30, ''ioprio_set''),
    (31, ''ioprio_get''), (32, ''flock''), (33, ''mknodat''), (34, ''mkdirat''), (35, ''unlinkat''),
    (36, ''symlinkat''), (37, ''linkat''), (39, ''umount2''), (40, ''mount''), (41, ''pivot_root''),
    (42, ''nfsservctl''), (43, ''statfs''), (44, ''fstatfs''), (45, ''truncate''), (46, ''ftruncate''),
    (47, ''fallocate''), (48, ''faccessat''), (49, ''chdir''), (50, ''fchdir''), (51, ''chroot''),
    (52, ''fchmod''), (53, ''fchmodat''), (54, ''fchownat''), (55, ''fchown''), (56, ''openat''),
    (57, ''close''), (58, ''vhangup''), (59, ''pipe2''), (60, ''quotactl''), (61, ''getdents64''),
    (62, ''lseek''), (63, ''read''), (64, ''write''), (65, ''readv''), (66, ''writev''), (67, ''pread64''),
    (68, ''pwrite64''), (69, ''preadv''), (70, ''pwritev''), (71, ''sendfile''), (72, ''pselect6''),
    (73, ''ppoll''), (74, ''signalfd4''), (75, ''vmsplice''), (76, ''splice''), (77, ''tee''),
    (78, ''readlinkat''), (79, ''newfstatat''), (80, ''fstat''), (81, ''sync''), (82, ''fsync''),
    (83, ''fdatasync''), (84, ''sync_file_range''), (85, ''timerfd_create''), (86, ''timerfd_settime''),
    (87, ''timerfd_gettime''), (88, ''utimensat''), (89, ''acct''), (90, ''capget''), (91, ''capset''),
    (92, ''personality''), (93, ''exit''), (94, ''exit_group''), (95, ''waitid''),
    (96, ''set_tid_address''), (97, ''unshare''), (98, ''futex''), (99, ''set_robust_list''),
    (100, ''get_robust_list''), (101, ''nanosleep''), (102, ''getitimer''), (103, ''setitimer''),
    (104, ''kexec_load''), (105, ''init_module''), (106, ''delete_module''), (107, ''timer_create''),
    (108, ''timer_gettime'')]"

definition syscall_num_to_name_EM_NONE_64_2 :: "(int \<times> string) list" where
  "syscall_num_to_name_EM_NONE_64_2 = [
    (109, ''timer_getoverrun''), (110, ''timer_settime''), (111, ''timer_delete''),
    (112, ''clock_settime''), (113, ''clock_gettime''), (114, ''clock_getres''), (115, ''clock_nanosleep''),
    (116, ''syslog''), (117, ''ptrace''), (118, ''sched_setparam''), (119, ''sched_setscheduler''),
    (120, ''sched_getscheduler''), (121, ''sched_getparam''), (122, ''sched_setaffinity''),
    (123, ''sched_getaffinity''), (124, ''sched_yield''), (125, ''sched_get_priority_max''),
    (126, ''sched_get_priority_min''), (127, ''sched_rr_get_interval''), (128, ''restart_syscall''),
    (129, ''kill''), (130, ''tkill''), (131, ''tgkill''), (132, ''sigaltstack''), (133, ''rt_sigsuspend''),
    (134, ''rt_sigaction''), (135, ''rt_sigprocmask''), (136, ''rt_sigpending''),
    (137, ''rt_sigtimedwait''), (138, ''rt_sigqueueinfo''), (139, ''rt_sigreturn''), (140, ''setpriority''),
    (141, ''getpriority''), (142, ''reboot''), (143, ''setregid''), (144, ''setgid''), (145, ''setreuid''),
    (146, ''setuid''), (147, ''setresuid''), (148, ''getresuid''), (149, ''setresgid''),
    (150, ''getresgid''), (151, ''setfsuid''), (152, ''setfsgid''), (153, ''times''), (154, ''setpgid''),
    (155, ''getpgid''), (156, ''getsid''), (157, ''setsid''), (158, ''getgroups''), (159, ''setgroups''),
    (160, ''uname''), (161, ''sethostname''), (162, ''setdomainname''), (165, ''getrusage''),
    (166, ''umask''), (167, ''prctl''), (168, ''getcpu''), (169, ''gettimeofday''), (170, ''settimeofday''),
    (171, ''adjtimex''), (172, ''getpid''), (173, ''getppid''), (174, ''getuid''), (175, ''geteuid''),
    (176, ''getgid''), (177, ''getegid''), (178, ''gettid''), (179, ''sysinfo''), (180, ''mq_open''),
    (181, ''mq_unlink''), (182, ''mq_timedsend''), (183, ''mq_timedreceive''), (184, ''mq_notify''),
    (185, ''mq_getsetattr''), (186, ''msgget''), (187, ''msgctl''), (188, ''msgrcv''), (189, ''msgsnd''),
    (190, ''semget''), (191, ''semctl''), (192, ''semtimedop''), (193, ''semop''), (194, ''shmget''),
    (195, ''shmctl''), (196, ''shmat''), (197, ''shmdt''), (198, ''socket''), (199, ''socketpair''),
    (200, ''bind''), (201, ''listen''), (202, ''accept''), (203, ''connect''), (204, ''getsockname''),
    (205, ''getpeername''), (206, ''sendto''), (207, ''recvfrom''), (208, ''setsockopt''),
    (209, ''getsockopt''), (210, ''shutdown''), (211, ''sendmsg''), (212, ''recvmsg''),
    (213, ''readahead''), (214, ''brk''), (215, ''munmap''), (216, ''mremap''), (217, ''add_key''),
    (218, ''request_key'')]"

definition syscall_num_to_name_EM_NONE_64_3 :: "(int \<times> string) list" where
  "syscall_num_to_name_EM_NONE_64_3 = [
    (219, ''keyctl''), (220, ''clone''), (221, ''execve''), (222, ''mmap''), (223, ''fadvise64''),
    (224, ''swapon''), (225, ''swapoff''), (226, ''mprotect''), (227, ''msync''), (228, ''mlock''),
    (229, ''munlock''), (230, ''mlockall''), (231, ''munlockall''), (232, ''mincore''), (233, ''madvise''),
    (234, ''remap_file_pages''), (235, ''mbind''), (236, ''get_mempolicy''), (237, ''set_mempolicy''),
    (238, ''migrate_pages''), (239, ''move_pages''), (240, ''rt_tgsigqueueinfo''),
    (241, ''perf_event_open''), (242, ''accept4''), (243, ''recvmmsg''), (260, ''wait4''),
    (261, ''prlimit64''), (262, ''fanotify_init''), (263, ''fanotify_mark''), (264, ''name_to_handle_at''),
    (265, ''open_by_handle_at''), (266, ''clock_adjtime''), (267, ''syncfs''), (268, ''setns''),
    (269, ''sendmmsg''), (270, ''process_vm_readv''), (271, ''process_vm_writev''), (272, ''kcmp''),
    (273, ''finit_module''), (274, ''sched_setattr''), (275, ''sched_getattr''), (276, ''renameat2''),
    (277, ''seccomp''), (278, ''getrandom''), (279, ''memfd_create''), (280, ''bpf''), (281, ''execveat''),
    (282, ''userfaultfd''), (283, ''membarrier''), (284, ''mlock2''), (285, ''copy_file_range''),
    (286, ''preadv2''), (287, ''pwritev2''), (288, ''pkey_mprotect''), (289, ''pkey_alloc''),
    (290, ''pkey_free''), (291, ''statx''), (292, ''io_pgetevents''), (293, ''rseq''),
    (294, ''kexec_file_load''), (424, ''pidfd_send_signal''), (425, ''io_uring_setup''),
    (426, ''io_uring_enter''), (427, ''io_uring_register''), (428, ''open_tree''), (429, ''move_mount''),
    (430, ''fsopen''), (431, ''fsconfig''), (432, ''fsmount''), (433, ''fspick''), (434, ''pidfd_open''),
    (435, ''clone3''), (436, ''close_range''), (437, ''openat2''), (438, ''pidfd_getfd''),
    (439, ''faccessat2''), (440, ''process_madvise''), (441, ''epoll_pwait2''), (442, ''mount_setattr''),
    (443, ''quotactl_fd''), (444, ''landlock_create_ruleset''), (445, ''landlock_add_rule''),
    (446, ''landlock_restrict_self''), (448, ''process_mrelease''), (449, ''futex_waitv''),
    (450, ''set_mempolicy_home_node''), (451, ''cachestat''), (452, ''fchmodat2''),
    (453, ''map_shadow_stack''), (454, ''futex_wake''), (455, ''futex_wait''), (456, ''futex_requeue''),
    (457, ''statmount''), (458, ''listmount''), (459, ''lsm_get_self_attr''), (460, ''lsm_set_self_attr''),
    (461, ''lsm_list_modules''), (462, ''mseal''), (463, ''setxattrat''), (464, ''getxattrat''),
    (465, ''listxattrat''), (466, ''removexattrat''), (467, ''open_tree_attr''), (468, ''file_getattr''),
    (469, ''file_setattr''), (470, ''listns''), (471, ''rseq_slice_yield'')]"

definition syscall_sorted_names_EM_NONE_64_1 :: "int list" where
  "syscall_sorted_names_EM_NONE_64_1 = [
    202, 242, 89, 217, 171, 200, 280, 214, 451, 90, 91, 49, 51, 266, 114, 113, 115, 112, 220, 435, 57, 436,
    203, 285, 106, 23, 24, 20, 21, 22, 441, 19, 221, 281, 93, 94, 48, 439, 223, 47, 262, 263, 50, 52, 53,
    452, 55, 54, 25, 83, 10, 468, 469, 273, 13, 32, 16, 431, 7, 432, 430, 433, 80, 44, 82, 46, 98, 456, 455,
    449, 454, 236, 100, 168, 17, 61, 177, 175, 176, 158, 102, 205, 155, 172, 173, 141, 278, 150, 148, 165,
    156, 204, 209, 178, 169, 174, 8, 464, 105, 27, 26, 28, 3, 1, 4, 292, 0, 2]"

definition syscall_sorted_names_EM_NONE_64_2 :: "int list" where
  "syscall_sorted_names_EM_NONE_64_2 = [
    426, 427, 425, 29, 31, 30, 272, 294, 104, 219, 129, 445, 444, 446, 9, 37, 201, 458, 470, 11, 465, 12,
    18, 15, 62, 6, 459, 461, 460, 233, 453, 235, 283, 279, 238, 232, 34, 33, 228, 284, 230, 222, 40, 442,
    429, 239, 226, 185, 184, 180, 183, 182, 181, 216, 462, 187, 186, 188, 189, 227, 229, 231, 215, 264, 101,
    79, 42, 265, 428, 467, 56, 437, 241, 92, 438, 434, 424, 59, 41, 289, 290, 288, 73, 167, 67, 69, 286,
    261, 440, 448, 270, 271, 72, 117, 68, 70, 287, 60, 443, 63, 213, 78, 65, 142, 207, 243, 212, 234]"

definition syscall_sorted_names_EM_NONE_64_3 :: "int list" where
  "syscall_sorted_names_EM_NONE_64_3 = [
    14, 466, 276, 218, 128, 293, 471, 134, 136, 135, 138, 139, 133, 137, 240, 125, 126, 123, 275, 121, 120,
    127, 122, 274, 118, 119, 124, 277, 191, 190, 193, 192, 71, 269, 211, 206, 237, 450, 99, 96, 162, 152,
    151, 144, 159, 161, 103, 268, 154, 140, 143, 149, 147, 145, 157, 208, 170, 146, 5, 463, 196, 195, 197,
    194, 210, 132, 74, 198, 199, 76, 43, 457, 291, 225, 224, 36, 81, 84, 267, 179, 116, 77, 131, 107, 111,
    109, 108, 110, 85, 87, 86, 153, 130, 45, 166, 39, 160, 35, 97, 282, 88, 58, 75, 260, 95, 64, 66]"

lemma indexed_NONE_64:
  "indexed (syscall_num_to_name_EM_NONE_64_1 @ syscall_num_to_name_EM_NONE_64_2 @ syscall_num_to_name_EM_NONE_64_3)
    (syscall_sorted_names_EM_NONE_64_1 @ syscall_sorted_names_EM_NONE_64_2 @ syscall_sorted_names_EM_NONE_64_3)"
  by code_simp

end
