(* ===== verification/SyscallTables.thy ===== *)
theory SyscallTables
  imports SyscallTablesA SyscallTablesB SyscallTablesC SyscallTablesD
begin

text \<open>
  The array \<^verbatim>\<open>syscalltbls\<close> of \<^verbatim>\<open>syscalltbl.c\<close>, for every choice of the macros that select its entries, and what
  it promises: each table can be searched by name, and the search is the inverse of the table.
\<close>

section \<open>The array\<close>

text \<open>The tables of a machine. Some depend on \<^verbatim>\<open>__BITS_PER_LONG\<close>.\<close>

definition table_ALPHA :: syscalltbl where
  "table_ALPHA =
    table_of
      (syscall_num_to_name_EM_ALPHA_1 @ syscall_num_to_name_EM_ALPHA_2 @ syscall_num_to_name_EM_ALPHA_3 @ syscall_num_to_name_EM_ALPHA_4)
      (syscall_sorted_names_EM_ALPHA_1 @ syscall_sorted_names_EM_ALPHA_2 @ syscall_sorted_names_EM_ALPHA_3 @ syscall_sorted_names_EM_ALPHA_4)
      EM_ALPHA"

definition table_ARM :: syscalltbl where
  "table_ARM =
    table_of
      (syscall_num_to_name_EM_ARM_1 @ syscall_num_to_name_EM_ARM_2 @ syscall_num_to_name_EM_ARM_3)
      (syscall_sorted_names_EM_ARM_1 @ syscall_sorted_names_EM_ARM_2 @ syscall_sorted_names_EM_ARM_3)
      EM_ARM"

definition table_AARCH64 :: syscalltbl where
  "table_AARCH64 =
    table_of
      (syscall_num_to_name_EM_AARCH64_1 @ syscall_num_to_name_EM_AARCH64_2 @ syscall_num_to_name_EM_AARCH64_3)
      (syscall_sorted_names_EM_AARCH64_1 @ syscall_sorted_names_EM_AARCH64_2 @ syscall_sorted_names_EM_AARCH64_3)
      EM_AARCH64"

definition table_CSKY :: syscalltbl where
  "table_CSKY =
    table_of
      (syscall_num_to_name_EM_CSKY_1 @ syscall_num_to_name_EM_CSKY_2 @ syscall_num_to_name_EM_CSKY_3)
      (syscall_sorted_names_EM_CSKY_1 @ syscall_sorted_names_EM_CSKY_2 @ syscall_sorted_names_EM_CSKY_3)
      EM_CSKY"

definition table_MIPS :: syscalltbl where
  "table_MIPS =
    table_of
      (syscall_num_to_name_EM_MIPS_1 @ syscall_num_to_name_EM_MIPS_2 @ syscall_num_to_name_EM_MIPS_3)
      (syscall_sorted_names_EM_MIPS_1 @ syscall_sorted_names_EM_MIPS_2 @ syscall_sorted_names_EM_MIPS_3)
      EM_MIPS"

definition table_PARISC :: "int \<Rightarrow> syscalltbl" where
  "table_PARISC bits =
    (if bits \<noteq> 64 then
      table_of
      (syscall_num_to_name_EM_PARISC_32_1 @ syscall_num_to_name_EM_PARISC_32_2 @ syscall_num_to_name_EM_PARISC_32_3)
      (syscall_sorted_names_EM_PARISC_32_1 @ syscall_sorted_names_EM_PARISC_32_2 @ syscall_sorted_names_EM_PARISC_32_3)
      EM_PARISC
    else
      table_of
      (syscall_num_to_name_EM_PARISC_64_1 @ syscall_num_to_name_EM_PARISC_64_2 @ syscall_num_to_name_EM_PARISC_64_3)
      (syscall_sorted_names_EM_PARISC_64_1 @ syscall_sorted_names_EM_PARISC_64_2 @ syscall_sorted_names_EM_PARISC_64_3)
      EM_PARISC)"

definition table_PPC :: syscalltbl where
  "table_PPC =
    table_of
      (syscall_num_to_name_EM_PPC_1 @ syscall_num_to_name_EM_PPC_2 @ syscall_num_to_name_EM_PPC_3 @ syscall_num_to_name_EM_PPC_4)
      (syscall_sorted_names_EM_PPC_1 @ syscall_sorted_names_EM_PPC_2 @ syscall_sorted_names_EM_PPC_3 @ syscall_sorted_names_EM_PPC_4)
      EM_PPC"

definition table_PPC64 :: syscalltbl where
  "table_PPC64 =
    table_of
      (syscall_num_to_name_EM_PPC64_1 @ syscall_num_to_name_EM_PPC64_2 @ syscall_num_to_name_EM_PPC64_3)
      (syscall_sorted_names_EM_PPC64_1 @ syscall_sorted_names_EM_PPC64_2 @ syscall_sorted_names_EM_PPC64_3)
      EM_PPC64"

definition table_RISCV :: "int \<Rightarrow> syscalltbl" where
  "table_RISCV bits =
    (if bits \<noteq> 64 then
      table_of
      (syscall_num_to_name_EM_RISCV_32_1 @ syscall_num_to_name_EM_RISCV_32_2 @ syscall_num_to_name_EM_RISCV_32_3)
      (syscall_sorted_names_EM_RISCV_32_1 @ syscall_sorted_names_EM_RISCV_32_2 @ syscall_sorted_names_EM_RISCV_32_3)
      EM_RISCV
    else
      table_of
      (syscall_num_to_name_EM_RISCV_64_1 @ syscall_num_to_name_EM_RISCV_64_2 @ syscall_num_to_name_EM_RISCV_64_3)
      (syscall_sorted_names_EM_RISCV_64_1 @ syscall_sorted_names_EM_RISCV_64_2 @ syscall_sorted_names_EM_RISCV_64_3)
      EM_RISCV)"

definition table_S390 :: syscalltbl where
  "table_S390 =
    table_of
      (syscall_num_to_name_EM_S390_1 @ syscall_num_to_name_EM_S390_2 @ syscall_num_to_name_EM_S390_3)
      (syscall_sorted_names_EM_S390_1 @ syscall_sorted_names_EM_S390_2 @ syscall_sorted_names_EM_S390_3)
      EM_S390"

definition table_SH :: syscalltbl where
  "table_SH =
    table_of
      (syscall_num_to_name_EM_SH_1 @ syscall_num_to_name_EM_SH_2 @ syscall_num_to_name_EM_SH_3)
      (syscall_sorted_names_EM_SH_1 @ syscall_sorted_names_EM_SH_2 @ syscall_sorted_names_EM_SH_3)
      EM_SH"

definition table_SPARC :: "int \<Rightarrow> syscalltbl" where
  "table_SPARC bits =
    (if bits \<noteq> 64 then
      table_of
      (syscall_num_to_name_EM_SPARC_32_1 @ syscall_num_to_name_EM_SPARC_32_2 @ syscall_num_to_name_EM_SPARC_32_3)
      (syscall_sorted_names_EM_SPARC_32_1 @ syscall_sorted_names_EM_SPARC_32_2 @ syscall_sorted_names_EM_SPARC_32_3)
      EM_SPARC
    else
      table_of
      (syscall_num_to_name_EM_SPARC_64_1 @ syscall_num_to_name_EM_SPARC_64_2 @ syscall_num_to_name_EM_SPARC_64_3)
      (syscall_sorted_names_EM_SPARC_64_1 @ syscall_sorted_names_EM_SPARC_64_2 @ syscall_sorted_names_EM_SPARC_64_3)
      EM_SPARC)"

definition table_386 :: syscalltbl where
  "table_386 =
    table_of
      (syscall_num_to_name_EM_386_1 @ syscall_num_to_name_EM_386_2 @ syscall_num_to_name_EM_386_3 @ syscall_num_to_name_EM_386_4)
      (syscall_sorted_names_EM_386_1 @ syscall_sorted_names_EM_386_2 @ syscall_sorted_names_EM_386_3 @ syscall_sorted_names_EM_386_4)
      EM_386"

definition table_X86_64 :: syscalltbl where
  "table_X86_64 =
    table_of
      (syscall_num_to_name_EM_X86_64_1 @ syscall_num_to_name_EM_X86_64_2 @ syscall_num_to_name_EM_X86_64_3)
      (syscall_sorted_names_EM_X86_64_1 @ syscall_sorted_names_EM_X86_64_2 @ syscall_sorted_names_EM_X86_64_3)
      EM_X86_64"

definition table_XTENSA :: syscalltbl where
  "table_XTENSA =
    table_of
      (syscall_num_to_name_EM_XTENSA_1 @ syscall_num_to_name_EM_XTENSA_2 @ syscall_num_to_name_EM_XTENSA_3)
      (syscall_sorted_names_EM_XTENSA_1 @ syscall_sorted_names_EM_XTENSA_2 @ syscall_sorted_names_EM_XTENSA_3)
      EM_XTENSA"

definition table_NONE :: "int \<Rightarrow> syscalltbl" where
  "table_NONE bits =
    (if bits \<noteq> 64 then
      table_of
      (syscall_num_to_name_EM_NONE_32_1 @ syscall_num_to_name_EM_NONE_32_2 @ syscall_num_to_name_EM_NONE_32_3)
      (syscall_sorted_names_EM_NONE_32_1 @ syscall_sorted_names_EM_NONE_32_2 @ syscall_sorted_names_EM_NONE_32_3)
      EM_NONE
    else
      table_of
      (syscall_num_to_name_EM_NONE_64_1 @ syscall_num_to_name_EM_NONE_64_2 @ syscall_num_to_name_EM_NONE_64_3)
      (syscall_sorted_names_EM_NONE_64_1 @ syscall_sorted_names_EM_NONE_64_2 @ syscall_sorted_names_EM_NONE_64_3)
      EM_NONE)"

definition syscalltbls :: "int \<Rightarrow> (string \<Rightarrow> bool) \<Rightarrow> syscalltbl list" where
  "syscalltbls bits defined =
    (if defined ''ALL_SYSCALLTBL'' \<or> defined ''__alpha__'' then [table_ALPHA] else []) @
    (if defined ''ALL_SYSCALLTBL'' \<or> defined ''__arm__'' \<or> defined ''__aarch64__'' then [table_ARM, table_AARCH64] else []) @
    (if defined ''ALL_SYSCALLTBL'' \<or> defined ''__csky__'' then [table_CSKY] else []) @
    (if defined ''ALL_SYSCALLTBL'' \<or> defined ''__mips__'' then [table_MIPS] else []) @
    (if defined ''ALL_SYSCALLTBL'' \<or> defined ''__hppa__'' then [table_PARISC bits] else []) @
    (if defined ''ALL_SYSCALLTBL'' \<or> defined ''__powerpc__'' \<or> defined ''__powerpc64__'' then [table_PPC, table_PPC64] else []) @
    (if defined ''ALL_SYSCALLTBL'' \<or> defined ''__riscv'' then [table_RISCV bits] else []) @
    (if defined ''ALL_SYSCALLTBL'' \<or> defined ''__s390x__'' then [table_S390] else []) @
    (if defined ''ALL_SYSCALLTBL'' \<or> defined ''__sh__'' then [table_SH] else []) @
    (if defined ''ALL_SYSCALLTBL'' \<or> defined ''__sparc64__'' \<or> defined ''__sparc__'' then [table_SPARC bits] else []) @
    (if defined ''ALL_SYSCALLTBL'' \<or> defined ''__i386__'' \<or> defined ''__x86_64__'' then [table_386, table_X86_64] else []) @
    (if defined ''ALL_SYSCALLTBL'' \<or> defined ''__xtensa__'' then [table_XTENSA] else []) @
    [table_NONE bits]"

lemmas table_defs =
  table_ALPHA_def table_ARM_def table_AARCH64_def table_CSKY_def table_MIPS_def table_PARISC_def table_PPC_def table_PPC64_def table_RISCV_def table_S390_def table_SH_def table_SPARC_def table_386_def table_X86_64_def table_XTENSA_def table_NONE_def

section \<open>The tables are indexed\<close>

lemma table_of_simps [simp]:
  "num_to_name (table_of es ns m) = es" "sorted_names (table_of es ns m) = ns" "e_machine (table_of es ns m) = m"
  "num_to_name_len (table_of es ns m) = of_int (designated_size es)" "sorted_names_len (table_of es ns m) = of_int (array_size ns)"
  by (simp_all add: table_of_def)

definition indexed_table :: "syscalltbl \<Rightarrow> bool" where
  "indexed_table t \<longleftrightarrow> indexed (num_to_name t) (sorted_names t) \<and> t = table_of (num_to_name t) (sorted_names t) (e_machine t)"

lemma indexed_table_of [simp]: "indexed_table (table_of es ns m) \<longleftrightarrow> indexed es ns"
  by (simp add: indexed_table_def)

lemma tables_indexed:
  "indexed_table table_ALPHA"
  "indexed_table table_ARM"
  "indexed_table table_AARCH64"
  "indexed_table table_CSKY"
  "indexed_table table_MIPS"
  "indexed_table (table_PARISC bits)"
  "indexed_table table_PPC"
  "indexed_table table_PPC64"
  "indexed_table (table_RISCV bits)"
  "indexed_table table_S390"
  "indexed_table table_SH"
  "indexed_table (table_SPARC bits)"
  "indexed_table table_386"
  "indexed_table table_X86_64"
  "indexed_table table_XTENSA"
  "indexed_table (table_NONE bits)"
  by (simp_all only: table_defs indexed_table_of
    indexed_ALPHA indexed_ARM indexed_AARCH64 indexed_CSKY indexed_MIPS indexed_PARISC_32 indexed_PARISC_64 indexed_PPC indexed_PPC64 indexed_RISCV_32 indexed_RISCV_64 indexed_S390 indexed_SH indexed_SPARC_32 indexed_SPARC_64 indexed_386 indexed_X86_64 indexed_XTENSA indexed_NONE_32 indexed_NONE_64 simp_thms split: if_split)

lemma machines:
  "e_machine table_ALPHA = EM_ALPHA"
  "e_machine table_ARM = EM_ARM"
  "e_machine table_AARCH64 = EM_AARCH64"
  "e_machine table_CSKY = EM_CSKY"
  "e_machine table_MIPS = EM_MIPS"
  "e_machine (table_PARISC bits) = EM_PARISC"
  "e_machine table_PPC = EM_PPC"
  "e_machine table_PPC64 = EM_PPC64"
  "e_machine (table_RISCV bits) = EM_RISCV"
  "e_machine table_S390 = EM_S390"
  "e_machine table_SH = EM_SH"
  "e_machine (table_SPARC bits) = EM_SPARC"
  "e_machine table_386 = EM_386"
  "e_machine table_X86_64 = EM_X86_64"
  "e_machine table_XTENSA = EM_XTENSA"
  "e_machine (table_NONE bits) = EM_NONE"
  by (simp_all only: table_defs table_of_simps simp_thms split: if_split)

lemma syscalltbls_indexed: "t \<in> set (syscalltbls bits defined) \<Longrightarrow> indexed_table t"
  using tables_indexed by (auto simp: syscalltbls_def split: if_splits)

end
