(* ===== verification/SyscallSpec.thy ===== *)
theory SyscallSpec
  imports SyscallTables "HOL-Library.Sublist"
begin

text \<open>
  What the users of \<^verbatim>\<open>syscalltbls\<close> rely on: a binary search by name inverts the table of every machine, the
  index arrays stay inside the arrays of names, and no machine has two tables.
\<close>

lemma designated_size_max: "ascends m es \<Longrightarrow> -1 \<le> m \<Longrightarrow> es \<noteq> [] \<Longrightarrow> 0 \<le> designated_size es \<and> designated_size es \<le> 65535"
proof (induction m es rule: ascends.induct)
  case (2 m n s es)
  then have "n < 65535" "-1 \<le> n" using ascends_range [of n es] by auto
  then show ?case using 2 by (cases "es = []") auto
qed simp

lemma designated_size_above: "(n, s) \<in> set es \<Longrightarrow> n < designated_size es"
  by (induction es rule: designated_size.induct) auto

lemma array_size_length: "array_size xs = int (length xs)"
  by (induction xs) auto

lemma indexed_nonempty: "indexed es ns \<Longrightarrow> es \<noteq> []"
  by (auto simp: indexed_def)

lemma indexed_length:
  assumes "indexed es ns"
  shows "int (length ns) \<le> 65535"
proof -
  have a: "ascends (-1) es" using assms by (simp add: indexed_def)
  have "fst ` set es \<subseteq> {0..<65535 :: int}" using ascends_above [OF a] by fastforce
  then have "card (fst ` set es) \<le> card {0..<65535 :: int}" by (intro card_mono) auto
  moreover have "card (set ns) = length ns" by (rule distinct_card) (rule indexed_sorted(4) [OF assms])
  ultimately show ?thesis using indexed_sorted(2) [OF assms] by simp
qed

lemma uint_small: "0 \<le> k \<Longrightarrow> k \<le> 65535 \<Longrightarrow> uint (of_int k :: 16 word) = k"
  by (simp add: uint_word_of_int take_bit_eq_mod)

text \<open>The machines of a build are among those of the full build, in the same order.\<close>

lemma subseq_if: "subseq xs ys \<Longrightarrow> subseq (if b then xs else []) ys"
  by simp

lemma machines_subseq:
  "subseq (map e_machine (syscalltbls bits defined))
    ([EM_ALPHA] @ [EM_ARM, EM_AARCH64] @ [EM_CSKY] @ [EM_MIPS] @ [EM_PARISC] @ [EM_PPC, EM_PPC64] @ [EM_RISCV] @ [EM_S390] @
     [EM_SH] @ [EM_SPARC] @ [EM_386, EM_X86_64] @ [EM_XTENSA] @ [EM_NONE])"
  unfolding syscalltbls_def map_append if_distrib [of "map e_machine"] list.map machines
  by (intro list_emb_append_mono subseq_if) simp_all

lemma machines_distinct: "distinct (map e_machine (syscalltbls bits defined))"
  using machines_subseq [of bits defined] by (elim subseq_conv_nths [THEN iffD1, elim_format] exE) (simp add: distinct_nthsI)

lemma default_last: "last (syscalltbls bits defined) = table_NONE bits"
  by (simp only: syscalltbls_def last_append append_is_Nil_conv last.simps list.simps simp_thms if_False if_True)

text \<open>C33: For every build, the numbers sorted by name serve as an index of the table of each machine: the binary
  search by \<^verbatim>\<open>strcmp\<close> for any C string finds a number exactly if the table has this name under this number.\<close>

theorem syscall_names_found:
  assumes "t \<in> set (syscalltbls bits defined)" and "c_string name"
  shows "search_name t name = Some n \<longleftrightarrow> map_of (num_to_name t) n = Some name"
  using assms by (intro indexed_search) (auto dest: syscalltbls_indexed simp: indexed_table_def)

theorem syscall_names_found_witness:
  "table_NONE 64 \<in> set (syscalltbls 64 (\<lambda>m. False)) \<and> c_string ''read'' \<and> search_name (table_NONE 64) ''read'' = Some 63"
proof -
  have t: "table_NONE 64 \<in> set (syscalltbls 64 (\<lambda>m. False))" by (simp add: syscalltbls_def)
  have "map_of (num_to_name (table_NONE 64)) 63 = Some ''read''" by code_simp
  then show ?thesis using syscall_names_found [OF t, of "''read''" 63] t by simp
qed

text \<open>C34: For every build, no machine has two tables and the default table is there; every number of an index array
  is inside the array of names and has a name, each number occurs once, and the lengths in the entry are those of
  the arrays, not cut off to 16 bits.\<close>

theorem syscall_tables_safe:
  "distinct (map e_machine (syscalltbls bits defined)) \<and>
   e_machine (last (syscalltbls bits defined)) = EM_NONE \<and>
   list_all (\<lambda>t.
      list_all (\<lambda>n. 0 \<le> n \<and> n < uint (num_to_name_len t) \<and> map_of (num_to_name t) n \<noteq> None) (sorted_names t) \<and>
      distinct (sorted_names t) \<and> set (sorted_names t) = fst ` set (num_to_name t) \<and>
      uint (num_to_name_len t) = designated_size (num_to_name t) \<and>
      uint (sorted_names_len t) = int (length (sorted_names t)))
    (syscalltbls bits defined)"
proof -
  have tab: "list_all (\<lambda>n. 0 \<le> n \<and> n < uint (num_to_name_len t) \<and> map_of (num_to_name t) n \<noteq> None) (sorted_names t) \<and>
      distinct (sorted_names t) \<and> set (sorted_names t) = fst ` set (num_to_name t) \<and>
      uint (num_to_name_len t) = designated_size (num_to_name t) \<and>
      uint (sorted_names_len t) = int (length (sorted_names t))" if t_in: "t \<in> set (syscalltbls bits defined)" for t
  proof -
    obtain es ns m where t: "t = table_of es ns m" and i: "indexed es ns"
      using syscalltbls_indexed [OF t_in] by (metis indexed_table_def)
    have a: "ascends (-1) es" using i by (simp add: indexed_def)
    have d: "uint (num_to_name_len t) = designated_size es"
      using designated_size_max [OF a] indexed_nonempty [OF i] by (simp add: t uint_small)
    have s: "uint (sorted_names_len t) = int (length ns)"
      using indexed_length [OF i] uint_small [of "array_size ns"] by (simp add: t array_size_length)
    have "0 \<le> n \<and> n < designated_size es \<and> map_of es n \<noteq> None" if n_in: "n \<in> set ns" for n
    proof -
      obtain s where s: "(n, s) \<in> set es" using n_in indexed_sorted(2) [OF i] by auto
      have "n \<in> fst ` set es" using n_in indexed_sorted(2) [OF i] by simp
      then have "map_of es n \<noteq> None" by (simp add: map_of_eq_None_iff)
      then show ?thesis using ascends_above [OF a s] designated_size_above [OF s] by simp
    qed
    then show ?thesis using d s indexed_sorted(2,4) [OF i] by (simp add: t list_all_iff)
  qed
  show ?thesis
    by (intro conjI machines_distinct list_all_iff [THEN iffD2] ballI tab) (simp add: default_last machines)
qed

end
