(* ===== verification/Sandbox.thy ===== *)
theory Sandbox
  imports Prelude
begin

text \<open>
  The system call filter of the PTP daemon, \<^verbatim>\<open>statime_sandbox\<close> of
  \<^verbatim>\<open>src/ntpd-rs/statime-seccomp/seccomp.c\<close> with the list \<^verbatim>\<open>allowed.c\<close> it includes. The library libseccomp is a
  parameter: its constants, the numbers it gives to the names of system calls, and its four functions
  on a state of its own. The contract of the library that the correctness theorem relies on is the
  predicate \<open>seccomp_ok\<close>.
\<close>

section \<open>The library\<close>

type_synonym ctx = nat

record 'k seccomp =
  SCMP_ACT_KILL :: u32
  SCMP_ACT_KILL_PROCESS :: u32
  SCMP_ACT_TRAP :: u32
  SCMP_ACT_ERRNO :: "int \<Rightarrow> u32"
  SCMP_ACT_LOG :: u32
  SCMP_ACT_ALLOW :: u32
  SCMP_SYS :: "string \<Rightarrow> int"
  seccomp_init :: "u32 \<Rightarrow> 'k \<Rightarrow> ctx option \<times> 'k"
  seccomp_rule_add :: "ctx \<Rightarrow> u32 \<Rightarrow> int \<Rightarrow> 'k \<Rightarrow> int \<times> 'k"
  seccomp_load :: "ctx \<Rightarrow> 'k \<Rightarrow> int \<times> 'k"
  seccomp_release :: "ctx \<Rightarrow> 'k \<Rightarrow> 'k"

section \<open>The filter\<close>

text \<open>Error numbers of \<^verbatim>\<open>errno.h\<close>.\<close>

definition EPERM :: int where "EPERM = 1"
definition ENOMEM :: int where "ENOMEM = 12"
definition EINVAL :: int where "EINVAL = 22"

definition allowed_names :: "string list" where
  "allowed_names = [
    ''prlimit64'', ''accept'', ''access'', ''adjtimex'', ''bind'', ''brk'', ''clock_adjtime'',
    ''clock_gettime'', ''clock_settime'', ''close'', ''connect'', ''exit'', ''exit_group'',
    ''fcntl'', ''fstat'', ''fsync'', ''futex'', ''getdents'', ''getegid'', ''getgid'',
    ''getdents64'', ''getrandom'', ''ugetrlimit'', ''getrlimit'', ''setrlimit'', ''getrusage'',
    ''getsockname'', ''getsockopt'', ''gettimeofday'', ''getuid'', ''ioctl'', ''link'', ''listen'',
    ''lseek'', ''membarrier'', ''munmap'', ''newfstatat'', ''open'', ''openat'', ''poll'',
    ''pselect6'', ''read'', ''readv'', ''recvfrom'', ''recvmsg'', ''rename'', ''rt_sigaction'',
    ''rt_sigprocmask'', ''rt_sigreturn'', ''rseq'', ''sigaction'', ''sigprocmask'', ''sigreturn'',
    ''select'', ''sendto'', ''setsid'', ''setsockopt'', ''socket'', ''stat'', ''statfs64'',
    ''time'', ''sysinfo'', ''timer_create'', ''timer_gettime'', ''timer_settime'', ''getitimer'',
    ''setitimer'', ''write'', ''writev'', ''unlink'', ''clone'', ''clone3'', ''kill'', ''madvise'',
    ''mprotect'', ''set_robust_list'', ''sendmmsg'', ''socketpair'', ''statfs'', ''uname'',
    ''nanosleep'', ''shmget'', ''shmat'', ''shmdt'', ''fcntl64'', ''fstat64'', ''getpid'',
    ''gettid'', ''geteuid'', ''ppoll'', ''sendmsg'', ''geteuid32'', ''mmap'', ''faccessat'',
    ''renameat'', ''linkat'', ''unlinkat'', ''_newselect'', ''_llseek'', ''mmap2'', ''send'',
    ''stat64'', ''timer_settime64'', ''clock_gettime64'', ''stat64'', ''statx'',
    ''clock_settime64'', ''timer_gettime64'', ''clock_adjtime64'', ''clock_getres_time64'',
    ''readlink'', ''readlinkat'', ''pipe2'', ''getresuid'', ''getresgid'', ''pipe2'',
    ''getresuid32'', ''getresgid32'', ''clock_nanosleep'', ''sigaltstack'', ''epoll_create1'',
    ''epoll_ctl'', ''epoll_wait'', ''eventfd2'', ''prctl'', ''arch_prctl'', ''sched_getaffinity'',
    ''sched_yield'', ''restart_syscall'', ''accept4'', ''wait4'', ''shutdown'', ''flock'',
    ''lstat'', ''pread64'', ''set_tid_address'', ''tgkill'', ''settimeofday'', ''fstatat64'',
    ''lstat64'', ''mremap'', ''renameat2'', ''recv'', ''recvmmsg'', ''recvmmsg_time64'',
    ''pselect6_time64'', ''futex_time64'']"

definition allowed :: "'k seccomp \<Rightarrow> int list" where
  "allowed lib = map (SCMP_SYS lib) allowed_names"

definition statime_kill_thread :: "'k seccomp \<Rightarrow> u32" where
  "statime_kill_thread lib = SCMP_ACT_KILL lib"

definition statime_kill_process :: "'k seccomp \<Rightarrow> u32" where
  "statime_kill_process lib = SCMP_ACT_KILL_PROCESS lib"

definition statime_trap :: "'k seccomp \<Rightarrow> u32" where
  "statime_trap lib = SCMP_ACT_TRAP lib"

definition statime_err :: "'k seccomp \<Rightarrow> u32" where
  "statime_err lib = SCMP_ACT_ERRNO lib EPERM"

definition statime_log :: "'k seccomp \<Rightarrow> u32" where
  "statime_log lib = SCMP_ACT_LOG lib"

definition known_action :: "'k seccomp \<Rightarrow> u32 \<Rightarrow> bool" where
  "known_action lib def_action \<longleftrightarrow>
     def_action = SCMP_ACT_KILL lib \<or> def_action = SCMP_ACT_KILL_PROCESS lib \<or>
     def_action = SCMP_ACT_TRAP lib \<or> def_action = SCMP_ACT_ERRNO lib EPERM \<or>
     def_action = SCMP_ACT_LOG lib"

text \<open>The loop over the list; the result is the first negative one, if any.\<close>

fun add_rules :: "'k seccomp \<Rightarrow> ctx \<Rightarrow> int list \<Rightarrow> 'k \<Rightarrow> int option \<times> 'k" where
  "add_rules lib ctx [] k = (None, k)"
| "add_rules lib ctx (syscall_nr # ns) k =
    (let (result, k') = seccomp_rule_add lib ctx (SCMP_ACT_ALLOW lib) syscall_nr k in
     if result < 0 then (Some result, k') else add_rules lib ctx ns k')"

definition statime_sandbox :: "'k seccomp \<Rightarrow> u32 \<Rightarrow> 'k \<Rightarrow> int \<times> 'k" where
  "statime_sandbox lib def_action k =
    (if \<not> known_action lib def_action then (- EINVAL, k)
     else
       case seccomp_init lib def_action k of
         (None, k1) \<Rightarrow> (- ENOMEM, k1)
       | (Some ctx, k1) \<Rightarrow>
           (case add_rules lib ctx (allowed lib) k1 of
              (Some result, k2) \<Rightarrow> (result, seccomp_release lib ctx k2)
            | (None, k2) \<Rightarrow>
                (let (result, k3) = seccomp_load lib ctx k2 in
                 if result < 0 then (result, seccomp_release lib ctx k3)
                 else (0, seccomp_release lib ctx k3))))"

section \<open>What the library promises\<close>

text \<open>A library state shows the contexts in use, each with its default action and the rules added so
  far, and the filters in force in the process, the newest first. A failing call changes neither the
  contexts of others nor the filters in force.\<close>

record view =
  contexts :: "ctx \<Rightarrow> (u32 \<times> (int \<times> u32) list) option"
  in_force :: "(u32 \<times> (int \<times> u32) list) list"

definition set_ctx :: "ctx \<Rightarrow> (u32 \<times> (int \<times> u32) list) option \<Rightarrow> view \<Rightarrow> view" where
  "set_ctx c x w = w\<lparr>contexts := (contexts w)(c := x)\<rparr>"

definition init_ok :: "'k seccomp \<Rightarrow> ('k \<Rightarrow> view) \<Rightarrow> bool" where
  "init_ok lib v \<longleftrightarrow> (\<forall>d k.
     (case seccomp_init lib d k of
        (None, k') \<Rightarrow> v k' = v k
      | (Some c, k') \<Rightarrow> contexts (v k) c = None \<and> v k' = set_ctx c (Some (d, [])) (v k)))"

definition rule_add_ok :: "'k seccomp \<Rightarrow> ('k \<Rightarrow> view) \<Rightarrow> bool" where
  "rule_add_ok lib v \<longleftrightarrow> (\<forall>c a n k d rs.
     contexts (v k) c = Some (d, rs) \<longrightarrow>
     (case seccomp_rule_add lib c a n k of (r, k') \<Rightarrow>
        if r < 0 then \<exists>rs'. v k' = set_ctx c (Some (d, rs')) (v k)
        else v k' = set_ctx c (Some (d, rs @ [(n, a)])) (v k)))"

definition load_ok :: "'k seccomp \<Rightarrow> ('k \<Rightarrow> view) \<Rightarrow> bool" where
  "load_ok lib v \<longleftrightarrow> (\<forall>c k f.
     contexts (v k) c = Some f \<longrightarrow>
     (case seccomp_load lib c k of (r, k') \<Rightarrow>
        v k' = (if r < 0 then v k else (v k)\<lparr>in_force := f # in_force (v k)\<rparr>)))"

definition release_ok :: "'k seccomp \<Rightarrow> ('k \<Rightarrow> view) \<Rightarrow> bool" where
  "release_ok lib v \<longleftrightarrow> (\<forall>c k.
     v (seccomp_release lib c k) = set_ctx c None (v k))"

definition seccomp_ok :: "'k seccomp \<Rightarrow> ('k \<Rightarrow> view) \<Rightarrow> bool" where
  "seccomp_ok lib v \<longleftrightarrow> init_ok lib v \<and> rule_add_ok lib v \<and> load_ok lib v \<and> release_ok lib v"

lemma set_ctx_simps [simp]:
  "contexts (set_ctx c x w) = (contexts w)(c := x)" "in_force (set_ctx c x w) = in_force w"
  "set_ctx c x (set_ctx c y w) = set_ctx c x w"
  by (simp_all add: set_ctx_def)

lemma set_ctx_same: "contexts w c = x \<Longrightarrow> set_ctx c x w = w"
  by (auto simp: set_ctx_def fun_upd_idem)

lemma add_rules_view:
  assumes "rule_add_ok lib v" and "contexts (v k) c = Some (d, rs)" and "add_rules lib c ns k = (r, k')"
  shows "case r of
      None \<Rightarrow> v k' = set_ctx c (Some (d, rs @ map (\<lambda>n. (n, SCMP_ACT_ALLOW lib)) ns)) (v k)
    | Some e \<Rightarrow> e < 0 \<and> (\<exists>rs'. v k' = set_ctx c (Some (d, rs')) (v k))"
  using assms(2,3)
proof (induction ns arbitrary: k rs)
  case Nil
  then show ?case by (auto simp: set_ctx_same)
next
  case (Cons n ns)
  obtain e k1 where e: "seccomp_rule_add lib c (SCMP_ACT_ALLOW lib) n k = (e, k1)" by fastforce
  have step: "if e < 0 then \<exists>rs'. v k1 = set_ctx c (Some (d, rs')) (v k)
    else v k1 = set_ctx c (Some (d, rs @ [(n, SCMP_ACT_ALLOW lib)])) (v k)"
    using assms(1) [unfolded rule_add_ok_def, rule_format, OF Cons.prems(1), of n "SCMP_ACT_ALLOW lib"] e by simp
  show ?case
  proof (cases "e < 0")
    case True
    then show ?thesis using Cons.prems(2) e step by auto
  next
    case False
    then have v1: "v k1 = set_ctx c (Some (d, rs @ [(n, SCMP_ACT_ALLOW lib)])) (v k)" using step by simp
    then have "contexts (v k1) c = Some (d, rs @ [(n, SCMP_ACT_ALLOW lib)])" by simp
    from Cons.IH [OF this] show ?thesis using Cons.prems(2) e False v1 by (auto split: option.splits)
  qed
qed

lemma sandbox_context:
  assumes ok: "seccomp_ok lib v" and i: "seccomp_init lib d k = (Some c, k1)" and known: "known_action lib d"
    and run: "statime_sandbox lib d k = (r, k')"
  shows "contexts (v k') = contexts (v k) \<and>
    (if r = 0 then in_force (v k') = (d, map (\<lambda>n. (n, SCMP_ACT_ALLOW lib)) (allowed lib)) # in_force (v k)
     else r < 0 \<and> in_force (v k') = in_force (v k))"
proof -
  have k1: "contexts (v k) c = None" "v k1 = set_ctx c (Some (d, [])) (v k)"
    using ok i unfolding seccomp_ok_def init_ok_def by (metis (mono_tags, lifting) case_prod_conv option.case(2))+
  then have c1: "contexts (v k1) c = Some (d, [])" by simp
  have gone: "(contexts (v k))(c := None) = contexts (v k)" using k1(1) by (simp add: fun_upd_idem)
  have rel: "v (seccomp_release lib c q) = set_ctx c None (v q)" for q
    using ok by (simp add: seccomp_ok_def release_ok_def)
  obtain e k2 where a: "add_rules lib c (allowed lib) k1 = (e, k2)" by fastforce
  have k2: "case e of
      None \<Rightarrow> v k2 = set_ctx c (Some (d, map (\<lambda>n. (n, SCMP_ACT_ALLOW lib)) (allowed lib))) (v k1)
    | Some e \<Rightarrow> e < 0 \<and> (\<exists>rs'. v k2 = set_ctx c (Some (d, rs')) (v k1))"
    using add_rules_view [of lib v k1 c d "[]", OF _ c1 a, unfolded append_Nil] ok by (simp add: seccomp_ok_def)
  show ?thesis
  proof (cases e)
    case (Some x)
    then show ?thesis using k1 k2 run known i a gone by (auto simp: statime_sandbox_def rel)
  next
    case None
    obtain l k3 where l: "seccomp_load lib c k2 = (l, k3)" by fastforce
    have v2: "v k2 = set_ctx c (Some (d, map (\<lambda>n. (n, SCMP_ACT_ALLOW lib)) (allowed lib))) (v k)"
      using None k1 k2 by simp
    then have c2: "contexts (v k2) c = Some (d, map (\<lambda>n. (n, SCMP_ACT_ALLOW lib)) (allowed lib))" by simp
    have "load_ok lib v" using ok by (simp add: seccomp_ok_def)
    from this [unfolded load_ok_def, rule_format, OF c2] l
    have "v k3 = (if l < 0 then v k2 else (v k2)\<lparr>in_force := (d, map (\<lambda>n. (n, SCMP_ACT_ALLOW lib)) (allowed lib)) # in_force (v k2)\<rparr>)"
      by simp
    then show ?thesis using v2 None run known i a l gone by (auto simp: statime_sandbox_def rel split: if_splits)
  qed
qed

text \<open>C32: The sandbox is all or nothing: a zero result means that exactly one filter was put in force,
  with the requested default action and an allow rule for every listed system call and no other rule;
  any other result is negative and leaves the filters in force as they were. The result is \<^verbatim>\<open>-EINVAL\<close>,
  without any effect, exactly if the default action is not one of the five known ones, or if the
  library reports it. No path leaves a filter context behind.\<close>

theorem sandbox_all_or_nothing:
  assumes "seccomp_ok lib v" and "statime_sandbox lib d k = (r, k')"
  shows "contexts (v k') = contexts (v k) \<and>
    (if r = 0 then known_action lib d \<and>
       in_force (v k') = (d, map (\<lambda>s. (SCMP_SYS lib s, SCMP_ACT_ALLOW lib)) allowed_names) # in_force (v k)
     else r < 0 \<and> in_force (v k') = in_force (v k)) \<and>
    (\<not> known_action lib d \<longrightarrow> r = - EINVAL \<and> k' = k)"
proof (cases "known_action lib d")
  case False
  then show ?thesis using assms(2) by (auto simp: statime_sandbox_def EINVAL_def)
next
  case True
  obtain c k1 where i: "seccomp_init lib d k = (c, k1)" by fastforce
  show ?thesis
  proof (cases c)
    case None
    then have "v k1 = v k" using assms(1) i unfolding seccomp_ok_def init_ok_def
      by (metis (mono_tags, lifting) case_prod_conv option.case(1))
    then show ?thesis using None True assms(2) i by (auto simp: statime_sandbox_def ENOMEM_def)
  next
    case (Some x)
    then show ?thesis using sandbox_context [OF assms(1) _ True assms(2)] i True
      by (simp add: allowed_def comp_def)
  qed
qed

text \<open>A library with room for one context, in which no call fails and every system call has number 0
  except \<^verbatim>\<open>read\<close>.\<close>

definition small_lib :: "view seccomp" where
  "small_lib = \<lparr>
    SCMP_ACT_KILL = 0, SCMP_ACT_KILL_PROCESS = 0x80000000, SCMP_ACT_TRAP = 0x30000,
    SCMP_ACT_ERRNO = (\<lambda>e. 0x50000 + of_int e), SCMP_ACT_LOG = 0x7ffc0000, SCMP_ACT_ALLOW = 0x7fff0000,
    SCMP_SYS = (\<lambda>s. if s = ''read'' then 63 else 0),
    seccomp_init = (\<lambda>d w. if contexts w 0 = None then (Some 0, set_ctx 0 (Some (d, [])) w) else (None, w)),
    seccomp_rule_add = (\<lambda>c a n w. case contexts w c of
        None \<Rightarrow> (-22, w) | Some (d, rs) \<Rightarrow> (0, set_ctx c (Some (d, rs @ [(n, a)])) w)),
    seccomp_load = (\<lambda>c w. case contexts w c of
        None \<Rightarrow> (-22, w) | Some f \<Rightarrow> (0, w\<lparr>in_force := f # in_force w\<rparr>)),
    seccomp_release = (\<lambda>c w. set_ctx c None w)\<rparr>"

lemma small_lib_ok: "seccomp_ok small_lib (\<lambda>w. w)"
  by (auto simp: seccomp_ok_def init_ok_def rule_add_ok_def load_ok_def release_ok_def small_lib_def)

lemma small_lib_rules:
  "contexts w 0 \<noteq> None \<Longrightarrow>
   fst (add_rules small_lib 0 ns w) = None \<and> contexts (snd (add_rules small_lib 0 ns w)) 0 \<noteq> None"
  by (induction ns arbitrary: w) (auto simp: small_lib_def)

lemma small_lib_calls:
  "contexts w 0 = None \<Longrightarrow> seccomp_init small_lib d w = (Some 0, set_ctx 0 (Some (d, [])) w)"
  "contexts w 0 \<noteq> None \<Longrightarrow> fst (seccomp_load small_lib 0 w) = 0"
  by (auto simp: small_lib_def)

lemma small_lib_runs:
  assumes "known_action small_lib d" and "contexts w 0 = None"
  shows "fst (statime_sandbox small_lib d w) = 0"
proof -
  obtain k2 where k2: "add_rules small_lib 0 (allowed small_lib) (set_ctx 0 (Some (d, [])) w) = (None, k2)"
      "contexts k2 0 \<noteq> None"
    using small_lib_rules [of "set_ctx 0 (Some (d, [])) w" "allowed small_lib"] by (metis set_ctx_simps(1) fun_upd_same option.distinct(1) prod.collapse)
  then obtain k3 where "seccomp_load small_lib 0 k2 = (0, k3)"
    using small_lib_calls(2) [of k2] by (metis prod.collapse)
  then show ?thesis using assms k2 by (simp add: statime_sandbox_def small_lib_calls(1))
qed

theorem sandbox_all_or_nothing_witness:
  "seccomp_ok small_lib (\<lambda>w. w) \<and>
   (let (r, w) = statime_sandbox small_lib 0x50001 \<lparr>contexts = (\<lambda>_. None), in_force = []\<rparr> in
    r = 0 \<and> contexts w = (\<lambda>_. None) \<and>
    in_force w = [(0x50001, map (\<lambda>s. (SCMP_SYS small_lib s, 0x7fff0000)) allowed_names)])"
proof -
  let ?w = "\<lparr>contexts = (\<lambda>_. None), in_force = []\<rparr>"
  obtain r k where run: "statime_sandbox small_lib 0x50001 ?w = (r, k)" by fastforce
  have "known_action small_lib 0x50001" by (simp add: known_action_def small_lib_def EPERM_def)
  then have "r = 0" using small_lib_runs [of "0x50001" ?w] run by simp
  moreover have "SCMP_ACT_ALLOW small_lib = 0x7fff0000" by (simp add: small_lib_def)
  ultimately show ?thesis
    using sandbox_all_or_nothing [OF small_lib_ok run] small_lib_ok run by simp
qed

end
