(* ===== verification/Bison.thy ===== *)
theory Bison
  imports Prelude
begin

text \<open>
  The parser engine that Bison puts into every parser, as \<^verbatim>\<open>yyparse\<close> of
  \<^verbatim>\<open>src/packages/perf/files/generated/util/pmu-bison.c\<close> has it: the compressed tables, the two stacks with
  their growth, the lookahead token, error recovery, the cleanup and the result. Each label of the function is one
  definition that runs up to the next \<^verbatim>\<open>goto\<close>; \<open>run\<close> follows the labels. The tables, the semantic actions,
  the scanner and the success of stack allocations are parameters. An access outside a table or below
  the stack is the result \<open>Bad\<close>. The destructors of semantic values, which run when the parser drops a
  symbol, are a parameter too. Debug traces are left out.
\<close>

section \<open>Tables and state\<close>

record yytables =
  YYFINAL :: int
  YYLAST :: int
  YYNTOKENS :: int
  YYMAXUTOK :: int
  YYPACT_NINF :: int
  error_entry :: "int option"
  yytranslate :: "int list"
  yypact :: "int list"
  yydefact :: "int list"
  yypgoto :: "int list"
  yydefgoto :: "int list"
  yytable :: "int list"
  yycheck :: "int list"
  yyr1 :: "int list"
  yyr2 :: "int list"
  yystos :: "int list"

definition at :: "int list \<Rightarrow> int \<Rightarrow> int option" where
  "at xs i = (if 0 \<le> i \<and> i < int (length xs) then Some (xs ! nat i) else None)"

definition YYEMPTY :: int where "YYEMPTY = -2"
definition YYEOF :: int where "YYEOF = 0"
definition YYerror :: int where "YYerror = 256"
definition YYUNDEF :: int where "YYUNDEF = 257"
definition YYSYMBOL_YYEOF :: int where "YYSYMBOL_YYEOF = 0"
definition YYSYMBOL_YYerror :: int where "YYSYMBOL_YYerror = 1"
definition YYSYMBOL_YYUNDEF :: int where "YYSYMBOL_YYUNDEF = 2"
definition YYINITDEPTH :: int where "YYINITDEPTH = 200"
definition YYMAXDEPTH :: int where "YYMAXDEPTH = 10000"

text \<open>What a semantic action does: it continues with a value and a new state of the program around it,
  stops the parse, raises a syntax error, reports exhausted memory, or writes outside its object.\<close>

datatype ('v, 'u) reaction = Go 'v 'u | Stop 'u | Raise 'u | Nomem 'u | Smash

record ('v, 'u, 'l) parser =
  tabs :: yytables
  action :: "int \<Rightarrow> 'v \<Rightarrow> 'v list \<Rightarrow> 'u \<Rightarrow> ('v, 'u) reaction"
  yylex :: "'v \<Rightarrow> 'l \<Rightarrow> (int \<times> 'v \<times> 'l) option"
  destruct :: "int \<Rightarrow> 'v \<Rightarrow> 'u \<Rightarrow> 'u"
  room :: "int \<Rightarrow> bool"
  junk :: 'v

text \<open>The stacks have their tops first. The state stack has one entry more than the value stack, whose
  lowest entry is never used.\<close>

record ('v, 'u, 'l) pstate =
  yyss :: "int list"
  yyvs :: "'v list"
  yychar :: int
  yylval :: 'v
  yyerrstatus :: int
  yynerrs :: int
  yystacksize :: int
  yylen :: nat
  messages :: "string list"
  outer :: 'u
  input :: 'l

datatype label = Setstate | Backup | Default | Reduce int | Errlab | Errorlab | Errlab1 | Acceptlab | Abortlab | Exhaustedlab |
  Returnlab int

datatype ('v, 'u, 'l) progress =
  On label "('v, 'u, 'l) pstate"
| Done int "('v, 'u, 'l) pstate"
| Scanner_exit
| Bad

section \<open>The labels\<close>

definition YYTRANSLATE :: "yytables \<Rightarrow> int \<Rightarrow> int option" where
  "YYTRANSLATE t x = (if 0 \<le> x \<and> x \<le> YYMAXUTOK t then at (yytranslate t) x else Some YYSYMBOL_YYUNDEF)"

text \<open>\<^verbatim>\<open>yynewstate\<close> pushes the state, \<^verbatim>\<open>yysetstate\<close> makes sure of a free entry on the stacks.\<close>

definition yynewstate :: "int \<Rightarrow> ('v, 'u, 'l) pstate \<Rightarrow> ('v, 'u, 'l) progress" where
  "yynewstate yystate st = On Setstate (st\<lparr>yyss := yystate # yyss st\<rparr>)"

definition yysetstate :: "('v, 'u, 'l) parser \<Rightarrow> ('v, 'u, 'l) pstate \<Rightarrow> ('v, 'u, 'l) progress" where
  "yysetstate p st =
    (let next = (\<lambda>st. if hd (yyss st) = YYFINAL (tabs p) then On Acceptlab st else On Backup st);
         used = int (length (yyss st)) in
     if yystacksize st - 1 \<le> used - 1 then
       if YYMAXDEPTH \<le> yystacksize st then On Exhaustedlab st
       else
         let size = min (2 * yystacksize st) YYMAXDEPTH; st' = st\<lparr>yystacksize := size\<rparr> in
         if \<not> room p size then On Exhaustedlab st'
         else if size - 1 \<le> used - 1 then On Abortlab st'
         else next st'
     else next st)"

text \<open>\<^verbatim>\<open>yybackup\<close> from the point where a lookahead token is at hand.\<close>

definition dispatch :: "('v, 'u, 'l) parser \<Rightarrow> int \<Rightarrow> int \<Rightarrow> ('v, 'u, 'l) pstate \<Rightarrow> ('v, 'u, 'l) progress" where
  "dispatch p pact yytoken st =
    (let t = tabs p; yyn = pact + yytoken in
     if yyn < 0 \<or> YYLAST t < yyn then On Default st
     else case at (yycheck t) yyn of
       None \<Rightarrow> Bad
     | Some c \<Rightarrow>
         if c \<noteq> yytoken then On Default st
         else case at (yytable t) yyn of
           None \<Rightarrow> Bad
         | Some yyn \<Rightarrow>
             if yyn \<le> 0 then
               if error_entry t = Some yyn then On Errlab st else On (Reduce (- yyn)) st
             else
               yynewstate yyn
                 (st\<lparr>yyerrstatus := (if yyerrstatus st \<noteq> 0 then yyerrstatus st - 1 else 0),
                     yyvs := yylval st # yyvs st,
                     yychar := YYEMPTY\<rparr>))"

text \<open>A lookahead token is read unless there is one already.\<close>

definition fetch :: "('v, 'u, 'l) parser \<Rightarrow> ('v, 'u, 'l) pstate \<Rightarrow> ('v, 'u, 'l) pstate option" where
  "fetch p st =
    (if yychar st = YYEMPTY then
       (case yylex p (yylval st) (input st) of
          None \<Rightarrow> None
        | Some (c, v, l) \<Rightarrow> Some (st\<lparr>yychar := c, yylval := v, input := l\<rparr>))
     else Some st)"

definition classify :: "('v, 'u, 'l) parser \<Rightarrow> int \<Rightarrow> ('v, 'u, 'l) pstate \<Rightarrow> ('v, 'u, 'l) progress" where
  "classify p pact st =
    (if yychar st \<le> YYEOF then dispatch p pact YYSYMBOL_YYEOF (st\<lparr>yychar := YYEOF\<rparr>)
     else if yychar st = YYerror then On Errlab1 (st\<lparr>yychar := YYUNDEF\<rparr>)
     else case YYTRANSLATE (tabs p) (yychar st) of
       None \<Rightarrow> Bad
     | Some yytoken \<Rightarrow> dispatch p pact yytoken st)"

definition yybackup :: "('v, 'u, 'l) parser \<Rightarrow> ('v, 'u, 'l) pstate \<Rightarrow> ('v, 'u, 'l) progress" where
  "yybackup p st =
    (case at (yypact (tabs p)) (hd (yyss st)) of
       None \<Rightarrow> Bad
     | Some pact \<Rightarrow>
         if pact = YYPACT_NINF (tabs p) then On Default st
         else case fetch p st of
           None \<Rightarrow> Scanner_exit
         | Some st \<Rightarrow> classify p pact st)"

definition yydefault :: "('v, 'u, 'l) parser \<Rightarrow> ('v, 'u, 'l) pstate \<Rightarrow> ('v, 'u, 'l) progress" where
  "yydefault p st =
    (case at (yydefact (tabs p)) (hd (yyss st)) of
       None \<Rightarrow> Bad
     | Some yyn \<Rightarrow> if yyn = 0 then On Errlab st else On (Reduce yyn) st)"

text \<open>The state after a reduction, from the state below the symbols that were reduced.\<close>

definition goto_state :: "yytables \<Rightarrow> int \<Rightarrow> int \<Rightarrow> int option" where
  "goto_state t lhs below =
    (let yylhs = lhs - YYNTOKENS t in
     case (at (yypgoto t) yylhs, at (yydefgoto t) yylhs) of
       (Some g, Some d) \<Rightarrow>
         (let yyi = g + below in
          if 0 \<le> yyi \<and> yyi \<le> YYLAST t then
            (case at (yycheck t) yyi of
               None \<Rightarrow> None
             | Some c \<Rightarrow> if c = below then at (yytable t) yyi else Some d)
          else Some d)
     | _ \<Rightarrow> None)"

definition shift_value :: "('v, 'u, 'l) parser \<Rightarrow> int \<Rightarrow> 'v \<Rightarrow> ('v, 'u, 'l) pstate \<Rightarrow> ('v, 'u, 'l) progress" where
  "shift_value p yyn yyval st =
    (let st' = st\<lparr>yyss := drop (yylen st) (yyss st), yyvs := yyval # drop (yylen st) (yyvs st), yylen := 0\<rparr> in
     case at (yyr1 (tabs p)) yyn of
       None \<Rightarrow> Bad
     | Some lhs \<Rightarrow>
         (case goto_state (tabs p) lhs (hd (yyss st')) of
            None \<Rightarrow> Bad
          | Some yystate \<Rightarrow> yynewstate yystate st'))"

definition yyreduce :: "('v, 'u, 'l) parser \<Rightarrow> int \<Rightarrow> ('v, 'u, 'l) pstate \<Rightarrow> ('v, 'u, 'l) progress" where
  "yyreduce p yyn st =
    (case at (yyr2 (tabs p)) yyn of
       None \<Rightarrow> Bad
     | Some n \<Rightarrow>
         let st = st\<lparr>yylen := nat n\<rparr> in
         if length (yyvs st) < yylen st then Bad
         else
           let yyval = (if yylen st = 0 then junk p else yyvs st ! (yylen st - 1)) in
           case action p yyn yyval (yyvs st) (outer st) of
             Go yyval u \<Rightarrow> shift_value p yyn yyval (st\<lparr>outer := u\<rparr>)
           | Stop u \<Rightarrow> On Abortlab (st\<lparr>outer := u\<rparr>)
           | Raise u \<Rightarrow> On Errorlab (st\<lparr>outer := u\<rparr>)
           | Nomem u \<Rightarrow> On Exhaustedlab (st\<lparr>outer := u\<rparr>)
           | Smash \<Rightarrow> Bad)"

text \<open>\<^verbatim>\<open>yydestruct\<close> of the lookahead token, if there is one.\<close>

definition discard_lookahead :: "('v, 'u, 'l) parser \<Rightarrow> ('v, 'u, 'l) pstate \<Rightarrow> ('v, 'u, 'l) pstate option" where
  "discard_lookahead p st =
    (if yychar st = YYEMPTY then Some st
     else case YYTRANSLATE (tabs p) (yychar st) of
       None \<Rightarrow> None
     | Some yytoken \<Rightarrow> Some (st\<lparr>outer := destruct p yytoken (yylval st) (outer st)\<rparr>))"

definition yyerrlab :: "('v, 'u, 'l) parser \<Rightarrow> ('v, 'u, 'l) pstate \<Rightarrow> ('v, 'u, 'l) progress" where
  "yyerrlab p st =
    (let st1 = (if yyerrstatus st = 0
                then st\<lparr>yynerrs := yynerrs st + 1, messages := messages st @ [''syntax error'']\<rparr> else st) in
     if yyerrstatus st1 = 3 then
       if yychar st1 \<le> YYEOF then
         if yychar st1 = YYEOF then On Abortlab st1 else On Errlab1 st1
       else
         (case discard_lookahead p st1 of
            None \<Rightarrow> Bad
          | Some st2 \<Rightarrow> On Errlab1 (st2\<lparr>yychar := YYEMPTY\<rparr>))
     else On Errlab1 st1)"

definition yyerrorlab :: "('v, 'u, 'l) pstate \<Rightarrow> ('v, 'u, 'l) progress" where
  "yyerrorlab st =
    On Errlab1 (st\<lparr>yynerrs := yynerrs st + 1, yyss := drop (yylen st) (yyss st), yyvs := drop (yylen st) (yyvs st), yylen := 0\<rparr>)"

text \<open>The state that shifts the error token, if this state does.\<close>

definition error_shift :: "yytables \<Rightarrow> int \<Rightarrow> int option option" where
  "error_shift t yystate =
    (case at (yypact t) yystate of
       None \<Rightarrow> None
     | Some pact \<Rightarrow>
         if pact = YYPACT_NINF t then Some None
         else let yyn = pact + YYSYMBOL_YYerror in
           if 0 \<le> yyn \<and> yyn \<le> YYLAST t then
             (case (at (yycheck t) yyn, at (yytable t) yyn) of
                (Some c, Some s) \<Rightarrow> if c = YYSYMBOL_YYerror \<and> 0 < s then Some (Some s) else Some None
              | _ \<Rightarrow> None)
           else Some None)"

text \<open>Popping a symbol destroys its value. \<^verbatim>\<open>yystos\<close> gives the symbol of a state.\<close>

definition pop_symbol :: "('v, 'u, 'l) parser \<Rightarrow> int \<Rightarrow> 'v list \<Rightarrow> 'u \<Rightarrow> 'u option" where
  "pop_symbol p s vs u =
    (case (at (yystos (tabs p)) s, vs) of
       (Some k, v # _) \<Rightarrow> Some (destruct p k v u)
     | _ \<Rightarrow> None)"

text \<open>\<^verbatim>\<open>yyerrlab1\<close>: the loop pops the stacks until a state shifts the error token. The result has that state,
  if there is one, and the stacks.\<close>

fun pop_to_error ::
  "('v, 'u, 'l) parser \<Rightarrow> int list \<Rightarrow> 'v list \<Rightarrow> 'u \<Rightarrow> (int option \<times> int list \<times> 'v list \<times> 'u) option" where
  "pop_to_error p [] vs u = None"
| "pop_to_error p (s # ss) vs u =
    (case error_shift (tabs p) s of
       None \<Rightarrow> None
     | Some (Some s') \<Rightarrow> Some (Some s', s # ss, vs, u)
     | Some None \<Rightarrow>
         if ss = [] then Some (None, s # ss, vs, u)
         else case pop_symbol p s vs u of None \<Rightarrow> None | Some u' \<Rightarrow> pop_to_error p ss (tl vs) u')"

definition yyerrlab1 :: "('v, 'u, 'l) parser \<Rightarrow> ('v, 'u, 'l) pstate \<Rightarrow> ('v, 'u, 'l) progress" where
  "yyerrlab1 p st =
    (let st1 = st\<lparr>yyerrstatus := 3\<rparr> in
     case pop_to_error p (yyss st1) (yyvs st1) (outer st1) of
       None \<Rightarrow> Bad
     | Some (None, ss, vs, u) \<Rightarrow> On Abortlab (st1\<lparr>yyss := ss, yyvs := vs, outer := u\<rparr>)
     | Some (Some s, ss, vs, u) \<Rightarrow> yynewstate s (st1\<lparr>yyss := ss, yyvs := yylval st1 # vs, outer := u\<rparr>))"

text \<open>\<^verbatim>\<open>yyreturnlab\<close>: the lookahead token and all symbols are destroyed, but not those of a rule whose action
  ended the parse.\<close>

fun pop_all :: "('v, 'u, 'l) parser \<Rightarrow> int list \<Rightarrow> 'v list \<Rightarrow> 'u \<Rightarrow> 'u option" where
  "pop_all p [] vs u = None"
| "pop_all p [s] vs u = Some u"
| "pop_all p (s # s' # ss) vs u =
    (case pop_symbol p s vs u of None \<Rightarrow> None | Some u' \<Rightarrow> pop_all p (s' # ss) (tl vs) u')"

definition yyreturnlab :: "('v, 'u, 'l) parser \<Rightarrow> int \<Rightarrow> ('v, 'u, 'l) pstate \<Rightarrow> ('v, 'u, 'l) progress" where
  "yyreturnlab p yyresult st =
    (case discard_lookahead p st of
       None \<Rightarrow> Bad
     | Some st1 \<Rightarrow>
         (case pop_all p (drop (yylen st1) (yyss st1)) (drop (yylen st1) (yyvs st1)) (outer st1) of
            None \<Rightarrow> Bad
          | Some u \<Rightarrow> Done yyresult (st1\<lparr>yyss := [last (yyss st1)], yyvs := [], outer := u\<rparr>)))"

fun step :: "('v, 'u, 'l) parser \<Rightarrow> label \<Rightarrow> ('v, 'u, 'l) pstate \<Rightarrow> ('v, 'u, 'l) progress" where
  "step p Setstate st = yysetstate p st"
| "step p Backup st = yybackup p st"
| "step p Default st = yydefault p st"
| "step p (Reduce yyn) st = yyreduce p yyn st"
| "step p Errlab st = yyerrlab p st"
| "step p Errorlab st = yyerrorlab st"
| "step p Errlab1 st = yyerrlab1 p st"
| "step p Acceptlab st = On (Returnlab 0) st"
| "step p Abortlab st = On (Returnlab 1) st"
| "step p Exhaustedlab st = On (Returnlab 2) (st\<lparr>messages := messages st @ [''memory exhausted'']\<rparr>)"
| "step p (Returnlab r) st = yyreturnlab p r st"

fun is_on :: "('v, 'u, 'l) progress \<Rightarrow> bool" where
  "is_on (On l st) = True"
| "is_on _ = False"

fun on_label :: "('v, 'u, 'l) progress \<Rightarrow> label" where
  "on_label (On l st) = l"
| "on_label _ = Setstate"

fun on_state :: "('v, 'u, 'l) progress \<Rightarrow> ('v, 'u, 'l) pstate" where
  "on_state (On l st) = st"
| "on_state (Done r st) = st"

partial_function (option) run ::
  "('v, 'u, 'l) parser \<Rightarrow> label \<Rightarrow> ('v, 'u, 'l) pstate \<Rightarrow> ('v, 'u, 'l) progress option" where
  "run p l st =
    (if is_on (step p l st) then run p (on_label (step p l st)) (on_state (step p l st))
     else Some (step p l st))"

definition initial :: "('v, 'u, 'l) parser \<Rightarrow> 'u \<Rightarrow> 'l \<Rightarrow> ('v, 'u, 'l) pstate" where
  "initial p u l =
    \<lparr>yyss = [0], yyvs = [], yychar = YYEMPTY, yylval = junk p, yyerrstatus = 0, yynerrs = 0,
     yystacksize = YYINITDEPTH, yylen = 0, messages = [], outer = u, input = l\<rparr>"

definition yyparse :: "('v, 'u, 'l) parser \<Rightarrow> 'u \<Rightarrow> 'l \<Rightarrow> ('v, 'u, 'l) progress option" where
  "yyparse p u l = run p Setstate (initial p u l)"

end
