(* ===== verification/BisonSpec.thy ===== *)
theory BisonSpec
  imports Bison
begin

text \<open>
  Facts about the parser engine that hold for every table: the run as a chain of steps, and the
  abstraction of the scanner to the list of tokens that it delivers.
\<close>

lemma run_on: "step p l st = On l' st' \<Longrightarrow> run p l st = run p l' st'"
  by (subst run.simps) simp

lemma run_off: "\<not> is_on (step p l st) \<Longrightarrow> run p l st = Some (step p l st)"
  by (subst run.simps) simp

section \<open>Scanners and lists of tokens\<close>

text \<open>A token has a kind and, if the scanner sets one, a value.\<close>

type_synonym 'v tok = "int \<times> 'v option"

fun value_or :: "'v \<Rightarrow> 'v option \<Rightarrow> 'v" where
  "value_or v None = v"
| "value_or v (Some x) = x"

fun lex_list :: "'v \<Rightarrow> 'v tok list \<Rightarrow> (int \<times> 'v \<times> 'v tok list) option" where
  "lex_list v [] = Some (0, v, [])"
| "lex_list v ((k, x) # ts) = Some (k, value_or v x, ts)"

text \<open>A scanner that delivers the tokens of a list and from then on the end of the input.\<close>

coinductive ended :: "('v \<Rightarrow> 'l \<Rightarrow> (int \<times> 'v \<times> 'l) option) \<Rightarrow> 'l \<Rightarrow> bool" for lx where
  "(\<And>v. \<exists>l'. lx v l = Some (0, v, l') \<and> ended lx l') \<Longrightarrow> ended lx l"

fun feeds :: "('v \<Rightarrow> 'l \<Rightarrow> (int \<times> 'v \<times> 'l) option) \<Rightarrow> 'l \<Rightarrow> 'v tok list \<Rightarrow> bool" where
  "feeds lx l [] \<longleftrightarrow> ended lx l"
| "feeds lx l ((k, x) # ts) \<longleftrightarrow> (\<forall>v. \<exists>l'. lx v l = Some (k, value_or v x, l') \<and> feeds lx l' ts)"

lemma ended_iff: "ended lx l \<longleftrightarrow> (\<forall>v. \<exists>l'. lx v l = Some (0, v, l') \<and> ended lx l')"
  by (subst ended.simps) simp

lemma feeds_next:
  assumes "feeds lx l ts" and "lex_list v ts = Some (k, x, ts')"
  obtains l' where "lx v l = Some (k, x, l')" and "feeds lx l' ts'"
proof (cases ts)
  case Nil
  then have "ended lx l" using assms(1) by simp
  then show ?thesis using that assms(2) Nil by (subst (asm) ended_iff) auto
next
  case (Cons t us)
  then show ?thesis using assms that by (cases t) auto
qed

text \<open>The same parser reading from a list, and the same state with a list as its input.\<close>

definition on_list :: "('v, 'u, 'l) parser \<Rightarrow> ('v, 'u, 'v tok list) parser" where
  "on_list p = \<lparr>tabs = tabs p, action = action p, yylex = lex_list, destruct = destruct p, room = room p, junk = junk p\<rparr>"

definition reading :: "'m \<Rightarrow> ('v, 'u, 'l) pstate \<Rightarrow> ('v, 'u, 'm) pstate" where
  "reading ts st =
    \<lparr>yyss = yyss st, yyvs = yyvs st, yychar = yychar st, yylval = yylval st, yyerrstatus = yyerrstatus st,
     yynerrs = yynerrs st, yystacksize = yystacksize st, yylen = yylen st, messages = messages st, outer = outer st, input = ts\<rparr>"

lemma on_list_simps [simp]:
  "tabs (on_list p) = tabs p" "action (on_list p) = action p" "yylex (on_list p) = lex_list"
  "destruct (on_list p) = destruct p" "room (on_list p) = room p" "junk (on_list p) = junk p"
  by (simp_all add: on_list_def)

lemma reading_simps [simp]:
  "yyss (reading ts st) = yyss st" "yyvs (reading ts st) = yyvs st" "yychar (reading ts st) = yychar st"
  "yylval (reading ts st) = yylval st" "yyerrstatus (reading ts st) = yyerrstatus st"
  "yynerrs (reading ts st) = yynerrs st" "yystacksize (reading ts st) = yystacksize st"
  "yylen (reading ts st) = yylen st"
  "messages (reading ts st) = messages st" "outer (reading ts st) = outer st" "input (reading ts st) = ts"
  by (simp_all add: reading_def)

text \<open>Two results that differ only in what is left of the input.\<close>

fun agree :: "('v \<Rightarrow> 'l \<Rightarrow> (int \<times> 'v \<times> 'l) option) \<Rightarrow> ('v, 'u, 'l) progress \<Rightarrow> ('v, 'u, 'v tok list) progress \<Rightarrow> bool" where
  "agree lx (On l st) r \<longleftrightarrow> (\<exists>ts. feeds lx (input st) ts \<and> r = On l (reading ts st))"
| "agree lx (Done k st) r \<longleftrightarrow> (\<exists>ts. feeds lx (input st) ts \<and> r = Done k (reading ts st))"
| "agree lx Scanner_exit r \<longleftrightarrow> False"
| "agree lx Bad r \<longleftrightarrow> r = Bad"

lemma agree_On [simp]:
  "feeds lx (input st) ts \<Longrightarrow> agree lx (On l st) (On l (reading ts st))"
  "feeds lx (input st) ts \<Longrightarrow> agree lx (Done k st) (Done k (reading ts st))"
  by auto

declare agree.simps(1,2) [simp del]

lemma reading_update [simp]:
  "(reading ts st)\<lparr>yyss := a\<rparr> = reading ts (st\<lparr>yyss := a\<rparr>)"
  "(reading ts st)\<lparr>yyvs := b\<rparr> = reading ts (st\<lparr>yyvs := b\<rparr>)"
  "(reading ts st)\<lparr>yychar := c\<rparr> = reading ts (st\<lparr>yychar := c\<rparr>)"
  "(reading ts st)\<lparr>yylval := d\<rparr> = reading ts (st\<lparr>yylval := d\<rparr>)"
  "(reading ts st)\<lparr>yyerrstatus := e\<rparr> = reading ts (st\<lparr>yyerrstatus := e\<rparr>)"
  "(reading ts st)\<lparr>yynerrs := f\<rparr> = reading ts (st\<lparr>yynerrs := f\<rparr>)"
  "(reading ts st)\<lparr>yystacksize := g\<rparr> = reading ts (st\<lparr>yystacksize := g\<rparr>)"
  "(reading ts st)\<lparr>yylen := n\<rparr> = reading ts (st\<lparr>yylen := n\<rparr>)"
  "(reading ts st)\<lparr>messages := h\<rparr> = reading ts (st\<lparr>messages := h\<rparr>)"
  "(reading ts st)\<lparr>outer := i\<rparr> = reading ts (st\<lparr>outer := i\<rparr>)"
  "(reading ts st)\<lparr>input := ts'\<rparr> = reading ts' st"
  by (simp_all add: reading_def)

lemma reading_input [simp]: "reading ts (st\<lparr>input := l\<rparr>) = reading ts st"
  by (simp add: reading_def)

lemma agree_newstate [simp]:
  "feeds lx (input st) ts \<Longrightarrow> agree lx (yynewstate s st) (yynewstate s (reading ts st))"
  by (simp add: yynewstate_def)

lemma agree_dispatch [simp]:
  "feeds lx (input st) ts \<Longrightarrow> agree lx (dispatch p n k st) (dispatch (on_list p) n k (reading ts st))"
  by (simp add: dispatch_def Let_def split: option.split)

lemma agree_setstate [simp]:
  "feeds lx (input st) ts \<Longrightarrow> agree lx (yysetstate p st) (yysetstate (on_list p) (reading ts st))"
  by (simp add: yysetstate_def Let_def)

lemma agree_reduce [simp]:
  "feeds lx (input st) ts \<Longrightarrow> agree lx (yyreduce p n st) (yyreduce (on_list p) n (reading ts st))"
  by (simp add: yyreduce_def shift_value_def Let_def split: option.split reaction.split)

lemma on_list_pop_symbol [simp]: "pop_symbol (on_list p) s vs u = pop_symbol p s vs u"
  by (simp add: pop_symbol_def split: option.split list.split)

lemma on_list_pop_to_error [simp]: "pop_to_error (on_list p) ss vs u = pop_to_error p ss vs u"
  by (induction p ss vs u rule: pop_to_error.induct) (simp_all split: option.split)

lemma on_list_pop_all [simp]: "pop_all (on_list p) ss vs u = pop_all p ss vs u"
  by (induction p ss vs u rule: pop_all.induct) (simp_all split: option.split)

lemma discard_reading [simp]: "discard_lookahead (on_list p) (reading ts st) = map_option (reading ts) (discard_lookahead p st)"
  by (simp add: discard_lookahead_def split: option.split)

lemma discard_input: "discard_lookahead p st = Some st' \<Longrightarrow> input st' = input st"
  by (auto simp: discard_lookahead_def split: if_splits option.splits)

lemma agree_errlab [simp]:
  "feeds lx (input st) ts \<Longrightarrow> agree lx (yyerrlab p st) (yyerrlab (on_list p) (reading ts st))"
  by (auto simp: yyerrlab_def Let_def dest: discard_input split: option.split)

lemma agree_errlab1 [simp]:
  "feeds lx (input st) ts \<Longrightarrow> agree lx (yyerrlab1 p st) (yyerrlab1 (on_list p) (reading ts st))"
  by (simp add: yyerrlab1_def Let_def split: option.split prod.split)

lemma agree_returnlab [simp]:
  "feeds lx (input st) ts \<Longrightarrow> agree lx (yyreturnlab p r st) (yyreturnlab (on_list p) r (reading ts st))"
  by (auto simp: yyreturnlab_def dest: discard_input split: option.split)

lemma agree_default [simp]:
  "feeds lx (input st) ts \<Longrightarrow> agree lx (yydefault p st) (yydefault (on_list p) (reading ts st))"
  by (simp add: yydefault_def split: option.split)

lemma agree_errorlab [simp]:
  "feeds lx (input st) ts \<Longrightarrow> agree lx (yyerrorlab st) (yyerrorlab (reading ts st))"
  by (simp add: yyerrorlab_def)

lemma agree_classify [simp]:
  "feeds lx (input st) ts \<Longrightarrow> agree lx (classify p n st) (classify (on_list p) n (reading ts st))"
  by (simp add: classify_def split: option.split)

lemma agree_fetch:
  assumes "feeds (yylex p) (input st) ts"
  obtains st' ts' where "fetch p st = Some st'" and "fetch (on_list p) (reading ts st) = Some (reading ts' st')"
    and "feeds (yylex p) (input st') ts'"
proof (cases "yychar st = YYEMPTY")
  case True
  obtain k x ts' where t: "lex_list (yylval st) ts = Some (k, x, ts')"
    by (cases "(yylval st, ts)" rule: lex_list.cases) auto
  obtain l' where l: "yylex p (yylval st) (input st) = Some (k, x, l')" "feeds (yylex p) l' ts'"
    using feeds_next [OF assms t] .
  show ?thesis
    by (rule that [of "st\<lparr>yychar := k, yylval := x, input := l'\<rparr>" ts'])
      (use True t l in \<open>simp_all add: fetch_def reading_def\<close>)
next
  case False
  then show ?thesis using that [of st ts] assms by (simp add: fetch_def)
qed

lemma agree_backup:
  assumes "feeds (yylex p) (input st) ts"
  shows "agree (yylex p) (yybackup p st) (yybackup (on_list p) (reading ts st))"
proof -
  obtain st' ts' where f: "fetch p st = Some st'" "fetch (on_list p) (reading ts st) = Some (reading ts' st')"
    "feeds (yylex p) (input st') ts'" using agree_fetch [OF assms] .
  then show ?thesis using assms by (simp add: yybackup_def split: option.split)
qed

lemma agree_step:
  assumes "feeds (yylex p) (input st) ts"
  shows "agree (yylex p) (step p l st) (step (on_list p) l (reading ts st))"
  using assms agree_backup [OF assms] by (cases l) simp_all

text \<open>What a parser does with the tokens of a list, it does with every scanner that delivers them.\<close>

lemma run_on_list_aux:
  "run q l st' = Some r \<Longrightarrow>
   \<forall>st ts. q = on_list p \<longrightarrow> feeds (yylex p) (input st) ts \<longrightarrow> st' = reading ts st \<longrightarrow>
     (\<exists>r'. run p l st = Some r' \<and> agree (yylex p) r' r)"
proof (erule run.raw_induct [rotated], intro allI impI)
  fix f q l st' r st ts
  assume IH: "\<And>q l st' r. f q l st' = Some r \<Longrightarrow>
      \<forall>st ts. q = on_list p \<longrightarrow> feeds (yylex p) (input st) ts \<longrightarrow> st' = reading ts st \<longrightarrow>
        (\<exists>r'. run p l st = Some r' \<and> agree (yylex p) r' r)"
    and body: "(if is_on (step q l st') then f q (on_label (step q l st')) (on_state (step q l st'))
      else Some (step q l st')) = Some r"
    and q: "q = on_list p" and ts: "feeds (yylex p) (input st) ts" and st': "st' = reading ts st"
  have a: "agree (yylex p) (step p l st) (step q l st')" using agree_step [OF ts] q st' by simp
  show "\<exists>r'. run p l st = Some r' \<and> agree (yylex p) r' r"
  proof (cases "step p l st")
    case (On l1 st1)
    then obtain ts1 where "feeds (yylex p) (input st1) ts1" "step q l st' = On l1 (reading ts1 st1)"
      using a by (auto simp: agree.simps)
    then show ?thesis using IH [of q l1 "reading ts1 st1" r] body q run_on [OF On] by simp
  next
    case (Done k st1)
    then show ?thesis using a body run_off [of p l st] by (auto simp: agree.simps)
  qed (use a body run_off [of p l st] in \<open>auto simp: agree.simps\<close>)
qed

lemma run_on_list:
  assumes "run (on_list p) l st' = Some r" and "feeds (yylex p) (input st) ts" and "st' = reading ts st"
  shows "\<exists>r'. run p l st = Some r' \<and> agree (yylex p) r' r"
  using run_on_list_aux [OF assms(1), of p] assms(2,3) by blast

lemma initial_on_list: "initial (on_list p) u ts = reading ts (initial p u l)"
  by (simp add: initial_def reading_def)

lemma yyparse_list_result:
  assumes "yyparse (on_list p) u ts = Some r" and "feeds (yylex p) l ts"
  shows "\<exists>r'. yyparse p u l = Some r' \<and> agree (yylex p) r' r"
  unfolding yyparse_def
proof (rule run_on_list)
  show "run (on_list p) Setstate (initial (on_list p) u ts) = Some r" using assms(1) by (simp add: yyparse_def)
  show "feeds (yylex p) (input (initial p u l)) ts" using assms(2) by (simp add: initial_def)
qed (simp_all add: initial_on_list)

lemma yyparse_on_list:
  assumes "yyparse (on_list p) u ts = Some (Done k st')" and "feeds (yylex p) l ts"
  shows "\<exists>st. yyparse p u l = Some (Done k st) \<and> outer st = outer st'"
proof -
  obtain r where "yyparse p u l = Some r" "agree (yylex p) r (Done k st')"
    using yyparse_list_result [OF assms] by blast
  then show ?thesis by (cases r) (auto simp: agree.simps)
qed

lemma yyparse_on_list_bad:
  assumes "yyparse (on_list p) u ts = Some Bad" and "feeds (yylex p) l ts"
  shows "yyparse p u l = Some Bad"
  using yyparse_list_result [OF assms] by (auto elim: agree.elims)

end
