(* ===== verification/PmuParser.thy ===== *)
theory PmuParser
  imports BisonSpec
begin

text \<open>
  The parser for the format strings of performance monitoring units, such as
  \<^verbatim>\<open>config:0-7,32-35\<close>: the tables and semantic actions of
  \<^verbatim>\<open>src/packages/perf/files/generated/util/pmu-bison.c\<close>. The value of a symbol is the C union of an unsigned
  number and a bitmap of 64 bits, here one word. The function \<^verbatim>\<open>perf_pmu_format__set_value\<close> of perf is
  not part of the repository: the state around the parser is the list of its calls.
\<close>

section \<open>Tables\<close>

definition pmu_yytranslate :: "int list" where
  "pmu_yytranslate = [
    0, 2, 2, 2, 2, 2, 2, 2, 2, 2, 2, 2, 2, 2, 2, 2, 2, 2, 2, 2,
    2, 2, 2, 2, 2, 2, 2, 2, 2, 2, 2, 2, 2, 2, 2, 2, 2, 2, 2, 2,
    2, 2, 2, 2, 7, 8, 2, 2, 2, 2, 2, 2, 2, 2, 2, 2, 2, 2, 6, 2,
    2, 2, 2, 2, 2, 2, 2, 2, 2, 2, 2, 2, 2, 2, 2, 2, 2, 2, 2, 2,
    2, 2, 2, 2, 2, 2, 2, 2, 2, 2, 2, 2, 2, 2, 2, 2, 2, 2, 2, 2,
    2, 2, 2, 2, 2, 2, 2, 2, 2, 2, 2, 2, 2, 2, 2, 2, 2, 2, 2, 2,
    2, 2, 2, 2, 2, 2, 2, 2, 2, 2, 2, 2, 2, 2, 2, 2, 2, 2, 2, 2,
    2, 2, 2, 2, 2, 2, 2, 2, 2, 2, 2, 2, 2, 2, 2, 2, 2, 2, 2, 2,
    2, 2, 2, 2, 2, 2, 2, 2, 2, 2, 2, 2, 2, 2, 2, 2, 2, 2, 2, 2,
    2, 2, 2, 2, 2, 2, 2, 2, 2, 2, 2, 2, 2, 2, 2, 2, 2, 2, 2, 2,
    2, 2, 2, 2, 2, 2, 2, 2, 2, 2, 2, 2, 2, 2, 2, 2, 2, 2, 2, 2,
    2, 2, 2, 2, 2, 2, 2, 2, 2, 2, 2, 2, 2, 2, 2, 2, 2, 2, 2, 2,
    2, 2, 2, 2, 2, 2, 2, 2, 2, 2, 2, 2, 2, 2, 2, 2, 1, 2, 3, 4,
    5]"

definition pmu_yypact :: "int list" where
  "pmu_yypact = [
    2, -2, 0, -6, -5, 3, -6, -6, 3, 1, -1, -6, -1, 4, 3, -6, -6]"

definition pmu_yydefact :: "int list" where
  "pmu_yydefact = [
    0, 0, 0, 3, 0, 0, 1, 2, 0, 9, 4, 7, 5, 0, 0, 8, 6]"

definition pmu_yypgoto :: "int list" where
  "pmu_yypgoto = [
    -6, -6, 8, 5, -3]"

definition pmu_yydefgoto :: "int list" where
  "pmu_yydefgoto = [
    0, 2, 3, 10, 11]"

definition pmu_yytable :: "int list" where
  "pmu_yytable = [
    6, 8, 4, 1, 5, 1, 14, 9, 15, 13, 7, 16, 0, 12]"

definition pmu_yycheck :: "int list" where
  "pmu_yycheck = [
    0, 6, 4, 3, 6, 3, 7, 4, 4, 8, 2, 14, -1, 8]"

definition pmu_yyr1 :: "int list" where
  "pmu_yyr1 = [
    0, 9, 10, 10, 11, 11, 12, 12, 13, 13]"

definition pmu_yyr2 :: "int list" where
  "pmu_yyr2 = [
    0, 2, 2, 1, 3, 4, 3, 1, 3, 1]"

definition pmu_yystos :: "int list" where
  "pmu_yystos = [
    0, 3, 10, 11, 4, 6, 0, 11, 6, 4, 12, 13, 12, 8, 7, 4, 13]"

definition pmu_tables :: yytables where
  "pmu_tables =
    \<lparr>YYFINAL = 6, YYLAST = 13, YYNTOKENS = 9, YYMAXUTOK = 260, YYPACT_NINF = -6, error_entry = None,
     yytranslate = pmu_yytranslate, yypact = pmu_yypact, yydefact = pmu_yydefact, yypgoto = pmu_yypgoto,
     yydefgoto = pmu_yydefgoto, yytable = pmu_yytable, yycheck = pmu_yycheck, yyr1 = pmu_yyr1, yyr2 = pmu_yyr2, yystos = pmu_yystos\<rparr>"

definition PP_CONFIG :: int where "PP_CONFIG = 258"
definition PP_VALUE :: int where "PP_VALUE = 259"
definition PP_ERROR :: int where "PP_ERROR = 260"

section \<open>Actions\<close>

text \<open>The loop that sets the bits; a bit outside the 64 of the bitmap is a write outside the object.\<close>

function set_bits :: "int \<Rightarrow> int \<Rightarrow> u64 \<Rightarrow> u64 option" where
  "set_bits b hi bits =
    (if b \<le> hi then
       (if b < 0 \<or> 64 \<le> b then None else set_bits (b + 1) hi (set_bit (nat b) bits))
     else Some bits)"
  by pat_completeness auto
termination
  by (relation "measure (\<lambda>(b, hi, bits). nat (hi + 1 - b))") auto

declare set_bits.simps [simp del]

definition perf_pmu__set_format :: "int \<Rightarrow> int \<Rightarrow> u64 option" where
  "perf_pmu__set_format from upper = (let upper = (if upper = 0 then from else upper) in set_bits from upper 0)"

datatype set_value = Set_value_config u64 | Set_value u64 u64

definition pmu_action :: "int \<Rightarrow> u64 \<Rightarrow> u64 list \<Rightarrow> set_value list \<Rightarrow> (u64, set_value list) reaction" where
  "pmu_action rule yyval vs calls =
    (if rule = 4 then Go yyval (calls @ [Set_value_config (vs ! 0)])
     else if rule = 5 then Go yyval (calls @ [Set_value (vs ! 2) (vs ! 0)])
     else if rule = 6 then Go (vs ! 2 OR vs ! 0) calls
     else if rule = 7 then Go (vs ! 0) calls
     else if rule = 8 then
       (case perf_pmu__set_format (sint (vs ! 2)) (sint (vs ! 0)) of None \<Rightarrow> Smash | Some b \<Rightarrow> Go b calls)
     else if rule = 9 then
       (case perf_pmu__set_format (sint (vs ! 0)) 0 of None \<Rightarrow> Smash | Some b \<Rightarrow> Go b calls)
     else Go yyval calls)"

text \<open>\<^verbatim>\<open>yydestruct\<close> has nothing to release.\<close>

definition perf_pmu_parser ::
  "(u64 \<Rightarrow> 'l \<Rightarrow> (int \<times> u64 \<times> 'l) option) \<Rightarrow> (int \<Rightarrow> bool) \<Rightarrow> u64 \<Rightarrow> (u64, set_value list, 'l) parser" where
  "perf_pmu_parser lx rm jk = \<lparr>tabs = pmu_tables, action = pmu_action, yylex = lx, destruct = (\<lambda>yykind v calls. calls), room = rm, junk = jk\<rparr>"

definition perf_pmu_parse where
  "perf_pmu_parse lx rm jk l = yyparse (perf_pmu_parser lx rm jk) [] l"

end
