(* ===== verification/PmuSim.thy ===== *)
theory PmuSim
  imports PmuGrammar
begin

text \<open>
  The table-driven parser of format strings, run step by step along the recursive descent: whatever the
  tokens, it ends with the result and the reports of \<open>format\<close>.
\<close>

section \<open>The parser on tokens\<close>

definition conf :: "int list \<Rightarrow> u64 list \<Rightarrow> int \<Rightarrow> u64 \<Rightarrow> token list \<Rightarrow> set_value list \<Rightarrow> (u64, set_value list, u64 tok list) pstate" where
  "conf ss vs c v ts u =
    \<lparr>yyss = ss, yyvs = vs, yychar = c, yylval = v, yyerrstatus = 0, yynerrs = 0, yystacksize = YYINITDEPTH,
     yylen = 0, messages = [], outer = u, input = map tok_of ts\<rparr>"

fun kind_of :: "token list \<Rightarrow> int" where
  "kind_of [] = 0"
| "kind_of (t # ts) = fst (tok_of t)"

fun next_value :: "u64 \<Rightarrow> token list \<Rightarrow> u64" where
  "next_value v [] = v"
| "next_value v (t # ts) = value_or v (snd (tok_of t))"

abbreviation ahead :: "int list \<Rightarrow> u64 list \<Rightarrow> u64 \<Rightarrow> token list \<Rightarrow> set_value list \<Rightarrow> (u64, set_value list, u64 tok list) pstate" where
  "ahead ss vs v ts u \<equiv> conf ss vs (kind_of ts) (next_value v ts) (tl ts) u"

lemmas kinds = PP_CONFIG_def PP_VALUE_def PP_ERROR_def

lemma kind_of_not_empty: "kind_of ts \<noteq> YYEMPTY" "kind_of ts \<noteq> YYerror"
  by (cases ts; cases "hd ts"; simp add: YYEMPTY_def YYerror_def kinds)+

fun symbol_of :: "token list \<Rightarrow> int" where
  "symbol_of [] = 0"
| "symbol_of (Config # ts) = 3"
| "symbol_of (Num x # ts) = 4"
| "symbol_of (Error # ts) = 5"
| "symbol_of (Colon # ts) = 6"
| "symbol_of (Comma # ts) = 7"
| "symbol_of (Dash # ts) = 8"

abbreviation pmu :: "(int \<Rightarrow> bool) \<Rightarrow> u64 \<Rightarrow> (u64, set_value list, u64 tok list) parser" where
  "pmu rm jk \<equiv> perf_pmu_parser lex_list rm jk"

lemma pmu_simps [simp]:
  "tabs (perf_pmu_parser lx rm jk) = pmu_tables" "action (perf_pmu_parser lx rm jk) = pmu_action"
  "yylex (perf_pmu_parser lx rm jk) = lx" "room (perf_pmu_parser lx rm jk) = rm" "junk (perf_pmu_parser lx rm jk) = jk"
  "destruct (perf_pmu_parser lx rm jk) k v u = u"
  by (simp_all add: perf_pmu_parser_def)

lemma conf_simps [simp]:
  "yyss (conf ss vs c v ts u) = ss" "yyvs (conf ss vs c v ts u) = vs" "yychar (conf ss vs c v ts u) = c"
  "yylval (conf ss vs c v ts u) = v" "yystacksize (conf ss vs c v ts u) = 200" "outer (conf ss vs c v ts u) = u"
  "input (conf ss vs c v ts u) = map tok_of ts" "yyerrstatus (conf ss vs c v ts u) = 0" "yylen (conf ss vs c v ts u) = 0"
  by (simp_all add: conf_def YYINITDEPTH_def)

lemma conf_update [simp]:
  "(conf ss vs c v ts u)\<lparr>yyss := ss'\<rparr> = conf ss' vs c v ts u"
  "(conf ss vs c v ts u)\<lparr>yyvs := vs'\<rparr> = conf ss vs' c v ts u"
  "(conf ss vs c v ts u)\<lparr>yychar := c'\<rparr> = conf ss vs c' v ts u"
  "(conf ss vs c v ts u)\<lparr>yylval := v'\<rparr> = conf ss vs c v' ts u"
  "(conf ss vs c v ts u)\<lparr>yyerrstatus := 0\<rparr> = conf ss vs c v ts u"
  "(conf ss vs c v ts u)\<lparr>yylen := 0\<rparr> = conf ss vs c v ts u"
  "(conf ss vs c v ts u)\<lparr>yylen := n, outer := u'\<rparr> = (conf ss vs c v ts u')\<lparr>yylen := n\<rparr>"
  "(conf ss vs c v ts u)\<lparr>outer := u'\<rparr> = conf ss vs c v ts u'"
  "(conf ss vs c v ts u)\<lparr>input := map tok_of ts'\<rparr> = conf ss vs c v ts' u"
  "(conf ss vs c v ts u)\<lparr>input := []\<rparr> = conf ss vs c v [] u"
  by (simp_all add: conf_def)

lemma pmu_table_simps [simp]:
  "YYFINAL pmu_tables = 6" "YYLAST pmu_tables = 13" "YYNTOKENS pmu_tables = 9" "YYMAXUTOK pmu_tables = 260"
  "YYPACT_NINF pmu_tables = -6" "error_entry pmu_tables = None" "yytranslate pmu_tables = pmu_yytranslate"
  "yypact pmu_tables = pmu_yypact" "yydefact pmu_tables = pmu_yydefact" "yypgoto pmu_tables = pmu_yypgoto"
  "yydefgoto pmu_tables = pmu_yydefgoto" "yytable pmu_tables = pmu_yytable" "yycheck pmu_tables = pmu_yycheck"
  "yyr1 pmu_tables = pmu_yyr1" "yyr2 pmu_tables = pmu_yyr2" "yystos pmu_tables = pmu_yystos"
  by (simp_all add: pmu_tables_def)

lemma run_Setstate:
  "length ss \<le> 100 \<Longrightarrow> s \<noteq> 6 \<Longrightarrow>
   run (pmu rm jk) Setstate (conf (s # ss) vs c v ts u) = run (pmu rm jk) Backup (conf (s # ss) vs c v ts u)"
  by (rule run_on) (simp add: yysetstate_def Let_def)

lemma run_read:
  assumes "at pmu_yypact s = Some n" and "n \<noteq> -6"
  shows "run (pmu rm jk) Backup (conf (s # ss) vs YYEMPTY v ts u) = run (pmu rm jk) Backup (ahead (s # ss) vs v ts u)"
proof -
  have "lex_list v (map tok_of ts) = Some (kind_of ts, next_value v ts, map tok_of (tl ts))"
    by (cases ts; cases "tok_of (hd ts)") auto
  then have "yybackup (pmu rm jk) (conf (s # ss) vs YYEMPTY v ts u) = yybackup (pmu rm jk) (ahead (s # ss) vs v ts u)"
    using assms kind_of_not_empty [of ts] by (simp add: yybackup_def fetch_def)
  then show ?thesis by (simp add: run.simps [of _ Backup])
qed

lemma translate_kinds:
  "at pmu_yytranslate 258 = Some 3" "at pmu_yytranslate 259 = Some 4" "at pmu_yytranslate 260 = Some 5"
  "at pmu_yytranslate 58 = Some 6" "at pmu_yytranslate 44 = Some 7" "at pmu_yytranslate 45 = Some 8"
  by (simp_all add: at_def pmu_yytranslate_def)

lemma translate_ahead:
  "ts = [] \<or> 0 < kind_of ts \<and> YYTRANSLATE pmu_tables (kind_of ts) = Some (symbol_of ts)"
  by (cases ts; cases "hd ts") (auto simp: YYTRANSLATE_def translate_kinds kinds)

lemma classify_ahead:
  "classify (pmu rm jk) n (ahead ss vs v ts u) = dispatch (pmu rm jk) n (symbol_of ts) (ahead ss vs v ts u)"
  using translate_ahead [of ts] kind_of_not_empty(2) [of ts]
  by (cases ts) (auto simp: classify_def YYEOF_def YYSYMBOL_YYEOF_def)

text \<open>No state of this parser shifts the error token, so every syntax error ends the parse.\<close>

definition failed :: "set_value list \<Rightarrow> (u64, set_value list, u64 tok list) progress option \<Rightarrow> bool" where
  "failed u r \<longleftrightarrow> (\<exists>st. r = Some (Done 1 st) \<and> outer st = u)"

definition states :: "int list \<Rightarrow> u64 list \<Rightarrow> bool" where
  "states ss vs \<longleftrightarrow> list_all (\<lambda>s. 0 \<le> s \<and> s < 17) ss \<and> length ss \<le> 50 \<and> length ss \<le> length vs"

lemma error_shifts: "list_all (\<lambda>s. error_shift pmu_tables s = Some None) [0..16]"
  by code_simp

lemma no_error_shift: "0 \<le> s \<Longrightarrow> s < 17 \<Longrightarrow> error_shift pmu_tables s = Some None"
  using error_shifts by (auto simp: list_all_iff simp del: upto.simps)

lemma all_symbols: "0 \<le> s \<Longrightarrow> s < 17 \<Longrightarrow> \<exists>k. at pmu_yystos s = Some k"
  by (simp add: at_def pmu_yystos_def)

lemma pops_pmu: "0 \<le> s \<Longrightarrow> s < 17 \<Longrightarrow> vs \<noteq> [] \<Longrightarrow> pop_symbol (pmu rm jk) s vs u = Some u"
  using all_symbols [of s] by (cases vs) (auto simp: pop_symbol_def)

lemma pops_to_bottom:
  "list_all (\<lambda>s. 0 \<le> s \<and> s < 17) ss \<Longrightarrow> ss \<noteq> [] \<Longrightarrow> length ss \<le> Suc (length vs) \<Longrightarrow>
   \<exists>vs'. pop_to_error (pmu rm jk) ss vs u = Some (None, [last ss], vs', u)"
proof (induction ss arbitrary: vs)
  case (Cons s ss)
  show ?case
  proof (cases "ss = []")
    case False
    then have "\<exists>vs'. pop_to_error (pmu rm jk) ss (tl vs) u = Some (None, [last ss], vs', u)" "vs \<noteq> []"
      using Cons by (cases ss; auto)+
    then show ?thesis using Cons.prems False by (auto simp: no_error_shift pops_pmu)
  qed (use Cons.prems in \<open>simp add: no_error_shift\<close>)
qed simp

lemma pops_pmu_all:
  "list_all (\<lambda>s. 0 \<le> s \<and> s < 17) ss \<Longrightarrow> ss \<noteq> [] \<Longrightarrow> length ss \<le> Suc (length vs) \<Longrightarrow> pop_all (pmu rm jk) ss vs u = Some u"
proof (induction ss arbitrary: vs rule: induct_list012)
  case (3 s t ss)
  then have "vs \<noteq> []" by auto
  then show ?case using 3 by (simp add: pops_pmu)
qed simp_all

text \<open>At the end no value needs to be freed.\<close>

lemma run_Returnlab:
  assumes "list_all (\<lambda>s. 0 \<le> s \<and> s < 17) (yyss st)" "yyss st \<noteq> []" "length (yyss st) \<le> Suc (length (yyvs st))"
    "yylen st = 0" "yychar st = YYEMPTY \<or> (\<exists>k. YYTRANSLATE pmu_tables (yychar st) = Some k)"
  shows "\<exists>st'. run (pmu rm jk) (Returnlab n) st = Some (Done n st') \<and> outer st' = outer st"
proof -
  obtain st1 where d: "discard_lookahead (pmu rm jk) st = Some st1" "yyss st1 = yyss st" "yyvs st1 = yyvs st" "yylen st1 = 0"
      "outer st1 = outer st"
    using assms(4,5) by (fastforce simp: discard_lookahead_def)
  then show ?thesis
    using assms(1-3) by (subst run.simps) (simp add: yyreturnlab_def pops_pmu_all)
qed

definition legal :: "int \<Rightarrow> bool" where
  "legal c \<longleftrightarrow> (\<exists>k. YYTRANSLATE pmu_tables c = Some k)"

lemma legal_kinds [simp]: "legal 0" "legal 44" "legal 45" "legal 58" "legal PP_CONFIG" "legal PP_VALUE" "legal PP_ERROR"
  by (simp_all add: kinds legal_def YYTRANSLATE_def at_def pmu_yytranslate_def)

lemma legal_ahead [simp]: "legal (kind_of ts)"
  by (cases ts rule: symbol_of.cases) simp_all

lemma run_Errlab:
  assumes "0 \<le> s" "s < 17" "states ss vs" "legal c"
  shows "failed u (run (pmu rm jk) Errlab (conf (s # ss) vs c v ts u))"
proof -
  obtain st where e: "step (pmu rm jk) Errlab (conf (s # ss) vs c v ts u) = On Errlab1 st" "yyss st = s # ss" "outer st = u"
      "yyvs st = vs" "yychar st = c" "yylen st = 0"
    by (simp add: yyerrlab_def Let_def)
  obtain vs' where "pop_to_error (pmu rm jk) (yyss st) (yyvs st) u = Some (None, [last (s # ss)], vs', u)"
    using pops_to_bottom [of "s # ss" vs rm jk u] assms e by (auto simp: states_def simp del: pop_to_error.simps last.simps)
  then have r: "run (pmu rm jk) Errlab1 st =
      run (pmu rm jk) Abortlab (st\<lparr>yyerrstatus := 3, yyss := [last (s # ss)], yyvs := vs'\<rparr>)" (is "_ = run _ _ ?st")
    using e(3) by (intro run_on) (simp add: yyerrlab1_def Let_def)
  have "run (pmu rm jk) Abortlab ?st = run (pmu rm jk) (Returnlab 1) ?st" by (rule run_on) simp
  moreover have "\<exists>st'. run (pmu rm jk) (Returnlab 1) ?st = Some (Done 1 st') \<and> outer st' = outer ?st"
    using assms e by (intro run_Returnlab) (auto simp: states_def legal_def list_all_iff last_in_set)
  ultimately show ?thesis using r run_on [OF e(1)] e(3) by (auto simp: failed_def)
qed

text \<open>What a state does with the next symbol.\<close>

datatype decision = Shift int | Use_default

definition decide :: "int \<Rightarrow> int \<Rightarrow> decision" where
  "decide s k =
    (let n = pmu_yypact ! nat s + k in
     if n < 0 \<or> 13 < n \<or> pmu_yycheck ! nat n \<noteq> k then Use_default else Shift (pmu_yytable ! nat n))"

lemma decisions:
  "list_all (\<lambda>s. list_all (\<lambda>k. case decide s k of Shift s' \<Rightarrow> 0 < s' | Use_default \<Rightarrow> True) [0..8]) [0..16]"
  by code_simp

lemma sym_range: "0 \<le> symbol_of ts" "symbol_of ts \<le> 8"
  by (cases ts rule: symbol_of.cases; simp)+

lemma decide_positive: "0 \<le> s \<Longrightarrow> s < 17 \<Longrightarrow> decide s (symbol_of ts) = Shift s' \<Longrightarrow> 0 < s'"
  using decisions sym_range [of ts] by (force simp: list_all_iff)

lemma pmu_lengths: "length pmu_yypact = 17" "length pmu_yycheck = 14" "length pmu_yytable = 14" "length pmu_yydefact = 17"
  by (simp_all add: pmu_yypact_def pmu_yycheck_def pmu_yytable_def pmu_yydefact_def)

lemma run_Backup_ahead:
  assumes "0 \<le> s" "s < 17" "pmu_yypact ! nat s \<noteq> -6"
  shows "run (pmu rm jk) Backup (ahead (s # ss) vs v ts u) =
    (case decide s (symbol_of ts) of
       Shift s' \<Rightarrow> run (pmu rm jk) Setstate (conf (s' # s # ss) (next_value v ts # vs) YYEMPTY (next_value v ts) (tl ts) u)
     | Use_default \<Rightarrow> run (pmu rm jk) Default (ahead (s # ss) vs v ts u))"
proof -
  have "step (pmu rm jk) Backup (ahead (s # ss) vs v ts u) =
      dispatch (pmu rm jk) (pmu_yypact ! nat s) (symbol_of ts) (ahead (s # ss) vs v ts u)"
    using assms kind_of_not_empty [of ts] by (simp add: yybackup_def at_def pmu_lengths fetch_def classify_ahead)
  also have "\<dots> = (case decide s (symbol_of ts) of
       Shift s' \<Rightarrow> On Setstate (conf (s' # s # ss) (next_value v ts # vs) YYEMPTY (next_value v ts) (tl ts) u)
     | Use_default \<Rightarrow> On Default (ahead (s # ss) vs v ts u))"
    using decide_positive [OF assms(1,2), of ts "pmu_yytable ! nat (pmu_yypact ! nat s + symbol_of ts)"]
    by (cases "pmu_yypact ! nat s + symbol_of ts < 0 \<or> 13 < pmu_yypact ! nat s + symbol_of ts")
      (auto simp: dispatch_def Let_def decide_def at_def pmu_lengths yynewstate_def)
  finally show ?thesis by (cases "decide s (symbol_of ts)") (simp_all add: run_on)
qed


lemma run_Default:
  assumes "0 \<le> s" "s < 17" "pmu_yydefact ! nat s = r"
  shows "run (pmu rm jk) Default (conf (s # ss) vs c v ts u) =
    run (pmu rm jk) (if r = 0 then Errlab else Reduce r) (conf (s # ss) vs c v ts u)"
  using assms by (intro run_on) (simp add: yydefault_def at_def pmu_lengths)

lemma gotos:
  "goto_state pmu_tables 13 5 = Some 11" "goto_state pmu_tables 13 8 = Some 11" "goto_state pmu_tables 13 14 = Some 16"
  "goto_state pmu_tables 12 5 = Some 10" "goto_state pmu_tables 12 8 = Some 12"
  "goto_state pmu_tables 11 0 = Some 3" "goto_state pmu_tables 11 2 = Some 7" "goto_state pmu_tables 10 0 = Some 2"
  by code_simp+

lemma rules:
  "at pmu_yyr2 2 = Some 2" "at pmu_yyr2 3 = Some 1" "at pmu_yyr2 4 = Some 3" "at pmu_yyr2 5 = Some 4"
  "at pmu_yyr2 6 = Some 3" "at pmu_yyr2 7 = Some 1" "at pmu_yyr2 8 = Some 3" "at pmu_yyr2 9 = Some 1"
  "at pmu_yyr1 2 = Some 10" "at pmu_yyr1 3 = Some 10" "at pmu_yyr1 4 = Some 11" "at pmu_yyr1 5 = Some 11"
  "at pmu_yyr1 6 = Some 12" "at pmu_yyr1 7 = Some 12" "at pmu_yyr1 8 = Some 13" "at pmu_yyr1 9 = Some 13"
  by code_simp+

lemma run_reduce:
  "run (pmu rm jk) (Reduce 2) (conf (7 # 2 # 0 # ss) (b # a # vs) c v ts u) =
   run (pmu rm jk) Setstate (conf (2 # 0 # ss) (a # vs) c v ts u)"
  "run (pmu rm jk) (Reduce 3) (conf (3 # 0 # ss) (a # vs) c v ts u) =
   run (pmu rm jk) Setstate (conf (2 # 0 # ss) (a # vs) c v ts u)"
  "s = 0 \<and> q = 3 \<or> s = 2 \<and> q = 7 \<Longrightarrow>
   run (pmu rm jk) (Reduce 4) (conf (10 # 5 # 1 # s # ss) (b # y # x # vs) c v ts u) =
   run (pmu rm jk) Setstate (conf (q # s # ss) (x # vs) c v ts (u @ [Set_value_config b]))"
  "s = 0 \<and> q = 3 \<or> s = 2 \<and> q = 7 \<Longrightarrow>
   run (pmu rm jk) (Reduce 5) (conf (12 # 8 # 4 # 1 # s # ss) (b # z # y # x # vs) c v ts u) =
   run (pmu rm jk) Setstate (conf (q # s # ss) (x # vs) c v ts (u @ [Set_value y b]))"
  "s = 5 \<and> q = 10 \<or> s = 8 \<and> q = 12 \<Longrightarrow>
   run (pmu rm jk) (Reduce 6) (conf (16 # 14 # q # s # ss) (b # y # a # vs) c v ts u) =
   run (pmu rm jk) Setstate (conf (q # s # ss) ((a OR b) # vs) c v ts u)"
  "s = 5 \<and> q = 10 \<or> s = 8 \<and> q = 12 \<Longrightarrow>
   run (pmu rm jk) (Reduce 7) (conf (11 # s # ss) (b # vs) c v ts u) =
   run (pmu rm jk) Setstate (conf (q # s # ss) (b # vs) c v ts u)"
  by (rule run_on; force simp: yyreduce_def rules shift_value_def pmu_action_def Let_def gotos yynewstate_def)+

lemma run_reduce_range:
  assumes "s = 5 \<and> q = 11 \<or> s = 8 \<and> q = 11 \<or> s = 14 \<and> q = 16"
  shows "run (pmu rm jk) (Reduce 8) (conf (15 # 13 # 9 # s # ss) (y # d # x # vs) c v ts u) =
    (case perf_pmu__set_format (sint x) (sint y) of
       None \<Rightarrow> Some Bad | Some b \<Rightarrow> run (pmu rm jk) Setstate (conf (q # s # ss) (b # vs) c v ts u))"
    "run (pmu rm jk) (Reduce 9) (conf (9 # s # ss) (x # vs) c v ts u) =
    (case perf_pmu__set_format (sint x) 0 of
       None \<Rightarrow> Some Bad | Some b \<Rightarrow> run (pmu rm jk) Setstate (conf (q # s # ss) (b # vs) c v ts u))"
  using assms
  by (cases "perf_pmu__set_format (sint x) (sint y)"; cases "perf_pmu__set_format (sint x) 0";
      auto simp: run.simps [of _ "Reduce _"] yyreduce_def rules shift_value_def pmu_action_def Let_def gotos yynewstate_def)+

section \<open>The parser computes the grammar\<close>

text \<open>The decisions of the states that need a lookahead token, for every symbol of the scanner.\<close>

lemma decide_table:
  "decide 0 0 = Use_default" "decide 0 3 = Shift 1" "decide 0 4 = Use_default" "decide 0 5 = Use_default" "decide 0 6 = Use_default" "decide 0 7 = Use_default" "decide 0 8 = Use_default"
  "decide 1 0 = Use_default" "decide 1 3 = Use_default" "decide 1 4 = Shift 4" "decide 1 5 = Use_default" "decide 1 6 = Shift 5" "decide 1 7 = Use_default" "decide 1 8 = Use_default"
  "decide 2 0 = Shift 6" "decide 2 3 = Shift 1" "decide 2 4 = Use_default" "decide 2 5 = Use_default" "decide 2 6 = Use_default" "decide 2 7 = Use_default" "decide 2 8 = Use_default"
  "decide 4 0 = Use_default" "decide 4 3 = Use_default" "decide 4 4 = Use_default" "decide 4 5 = Use_default" "decide 4 6 = Shift 8" "decide 4 7 = Use_default" "decide 4 8 = Use_default"
  "decide 5 0 = Use_default" "decide 5 3 = Use_default" "decide 5 4 = Shift 9" "decide 5 5 = Use_default" "decide 5 6 = Use_default" "decide 5 7 = Use_default" "decide 5 8 = Use_default"
  "decide 8 0 = Use_default" "decide 8 3 = Use_default" "decide 8 4 = Shift 9" "decide 8 5 = Use_default" "decide 8 6 = Use_default" "decide 8 7 = Use_default" "decide 8 8 = Use_default"
  "decide 9 0 = Use_default" "decide 9 3 = Use_default" "decide 9 4 = Use_default" "decide 9 5 = Use_default" "decide 9 6 = Use_default" "decide 9 7 = Use_default" "decide 9 8 = Shift 13"
  "decide 10 0 = Use_default" "decide 10 3 = Use_default" "decide 10 4 = Use_default" "decide 10 5 = Use_default" "decide 10 6 = Use_default" "decide 10 7 = Shift 14" "decide 10 8 = Use_default"
  "decide 12 0 = Use_default" "decide 12 3 = Use_default" "decide 12 4 = Use_default" "decide 12 5 = Use_default" "decide 12 6 = Use_default" "decide 12 7 = Shift 14" "decide 12 8 = Use_default"
  "decide 13 0 = Use_default" "decide 13 3 = Use_default" "decide 13 4 = Shift 15" "decide 13 5 = Use_default" "decide 13 6 = Use_default" "decide 13 7 = Use_default" "decide 13 8 = Use_default"
  "decide 14 0 = Use_default" "decide 14 3 = Use_default" "decide 14 4 = Shift 9" "decide 14 5 = Use_default" "decide 14 6 = Use_default" "decide 14 7 = Use_default" "decide 14 8 = Use_default"
  by (simp_all add: decide_def pmu_yypact_def pmu_yycheck_def pmu_yytable_def)

definition next_state where
  "next_state rm jk s ss vs v ts u =
    (case decide s (symbol_of ts) of
       Shift s' \<Rightarrow> run (pmu rm jk) Setstate (conf (s' # s # ss) (next_value v ts # vs) YYEMPTY (next_value v ts) (tl ts) u)
     | Use_default \<Rightarrow>
         run (pmu rm jk) (if pmu_yydefact ! nat s = 0 then Errlab else Reduce (pmu_yydefact ! nat s)) (ahead (s # ss) vs v ts u))"

text \<open>The lookahead token may have been read or not.\<close>

definition looks :: "int \<Rightarrow> u64 \<Rightarrow> token list \<Rightarrow> u64 \<Rightarrow> token list \<Rightarrow> bool" where
  "looks c v ts v' us \<longleftrightarrow> c = YYEMPTY \<and> v = v' \<and> ts = us \<or> c = kind_of us \<and> v = next_value v' us \<and> ts = tl us"

lemma run_state:
  assumes "looks c v ts v' us" and "0 \<le> s" "s < 17" "s \<noteq> 6" "pmu_yypact ! nat s \<noteq> -6" "length ss \<le> 100"
  shows "run (pmu rm jk) Setstate (conf (s # ss) vs c v ts u) = next_state rm jk s ss vs v' us u"
proof -
  have "run (pmu rm jk) Backup (conf (s # ss) vs c v ts u) = run (pmu rm jk) Backup (ahead (s # ss) vs v' us u)"
    using assms run_read [of s "pmu_yypact ! nat s"] by (auto simp: looks_def at_def pmu_lengths)
  then show ?thesis
    using assms run_Backup_ahead [OF assms(2,3,5)]
    by (simp add: run_Setstate next_state_def run_Default split: decision.split)
qed

lemma run_consistent:
  assumes "0 \<le> s" "s < 17" "s \<noteq> 6" "pmu_yypact ! nat s = -6" "pmu_yydefact ! nat s = r" "r \<noteq> 0" "length ss \<le> 100"
  shows "run (pmu rm jk) Setstate (conf (s # ss) vs c v ts u) = run (pmu rm jk) (Reduce r) (conf (s # ss) vs c v ts u)"
proof -
  have "step (pmu rm jk) Backup (conf (s # ss) vs c v ts u) = On Default (conf (s # ss) vs c v ts u)"
    using assms by (simp add: yybackup_def at_def pmu_lengths)
  then show ?thesis using assms by (simp add: run_Setstate run_on run_Default)
qed

lemma nth_tables:
  "pmu_yydefact ! 0 = 0" "pmu_yydefact ! 1 = 0" "pmu_yydefact ! 2 = 0" "pmu_yydefact ! 3 = 3" "pmu_yydefact ! 4 = 0"
  "pmu_yydefact ! 5 = 0" "pmu_yydefact ! 7 = 2" "pmu_yydefact ! 8 = 0" "pmu_yydefact ! 9 = 9" "pmu_yydefact ! 10 = 4"
  "pmu_yydefact ! 11 = 7" "pmu_yydefact ! 12 = 5" "pmu_yydefact ! 13 = 0" "pmu_yydefact ! 14 = 0" "pmu_yydefact ! 15 = 8"
  "pmu_yydefact ! 16 = 6"
  "pmu_yypact ! 0 = 2" "pmu_yypact ! 1 = -2" "pmu_yypact ! 2 = 0" "pmu_yypact ! 3 = -6" "pmu_yypact ! 4 = -5"
  "pmu_yypact ! 5 = 3" "pmu_yypact ! 7 = -6" "pmu_yypact ! 8 = 3" "pmu_yypact ! 9 = 1" "pmu_yypact ! 10 = -1"
  "pmu_yypact ! 11 = -6" "pmu_yypact ! 12 = -1" "pmu_yypact ! 13 = 4" "pmu_yypact ! 14 = 3" "pmu_yypact ! 15 = -6"
  "pmu_yypact ! 16 = -6" "pmu_yydefact ! Suc 0 = 0" "pmu_yypact ! Suc 0 = -2"
  by (simp_all add: pmu_yydefact_def pmu_yypact_def)

text \<open>The value of a recursive descent and the run of the parser: a match leads on, a syntax error ends with
  result 1 and the calls made so far, a write outside the bitmap is out of the parser's hands.\<close>

fun follows :: "'a parsed \<Rightarrow> set_value list \<Rightarrow> (u64, set_value list, u64 tok list) progress option \<Rightarrow>
    ('a \<Rightarrow> token list \<Rightarrow> bool) \<Rightarrow> bool" where
  "follows (Match a us) u r k \<longleftrightarrow> k a us"
| "follows Syntax u r k \<longleftrightarrow> failed u r"
| "follows Outside u r k \<longleftrightarrow> r = Some Bad"

lemma looks_unread [simp]: "looks YYEMPTY v ts v ts"
  by (simp add: looks_def)

lemma looks_read: "looks (kind_of ts) (next_value v ts) (tl ts) v ts"
  by (simp add: looks_def)

lemma next_state_fails:
  assumes "decide s (symbol_of ts) = Use_default" "pmu_yydefact ! nat s = 0" "0 \<le> s" "s < 17" "states ss vs"
  shows "failed u (next_state rm jk s ss vs v ts u)"
  using assms run_Errlab [of s ss vs] by (simp add: next_state_def)

lemma sim_start:
  assumes "s = 5 \<or> s = 8 \<or> s = 14" and "states ss vs" "length ss < 50"
  shows "case us of
      Num x # ws \<Rightarrow> next_state rm jk s ss vs v us u = run (pmu rm jk) Setstate (conf (9 # s # ss) (x # vs) YYEMPTY x ws u)
    | _ \<Rightarrow> failed u (next_state rm jk s ss vs v us u)"
  using assms
  by (cases us rule: symbol_of.cases)
    (auto intro!: run_Errlab simp: next_state_def decide_table nth_tables states_def)

lemma sim_dash:
  assumes "states ss vs" "length ss < 50"
  shows "case us of
      Num y # ws \<Rightarrow> next_state rm jk 13 ss vs v us u = run (pmu rm jk) (Reduce 8) (conf (15 # 13 # ss) (y # vs) YYEMPTY y ws u)
    | _ \<Rightarrow> failed u (next_state rm jk 13 ss vs v us u)"
  using assms
  by (cases us rule: symbol_of.cases)
    (auto intro!: run_Errlab simp: next_state_def decide_table nth_tables states_def run_consistent)

lemma sim_value:
  "case us of
      Dash # ws \<Rightarrow> next_state rm jk 9 ss vs v us u = run (pmu rm jk) Setstate (conf (13 # 9 # ss) (v # vs) YYEMPTY v ws u)
    | _ \<Rightarrow> next_state rm jk 9 ss vs v us u = run (pmu rm jk) (Reduce 9) (ahead (9 # ss) vs v us u)"
  by (cases us rule: symbol_of.cases) (simp_all add: next_state_def decide_table nth_tables)

text \<open>A run that is in a state, with a list of tokens before it.\<close>

definition goes where
  "goes rm jk r ss vs us u \<longleftrightarrow>
    (\<exists>c v ts v'. looks c v ts v' us \<and> r = run (pmu rm jk) Setstate (conf ss vs c v ts u))"

lemma goes_unread: "goes rm jk (run (pmu rm jk) Setstate (conf ss vs YYEMPTY v us u)) ss vs us u"
  unfolding goes_def using looks_unread by blast

lemma goes_read: "goes rm jk (run (pmu rm jk) Setstate (ahead ss vs v us u)) ss vs us u"
  unfolding goes_def using looks_read by blast

lemma goes_state:
  assumes "goes rm jk r (s # ss) vs us u" and "0 \<le> s" "s < 17" "s \<noteq> 6" "pmu_yypact ! nat s \<noteq> -6" "length ss \<le> 100"
  obtains v where "r = next_state rm jk s ss vs v us u"
  using assms run_state unfolding goes_def by blast

lemma goes_reduce:
  assumes "goes rm jk r (s # ss) vs us u"
    and "0 \<le> s" "s < 17" "s \<noteq> 6" "pmu_yypact ! nat s = -6" "pmu_yydefact ! nat s = n" "n \<noteq> 0" "length ss \<le> 100"
    and reduce: "\<And>c v ts. run (pmu rm jk) (Reduce n) (conf (s # ss) vs c v ts u) = run (pmu rm jk) Setstate (conf ss' vs' c v ts u)"
  shows "goes rm jk r ss' vs' us u"
  using assms(1) run_consistent [OF assms(2-8)] reduce unfolding goes_def by metis

lemma sim_range:
  assumes "s = 5 \<and> q = 11 \<or> s = 8 \<and> q = 11 \<or> s = 14 \<and> q = 16"
  shows "r = run (pmu rm jk) (Reduce 9) (ahead (9 # s # ss) (x # vs) v ws u) \<Longrightarrow>
      follows (bits_range x 0 ws) u r (\<lambda>b ws. goes rm jk r (q # s # ss) (b # vs) ws u)"
    "r = run (pmu rm jk) (Reduce 8) (conf (15 # 13 # 9 # s # ss) (y # d # x # vs) YYEMPTY v ws u) \<Longrightarrow>
      follows (bits_range x y ws) u r (\<lambda>b ws. goes rm jk r (q # s # ss) (b # vs) ws u)"
  using run_reduce_range [OF assms] goes_read goes_unread by (auto simp: bits_range_def split: option.split)

lemma sim_bit_term:
  assumes g: "goes rm jk r (s # ss) vs us u" and s: "s = 5 \<and> q = 11 \<or> s = 8 \<and> q = 11 \<or> s = 14 \<and> q = 16"
    and ss: "states ss vs" "length ss < 40"
  shows "follows (bit_term us) u r (\<lambda>b ws. goes rm jk r (q # s # ss) (b # vs) ws u)"
proof -
  obtain v where r: "r = next_state rm jk s ss vs v us u"
    using g s ss by (auto elim!: goes_state simp: nth_tables)
  show ?thesis
  proof (cases "\<exists>x ws. us = Num x # ws")
    case False
    then have "bit_term us = Syntax" "failed u r"
      using sim_start [where s = s and ss = ss and us = us and rm = rm and jk = jk and vs = vs and v = v and u = u] s ss r
      by (auto simp: bit_term_def split: list.splits token.splits)
    then show ?thesis by simp
  next
    case True
    then obtain x ws where us: "us = Num x # ws" by blast
    then have "r = run (pmu rm jk) Setstate (conf (9 # s # ss) (x # vs) YYEMPTY x ws u)"
      using sim_start [where s = s and ss = ss and us = us and rm = rm and jk = jk and vs = vs and v = v and u = u] s ss r by auto
    also have "\<dots> = next_state rm jk 9 (s # ss) (x # vs) x ws u"
      using s ss by (intro run_state) (auto simp: nth_tables)
    finally have r2: "r = next_state rm jk 9 (s # ss) (x # vs) x ws u" .
    show ?thesis
    proof (cases "\<exists>zs. ws = Dash # zs")
      case False
      then have "bit_term us = bits_range x 0 ws" using us by (auto simp: bit_term_def split: list.splits token.splits)
      moreover have "r = run (pmu rm jk) (Reduce 9) (ahead (9 # s # ss) (x # vs) x ws u)"
        using sim_value [where us = ws and rm = rm and jk = jk and ss = "s # ss" and vs = "x # vs" and v = x and u = u] r2 False
        by (auto split: list.splits token.splits)
      ultimately show ?thesis using sim_range(1) [OF s] by simp
    next
      case True
      then obtain zs where ws: "ws = Dash # zs" by blast
      have "r = run (pmu rm jk) Setstate (conf (13 # 9 # s # ss) (x # x # vs) YYEMPTY x zs u)"
        using sim_value [where us = ws and rm = rm and jk = jk and ss = "s # ss" and vs = "x # vs" and v = x and u = u] r2 ws
        by simp
      also have "\<dots> = next_state rm jk 13 (9 # s # ss) (x # x # vs) x zs u"
        using s ss by (intro run_state) (auto simp: nth_tables)
      finally have r3: "r = next_state rm jk 13 (9 # s # ss) (x # x # vs) x zs u" .
      have st: "states (9 # s # ss) (x # x # vs)" "length (9 # s # ss) < 50" using s ss by (auto simp: states_def)
      show ?thesis
        using sim_dash [OF st, where us = zs and rm = rm and jk = jk and v = x and u = u]
          sim_range(2) [OF s, where x = x] r3 us ws
        by (auto simp: bit_term_def split: list.splits token.splits)
    qed
  qed
qed

lemma follows_then:
  "follows p u r (\<lambda>a ws. follows (f a ws) u r k) \<Longrightarrow> follows (then_parse p f) u r k"
  by (cases p) auto

lemma follows_mono: "follows p u r k \<Longrightarrow> (\<And>a ws. p = Match a ws \<Longrightarrow> k a ws \<Longrightarrow> k' a ws) \<Longrightarrow> follows p u r k'"
  by (cases p) auto

lemma sim_comma:
  assumes "q = 10 \<and> n = 4 \<or> q = 12 \<and> n = 5"
  shows "case us of
      Comma # ws \<Rightarrow> next_state rm jk q ss vs v us u = run (pmu rm jk) Setstate (conf (14 # q # ss) (v # vs) YYEMPTY v ws u)
    | _ \<Rightarrow> next_state rm jk q ss vs v us u = run (pmu rm jk) (Reduce n) (ahead (q # ss) vs v us u)"
  using assms by (cases us rule: symbol_of.cases) (auto simp: next_state_def decide_table nth_tables)

lemma sim_more_bits:
  assumes s: "s = 5 \<and> q = 10 \<and> n = 4 \<or> s = 8 \<and> q = 12 \<and> n = 5" and ss: "states ss vs" "length ss < 30"
  shows "goes rm jk r (q # s # ss) (acc # vs) us u \<Longrightarrow>
    follows (more_bits acc us) u r (\<lambda>b ws. \<exists>v. r = run (pmu rm jk) (Reduce n) (ahead (q # s # ss) (b # vs) v ws u))"
proof (induction "length us" arbitrary: acc us rule: less_induct)
  case less
  have q: "q = 10 \<and> n = 4 \<or> q = 12 \<and> n = 5" using s by blast
  obtain v where r: "r = next_state rm jk q (s # ss) (acc # vs) v us u"
    using less.prems s ss by (auto elim!: goes_state simp: nth_tables)
  note nx = sim_comma [OF q, where us = us and rm = rm and jk = jk and ss = "s # ss" and vs = "acc # vs" and v = v and u = u]
  show ?case
  proof (cases "\<exists>ws. us = Comma # ws")
    case False
    then have "r = run (pmu rm jk) (Reduce n) (ahead (q # s # ss) (acc # vs) v us u)"
      using nx r by (auto split: list.splits token.splits)
    then show ?thesis using False by (auto simp: more_bits_end)
  next
    case True
    then obtain ws where us: "us = Comma # ws" by blast
    then have "r = run (pmu rm jk) Setstate (conf (14 # q # s # ss) (v # acc # vs) YYEMPTY v ws u)" using nx r by simp
    then have "goes rm jk r (14 # q # s # ss) (v # acc # vs) ws u" using goes_unread by blast
    then have "follows (bit_term ws) u r (\<lambda>b zs. goes rm jk r (16 # 14 # q # s # ss) (b # v # acc # vs) zs u)"
      using s ss by (intro sim_bit_term) (auto simp: states_def)
    moreover have "goes rm jk r (q # s # ss) ((acc OR b) # vs) zs u"
      if "goes rm jk r (16 # 14 # q # s # ss) (b # v # acc # vs) zs u" for b zs
      by (rule goes_reduce [OF that, where n = 6]) (use s ss in \<open>auto simp: nth_tables run_reduce(5)\<close>)
    ultimately have "follows (bit_term ws) u r (\<lambda>b zs. goes rm jk r (q # s # ss) ((acc OR b) # vs) zs u)"
      by (rule follows_mono)
    then show ?thesis
      using less.hyps us bit_term_shorter by (fastforce simp: more_bits_Comma intro!: follows_then elim!: follows_mono)
  qed
qed

lemma sim_bits:
  assumes s: "s = 5 \<and> q = 10 \<and> n = 4 \<or> s = 8 \<and> q = 12 \<and> n = 5" and ss: "states ss vs" "length ss < 30"
    and g: "goes rm jk r (s # ss) vs us u"
  shows "follows (bits us) u r (\<lambda>b ws. \<exists>v. r = run (pmu rm jk) (Reduce n) (ahead (q # s # ss) (b # vs) v ws u))"
proof -
  have "follows (bit_term us) u r (\<lambda>b ws. goes rm jk r (11 # s # ss) (b # vs) ws u)"
    using g s ss by (intro sim_bit_term) auto
  moreover have "goes rm jk r (q # s # ss) (b # vs) zs u" if "goes rm jk r (11 # s # ss) (b # vs) zs u" for b zs
    by (rule goes_reduce [OF that, where n = 7]) (use s ss in \<open>auto simp: nth_tables run_reduce(6)\<close>)
  ultimately have "follows (bit_term us) u r (\<lambda>b ws. goes rm jk r (q # s # ss) (b # vs) ws u)"
    by (rule follows_mono)
  then show ?thesis
    unfolding bits_def by (intro follows_then) (auto elim!: follows_mono intro: sim_more_bits [OF s ss])
qed

lemma sim_config:
  assumes "s = 0 \<or> s = 2" and "states ss vs" "length ss < 40"
  shows "case us of
      Config # ws \<Rightarrow> next_state rm jk s ss vs v us u = run (pmu rm jk) Setstate (conf (1 # s # ss) (v # vs) YYEMPTY v ws u)
    | [] \<Rightarrow> s = 0 \<longrightarrow> failed u (next_state rm jk s ss vs v us u)
    | _ \<Rightarrow> failed u (next_state rm jk s ss vs v us u)"
  using assms
  by (cases us rule: symbol_of.cases)
    (auto intro!: run_Errlab simp: next_state_def decide_table nth_tables states_def)

lemma sim_number:
  assumes "states ss vs" "length ss < 40"
  shows "case us of
      Num x # ws \<Rightarrow> next_state rm jk 1 ss vs v us u = run (pmu rm jk) Setstate (conf (4 # 1 # ss) (x # vs) YYEMPTY x ws u)
    | Colon # ws \<Rightarrow> next_state rm jk 1 ss vs v us u = run (pmu rm jk) Setstate (conf (5 # 1 # ss) (v # vs) YYEMPTY v ws u)
    | _ \<Rightarrow> failed u (next_state rm jk 1 ss vs v us u)"
  using assms
  by (cases us rule: symbol_of.cases)
    (auto intro!: run_Errlab simp: next_state_def decide_table nth_tables states_def)

lemma sim_colon:
  assumes "states ss vs" "length ss < 40"
  shows "case us of
      Colon # ws \<Rightarrow> next_state rm jk 4 ss vs v us u = run (pmu rm jk) Setstate (conf (8 # 4 # ss) (v # vs) YYEMPTY v ws u)
    | _ \<Rightarrow> failed u (next_state rm jk 4 ss vs v us u)"
  using assms
  by (cases us rule: symbol_of.cases)
    (auto intro!: run_Errlab simp: next_state_def decide_table nth_tables states_def)

text \<open>After \<^verbatim>\<open>PP_CONFIG\<close>.\<close>

lemma sim_plain_term:
  assumes s: "s = 0 \<and> q = 3 \<or> s = 2 \<and> q = 7" and ss: "states ss vs" "length ss < 20"
    and r: "r = run (pmu rm jk) Setstate (conf (5 # 1 # s # ss) (y # x # vs) YYEMPTY v us u)"
  shows "follows (then_parse (bits us) (\<lambda>b. Match (Set_value_config b))) u r
    (\<lambda>c ws. \<exists>x. goes rm jk r (q # s # ss) (x # vs) ws (u @ [c]))"
proof -
  have "follows (bits us) u r (\<lambda>b ws. \<exists>v. r = run (pmu rm jk) (Reduce 4) (ahead (10 # 5 # 1 # s # ss) (b # y # x # vs) v ws u))"
    using s ss r by (intro sim_bits) (auto simp: states_def intro: goes_unread)
  then show ?thesis
    by (intro follows_then) (erule follows_mono, use run_reduce(3) [OF s] goes_read in fastforce)
qed

lemma sim_numbered_term:
  assumes s: "s = 0 \<and> q = 3 \<or> s = 2 \<and> q = 7" and ss: "states ss vs" "length ss < 20"
    and r: "r = run (pmu rm jk) Setstate (conf (8 # 4 # 1 # s # ss) (z # y # x # vs) YYEMPTY v us u)"
  shows "follows (then_parse (bits us) (\<lambda>b. Match (Set_value y b))) u r
    (\<lambda>c ws. \<exists>x. goes rm jk r (q # s # ss) (x # vs) ws (u @ [c]))"
proof -
  have "follows (bits us) u r (\<lambda>b ws. \<exists>v. r = run (pmu rm jk) (Reduce 5) (ahead (12 # 8 # 4 # 1 # s # ss) (b # z # y # x # vs) v ws u))"
    using s ss r by (intro sim_bits) (auto simp: states_def intro: goes_unread)
  then show ?thesis
    by (intro follows_then) (erule follows_mono, use run_reduce(4) [OF s] goes_read in fastforce)
qed

lemma goes_next:
  assumes "r = run (pmu rm jk) Setstate (conf (s # ss) vs YYEMPTY v us u)"
    and "0 \<le> s" "s < 17" "s \<noteq> 6" "pmu_yypact ! nat s \<noteq> -6" "length ss \<le> 100"
  shows "r = next_state rm jk s ss vs v us u"
  using assms run_state [OF looks_unread] by simp

lemma sim_format_term:
  assumes g: "goes rm jk r (s # ss) vs us u" and s: "s = 0 \<and> q = 3 \<or> s = 2 \<and> q = 7 \<and> us \<noteq> []" and ss: "states ss vs" "length ss < 20"
  shows "follows (format_term us) u r (\<lambda>c ws. \<exists>x. goes rm jk r (q # s # ss) (x # vs) ws (u @ [c]))"
proof -
  have s02: "s = 0 \<or> s = 2" and sq: "s = 0 \<and> q = 3 \<or> s = 2 \<and> q = 7" and st: "states (s # ss) (x # vs)" "length (s # ss) < 40"
    and l: "length ss < 40" for x using s ss by (auto simp: states_def)
  obtain v where r: "r = next_state rm jk s ss vs v us u"
    using g s ss by (auto elim!: goes_state simp: nth_tables)
  note cfg = sim_config [OF s02 ss(1) l, where us = us and rm = rm and jk = jk and v = v and u = u]
  show ?thesis
  proof (cases "\<exists>ws. us = Config # ws")
    case False
    then show ?thesis using cfg r s by (auto simp: format_term_def split: list.splits token.splits)
  next
    case True
    then obtain ws where us: "us = Config # ws" by blast
    then have "r = run (pmu rm jk) Setstate (conf (1 # s # ss) (v # vs) YYEMPTY v ws u)" using cfg r by simp
    then have r1: "r = next_state rm jk 1 (s # ss) (v # vs) v ws u"
      by (rule goes_next) (use st in \<open>auto simp: nth_tables\<close>)
    note num = sim_number [OF st(1) [of v] st(2), where us = ws and rm = rm and jk = jk and v = v and u = u]
    consider (colon) zs where "ws = Colon # zs" | (num) x zs where "ws = Num x # zs"
      | (other) "\<nexists>zs. ws = Colon # zs" "\<nexists>x zs. ws = Num x # zs" by blast
    then show ?thesis
    proof cases
      case colon
      then show ?thesis
        using num r1 us sim_plain_term [OF sq ss] by (auto simp: format_term_def)
    next
      case num
      then have "r = run (pmu rm jk) Setstate (conf (4 # 1 # s # ss) (x # v # vs) YYEMPTY x zs u)"
        using sim_number [OF st(1) [of v] st(2), where us = ws and rm = rm and jk = jk and v = v and u = u] r1 by simp
      then have r2: "r = next_state rm jk 4 (1 # s # ss) (x # v # vs) x zs u"
        by (rule goes_next) (use st in \<open>auto simp: nth_tables\<close>)
      have st4: "states (1 # s # ss) (x # v # vs)" "length (1 # s # ss) < 40" using s ss by (auto simp: states_def)
      note col = sim_colon [OF st4, where us = zs and rm = rm and jk = jk and v = x and u = u]
      show ?thesis
      proof (cases "\<exists>qs. zs = Colon # qs")
        case True
        then show ?thesis using col r2 us num sim_numbered_term [OF sq ss] by (auto simp: format_term_def)
      next
        case False
        then show ?thesis using col r2 us num by (auto simp: format_term_def split: list.splits token.splits)
      qed
    next
      case other
      then show ?thesis using num r1 us by (auto simp: format_term_def split: list.splits token.splits)
    qed
  qed
qed

lemma sim_end: "\<exists>st. next_state rm jk 2 [0] [z] v [] u = Some (Done 0 st) \<and> outer st = u"
proof -
  let ?st = "conf [6, 2, 0] [v, z] YYEMPTY v [] u"
  have "next_state rm jk 2 [0] [z] v [] u = run (pmu rm jk) Setstate ?st"
    by (simp add: next_state_def decide_table)
  also have "\<dots> = run (pmu rm jk) Acceptlab ?st"
    by (rule run_on) (simp add: yysetstate_def Let_def)
  also have "\<dots> = run (pmu rm jk) (Returnlab 0) ?st" by (rule run_on) simp
  finally show ?thesis using run_Returnlab [of ?st rm jk 0] by simp
qed

definition computes :: "(int \<times> set_value list) option \<Rightarrow> (u64, set_value list, 'l) progress option \<Rightarrow> bool" where
  "computes k r \<longleftrightarrow>
    (case k of None \<Rightarrow> r = Some Bad | Some (n, u) \<Rightarrow> \<exists>st. r = Some (Done n st) \<and> outer st = u)"

lemma failed_computes: "failed u r \<Longrightarrow> computes (Some (1, u)) r"
  by (simp add: failed_def computes_def)

lemma after_term:
  assumes "s = 0 \<and> q = 3 \<and> ss = [] \<and> vs = [] \<or> s = 2 \<and> q = 7 \<and> ss = [0] \<and> vs = [y]"
    and "goes rm jk r (q # s # ss) (x # vs) ws u"
  shows "\<exists>z. goes rm jk r [2, 0] [z] ws u"
  using assms(1)
proof
  assume "s = 0 \<and> q = 3 \<and> ss = [] \<and> vs = []"
  then have g: "goes rm jk r [3, 0] [x] ws u" using assms(2) by simp
  have "goes rm jk r [2, 0] [x] ws u"
    by (rule goes_reduce [OF g, where n = 3]) (simp_all add: nth_tables run_reduce(2))
  then show ?thesis ..
next
  assume "s = 2 \<and> q = 7 \<and> ss = [0] \<and> vs = [y]"
  then have g: "goes rm jk r [7, 2, 0] [x, y] ws u" using assms(2) by simp
  have "goes rm jk r [2, 0] [y] ws u"
    by (rule goes_reduce [OF g, where n = 2]) (simp_all add: nth_tables run_reduce(1))
  then show ?thesis ..
qed

lemma sim_format:
  "s = 0 \<and> q = (3 :: int) \<and> ss = [] \<and> vs = [] \<or> s = 2 \<and> q = 7 \<and> ss = [0] \<and> vs = [y] \<and> us \<noteq> [] \<Longrightarrow>
   goes rm jk r (s # ss) vs us u \<Longrightarrow> computes (format u us) r"
proof (induction "length us" arbitrary: us u s q ss vs y rule: less_induct)
  case less
  have "follows (format_term us) u r (\<lambda>c ws. \<exists>x. goes rm jk r (q # s # ss) (x # vs) ws (u @ [c]))"
    using less.prems by (intro sim_format_term) (auto simp: states_def)
  then have f: "follows (format_term us) u r (\<lambda>c ws. \<exists>z. goes rm jk r [2, 0] [z] ws (u @ [c]))"
    by (rule follows_mono) (use less.prems after_term in blast)
  show ?case
  proof (cases "format_term us")
    case (Match c ws)
    then obtain z where g: "goes rm jk r [2, 0] [z] ws (u @ [c])" using f by auto
    then obtain v where r: "r = next_state rm jk 2 [0] [z] v ws (u @ [c])"
      by (auto elim!: goes_state simp: nth_tables)
    have cfg: "case ws of Config # zs \<Rightarrow> True | [] \<Rightarrow> True | _ \<Rightarrow> failed (u @ [c]) r"
      using sim_config [where s = 2 and ss = "[0]" and us = ws and rm = rm and jk = jk and vs = "[z]" and v = v and u = "u @ [c]"] r
      by (auto simp: states_def split: list.splits token.splits)
    show ?thesis
    proof (cases "ws = []")
      case True
      then show ?thesis using Match r sim_end by (subst format.simps) (simp add: computes_def)
    next
      case False
      show ?thesis
      proof (cases "\<exists>zs. ws = Config # zs")
        case True
        then have "computes (format (u @ [c]) ws) r"
          using less.hyps [of ws 2 7 "[0]" "[z]" z "u @ [c]"] format_term_shorter [OF Match] g False by simp
        then show ?thesis using Match True by (subst format.simps) auto
      next
        case other: False
        have "format u us = Some (1, u @ [c])"
          using Match False other by (subst format.simps) (auto split: list.splits token.splits)
        moreover have "failed (u @ [c]) r" using cfg False other by (auto split: list.splits token.splits)
        ultimately show ?thesis by (simp add: failed_computes)
      qed
    qed
  next
    case Syntax
    then show ?thesis using f by (subst format.simps) (simp add: failed_computes)
  next
    case Outside
    then show ?thesis using f by (subst format.simps) (simp add: computes_def)
  qed
qed

lemma list_parse_format: "computes (format [] ts) (perf_pmu_parse lex_list rm jk (map tok_of ts))"
proof -
  have "initial (pmu rm jk) [] (map tok_of ts) = conf [0] [] YYEMPTY jk ts []"
    by (simp add: initial_def conf_def)
  then have "goes rm jk (perf_pmu_parse lex_list rm jk (map tok_of ts)) [0] [] ts []"
    using goes_unread by (simp add: perf_pmu_parse_def yyparse_def)
  then show ?thesis using sim_format by blast
qed

text \<open>The parser over any scanner that delivers the tokens.\<close>

lemma parse_format:
  assumes "feeds lx l (map tok_of ts)"
  shows "computes (format [] ts) (perf_pmu_parse lx rm jk l)"
proof -
  have p: "perf_pmu_parser lex_list rm jk = on_list (perf_pmu_parser lx rm jk)"
    by (simp add: on_list_def perf_pmu_parser_def)
  show ?thesis
    using list_parse_format [of ts rm jk] assms
      yyparse_on_list [of "perf_pmu_parser lx rm jk" "[]" "map tok_of ts" _ _ l]
      yyparse_on_list_bad [of "perf_pmu_parser lx rm jk" "[]" "map tok_of ts" l]
    by (auto simp: computes_def perf_pmu_parse_def p split: option.splits prod.splits)
qed

end
