(* ===== verification/Flex.thy ===== *)
theory Flex
  imports Prelude
begin

text \<open>
  The scanner engine that Flex puts into every scanner, as \<^verbatim>\<open>yylex\<close> and its helpers of
  \<^verbatim>\<open>src/packages/perf/files/generated/util/pmu-flex.c\<close> have it: the compressed automaton, the input buffer
  with its two end-of-buffer characters and the held character after the token, refilling, growing and
  the end of the file. The tables, the actions and the macro \<^verbatim>\<open>YY_INPUT\<close>, which a scanner may redefine, are
  parameters; its default is modelled over the functions of the C library it calls. An access outside a
  table or the buffer is the result \<open>Stray\<close>; \<open>Fatal\<close> is that the scanner does not return to its caller,
  as \<^verbatim>\<open>YY_FATAL_ERROR\<close> leaves the program.
\<close>

section \<open>Tables and state\<close>

record flextables =
  yy_accept :: "nat list"
  yy_ec :: "nat list"
  yy_meta :: "nat list"
  yy_base :: "nat list"
  yy_def :: "nat list"
  yy_nxt :: "nat list"
  yy_chk :: "nat list"
  jam_base :: nat
  jam_state :: nat
  templates :: nat
  end_of_buffer :: nat

definition NUL :: char where "NUL = CHR 0x00"
definition YY_BUF_SIZE :: nat where "YY_BUF_SIZE = 16384"
definition YY_READ_BUF_SIZE :: nat where "YY_READ_BUF_SIZE = 8192"

datatype buffer_status = BUFFER_NEW | BUFFER_NORMAL | BUFFER_EOF_PENDING

text \<open>The scanner with its one buffer. Positions are indices into the buffer.\<close>

record 'f guts =
  yy_init :: bool
  yy_start :: nat
  yy_ch_buf :: string
  yy_buf_size :: nat
  yy_n_chars :: nat
  yy_c_buf_p :: nat
  yy_hold_char :: char
  yytext_ptr :: nat
  yy_last_accepting_state :: nat
  yy_last_accepting_cpos :: nat
  yy_buffer_status :: buffer_status
  yy_fill_buffer :: bool
  yyin :: 'f

text \<open>What an action does with the text of its token.\<close>

datatype 'v act = Skip | Return int "'v option"

record ('v, 'f) scanner =
  ftabs :: flextables
  rule_action :: "nat \<Rightarrow> string \<Rightarrow> 'v act"
  num_rules :: nat
  yywrap :: bool
  yy_input :: "nat \<Rightarrow> 'f \<Rightarrow> string option \<times> 'f"
  yyrealloc :: "nat \<Rightarrow> bool"
  junk_char :: char

section \<open>Reading\<close>

text \<open>The functions of the C library on an open file: the next character, at most \<open>n\<close> characters, whether
  the error flag is set, whether the last error was an interrupted call, and resetting the flag.\<close>

record 'f stdio =
  getc :: "'f \<Rightarrow> char option \<times> 'f"
  fread :: "nat \<Rightarrow> 'f \<Rightarrow> string \<times> 'f"
  ferror :: "'f \<Rightarrow> bool"
  errno_EINTR :: "'f \<Rightarrow> bool"
  clearerr :: "'f \<Rightarrow> 'f"

text \<open>\<^verbatim>\<open>YY_INPUT\<close> from a terminal: characters up to the end of the line. The flag is that the last
  character was the end of the file.\<close>

fun get_line :: "'f stdio \<Rightarrow> nat \<Rightarrow> 'f \<Rightarrow> string \<times> bool \<times> 'f" where
  "get_line io 0 f = ([], False, f)"
| "get_line io (Suc n) f =
    (case getc io f of
       (None, f') \<Rightarrow> ([], True, f')
     | (Some c, f') \<Rightarrow>
         if c = CHR 0x0A then ([c], False, f')
         else case get_line io n f' of (s, eof, f'') \<Rightarrow> (c # s, eof, f''))"

text \<open>\<^verbatim>\<open>YY_INPUT\<close> from another file: \<^verbatim>\<open>fread\<close>, again as long as it is interrupted.\<close>

partial_function (option) fread_loop :: "'f stdio \<Rightarrow> nat \<Rightarrow> 'f \<Rightarrow> (string option \<times> 'f) option" where
  "fread_loop io n f =
    (if fst (fread io n f) = [] \<and> ferror io (snd (fread io n f)) then
       if errno_EINTR io (snd (fread io n f)) then fread_loop io n (clearerr io (snd (fread io n f)))
       else Some (None, snd (fread io n f))
     else Some (Some (fst (fread io n f)), snd (fread io n f)))"

definition YY_INPUT :: "'f stdio \<Rightarrow> bool \<Rightarrow> nat \<Rightarrow> 'f \<Rightarrow> string option \<times> 'f" where
  "YY_INPUT io yy_is_interactive max_size f =
    (if yy_is_interactive then
       (case get_line io max_size f of
          (s, eof, f') \<Rightarrow> if eof \<and> ferror io f' then (None, f') else (Some s, f'))
     else case fread_loop io max_size f of None \<Rightarrow> (None, f) | Some r \<Rightarrow> r)"

section \<open>The automaton\<close>

definition entry :: "nat list \<Rightarrow> nat \<Rightarrow> nat option" where
  "entry xs i = (if i < length xs then Some (xs ! i) else None)"

text \<open>The inner loop of a transition follows the defaults of the state. It does not end if they are
  cyclic; one round for each state is enough if they are not.\<close>

fun chase :: "flextables \<Rightarrow> nat \<Rightarrow> nat \<Rightarrow> nat \<Rightarrow> nat option" where
  "chase t 0 s c = None"
| "chase t (Suc fuel) s c =
    (case entry (yy_base t) s of
       None \<Rightarrow> None
     | Some b \<Rightarrow>
         (case entry (yy_chk t) (b + c) of
            None \<Rightarrow> None
          | Some k \<Rightarrow>
              if k = s then entry (yy_nxt t) (b + c)
              else
                (case entry (yy_def t) s of
                   None \<Rightarrow> None
                 | Some s' \<Rightarrow>
                     if templates t \<le> s'
                     then (case entry (yy_meta t) c of None \<Rightarrow> None | Some c' \<Rightarrow> chase t fuel s' c')
                     else chase t fuel s' c)))"

definition transition :: "flextables \<Rightarrow> nat \<Rightarrow> nat \<Rightarrow> nat option" where
  "transition t s c = chase t (length (yy_def t)) s c"

definition note_accept :: "flextables \<Rightarrow> nat \<Rightarrow> nat \<Rightarrow> nat \<times> nat \<Rightarrow> nat \<times> nat" where
  "note_accept t s cp la = (if entry (yy_accept t) s = Some 0 then la else (s, cp))"

text \<open>\<^verbatim>\<open>yy_match\<close>: transitions until a state without continuation. The pair is the last accepting state with
  its position.\<close>

function yy_match :: "flextables \<Rightarrow> string \<Rightarrow> nat \<Rightarrow> nat \<Rightarrow> nat \<times> nat \<Rightarrow> (nat \<times> nat \<times> nat \<times> nat) option" where
  "yy_match t buf cp s la =
    (if cp < length buf then
       (case entry (yy_ec t) (of_char (buf ! cp)) of
          None \<Rightarrow> None
        | Some c \<Rightarrow>
            (case transition t s c of
               None \<Rightarrow> None
             | Some s' \<Rightarrow>
                 if entry (yy_base t) s' = Some (jam_base t) then Some (cp + 1, s', note_accept t s cp la)
                 else yy_match t buf (cp + 1) s' (note_accept t s cp la)))
     else None)"
  by pat_completeness auto
termination
  by (relation "measure (\<lambda>(t, buf, cp, s, la). length buf - cp)") auto

declare yy_match.simps [simp del]

text \<open>\<^verbatim>\<open>yy_get_previous_state\<close> repeats the transitions of the text; a NUL in it counts as any other character.\<close>

definition class_of :: "flextables \<Rightarrow> char \<Rightarrow> nat option" where
  "class_of t ch = (if ch = NUL then Some 1 else entry (yy_ec t) (of_char ch))"

fun previous_state :: "flextables \<Rightarrow> string \<Rightarrow> nat \<Rightarrow> nat \<Rightarrow> nat \<times> nat \<Rightarrow> (nat \<times> nat \<times> nat) option" where
  "previous_state t [] cp s la = Some (s, la)"
| "previous_state t (ch # text) cp s la =
    (case class_of t ch of
       None \<Rightarrow> None
     | Some c \<Rightarrow>
         (case transition t s c of
            None \<Rightarrow> None
          | Some s' \<Rightarrow> previous_state t text (cp + 1) s' (note_accept t s cp la)))"

text \<open>\<^verbatim>\<open>yy_try_NUL_trans\<close>: the state after a NUL, or none if there is no way on.\<close>

definition try_NUL :: "flextables \<Rightarrow> nat \<Rightarrow> nat \<Rightarrow> nat \<times> nat \<Rightarrow> (nat option \<times> nat \<times> nat) option" where
  "try_NUL t s cp la =
    (case transition t s 1 of
       None \<Rightarrow> None
     | Some s' \<Rightarrow> Some (if s' = jam_state t then None else Some s', note_accept t s cp la))"

section \<open>The buffer\<close>

text \<open>\<^verbatim>\<open>yy_flush_buffer\<close>, \<^verbatim>\<open>yy_init_buffer\<close> and \<^verbatim>\<open>yy_load_buffer_state\<close>, as \<^verbatim>\<open>yyrestart\<close> calls them.\<close>

definition yy_load_buffer_state :: "'f guts \<Rightarrow> 'f guts" where
  "yy_load_buffer_state g = g\<lparr>yytext_ptr := 0, yy_c_buf_p := 0, yy_hold_char := yy_ch_buf g ! 0\<rparr>"

definition yy_flush_buffer :: "'f guts \<Rightarrow> 'f guts" where
  "yy_flush_buffer g =
    yy_load_buffer_state
      (g\<lparr>yy_n_chars := 0, yy_ch_buf := (yy_ch_buf g)[0 := NUL, 1 := NUL], yy_buffer_status := BUFFER_NEW\<rparr>)"

definition yy_init_buffer :: "'f guts \<Rightarrow> 'f guts" where
  "yy_init_buffer g = (yy_flush_buffer g)\<lparr>yy_fill_buffer := True\<rparr>"

definition yyrestart :: "'f guts \<Rightarrow> 'f guts" where
  "yyrestart g = yy_load_buffer_state (yy_init_buffer g)"

datatype 'f filled = End_of_file "'f guts" | Continue_scan "'f guts" | Last_match "'f guts" | Fill_failed | Fill_stray

text \<open>The loop that doubles the buffer until there is room to read. The size is an \<^verbatim>\<open>int\<close>, whose overflow is
  not defined.\<close>

datatype grown = Room nat | No_memory | Overflow

function grow :: "(nat \<Rightarrow> bool) \<Rightarrow> nat \<Rightarrow> nat \<Rightarrow> grown" where
  "grow ok sz moved =
    (if moved + 1 < sz then Room sz
     else if 2 ^ 31 \<le> 2 * sz + 2 \<or> sz = 0 then Overflow
     else if \<not> ok (2 * sz + 2) then No_memory
     else grow ok (2 * sz) moved)"
  by pat_completeness auto
termination
  by (relation "measure (\<lambda>(ok, sz, moved). 2 ^ 31 - sz)") auto

declare grow.simps [simp del]

definition resize :: "char \<Rightarrow> nat \<Rightarrow> string \<Rightarrow> string" where
  "resize junk n buf = take n buf @ replicate (n - length buf) junk"

text \<open>The last part of \<^verbatim>\<open>yy_get_next_buffer\<close>: \<open>moved\<close> characters of the token are at the start of the buffer
  and \<open>got\<close> new ones follow; two end-of-buffer characters are put behind them.\<close>

definition finish_buffer :: "nat \<Rightarrow> nat \<Rightarrow> 'f guts \<Rightarrow> 'f guts" where
  "finish_buffer moved got g =
    (let n = got + moved in
     g\<lparr>yy_n_chars := n, yy_ch_buf := (yy_ch_buf g)[n := NUL, n + 1 := NUL], yytext_ptr := 0\<rparr>)"

definition no_more_input :: "nat \<Rightarrow> 'f guts \<Rightarrow> 'f filled" where
  "no_more_input moved g =
    (if moved = 0 then End_of_file (finish_buffer 0 0 (yyrestart g))
     else Last_match (finish_buffer moved 0 (g\<lparr>yy_buffer_status := BUFFER_EOF_PENDING\<rparr>)))"

text \<open>The read has room for all it may return, so that the code that extends the buffer after it, for more
  characters than the buffer holds, is not reached.\<close>

definition read_more :: "('v, 'f) scanner \<Rightarrow> nat \<Rightarrow> 'f guts \<Rightarrow> 'f filled" where
  "read_more sc moved g =
    (case grow (yyrealloc sc) (yy_buf_size g) moved of
       No_memory \<Rightarrow> Fill_failed
     | Overflow \<Rightarrow> Fill_stray
     | Room sz \<Rightarrow>
         (let num_to_read = min (sz - moved - 1) YY_READ_BUF_SIZE in
          case yy_input sc num_to_read (yyin g) of
            (None, f) \<Rightarrow> Fill_failed
          | (Some new, f) \<Rightarrow>
              if num_to_read < length new then Fill_stray
              else
                let g' = g\<lparr>yy_buf_size := sz, yyin := f,
                           yy_ch_buf := put_at moved new (resize (junk_char sc) (sz + 2) (yy_ch_buf g))\<rparr> in
                if new = [] then no_more_input moved g' else Continue_scan (finish_buffer moved (length new) g')))"

definition yy_get_next_buffer :: "('v, 'f) scanner \<Rightarrow> 'f guts \<Rightarrow> 'f filled" where
  "yy_get_next_buffer sc g =
    (if yy_n_chars g + 1 < yy_c_buf_p g then Fill_failed
     else if \<not> yy_fill_buffer g then
       if yy_c_buf_p g - yytext_ptr g = 1 then End_of_file g else Last_match g
     else
       let moved = yy_c_buf_p g - yytext_ptr g - 1;
           g' = g\<lparr>yy_ch_buf := put_at 0 (bytes_at (yytext_ptr g) moved (yy_ch_buf g)) (yy_ch_buf g)\<rparr> in
       if yy_buffer_status g = BUFFER_EOF_PENDING then no_more_input moved g' else read_more sc moved g')"

section \<open>Scanning\<close>

text \<open>The points of \<^verbatim>\<open>yylex\<close> that a token passes, with the local variables \<^verbatim>\<open>yy_cp\<close>, \<^verbatim>\<open>yy_bp\<close> and
  \<^verbatim>\<open>yy_current_state\<close>: the head of the loop, \<^verbatim>\<open>yy_match\<close> and \<^verbatim>\<open>yy_find_action\<close>.\<close>

datatype point = Top | Match_at nat nat nat | Find_action nat nat nat

datatype ('v, 'f) scanning = At point "'f guts" | Token int "'v option" "'f guts" | Fatal | Stray

definition last_accept :: "'f guts \<Rightarrow> nat \<times> nat" where
  "last_accept g = (yy_last_accepting_state g, yy_last_accepting_cpos g)"

definition set_last :: "nat \<times> nat \<Rightarrow> 'f guts \<Rightarrow> 'f guts" where
  "set_last la g = g\<lparr>yy_last_accepting_state := fst la, yy_last_accepting_cpos := snd la\<rparr>"

definition poke :: "nat \<Rightarrow> char \<Rightarrow> 'f guts \<Rightarrow> 'f guts" where
  "poke i ch g = g\<lparr>yy_ch_buf := (yy_ch_buf g)[i := ch]\<rparr>"

definition text_of :: "'f guts \<Rightarrow> nat \<Rightarrow> nat \<Rightarrow> string" where
  "text_of g from upper = bytes_at from (upper - from) (yy_ch_buf g)"

definition top :: "'f guts \<Rightarrow> ('v, 'f) scanning" where
  "top g =
    (let yy_cp = yy_c_buf_p g in
     if length (yy_ch_buf g) \<le> yy_cp then Stray
     else At (Match_at yy_cp yy_cp (yy_start g)) (poke yy_cp (yy_hold_char g) g))"

definition match_at :: "('v, 'f) scanner \<Rightarrow> nat \<Rightarrow> nat \<Rightarrow> nat \<Rightarrow> 'f guts \<Rightarrow> ('v, 'f) scanning" where
  "match_at sc yy_cp yy_bp s g =
    (case yy_match (ftabs sc) (yy_ch_buf g) yy_cp s (last_accept g) of
       None \<Rightarrow> Stray
     | Some (cp, s', la) \<Rightarrow> At (Find_action cp yy_bp s') (set_last la g))"

text \<open>The state of the text up to the current position, recomputed.\<close>

definition again :: "('v, 'f) scanner \<Rightarrow> 'f guts \<Rightarrow> (nat \<times> 'f guts) option" where
  "again sc g =
    (case previous_state (ftabs sc) (text_of g (yytext_ptr g) (yy_c_buf_p g)) (yytext_ptr g) (yy_start g) (last_accept g) of
       None \<Rightarrow> None
     | Some (s, la) \<Rightarrow> Some (s, set_last la g))"

text \<open>A NUL of the input, where the automaton took it for the end of the buffer.\<close>

definition real_NUL :: "('v, 'f) scanner \<Rightarrow> 'f guts \<Rightarrow> ('v, 'f) scanning" where
  "real_NUL sc g =
    (case again sc g of
       None \<Rightarrow> Stray
     | Some (s, g1) \<Rightarrow>
         (case try_NUL (ftabs sc) s (yy_c_buf_p g1) (last_accept g1) of
            None \<Rightarrow> Stray
          | Some (None, la) \<Rightarrow> At (Find_action (yy_c_buf_p g1) (yytext_ptr g1) s) (set_last la g1)
          | Some (Some s', la) \<Rightarrow>
              (let g2 = (set_last la g1)\<lparr>yy_c_buf_p := yy_c_buf_p g1 + 1\<rparr> in
               At (Match_at (yy_c_buf_p g2) (yytext_ptr g2) s') g2)))"

text \<open>How scanning goes on after \<^verbatim>\<open>yy_get_next_buffer\<close>. The end of the file is the end-of-file action of the
  start condition, which returns 0.\<close>

definition refilled :: "('v, 'f) scanner \<Rightarrow> nat \<Rightarrow> 'f filled \<Rightarrow> ('v, 'f) scanning" where
  "refilled sc matched r =
    (case r of
       End_of_file g \<Rightarrow>
         if yywrap sc then Token 0 None (g\<lparr>yy_c_buf_p := yytext_ptr g\<rparr>) else At Top (yyrestart g)
     | Continue_scan g \<Rightarrow>
         (case again sc (g\<lparr>yy_c_buf_p := yytext_ptr g + matched\<rparr>) of
            None \<Rightarrow> Stray
          | Some (s, g') \<Rightarrow> At (Match_at (yy_c_buf_p g') (yytext_ptr g') s) g')
     | Last_match g \<Rightarrow>
         (case again sc (g\<lparr>yy_c_buf_p := yy_n_chars g\<rparr>) of
            None \<Rightarrow> Stray
          | Some (s, g') \<Rightarrow> At (Find_action (yy_c_buf_p g') (yytext_ptr g') s) g')
     | Fill_failed \<Rightarrow> Fatal
     | Fill_stray \<Rightarrow> Stray)"

text \<open>The action of the end-of-buffer state.\<close>

definition at_end_of_buffer :: "('v, 'f) scanner \<Rightarrow> nat \<Rightarrow> 'f guts \<Rightarrow> ('v, 'f) scanning" where
  "at_end_of_buffer sc yy_cp g =
    (let matched = yy_cp - yytext_ptr g - 1;
         g1 = poke yy_cp (yy_hold_char g) g;
         g2 = (if yy_buffer_status g1 = BUFFER_NEW then g1\<lparr>yy_buffer_status := BUFFER_NORMAL\<rparr> else g1) in
     if yy_c_buf_p g2 \<le> yy_n_chars g2 then real_NUL sc (g2\<lparr>yy_c_buf_p := yytext_ptr g2 + matched\<rparr>)
     else refilled sc matched (yy_get_next_buffer sc g2))"

text \<open>\<^verbatim>\<open>YY_DO_BEFORE_ACTION\<close> and the switch over the actions.\<close>

definition before_action :: "nat \<Rightarrow> nat \<Rightarrow> 'f guts \<Rightarrow> 'f guts" where
  "before_action yy_cp yy_bp g =
    poke yy_cp NUL (g\<lparr>yytext_ptr := yy_bp, yy_hold_char := yy_ch_buf g ! yy_cp, yy_c_buf_p := yy_cp\<rparr>)"

definition do_action :: "('v, 'f) scanner \<Rightarrow> nat \<Rightarrow> nat \<Rightarrow> nat \<Rightarrow> 'f guts \<Rightarrow> ('v, 'f) scanning" where
  "do_action sc yy_act yy_cp yy_bp g =
    (if length (yy_ch_buf g) \<le> yy_cp then Stray
     else
       let g' = before_action yy_cp yy_bp g in
       if yy_act = 0 then
         At (Find_action (yy_last_accepting_cpos g') yy_bp (yy_last_accepting_state g')) (poke yy_cp (yy_hold_char g') g')
       else if yy_act = end_of_buffer (ftabs sc) then at_end_of_buffer sc yy_cp g'
       else if yy_act \<le> num_rules sc then
         (case rule_action sc yy_act (text_of g' yy_bp yy_cp) of
            Skip \<Rightarrow> At Top g'
          | Return k v \<Rightarrow> Token k v g')
       else Fatal)"

definition find_action :: "('v, 'f) scanner \<Rightarrow> nat \<Rightarrow> nat \<Rightarrow> nat \<Rightarrow> 'f guts \<Rightarrow> ('v, 'f) scanning" where
  "find_action sc yy_cp yy_bp s g =
    (case entry (yy_accept (ftabs sc)) s of
       None \<Rightarrow> Stray
     | Some yy_act \<Rightarrow>
         if yy_act = 0 then
           (case entry (yy_accept (ftabs sc)) (yy_last_accepting_state g) of
              None \<Rightarrow> Stray
            | Some yy_act \<Rightarrow> do_action sc yy_act (yy_last_accepting_cpos g) yy_bp g)
         else do_action sc yy_act yy_cp yy_bp g)"

fun scan_step :: "('v, 'f) scanner \<Rightarrow> point \<Rightarrow> 'f guts \<Rightarrow> ('v, 'f) scanning" where
  "scan_step sc Top g = top g"
| "scan_step sc (Match_at yy_cp yy_bp s) g = match_at sc yy_cp yy_bp s g"
| "scan_step sc (Find_action yy_cp yy_bp s) g = find_action sc yy_cp yy_bp s g"

fun is_at :: "('v, 'f) scanning \<Rightarrow> bool" where
  "is_at (At p g) = True"
| "is_at _ = False"

fun point_of :: "('v, 'f) scanning \<Rightarrow> point" where
  "point_of (At p g) = p"
| "point_of _ = Top"

fun guts_of :: "('v, 'f) scanning \<Rightarrow> 'f guts" where
  "guts_of (At p g) = g"
| "guts_of (Token k v g) = g"

partial_function (option) scan :: "('v, 'f) scanner \<Rightarrow> point \<Rightarrow> 'f guts \<Rightarrow> ('v, 'f) scanning option" where
  "scan sc p g =
    (if is_at (scan_step sc p g) then scan sc (point_of (scan_step sc p g)) (guts_of (scan_step sc p g))
     else Some (scan_step sc p g))"

section \<open>Calls\<close>

text \<open>A scanner whose input file is set, before its first call.\<close>

definition scanner_on :: "'f \<Rightarrow> 'f guts" where
  "scanner_on f =
    \<lparr>yy_init = False, yy_start = 0, yy_ch_buf = [], yy_buf_size = 0, yy_n_chars = 0, yy_c_buf_p = 0, yy_hold_char = NUL,
     yytext_ptr = 0, yy_last_accepting_state = 0, yy_last_accepting_cpos = 0, yy_buffer_status = BUFFER_NEW,
     yy_fill_buffer = True, yyin = f\<rparr>"

text \<open>The first call makes a buffer of the default size.\<close>

definition yy_create_buffer :: "('v, 'f) scanner \<Rightarrow> nat \<Rightarrow> 'f guts \<Rightarrow> 'f guts option" where
  "yy_create_buffer sc sz g =
    (if yyrealloc sc (sz + 2)
     then Some (yy_init_buffer (g\<lparr>yy_buf_size := sz, yy_ch_buf := replicate (sz + 2) (junk_char sc)\<rparr>))
     else None)"

definition ready :: "('v, 'f) scanner \<Rightarrow> 'f guts \<Rightarrow> 'f guts option" where
  "ready sc g =
    (if yy_init g then Some g
     else map_option yy_load_buffer_state
       (yy_create_buffer sc YY_BUF_SIZE (g\<lparr>yy_init := True, yy_start := (if yy_start g = 0 then 1 else yy_start g)\<rparr>)))"

text \<open>A call as the parser sees it: the kind of the token, the value if the action sets one, and the
  scanner afterwards; nothing if the scanner left the program.\<close>

definition flex_lex :: "('v, 'f) scanner \<Rightarrow> 'v \<Rightarrow> 'f guts \<Rightarrow> (int \<times> 'v \<times> 'f guts) option" where
  "flex_lex sc v g =
    (case ready sc g of
       None \<Rightarrow> None
     | Some g' \<Rightarrow>
         (case scan sc Top g' of
            Some (Token k x g'') \<Rightarrow> Some (k, (case x of None \<Rightarrow> v | Some y \<Rightarrow> y), g'')
          | _ \<Rightarrow> None))"

end
