(* ===== verification/FlexSpec.thy ===== *)
theory FlexSpec
  imports Flex
begin

text \<open>
  What the scanner engine computes, for every automaton whose tables fit together: the next token is the
  longest beginning of the remaining input that the automaton accepts, wherever the buffer ends and
  however the file is cut into reads.
\<close>

lemma scan_at: "scan_step sc p g = At p' g' \<Longrightarrow> scan sc p g = scan sc p' g'"
  by (subst scan.simps) simp

lemma scan_off: "\<not> is_at (scan_step sc p g) \<Longrightarrow> scan sc p g = Some (scan_step sc p g)"
  by (subst scan.simps) simp

section \<open>Automata\<close>

text \<open>The tables of an automaton: its live states have a transition for every class of characters, and one to
  the end-of-buffer state for class 0, which only the character NUL has. From a state whose base is that
  of the jam state there is no way but to the jam state.\<close>

locale automaton =
  fixes t :: flextables and live :: "nat set" and eob :: nat and classes :: nat
  assumes classes: "1 \<le> classes"
    and ec_NUL: "entry (yy_ec t) 0 = Some 0"
    and ec: "ch \<noteq> NUL \<Longrightarrow> \<exists>c. entry (yy_ec t) (of_char ch) = Some c \<and> 1 \<le> c \<and> c \<le> classes"
    and live_next: "s \<in> live \<Longrightarrow> 1 \<le> c \<Longrightarrow> c \<le> classes \<Longrightarrow> \<exists>s'\<in>live. transition t s c = Some s'"
    and live_eob: "s \<in> live \<Longrightarrow> transition t s 0 = Some eob"
    and live_accept: "s \<in> live \<Longrightarrow> \<exists>a. entry (yy_accept t) s = Some a \<and> a \<noteq> end_of_buffer t"
    and eob_accept: "entry (yy_accept t) eob = Some (end_of_buffer t)" "end_of_buffer t \<noteq> 0"
    and eob_base: "entry (yy_base t) eob \<noteq> Some (jam_base t)"
    and eob_next: "c \<le> classes \<Longrightarrow> transition t eob c = Some (jam_state t)"
    and jam: "jam_state t \<in> live" "entry (yy_accept t) (jam_state t) = Some 0" "entry (yy_base t) (jam_state t) = Some (jam_base t)"
    and jam_next: "s \<in> live \<Longrightarrow> entry (yy_base t) s = Some (jam_base t) \<Longrightarrow> 1 \<le> c \<Longrightarrow> c \<le> classes \<Longrightarrow>
      transition t s c = Some (jam_state t)"
begin

definition class_num :: "char \<Rightarrow> nat" where
  "class_num ch = the (class_of t ch)"

definition delta :: "nat \<Rightarrow> char \<Rightarrow> nat" where
  "delta s ch = the (transition t s (class_num ch))"

definition accepts :: "nat \<Rightarrow> nat" where
  "accepts s = the (entry (yy_accept t) s)"

definition state_after :: "nat \<Rightarrow> string \<Rightarrow> nat" where
  "state_after s w = foldl delta s w"

text \<open>The last accepting state before the end of a text, with its position.\<close>

fun trail :: "nat \<Rightarrow> nat \<Rightarrow> nat \<times> nat \<Rightarrow> string \<Rightarrow> nat \<times> nat" where
  "trail s p la [] = la"
| "trail s p la (ch # w) = trail (delta s ch) (p + 1) (note_accept t s p la) w"

definition longest :: "nat \<Rightarrow> nat \<Rightarrow> nat \<times> nat \<Rightarrow> string \<Rightarrow> nat \<times> nat" where
  "longest s p la w = note_accept t (state_after s w) (p + length w) (trail s p la w)"

lemma class_bounds: "1 \<le> class_num ch" "class_num ch \<le> classes" "class_of t ch = Some (class_num ch)"
  using ec [of ch] classes by (auto simp: class_num_def class_of_def)

lemma delta_live: "s \<in> live \<Longrightarrow> delta s ch \<in> live" "s \<in> live \<Longrightarrow> transition t s (class_num ch) = Some (delta s ch)"
  using live_next [of s "class_num ch"] class_bounds [of ch] by (auto simp: delta_def)

lemma state_after_simps [simp]:
  "state_after s [] = s" "state_after s (ch # w) = state_after (delta s ch) w" "state_after s (v @ w) = state_after (state_after s v) w"
  by (simp_all add: state_after_def)

lemma state_after_live: "s \<in> live \<Longrightarrow> state_after s w \<in> live"
  by (induction w arbitrary: s) (simp_all add: delta_live)

lemma trail_append: "trail s p la (v @ w) = trail (state_after s v) (p + length v) (trail s p la v) w"
  by (induction v arbitrary: s p la) simp_all

lemma trail_snoc: "trail s p la (v @ [ch]) = note_accept t (state_after s v) (p + length v) (trail s p la v)"
  by (simp add: trail_append)

lemma longest_append: "longest s p la (v @ w) = longest (state_after s v) (p + length v) (trail s p la v) w"
  by (simp add: longest_def trail_append add.assoc)

lemma accept_some: "s \<in> live \<Longrightarrow> entry (yy_accept t) s = Some (accepts s)"
  using live_accept [of s] by (auto simp: accepts_def)

lemma accepts_not_eob: "s \<in> live \<Longrightarrow> accepts s \<noteq> end_of_buffer t"
  using live_accept [of s] by (auto simp: accepts_def)

lemma note_accept_live: "s \<in> live \<Longrightarrow> note_accept t s p la = (if accepts s = 0 then la else (s, p))"
  by (simp add: note_accept_def accept_some)

lemma dead_end:
  assumes "s \<in> live" "entry (yy_base t) s = Some (jam_base t)"
  shows "longest s p la w = note_accept t s p la"
proof -
  have j: "delta (jam_state t) ch = jam_state t" for ch
    using jam jam_next [of "jam_state t" "class_num ch"] class_bounds [of ch] by (simp add: delta_def)
  have n: "note_accept t (jam_state t) q la = la" for q la by (simp add: note_accept_def jam)
  have r: "state_after (jam_state t) w = jam_state t" for w by (induction w) (simp_all add: j)
  have l: "trail (jam_state t) q la w = la" for q la w by (induction w arbitrary: q) (simp_all add: j n)
  show ?thesis
  proof (cases w)
    case (Cons ch v)
    have "delta s ch = jam_state t" using assms jam_next [of s "class_num ch"] class_bounds [of ch] by (simp add: delta_def)
    then show ?thesis using Cons by (simp add: longest_def r l n)
  qed (simp add: longest_def)
qed

lemma stuck:
  assumes "s \<in> live" "w = [] \<or> delta s (hd w) = jam_state t"
  shows "longest s p la w = note_accept t s p la"
proof (cases w)
  case (Cons ch v)
  then have "longest s p la w = longest (jam_state t) (p + 1) (note_accept t s p la) v"
    using assms(2) by (simp add: longest_def)
  then show ?thesis using dead_end [OF jam(1,3)] jam(2) by (simp add: note_accept_def)
qed (simp add: longest_def)

lemma previous: "s \<in> live \<Longrightarrow> previous_state t w p s la = Some (state_after s w, trail s p la w)"
  by (induction w arbitrary: s p la) (simp_all add: class_bounds delta_live)

text \<open>The match loop stops in a dead end before the next NUL, or in the jam state after the end-of-buffer
  state.\<close>

lemma match_step:
  assumes "s \<in> live" "cp < length buf" "buf ! cp \<noteq> NUL"
  shows "yy_match t buf cp s la =
    (if entry (yy_base t) (delta s (buf ! cp)) = Some (jam_base t)
     then Some (cp + 1, delta s (buf ! cp), note_accept t s cp la)
     else yy_match t buf (cp + 1) (delta s (buf ! cp)) (note_accept t s cp la))"
proof -
  have "entry (yy_ec t) (of_char (buf ! cp)) = Some (class_num (buf ! cp))"
    using class_bounds(3) [of "buf ! cp"] assms(3) by (simp add: class_of_def)
  then show ?thesis using assms(1,2) by (subst yy_match.simps) (simp add: delta_live)
qed

lemma match_NUL:
  assumes "s \<in> live" "cp + 1 < length buf" "buf ! cp = NUL"
  shows "yy_match t buf cp s la = Some (cp + 2, jam_state t, eob, cp + 1)"
proof -
  obtain c where c: "entry (yy_ec t) (of_char (buf ! (cp + 1))) = Some c" "c \<le> classes"
    using ec_NUL ec [of "buf ! (cp + 1)"] by (cases "buf ! (cp + 1) = NUL") (auto simp: NUL_def)
  have "yy_match t buf cp s la = yy_match t buf (cp + 1) eob (note_accept t s cp la)"
    using assms ec_NUL eob_base by (subst yy_match.simps) (simp add: NUL_def live_eob)
  also have "\<dots> = Some (cp + 2, jam_state t, note_accept t eob (cp + 1) (note_accept t s cp la))"
    using assms(2) c eob_next jam by (subst yy_match.simps) simp
  finally show ?thesis using eob_accept by (simp add: note_accept_def)
qed

lemma match_text:
  assumes "s \<in> live" "NUL \<notin> set w" "drop cp buf = w @ NUL # ch # z"
  shows "(\<exists>u v. w = u @ v \<and> u \<noteq> [] \<and> entry (yy_base t) (state_after s u) = Some (jam_base t) \<and>
      yy_match t buf cp s la = Some (cp + length u, state_after s u, trail s cp la u)) \<or>
    yy_match t buf cp s la = Some (cp + length w + 2, jam_state t, eob, cp + length w + 1)"
  using assms
proof (induction w arbitrary: cp s la)
  case Nil
  have "length buf - cp = Suc (Suc (length z))" using Nil.prems(3) by (metis append_Nil length_Cons length_drop)
  then have "cp + 1 < length buf" by simp
  moreover have "buf ! cp = NUL" using Nil.prems(3) by (simp add: nth_via_drop)
  ultimately have "cp + 1 < length buf" "buf ! cp = NUL" by simp_all
  then show ?case using match_NUL Nil by simp
next
  case (Cons c w)
  have c: "cp < length buf" "buf ! cp = c" "drop (cp + 1) buf = w @ NUL # ch # z"
    using arg_cong [OF Cons.prems(3), of length] nth_via_drop [OF Cons.prems(3) [simplified]]
      arg_cong [OF Cons.prems(3), of tl] by (simp_all add: drop_Suc tl_drop)
  have step: "yy_match t buf cp s la =
    (if entry (yy_base t) (delta s c) = Some (jam_base t) then Some (cp + 1, delta s c, note_accept t s cp la)
     else yy_match t buf (cp + 1) (delta s c) (note_accept t s cp la))"
    using match_step [of s cp buf la] Cons.prems(1,2) c by auto
  show ?case
  proof (cases "entry (yy_base t) (delta s c) = Some (jam_base t)")
    case True
    then show ?thesis using step by (intro disjI1 exI [of _ "[c]"] exI [of _ w]) simp
  next
    case False
    from Cons.IH [of "delta s c" "cp + 1" "note_accept t s cp la"] Cons.prems c
    consider u v where "w = u @ v" "u \<noteq> []" "entry (yy_base t) (state_after (delta s c) u) = Some (jam_base t)"
        "yy_match t buf (cp + 1) (delta s c) (note_accept t s cp la) =
          Some (cp + 1 + length u, state_after (delta s c) u, trail (delta s c) (cp + 1) (note_accept t s cp la) u)"
      | "yy_match t buf (cp + 1) (delta s c) (note_accept t s cp la) = Some (cp + 1 + length w + 2, jam_state t, eob, cp + 1 + length w + 1)"
      by (auto simp: delta_live)
    then show ?thesis
    proof cases
      case 1
      then show ?thesis using step False by (intro disjI1 exI [of _ "c # u"] exI [of _ v]) simp
    next
      case 2
      then show ?thesis using step False by simp
    qed
  qed
qed

end

section \<open>The input\<close>

text \<open>Reading from a file with a given content: every read yields some of what is left, nothing only at the
  end.\<close>

coinductive reads :: "(nat \<Rightarrow> 'f \<Rightarrow> string option \<times> 'f) \<Rightarrow> 'f \<Rightarrow> string \<Rightarrow> bool" for inp where
  "(\<And>n. 1 \<le> n \<Longrightarrow> \<exists>new f' rest. inp n f = (Some new, f') \<and> content = new @ rest \<and> length new \<le> n \<and>
      (new = [] \<longrightarrow> content = []) \<and> reads inp f' rest) \<Longrightarrow> reads inp f content"

lemma reads_next:
  assumes "reads inp f content" "1 \<le> n"
  obtains new f' rest where "inp n f = (Some new, f')" "content = new @ rest" "length new \<le> n"
    "new = [] \<longrightarrow> content = []" "reads inp f' rest"
proof -
  have "\<exists>new f' rest. inp n f = (Some new, f') \<and> content = new @ rest \<and> length new \<le> n \<and>
      (new = [] \<longrightarrow> content = []) \<and> reads inp f' rest"
    using assms by (blast elim: reads.cases)
  then show ?thesis using that by blast
qed

section \<open>Tokens\<close>

text \<open>A scanner over such an automaton: every character alone is a token if nothing longer is.\<close>

locale flex_scanner = automaton "ftabs sc" live eob classes
  for sc :: "('v, 'f) scanner" and live :: "nat set" and eob :: nat and classes :: nat +
  fixes start :: nat
  assumes start: "start \<in> live" "accepts start = 0"
    and first: "accepts (delta start ch) \<noteq> 0"
    and rule_range: "s \<in> live \<Longrightarrow> accepts s \<le> num_rules sc"
    and wraps: "yywrap sc"
    and memory: "n < 2 ^ 31 \<Longrightarrow> yyrealloc sc n"
begin

text \<open>The rule of the longest match and its length.\<close>

definition munch :: "string \<Rightarrow> nat \<times> nat" where
  "munch w = longest start 0 (0, 0) w"

text \<open>Once a character is read, the outcome does not depend on what was noted before, and positions are
  relative to the start of the token.\<close>

lemma trail_offset:
  "s \<in> live \<Longrightarrow> trail s (b + p) (fst la, b + snd la) w = (fst (trail s p la w), b + snd (trail s p la w))"
proof (induction w arbitrary: s p la)
  case (Cons ch w)
  have "note_accept (ftabs sc) s (b + p) (fst la, b + snd la) =
      (fst (note_accept (ftabs sc) s p la), b + snd (note_accept (ftabs sc) s p la))"
    by (simp add: note_accept_def)
  then show ?case using Cons.IH [of "delta s ch" "p + 1" "note_accept (ftabs sc) s p la"] Cons.prems delta_live
    by (simp add: add.assoc)
qed simp

lemma longest_offset:
  "s \<in> live \<Longrightarrow> longest s (b + p) (fst la, b + snd la) w = (fst (longest s p la w), b + snd (longest s p la w))"
  by (simp add: longest_def trail_offset note_accept_def add.assoc)

lemma longest_fresh:
  assumes "s \<in> live" "accepts s \<noteq> 0"
  shows "longest s p la w = longest s p la' w"
  using assms by (cases w) (simp_all add: longest_def note_accept_live)

lemma longest_start: "longest start b la (ch # w) = longest (delta start ch) (b + 1) la w"
  by (simp add: longest_def start note_accept_live)

lemma longest_munch:
  assumes "w \<noteq> []"
  shows "longest start b la w = (fst (munch w), b + snd (munch w))"
proof -
  obtain ch v where w: "w = ch # v" using assms by (cases w) auto
  have l: "delta start ch \<in> live" by (simp add: delta_live start)
  have "longest start b la w = longest (delta start ch) (b + 1) (0, b + 0) v"
    using w longest_start longest_fresh [OF l first] by metis
  also have "\<dots> = (fst (longest (delta start ch) 1 (0, 0) v), b + snd (longest (delta start ch) 1 (0, 0) v))"
    using longest_offset [OF l, of b 1 "(0, 0)" v] by simp
  finally show ?thesis using w by (simp add: munch_def longest_start)
qed

definition good :: "nat \<Rightarrow> nat \<Rightarrow> nat \<times> nat \<Rightarrow> bool" where
  "good lo hi la \<longleftrightarrow> fst la \<in> live \<and> accepts (fst la) \<noteq> 0 \<and> lo \<le> snd la \<and> snd la \<le> hi"

lemma trail_good: "s \<in> live \<Longrightarrow> lo \<le> p \<Longrightarrow> good lo p la \<Longrightarrow> good lo (p + length w) (trail s p la w)"
proof (induction w arbitrary: s p la)
  case (Cons ch w)
  have "good lo (p + 1) (note_accept (ftabs sc) s p la)"
    using Cons.prems by (simp add: note_accept_live good_def)
  then show ?case using Cons.IH [of "delta s ch" "p + 1"] Cons.prems by (simp add: delta_live)
qed simp

lemma longest_good:
  assumes "s \<in> live" "accepts s \<noteq> 0"
  shows "good p (p + length w) (longest s p la w)"
proof (cases w)
  case Nil
  then show ?thesis using assms by (simp add: longest_def note_accept_live good_def)
next
  case (Cons ch v)
  have "good p (p + 1) (s, p)" using assms by (simp add: good_def)
  then have "good p (p + length w) (trail (delta s ch) (p + 1) (s, p) v)"
    using trail_good [of "delta s ch" p "p + 1" "(s, p)" v] Cons assms(1) by (simp add: delta_live)
  moreover have "state_after (delta s ch) v \<in> live" using assms(1) by (simp add: state_after_live delta_live)
  ultimately show ?thesis using assms Cons by (auto simp: longest_def note_accept_live good_def)
qed

lemma munch_bounds:
  assumes "w \<noteq> []"
  shows "1 \<le> snd (munch w)" "snd (munch w) \<le> length w" "fst (munch w) \<in> live" "accepts (fst (munch w)) \<noteq> 0"
proof -
  obtain ch v where w: "w = ch # v" using assms by (cases w) auto
  then have "good 1 (length w) (munch w)"
    using longest_good [of "delta start ch" 1 v "(0, 0)"] by (simp add: munch_def longest_start delta_live start first)
  then show "1 \<le> snd (munch w)" "snd (munch w) \<le> length w" "fst (munch w) \<in> live" "accepts (fst (munch w)) \<noteq> 0"
    by (simp_all add: good_def)
qed

text \<open>The scanner between two calls: the characters that are left are those of the buffer from the current
  position on, where the first is held aside, and those of the file.\<close>

definition buffered :: "'f guts \<Rightarrow> string" where
  "buffered g = bytes_at (yy_c_buf_p g) (yy_n_chars g - yy_c_buf_p g) ((yy_ch_buf g)[yy_c_buf_p g := yy_hold_char g])"

definition shape :: "'f guts \<Rightarrow> string \<Rightarrow> bool" where
  "shape g ahead \<longleftrightarrow>
     yy_init g \<and> yy_start g = start \<and> length (yy_ch_buf g) = yy_buf_size g + 2 \<and> 1 < yy_buf_size g \<and>
     yy_n_chars g \<le> yy_buf_size g \<and>
     (if yy_fill_buffer g then reads (yy_input sc) (yyin g) ahead else ahead = []) \<and>
     (yy_buffer_status g = BUFFER_EOF_PENDING \<longrightarrow> ahead = [])"

definition ended_by_NULs :: "string \<Rightarrow> nat \<Rightarrow> bool" where
  "ended_by_NULs buf n \<longleftrightarrow> buf ! n = NUL \<and> buf ! (n + 1) = NUL"

definition between :: "'f guts \<Rightarrow> string \<Rightarrow> bool" where
  "between g content \<longleftrightarrow>
     (\<exists>ahead. shape g ahead \<and> yy_c_buf_p g \<le> yy_n_chars g \<and>
        ended_by_NULs ((yy_ch_buf g)[yy_c_buf_p g := yy_hold_char g]) (yy_n_chars g) \<and>
        content = buffered g @ ahead) \<and> length content < 2 ^ 29"

text \<open>The scanner within a token that starts at \<open>bp\<close>: the remaining input starts with the token's
  characters, \<open>i\<close> of which are read.\<close>

definition within :: "'f guts \<Rightarrow> nat \<Rightarrow> nat \<Rightarrow> string \<Rightarrow> string \<Rightarrow> bool" where
  "within g bp i content ahead \<longleftrightarrow>
     shape g ahead \<and> bp + i \<le> yy_n_chars g \<and> ended_by_NULs (yy_ch_buf g) (yy_n_chars g) \<and>
     content = bytes_at bp (yy_n_chars g - bp) (yy_ch_buf g) @ ahead \<and> length content < 2 ^ 29"

lemma within_prefix:
  assumes "within g bp i content ahead"
  shows "bytes_at bp i (yy_ch_buf g) = take i content" "i \<le> length content"
  using assms by (auto simp: within_def shape_def bytes_at_def min_def)

lemma within_more: "within g bp i content ahead \<Longrightarrow> bp + j \<le> yy_n_chars g \<Longrightarrow> within g bp j content ahead"
  unfolding within_def by blast

lemma within_shape: "within g bp i content ahead \<Longrightarrow> shape g ahead"
  by (simp add: within_def)

lemma within_cong:
  assumes "within g bp i content ahead" "shape g' ahead" "yy_ch_buf g' = yy_ch_buf g" "yy_n_chars g' = yy_n_chars g"
  shows "within g' bp i content ahead"
  using assms unfolding within_def by metis

definition delivers :: "('v, 'f) scanning option \<Rightarrow> string \<Rightarrow> bool" where
  "delivers r content \<longleftrightarrow>
    (if content = [] then \<exists>g'. r = Some (Token 0 None g') \<and> between g' []
     else \<exists>g'. between g' (drop (snd (munch content)) content) \<and>
       r = (case rule_action sc (accepts (fst (munch content))) (take (snd (munch content)) content) of
              Skip \<Rightarrow> scan sc Top g' | Return k v \<Rightarrow> Some (Token k v g')))"

text \<open>The action, once the longest match is known.\<close>

lemma between_before_action:
  assumes "within g bp k content ahead"
  shows "between (before_action (bp + k) bp g) (drop k content)"
proof -
  have l: "bp + k < length (yy_ch_buf g)" using assms by (simp add: within_def shape_def)
  have "shape (before_action (bp + k) bp g) ahead"
    using assms by (simp add: within_def shape_def before_action_def poke_def)
  moreover have "drop k content = bytes_at (bp + k) (yy_n_chars g - (bp + k)) (yy_ch_buf g) @ ahead"
    using assms by (auto simp: within_def shape_def bytes_at_def drop_take add.commute)
  ultimately show ?thesis
    using assms l by (auto simp: between_def within_def before_action_def poke_def buffered_def)
qed

lemma find_longest:
  assumes w: "within g bp i content ahead" and c: "content \<noteq> []" and s: "s \<in> live"
    and n: "note_accept (ftabs sc) s cp (last_accept g) = (fst (munch content), bp + snd (munch content))"
    and k: "bp + snd (munch content) \<le> yy_n_chars g"
  shows "delivers (scan sc (Find_action cp bp s) g) content"
proof -
  let ?q = "fst (munch content)" and ?k = "snd (munch content)"
  let ?g' = "before_action (bp + ?k) bp g"
  have m: "?q \<in> live" "accepts ?q \<noteq> 0" "accepts ?q \<noteq> end_of_buffer (ftabs sc)" "accepts ?q \<le> num_rules sc"
    using munch_bounds [OF c] accepts_not_eob rule_range by auto
  have wk: "within g bp ?k content ahead" using w k by (rule within_more)
  then have l: "bp + ?k < length (yy_ch_buf g)" unfolding within_def shape_def by linarith
  have "scan_step sc (Find_action cp bp s) g = do_action sc (accepts ?q) (bp + ?k) bp g"
    using n s m(1,2) by (auto simp: find_action_def accept_some note_accept_live last_accept_def split: if_splits)
  also have "\<dots> = (case rule_action sc (accepts ?q) (text_of ?g' bp (bp + ?k)) of
      Skip \<Rightarrow> At Top ?g' | Return x v \<Rightarrow> Token x v ?g')"
    using l m by (simp add: do_action_def Let_def)
  also have "text_of ?g' bp (bp + ?k) = take ?k content"
    using within_prefix(1) [OF wk] by (simp add: text_of_def before_action_def poke_def bytes_at_def drop_update_swap)
  finally have step: "scan_step sc (Find_action cp bp s) g =
      (case rule_action sc (accepts ?q) (take ?k content) of Skip \<Rightarrow> At Top ?g' | Return x v \<Rightarrow> Token x v ?g')" .
  have b: "between ?g' (drop ?k content)" by (rule between_before_action [OF wk])
  show ?thesis
  proof (cases "rule_action sc (accepts ?q) (take ?k content)")
    case Skip
    then show ?thesis using b c scan_at [of sc "Find_action cp bp s" g Top ?g'] step by (auto simp: delivers_def)
  next
    case (Return x v)
    then show ?thesis using b c scan_off [of sc "Find_action cp bp s" g] step by (auto simp: delivers_def)
  qed
qed

text \<open>A dead end before the next NUL: the longest match is known.\<close>

lemma stop_in_text:
  assumes w: "within g bp i content ahead" and la: "last_accept g = trail start bp la (take i content)"
    and s: "s = state_after start (take i content)" and u: "take (length u) (drop i content) = u" "u \<noteq> []"
    and n: "bp + i + length u \<le> yy_n_chars g"
    and dead: "entry (yy_base (ftabs sc)) (state_after s u) = Some (jam_base (ftabs sc))"
  shows "delivers (scan sc (Find_action (bp + i + length u) bp (state_after s u)) (set_last (trail s (bp + i) (last_accept g) u) g)) content"
proof -
  let ?h = "take i content @ u" and ?r = "drop (i + length u) content"
  have i: "length (take i content) = i" using within_prefix(2) [OF w] by simp
  have c: "content = ?h @ ?r" using u(1) by (metis append_assoc append_take_drop_id drop_drop add.commute)
  have live: "state_after start ?h \<in> live" by (rule state_after_live [OF start(1)])
  have h: "longest start bp la ?h =
      note_accept (ftabs sc) (state_after s u) (bp + i + length u) (trail s (bp + i) (last_accept g) u)"
    using i s la by (simp add: longest_def trail_append add.assoc)
  have d: "longest start bp la content = longest start bp la ?h"
  proof -
    have "longest start bp la (?h @ ?r) = longest (state_after start ?h) (bp + length ?h) (trail start bp la ?h) ?r"
      by (rule longest_append)
    also have "\<dots> = note_accept (ftabs sc) (state_after start ?h) (bp + length ?h) (trail start bp la ?h)"
      using dead s by (intro dead_end [OF live]) simp
    also have "\<dots> = longest start bp la ?h" by (simp only: longest_def)
    finally show ?thesis by (simp only: c [symmetric])
  qed
  have ne: "?h \<noteq> []" "content \<noteq> []" using u c by auto
  have m: "munch content = munch ?h"
    using longest_munch [OF ne(1), of bp la] longest_munch [OF ne(2), of bp la] d by (auto simp: prod_eq_iff)
  have "snd (munch content) \<le> i + length u" using munch_bounds(2) [OF ne(1)] m i by simp
  moreover have "within (set_last (trail s (bp + i) (last_accept g) u) g) bp i content ahead"
    using within_shape [OF w] by (intro within_cong [OF w]) (simp_all add: shape_def set_last_def)
  ultimately show ?thesis
    using find_longest [of _ bp i content ahead "state_after s u" "bp + i + length u"] ne live s h d n longest_munch [OF ne(2), of bp la]
    by (simp add: last_accept_def set_last_def)
qed

text \<open>The end-of-buffer state, where a NUL is reached.\<close>

definition stopped :: "'f guts \<Rightarrow> nat \<Rightarrow> bool" where
  "stopped g p \<longleftrightarrow> yy_c_buf_p g = p + 1 \<and> yy_hold_char g = yy_ch_buf g ! (p + 1)"

lemma end_of_buffer_reached:
  assumes w: "within g bp j content ahead"
  obtains g' where "within g' bp j content ahead" "yytext_ptr g' = bp" "stopped g' (bp + j)" "yy_n_chars g' = yy_n_chars g"
    "yy_ch_buf g' = yy_ch_buf g"
    "find_action sc (bp + j + 2) bp (jam_state (ftabs sc)) (set_last (eob, bp + j + 1) g) =
      (if bp + j < yy_n_chars g then real_NUL sc (g'\<lparr>yy_c_buf_p := bp + j\<rparr>) else refilled sc j (yy_get_next_buffer sc g'))"
proof -
  let ?p = "bp + j + 1"
  define g0 where "g0 = poke ?p (yy_ch_buf g ! ?p) (before_action ?p bp (set_last (eob, ?p) g))"
  define g' where "g' = (if yy_buffer_status g0 = BUFFER_NEW then g0\<lparr>yy_buffer_status := BUFFER_NORMAL\<rparr> else g0)"
  have l: "?p < length (yy_ch_buf g)" using w by (simp add: within_def shape_def)
  have f: "yy_ch_buf g' = yy_ch_buf g" "yy_n_chars g' = yy_n_chars g" "yytext_ptr g' = bp" "stopped g' (bp + j)"
    using l by (simp_all add: g'_def g0_def poke_def before_action_def set_last_def stopped_def)
  have "shape g' ahead"
    using w l by (simp add: within_def shape_def g'_def g0_def poke_def before_action_def set_last_def)
  then have "within g' bp j content ahead" using f by (intro within_cong [OF w])
  moreover have "find_action sc (bp + j + 2) bp (jam_state (ftabs sc)) (set_last (eob, ?p) g) =
      at_end_of_buffer sc ?p (before_action ?p bp (set_last (eob, ?p) g))"
    using l jam eob_accept by (simp add: find_action_def set_last_def do_action_def)
  moreover have "\<dots> = (if bp + j < yy_n_chars g then real_NUL sc (g'\<lparr>yy_c_buf_p := bp + j\<rparr>) else refilled sc j (yy_get_next_buffer sc g'))"
    using f unfolding at_end_of_buffer_def g'_def g0_def Let_def stopped_def
    by (simp add: before_action_def poke_def set_last_def)
  ultimately show ?thesis using that f by metis
qed

text \<open>Recomputing the state of what is read.\<close>

lemma again_within:
  assumes w: "within g bp j content ahead" and p: "yytext_ptr g = bp" "yy_c_buf_p g = bp + j"
  shows "again sc g = Some (state_after start (take j content),
    set_last (trail start bp (last_accept g) (take j content)) g)"
proof -
  have "yy_start g = start" using w by (simp add: within_def shape_def)
  then show ?thesis
    using within_prefix(1) [OF w] p previous [OF start(1)] by (simp add: again_def text_of_def)
qed

lemma class_NUL: "class_num NUL = 1"
  by (simp add: class_num_def class_of_def)

lemma real_NUL_step:
  assumes w: "within g bp j content ahead" and p: "yytext_ptr g = bp" "yy_c_buf_p g = bp + j"
    and n: "bp + j < yy_n_chars g" and c: "content ! j = NUL"
  obtains g' la where "within g' bp (j + 1) content ahead" "last_accept g' = trail start bp la (take (j + 1) content)"
    "real_NUL sc g = At (if state_after start (take (j + 1) content) = jam_state (ftabs sc)
       then Find_action (bp + j) bp (state_after start (take j content))
       else Match_at (bp + (j + 1)) bp (state_after start (take (j + 1) content))) g'"
proof -
  let ?s = "state_after start (take j content)"
  define la where "la = trail start bp (last_accept g) (take (j + 1) content)"
  have j: "j < length content" "length (take j content) = j" using within_prefix(2) [OF within_more [OF w, of "j + 1"]] n by simp_all
  then have s: "take (j + 1) content = take j content @ [NUL]" using c by (simp add: take_Suc_conv_app_nth)
  have la': "la = note_accept (ftabs sc) ?s (bp + j) (trail start bp (last_accept g) (take j content))"
    using s j trail_snoc by (simp add: la_def)
  have t: "transition (ftabs sc) ?s 1 = Some (state_after start (take (j + 1) content))"
    using delta_live(2) [OF state_after_live [OF start(1)], of "take j content" NUL] s by (simp add: class_NUL)
  define g' where "g' = (set_last la g)\<lparr>yy_c_buf_p := (if state_after start (take (j + 1) content) = jam_state (ftabs sc) then bp + j else bp + j + 1)\<rparr>"
  have "within g' bp (j + 1) content ahead"
    using within_shape [OF w] n by (intro within_more [OF within_cong [OF w]]) (simp_all add: g'_def shape_def set_last_def)
  moreover have "last_accept g' = trail start bp (last_accept g) (take (j + 1) content)"
    by (simp add: g'_def last_accept_def set_last_def la_def)
  moreover have "real_NUL sc g = At (if state_after start (take (j + 1) content) = jam_state (ftabs sc)
       then Find_action (bp + j) bp ?s else Match_at (bp + (j + 1)) bp (state_after start (take (j + 1) content))) g'"
    using p t la' again_within [OF w p] by (simp add: real_NUL_def try_NUL_def set_last_def last_accept_def g'_def)
  ultimately show ?thesis using that by blast
qed

text \<open>Refilling the buffer, with \<open>j\<close> characters of the token at its start.\<close>

definition refills :: "'f filled \<Rightarrow> nat \<Rightarrow> string \<Rightarrow> string \<Rightarrow> bool" where
  "refills r j content ahead \<longleftrightarrow>
    (case r of
       Continue_scan g \<Rightarrow> yytext_ptr g = 0 \<and> (\<exists>ahead'. within g 0 j content ahead' \<and> length ahead' < length ahead)
     | Last_match g \<Rightarrow> content \<noteq> [] \<and> within g (yytext_ptr g) j content [] \<and> yy_n_chars g = yytext_ptr g + j
     | End_of_file g \<Rightarrow> content = [] \<and> between (g\<lparr>yy_c_buf_p := yytext_ptr g\<rparr>) []
     | _ \<Rightarrow> False)"

definition moved_to_start :: "'f guts \<Rightarrow> nat \<Rightarrow> string \<Rightarrow> string \<Rightarrow> bool" where
  "moved_to_start g j content ahead \<longleftrightarrow> shape g ahead \<and> yy_fill_buffer g \<and> j \<le> yy_buf_size g \<and>
     content = bytes_at 0 j (yy_ch_buf g) @ ahead \<and> length content < 2 ^ 29"

lemma moved_length: "moved_to_start g j content ahead \<Longrightarrow> length content = j + length ahead"
  unfolding moved_to_start_def shape_def by simp

lemma restart_between:
  assumes "moved_to_start g 0 [] []"
  shows "between ((finish_buffer 0 0 (yyrestart g))\<lparr>yy_c_buf_p := 0\<rparr>) []"
  using assms
  by (auto simp: moved_to_start_def between_def shape_def finish_buffer_def yyrestart_def yy_init_buffer_def yy_flush_buffer_def
      yy_load_buffer_state_def buffered_def ended_by_NULs_def bytes_at_def)

lemma no_more_refills:
  assumes m: "moved_to_start g j content []"
  shows "refills (no_more_input j g) j content []"
proof (cases "j = 0")
  case True
  then have "content = []" using moved_length [OF m] by simp
  then show ?thesis using True m restart_between [of g]
    by (simp add: refills_def no_more_input_def finish_buffer_def)
next
  case False
  let ?g = "finish_buffer j 0 (g\<lparr>yy_buffer_status := BUFFER_EOF_PENDING\<rparr>)"
  have l: "length content = j" using moved_length [OF m] by simp
  have "within ?g 0 j content []"
    using m l by (auto simp: within_def moved_to_start_def shape_def finish_buffer_def ended_by_NULs_def bytes_at_def)
  then show ?thesis using False l by (auto simp: refills_def no_more_input_def finish_buffer_def)
qed

lemma grow_room: "moved < 2 ^ 29 \<Longrightarrow> 0 < sz \<Longrightarrow> \<exists>sz'. grow (yyrealloc sc) sz moved = Room sz' \<and> sz \<le> sz' \<and> moved + 1 < sz'"
proof (induction "yyrealloc sc" sz moved rule: grow.induct)
  case (1 sz moved)
  show ?case
  proof (cases "moved + 1 < sz")
    case True
    then show ?thesis by (subst grow.simps) simp
  next
    case False
    then have s: "\<not> 2 ^ 31 \<le> 2 * sz + 2" "sz \<noteq> 0" using "1.prems" by simp_all
    then have "grow (yyrealloc sc) sz moved = grow (yyrealloc sc) (2 * sz) moved"
      using False memory [of "2 * sz + 2"] by (subst grow.simps) simp
    moreover have "\<exists>sz'. grow (yyrealloc sc) (2 * sz) moved = Room sz' \<and> 2 * sz \<le> sz' \<and> moved + 1 < sz'"
      using "1.hyps" [OF False] s "1.prems" memory [of "2 * sz + 2"] by simp
    ultimately show ?thesis by auto
  qed
qed

lemma resize_facts:
  assumes "length buf \<le> n" "j \<le> length buf"
  shows "length (resize c n buf) = n" "take j (resize c n buf) = take j buf"
  using assms by (simp_all add: resize_def)

lemma filled_buffer:
  fixes c :: char
  assumes "length buf \<le> sz + 2" "j \<le> length buf" "j + length new \<le> sz"
  defines "b \<equiv> (put_at j new (resize c (sz + 2) buf))[length new + j := NUL, length new + j + 1 := NUL]"
  shows "length b = sz + 2" "bytes_at 0 (length new + j) b = bytes_at 0 j buf @ new" "ended_by_NULs b (length new + j)"
proof -
  have r: "length (resize c (sz + 2) buf) = sz + 2" "take j (resize c (sz + 2) buf) = take j buf"
    using resize_facts assms(1,2) by blast+
  then have l: "length (put_at j new (resize c (sz + 2) buf)) = sz + 2" using assms(3) by simp
  then show "length b = sz + 2" by (simp add: b_def)
  show "bytes_at 0 (length new + j) b = bytes_at 0 j buf @ new"
    using r assms(2,3) by (simp add: b_def bytes_at_def put_at_def min_def)
  show "ended_by_NULs b (length new + j)" using l assms(3) by (simp add: b_def ended_by_NULs_def)
qed

lemma read_more_refills:
  assumes m: "moved_to_start g j content ahead"
  shows "refills (read_more sc j g) j content ahead"
proof -
  have s: "shape g ahead" "yy_fill_buffer g" "j \<le> yy_buf_size g" "content = bytes_at 0 j (yy_ch_buf g) @ ahead" "length content < 2 ^ 29"
    using m unfolding moved_to_start_def by blast+
  have f: "yy_init g" "yy_start g = start" "length (yy_ch_buf g) = yy_buf_size g + 2" "1 < yy_buf_size g" "yy_n_chars g \<le> yy_buf_size g"
    "reads (yy_input sc) (yyin g) ahead" "yy_buffer_status g = BUFFER_EOF_PENDING \<longrightarrow> ahead = []"
    using s(1,2) by (simp_all add: shape_def)
  have j: "j < 2 ^ 29" using moved_length [OF m] s(5) by simp
  obtain sz where sz: "grow (yyrealloc sc) (yy_buf_size g) j = Room sz" "yy_buf_size g \<le> sz" "j + 1 < sz"
    using grow_room [OF j, of "yy_buf_size g"] f(4) by auto
  let ?n = "min (sz - j - 1) YY_READ_BUF_SIZE"
  have "1 \<le> ?n" using sz(3) by (simp add: YY_READ_BUF_SIZE_def)
  then obtain new f' rest where r: "yy_input sc ?n (yyin g) = (Some new, f')" "ahead = new @ rest" "length new \<le> ?n"
    "new = [] \<longrightarrow> ahead = []" "reads (yy_input sc) f' rest"
    using reads_next [OF f(6)] by blast
  let ?g = "g\<lparr>yy_buf_size := sz, yyin := f', yy_ch_buf := put_at j new (resize (junk_char sc) (sz + 2) (yy_ch_buf g))\<rparr>"
  have e: "read_more sc j g = (if new = [] then no_more_input j ?g else Continue_scan (finish_buffer j (length new) ?g))"
  proof -
    have "\<not> ?n < length new" using r(3) by linarith
    then show ?thesis using sz(1) r(1) by (simp add: read_more_def)
  qed
  have b: "length (yy_ch_buf g) \<le> sz + 2" "j \<le> length (yy_ch_buf g)" "j + length new \<le> sz"
    using f(3) sz r(3) s(3) by auto
  note fb = filled_buffer [OF b, of "junk_char sc"]
  show ?thesis
  proof (cases "new = []")
    case True
    then have "moved_to_start ?g j content []"
      using s f r sz b resize_facts [OF b(1,2), of "junk_char sc"]
      by (simp add: moved_to_start_def shape_def bytes_at_def put_at_def)
    then show ?thesis using e True r(4) no_more_refills by simp
  next
    case False
    let ?h = "finish_buffer j (length new) ?g"
    have "shape ?h rest"
      using f sz r fb(1) b(3) s(2) by (auto simp: shape_def finish_buffer_def Let_def)
    moreover have "content = bytes_at 0 (yy_n_chars ?h - 0) (yy_ch_buf ?h) @ rest"
      using s(4) r(2) fb(2) by (simp add: finish_buffer_def Let_def)
    ultimately have "within ?h 0 j content rest"
      using fb(3) s(5) unfolding within_def by (simp add: finish_buffer_def Let_def)
    moreover have "length rest < length ahead" using r(2) False by simp
    ultimately show ?thesis using e False by (auto simp: refills_def finish_buffer_def Let_def)
  qed
qed

lemma next_buffer_refills:
  assumes w: "within g bp j content ahead" and p: "yytext_ptr g = bp" "stopped g (bp + j)" and n: "yy_n_chars g = bp + j"
  shows "refills (yy_get_next_buffer sc g) j content ahead"
proof -
  have s: "shape g ahead" by (rule within_shape [OF w])
  have c: "content = bytes_at bp j (yy_ch_buf g) @ ahead" "length content < 2 ^ 29" using w n unfolding within_def by auto
  have b: "yy_c_buf_p g = bp + j + 1" using p by (simp add: stopped_def)
  have l: "length (yy_ch_buf g) = yy_buf_size g + 2" "bp + j \<le> yy_buf_size g" using s n by (simp_all add: shape_def)
  show ?thesis
  proof (cases "yy_fill_buffer g")
    case False
    then have a: "ahead = []" using s by (simp add: shape_def)
    have lc: "length content = j" using c(1) a l by simp
    have "between (g\<lparr>yy_c_buf_p := bp\<rparr>) []" if "j = 0"
      using w s that n p l a False by (auto simp: between_def within_def shape_def ended_by_NULs_def stopped_def buffered_def bytes_at_def)
    then show ?thesis using False b p n w a lc by (auto simp: yy_get_next_buffer_def refills_def)
  next
    case True
    let ?g = "g\<lparr>yy_ch_buf := put_at 0 (bytes_at bp j (yy_ch_buf g)) (yy_ch_buf g)\<rparr>"
    have lb: "length (bytes_at bp j (yy_ch_buf g)) = j" using l by simp
    have "bytes_at 0 j (yy_ch_buf ?g) = bytes_at bp j (yy_ch_buf g)"
      using l lb bytes_at_put_at_same [of 0 "bytes_at bp j (yy_ch_buf g)" "yy_ch_buf g" j] by simp
    then have m: "moved_to_start ?g j content ahead"
      using s True c l lb unfolding moved_to_start_def by (simp add: shape_def)
    have e: "yy_get_next_buffer sc g = (if yy_buffer_status g = BUFFER_EOF_PENDING then no_more_input j ?g else read_more sc j ?g)"
      using True b p n by (simp add: yy_get_next_buffer_def)
    show ?thesis
    proof (cases "yy_buffer_status g = BUFFER_EOF_PENDING")
      case True
      then have "ahead = []" using s by (simp add: shape_def)
      then show ?thesis using e True m no_more_refills by simp
    qed (use e m read_more_refills in simp)
  qed
qed

text \<open>The text from the current position to the next NUL of the buffer, which there is at its end at the
  latest.\<close>

lemma drop_two: "p + 1 < length xs \<Longrightarrow> drop p xs = xs ! p # xs ! (p + 1) # drop (p + 2) xs"
  by (simp add: Cons_nth_drop_Suc)

lemma next_NUL:
  assumes w: "within g bp i content ahead"
  obtains v z where "NUL \<notin> set v" "drop (bp + i) (yy_ch_buf g) = v @ NUL # yy_ch_buf g ! (bp + i + length v + 1) # z"
    "bp + i + length v \<le> yy_n_chars g" "take (length v) (drop i content) = v"
    "bp + i + length v < yy_n_chars g \<Longrightarrow> content ! (i + length v) = NUL"
proof -
  let ?d = "drop (bp + i) (yy_ch_buf g)"
  let ?v = "takeWhile (\<lambda>ch. ch \<noteq> NUL) ?d"
  let ?k = "length ?v"
  have s: "length (yy_ch_buf g) = yy_buf_size g + 2" "yy_n_chars g \<le> yy_buf_size g" "bp + i \<le> yy_n_chars g"
    "yy_ch_buf g ! yy_n_chars g = NUL" "content = bytes_at bp (yy_n_chars g - bp) (yy_ch_buf g) @ ahead"
    using w by (auto simp: within_def shape_def ended_by_NULs_def)
  have k: "?k \<le> yy_n_chars g - (bp + i)"
    using s nth_length_takeWhile [of "\<lambda>ch. ch \<noteq> NUL" ?d] takeWhile_nth [of "yy_n_chars g - (bp + i)" "\<lambda>ch. ch \<noteq> NUL" ?d]
      set_takeWhileD [OF nth_mem, of "yy_n_chars g - (bp + i)" "\<lambda>ch. ch \<noteq> NUL" ?d]
    by (cases "yy_n_chars g - (bp + i) < ?k") auto
  then have l: "?k < length ?d" using s by simp
  then have N: "?d ! ?k = NUL" using nth_length_takeWhile by fastforce
  have "drop (bp + i + ?k) (yy_ch_buf g) = NUL # yy_ch_buf g ! (bp + i + ?k + 1) # drop (bp + i + ?k + 2) (yy_ch_buf g)"
    using s k N l drop_two [of "bp + i + ?k" "yy_ch_buf g"] by simp
  moreover have "?v = take ?k ?d" by (rule takeWhile_eq_take)
  ultimately have d: "?d = ?v @ NUL # yy_ch_buf g ! (bp + i + ?k + 1) # drop (bp + i + ?k + 2) (yy_ch_buf g)"
    by (metis append_take_drop_id drop_drop add.commute)
  have c: "drop i content = take (yy_n_chars g - (bp + i)) ?d @ ahead"
    using s by (simp add: bytes_at_def drop_take add.commute)
  have "take ?k (drop i content) = take ?k ?d" using c k l by (simp add: min_def)
  then have t: "take ?k (drop i content) = ?v" by (metis takeWhile_eq_take)
  have "content ! (i + ?k) = NUL" if "bp + i + ?k < yy_n_chars g"
  proof -
    have "?k < yy_n_chars g - (bp + i)" using that by linarith
    then have "drop i content ! ?k = ?d ! ?k" using c l by (simp add: nth_append)
    then show ?thesis using N within_prefix(2) [OF w] by simp
  qed
  then show ?thesis using that [of ?v "drop (bp + i + ?k + 2) (yy_ch_buf g)"] d t k s set_takeWhileD by fastforce
qed

text \<open>A NUL of the input.\<close>

lemma real_NUL_delivers:
  assumes IH: "\<And>g la. within g bp (j + 1) content ahead \<Longrightarrow> last_accept g = trail start bp la (take (j + 1) content) \<Longrightarrow>
      delivers (scan sc (Match_at (bp + (j + 1)) bp (state_after start (take (j + 1) content))) g) content"
    and w: "within g bp j content ahead" and p: "yytext_ptr g = bp" "yy_c_buf_p g = bp + j"
    and n: "bp + j < yy_n_chars g" and c: "content ! j = NUL"
  shows "\<exists>q g'. real_NUL sc g = At q g' \<and> delivers (scan sc q g') content"
proof -
  let ?h = "take (j + 1) content" and ?s = "state_after start (take j content)"
  obtain g' la where g': "within g' bp (j + 1) content ahead" "last_accept g' = trail start bp la ?h"
    "real_NUL sc g = At (if state_after start ?h = jam_state (ftabs sc) then Find_action (bp + j) bp ?s
       else Match_at (bp + (j + 1)) bp (state_after start ?h)) g'"
    using real_NUL_step [OF w p n c] by metis
  show ?thesis
  proof (cases "state_after start ?h = jam_state (ftabs sc)")
    case True
    have j: "j < length content" using within_prefix(2) [OF g'(1)] by simp
    then have h: "?h = take j content @ [NUL]" "length (take j content) = j" "?h \<noteq> []" "content \<noteq> []"
      using c by (auto simp: take_Suc_conv_app_nth)
    have live: "?s \<in> live" by (rule state_after_live [OF start(1)])
    have na: "last_accept g' = note_accept (ftabs sc) ?s (bp + j) (trail start bp la (take j content))"
      using g'(2) h(1,2) trail_snoc by simp
    have "longest start bp la (?h @ drop (j + 1) content) = longest (state_after start ?h) (bp + length ?h) (trail start bp la ?h) (drop (j + 1) content)"
      by (rule longest_append)
    also have "\<dots> = last_accept g'" using True jam dead_end [of "jam_state (ftabs sc)"] g'(2) by (simp add: note_accept_def)
    finally have l: "longest start bp la content = last_accept g'" by simp
    have "longest start bp la ?h = last_accept g'" using True jam g'(2) by (simp add: longest_def note_accept_def)
    then have "munch content = munch ?h"
      using l longest_munch [OF h(3), of bp la] longest_munch [OF h(4), of bp la] by (simp add: prod_eq_iff)
    then have "snd (munch content) \<le> j + 1" using munch_bounds(2) [OF h(3)] by simp
    then have k: "bp + snd (munch content) \<le> yy_n_chars g'" using g'(1) by (simp add: within_def)
    have "note_accept (ftabs sc) ?s (bp + j) (last_accept g') = (fst (munch content), bp + snd (munch content))"
      using l longest_munch [OF h(4), of bp la] na live by (simp add: note_accept_live)
    then show ?thesis using g'(3) True find_longest [OF g'(1) h(4) live _ k] by auto
  next
    case False
    then show ?thesis using g' IH by auto
  qed
qed

text \<open>The end of what is buffered.\<close>

lemma last_match_delivers:
  assumes w: "within g bp j content []" and n: "yy_n_chars g = bp + j" and c: "content \<noteq> []" and p: "yytext_ptr g = bp"
  shows "\<exists>q g'. refilled sc m (Last_match g) = At q g' \<and> delivers (scan sc q g') content"
proof -
  let ?g = "g\<lparr>yy_c_buf_p := yy_n_chars g\<rparr>"
  have wg: "within ?g bp j content []" using within_shape [OF w] by (intro within_cong [OF w]) (simp_all add: shape_def)
  have l: "length content = j" using w n by (auto simp: within_def shape_def)
  define g' where "g' = set_last (trail start bp (last_accept ?g) content) ?g"
  have wg': "within g' bp j content []"
    using within_shape [OF w] by (intro within_cong [OF wg]) (simp_all add: g'_def shape_def set_last_def)
  have "again sc ?g = Some (state_after start content, g')"
    using again_within [OF wg] p n l by (simp add: g'_def)
  moreover have "delivers (scan sc (Find_action (bp + j) bp (state_after start content)) g') content"
  proof (rule find_longest [OF wg' c state_after_live [OF start(1)]])
    have "last_accept g' = trail start bp (last_accept ?g) content" by (simp add: g'_def last_accept_def set_last_def)
    then show "note_accept (ftabs sc) (state_after start content) (bp + j) (last_accept g') = (fst (munch content), bp + snd (munch content))"
      using longest_munch [OF c, of bp "last_accept ?g"] l by (simp add: longest_def)
    show "bp + snd (munch content) \<le> yy_n_chars g'" using munch_bounds(2) [OF c] l n by (simp add: g'_def set_last_def)
  qed
  ultimately show ?thesis using n p by (simp add: refilled_def g'_def set_last_def)
qed

lemma continue_delivers:
  assumes IH: "\<And>g la. within g 0 j content ahead \<Longrightarrow> last_accept g = trail start 0 la (take j content) \<Longrightarrow>
      delivers (scan sc (Match_at (0 + j) 0 (state_after start (take j content))) g) content"
    and w: "within g 0 j content ahead" and p: "yytext_ptr g = 0"
  shows "\<exists>q g'. refilled sc j (Continue_scan g) = At q g' \<and> delivers (scan sc q g') content"
proof -
  let ?g = "g\<lparr>yy_c_buf_p := j\<rparr>"
  have wg: "within ?g 0 j content ahead" using within_shape [OF w] by (intro within_cong [OF w]) (simp_all add: shape_def)
  define g' where "g' = set_last (trail start 0 (last_accept ?g) (take j content)) ?g"
  have wg': "within g' 0 j content ahead"
    using within_shape [OF w] by (intro within_cong [OF wg]) (simp_all add: g'_def shape_def set_last_def)
  have "again sc ?g = Some (state_after start (take j content), g')"
    using again_within [OF wg] p by (simp add: g'_def)
  moreover have "last_accept g' = trail start 0 (last_accept ?g) (take j content)" by (simp add: g'_def last_accept_def set_last_def)
  ultimately show ?thesis using p IH [OF wg'] by (auto simp: refilled_def g'_def set_last_def)
qed

lemma NUL_delivers:
  assumes IH: "\<And>g bp' i ahead' la. within g bp' i content ahead' \<Longrightarrow> last_accept g = trail start bp' la (take i content) \<Longrightarrow>
      length ahead' + (length content - i) < length ahead + (length content - j) \<Longrightarrow>
      delivers (scan sc (Match_at (bp' + i) bp' (state_after start (take i content))) g) content"
    and w: "within g bp j content ahead" and c: "bp + j < yy_n_chars g \<Longrightarrow> content ! j = NUL"
  shows "delivers (scan sc (Find_action (bp + j + 2) bp (jam_state (ftabs sc))) (set_last (eob, bp + j + 1) g)) content"
proof -
  let ?q = "Find_action (bp + j + 2) bp (jam_state (ftabs sc))" and ?e = "set_last (eob, bp + j + 1) g"
  obtain g' where g': "within g' bp j content ahead" "yytext_ptr g' = bp" "stopped g' (bp + j)" "yy_n_chars g' = yy_n_chars g"
    "scan_step sc ?q ?e = (if bp + j < yy_n_chars g then real_NUL sc (g'\<lparr>yy_c_buf_p := bp + j\<rparr>) else refilled sc j (yy_get_next_buffer sc g'))"
    using end_of_buffer_reached [OF w] by (metis scan_step.simps(3))
  show ?thesis
  proof (cases "bp + j < yy_n_chars g")
    case True
    let ?g = "g'\<lparr>yy_c_buf_p := bp + j\<rparr>"
    have wg: "within ?g bp j content ahead" using within_shape [OF g'(1)] by (intro within_cong [OF g'(1)]) (simp_all add: shape_def)
    have "j < length content" using within_prefix(2) [OF within_more [OF g'(1), of "j + 1"]] g'(4) True by simp
    then have "\<exists>q h. real_NUL sc ?g = At q h \<and> delivers (scan sc q h) content"
      using g' True c by (intro real_NUL_delivers [OF IH wg]) auto
    then show ?thesis using True g'(5) scan_at by metis
  next
    case False
    then have n: "yy_n_chars g' = bp + j" using g'(1,4) by (simp add: within_def)
    have r: "refills (yy_get_next_buffer sc g') j content ahead" by (rule next_buffer_refills [OF g'(1-3) n])
    have e: "scan_step sc ?q ?e = refilled sc j (yy_get_next_buffer sc g')" using False g'(5) by simp
    show ?thesis
    proof (cases "yy_get_next_buffer sc g'")
      case (Continue_scan h)
      then obtain ahead' where "within h 0 j content ahead'" "length ahead' < length ahead" "yytext_ptr h = 0" using r by (auto simp: refills_def)
      then have "\<exists>q h'. refilled sc j (Continue_scan h) = At q h' \<and> delivers (scan sc q h') content"
        by (intro continue_delivers [OF IH]) auto
      then show ?thesis using e Continue_scan scan_at by metis
    next
      case (Last_match h)
      then have "\<exists>q h'. refilled sc j (Last_match h) = At q h' \<and> delivers (scan sc q h') content"
        using r by (intro last_match_delivers) (auto simp: refills_def)
      then show ?thesis using e Last_match scan_at by metis
    next
      case (End_of_file h)
      then have "scan sc ?q ?e = Some (Token 0 None (h\<lparr>yy_c_buf_p := yytext_ptr h\<rparr>))"
        using e wraps scan_off [of sc ?q ?e] by (simp add: refilled_def)
      then show ?thesis using r End_of_file by (simp add: refills_def delivers_def)
    qed (use r in \<open>simp_all add: refills_def\<close>)
  qed
qed

lemma match_delivers:
  "within g bp i content ahead \<Longrightarrow> last_accept g = trail start bp la (take i content) \<Longrightarrow>
    delivers (scan sc (Match_at (bp + i) bp (state_after start (take i content))) g) content"
proof (induction "length ahead + (length content - i)" arbitrary: g bp i ahead la rule: less_induct)
  case less
  let ?s = "state_after start (take i content)"
  let ?q = "Match_at (bp + i) bp ?s"
  have live: "?s \<in> live" by (rule state_after_live [OF start(1)])
  obtain v z where v: "NUL \<notin> set v" "drop (bp + i) (yy_ch_buf g) = v @ NUL # yy_ch_buf g ! (bp + i + length v + 1) # z"
    "bp + i + length v \<le> yy_n_chars g" "take (length v) (drop i content) = v"
    "bp + i + length v < yy_n_chars g \<Longrightarrow> content ! (i + length v) = NUL"
    using next_NUL [OF less.prems(1)] by metis
  consider u y where "v = u @ y" "u \<noteq> []" "entry (yy_base (ftabs sc)) (state_after ?s u) = Some (jam_base (ftabs sc))"
      "yy_match (ftabs sc) (yy_ch_buf g) (bp + i) ?s (last_accept g) = Some (bp + i + length u, state_after ?s u, trail ?s (bp + i) (last_accept g) u)"
    | "yy_match (ftabs sc) (yy_ch_buf g) (bp + i) ?s (last_accept g) = Some (bp + i + length v + 2, jam_state (ftabs sc), eob, bp + i + length v + 1)"
    using match_text [OF live v(1,2), of "last_accept g"] by blast
  then show ?case
  proof cases
    case 1
    have "take (length u) (drop i content) = u" using v(4) 1(1) by (metis append_eq_conv_conj take_take min.absorb1 length_append le_add1)
    then have "delivers (scan sc (Find_action (bp + i + length u) bp (state_after ?s u)) (set_last (trail ?s (bp + i) (last_accept g) u) g)) content"
      using 1 v(3) by (intro stop_in_text [OF less.prems]) auto
    then show ?thesis using 1(4) scan_at [of sc ?q g] by (simp add: match_at_def)
  next
    case 2
    let ?j = "i + length v"
    have "delivers (scan sc (Find_action (bp + ?j + 2) bp (jam_state (ftabs sc))) (set_last (eob, bp + ?j + 1) g)) content"
    proof (rule NUL_delivers)
      show "within g bp ?j content ahead" using within_more [OF less.prems(1)] v(3) by (simp add: add.assoc)
      show "content ! ?j = NUL" if "bp + ?j < yy_n_chars g" using v(5) that by (simp add: add.assoc)
    qed (rule less.hyps, auto)
    then show ?thesis using 2 scan_at [of sc ?q g] by (simp add: match_at_def add.assoc)
  qed
qed

theorem scan_delivers:
  assumes "between g content"
  shows "delivers (scan sc Top g) content"
proof -
  let ?p = "yy_c_buf_p g"
  let ?g = "poke ?p (yy_hold_char g) g"
  obtain ahead where a: "shape g ahead" "?p \<le> yy_n_chars g" "ended_by_NULs ((yy_ch_buf g)[?p := yy_hold_char g]) (yy_n_chars g)"
      "content = buffered g @ ahead" "length content < 2 ^ 29"
    using assms unfolding between_def by blast
  have "?p < length (yy_ch_buf g)" using a(1,2) by (simp add: shape_def)
  then have "scan sc Top g = scan sc (Match_at ?p ?p start) ?g"
    using a(1) by (intro scan_at) (simp add: top_def shape_def Let_def)
  moreover have "shape ?g ahead" using a(1) by (simp add: shape_def poke_def)
  then have "within ?g ?p 0 content ahead"
    using a unfolding within_def by (simp add: poke_def buffered_def)
  ultimately show ?thesis using match_delivers [of ?g ?p 0 content ahead "last_accept ?g"] by simp
qed

end

end
