(* ===== verification/FlexTokens.thy ===== *)
theory FlexTokens
  imports FlexSpec BisonSpec
begin

text \<open>
  The tokens a scanner yields call by call: the file as the C library delivers it, and the sequence of the
  longest matches of its content as what the scanner feeds to a parser.
\<close>

section \<open>Files\<close>

text \<open>A read that is interrupted some times and then tried again.\<close>

fun interrupted :: "'f stdio \<Rightarrow> nat \<Rightarrow> nat \<Rightarrow> 'f \<Rightarrow> 'f \<Rightarrow> bool" where
  "interrupted io n 0 f f' \<longleftrightarrow> f' = f"
| "interrupted io n (Suc k) f f' \<longleftrightarrow>
    fst (fread io n f) = [] \<and> ferror io (snd (fread io n f)) \<and> errno_EINTR io (snd (fread io n f)) \<and>
    interrupted io n k (clearerr io (snd (fread io n f))) f'"

text \<open>An open file with a given content still to be read. \<^verbatim>\<open>getc\<close> yields its characters and then the end
  of the file. \<^verbatim>\<open>fread\<close> may be interrupted finitely often before it yields some of the content, and
  nothing only at the end.\<close>

coinductive holds :: "'f stdio \<Rightarrow> 'f \<Rightarrow> string \<Rightarrow> bool" for io where
  "(\<And>ch rest. content = ch # rest \<Longrightarrow> \<exists>f'. getc io f = (Some ch, f') \<and> holds io f' rest) \<Longrightarrow>
   (content = [] \<Longrightarrow> \<exists>f'. getc io f = (None, f') \<and> \<not> ferror io f' \<and> holds io f' []) \<Longrightarrow>
   (\<And>n. 1 \<le> n \<Longrightarrow> \<exists>k f1 new f' rest. interrupted io n k f f1 \<and> fread io n f1 = (new, f') \<and> \<not> ferror io f' \<and>
      content = new @ rest \<and> length new \<le> n \<and> (new = [] \<longrightarrow> content = []) \<and> holds io f' rest) \<Longrightarrow>
   holds io f content"

lemma holds_getc:
  "holds io f (ch # rest) \<Longrightarrow> \<exists>f'. getc io f = (Some ch, f') \<and> holds io f' rest"
  "holds io f [] \<Longrightarrow> \<exists>f'. getc io f = (None, f') \<and> \<not> ferror io f' \<and> holds io f' []"
  by (blast elim: holds.cases)+

lemma holds_fread:
  "holds io f content \<Longrightarrow> 1 \<le> n \<Longrightarrow> \<exists>k f1 new f' rest. interrupted io n k f f1 \<and> fread io n f1 = (new, f') \<and> \<not> ferror io f' \<and>
      content = new @ rest \<and> length new \<le> n \<and> (new = [] \<longrightarrow> content = []) \<and> holds io f' rest"
  by (blast elim: holds.cases)

lemma fread_loop_interrupted: "interrupted io n k f f1 \<Longrightarrow> fread_loop io n f = fread_loop io n f1"
proof (induction k arbitrary: f)
  case (Suc k)
  then show ?case by (subst fread_loop.simps) simp
qed simp

lemma get_line_holds:
  "holds io f content \<Longrightarrow> \<exists>new eof f' rest. get_line io n f = (new, eof, f') \<and> content = new @ rest \<and> length new \<le> n \<and>
      (new = [] \<longrightarrow> n = 0 \<or> content = []) \<and> (eof \<longrightarrow> \<not> ferror io f') \<and> holds io f' rest"
proof (induction n arbitrary: f content)
  case (Suc n)
  show ?case
  proof (cases content)
    case Nil
    then show ?thesis using holds_getc(2) [of io f] Suc.prems by auto
  next
    case (Cons ch w)
    then obtain f1 where f1: "getc io f = (Some ch, f1)" "holds io f1 w" using holds_getc(1) [of io f ch w] Suc.prems by auto
    then obtain new eof f' rest where "get_line io n f1 = (new, eof, f')" "w = new @ rest" "length new \<le> n"
      "eof \<longrightarrow> \<not> ferror io f'" "holds io f' rest" using Suc.IH [OF f1(2)] by blast
    then show ?thesis using f1 Cons by (cases "ch = CHR 0x0A") auto
  qed
qed (simp, blast)

lemma YY_INPUT_holds:
  assumes h: "holds io f content" and n: "1 \<le> n"
  shows "\<exists>new f' rest. YY_INPUT io tty n f = (Some new, f') \<and> content = new @ rest \<and> length new \<le> n \<and>
      (new = [] \<longrightarrow> content = []) \<and> holds io f' rest"
proof (cases tty)
  case True
  then show ?thesis using get_line_holds [OF h, of n] n by (auto simp: YY_INPUT_def)
next
  case False
  obtain k f1 new f' rest where r: "interrupted io n k f f1" "fread io n f1 = (new, f')" "\<not> ferror io f'"
      "content = new @ rest" "length new \<le> n" "new = [] \<longrightarrow> content = []" "holds io f' rest"
    using holds_fread [OF h n] by (elim exE conjE)
  have "fread_loop io n f1 = Some (Some new, f')" by (subst fread_loop.simps) (simp add: r(2,3))
  then have "fread_loop io n f = Some (Some new, f')" using fread_loop_interrupted [OF r(1)] by simp
  then show ?thesis using False r by (simp add: YY_INPUT_def)
qed

lemma reads_YY_INPUT:
  assumes "holds io f content"
  shows "reads (YY_INPUT io tty) f content"
proof (rule reads.coinduct [where X = "holds io", OF assms])
  fix f content assume h: "holds io f content"
  show "\<exists>f' content'. f = f' \<and> content = content' \<and> (\<forall>n\<ge>1. \<exists>new f'' rest. YY_INPUT io tty n f' = (Some new, f'') \<and>
      content' = new @ rest \<and> length new \<le> n \<and> (new = [] \<longrightarrow> content' = []) \<and> (holds io f'' rest \<or> reads (YY_INPUT io tty) f'' rest))"
    by (rule exI [of _ f], rule exI [of _ content], intro conjI refl allI impI)
      (use YY_INPUT_holds [OF h, of _ tty] in \<open>blast\<close>)
qed

section \<open>Tokens\<close>

lemma feeds_cong: "(\<And>v. lx v l = lx v l') \<Longrightarrow> feeds lx l ts = feeds lx l' ts"
proof (cases ts)
  case Nil
  then show "(\<And>v. lx v l = lx v l') \<Longrightarrow> ?thesis" by (simp, subst (1 2) ended_iff) simp
next
  case (Cons t us)
  then show "(\<And>v. lx v l = lx v l') \<Longrightarrow> ?thesis" by (cases t) simp
qed

context flex_scanner
begin

text \<open>The tokens of a text: one longest match after the other.\<close>

inductive lexes :: "string \<Rightarrow> 'v tok list \<Rightarrow> bool" where
  lexes_Nil: "lexes [] []"
| lexes_Skip: "content \<noteq> [] \<Longrightarrow> munch content = (q, k) \<Longrightarrow> rule_action sc (accepts q) (take k content) = Skip \<Longrightarrow>
    lexes (drop k content) ts \<Longrightarrow> lexes content ts"
| lexes_Return: "content \<noteq> [] \<Longrightarrow> munch content = (q, k) \<Longrightarrow> rule_action sc (accepts q) (take k content) = Return x v \<Longrightarrow>
    lexes (drop k content) ts \<Longrightarrow> lexes content ((x, v) # ts)"

lemma between_ready: "between g content \<Longrightarrow> ready sc g = Some g"
  by (auto simp: between_def shape_def ready_def)

lemma ended_between: "between g [] \<Longrightarrow> ended (flex_lex sc) g"
proof (coinduction arbitrary: g)
  case ended
  then obtain g' where "scan sc Top g = Some (Token 0 None g')" "between g' []"
    using scan_delivers [of g "[]"] by (auto simp: delivers_def)
  then show ?case using between_ready [OF ended] by (auto simp: flex_lex_def)
qed

lemma feeds_between: "lexes content ts \<Longrightarrow> between g content \<Longrightarrow> feeds (flex_lex sc) g ts"
proof (induction arbitrary: g rule: lexes.induct)
  case lexes_Nil
  then show ?case by (simp add: ended_between)
next
  case (lexes_Skip content q k ts)
  then obtain g' where g': "between g' (drop k content)" "scan sc Top g = scan sc Top g'"
    using scan_delivers [OF lexes_Skip.prems] by (auto simp: delivers_def)
  then have "flex_lex sc v g = flex_lex sc v g'" for v
    using between_ready [OF lexes_Skip.prems] between_ready [OF g'(1)] by (simp add: flex_lex_def)
  then show ?case using lexes_Skip.IH [OF g'(1)] feeds_cong [of "flex_lex sc" g g'] by simp
next
  case (lexes_Return content q k x v ts)
  then obtain g' where g': "between g' (drop k content)" "scan sc Top g = Some (Token x v g')"
    using scan_delivers [OF lexes_Return.prems] by (auto simp: delivers_def)
  then show ?case using lexes_Return.IH [OF g'(1)] between_ready [OF lexes_Return.prems]
    by (auto simp: flex_lex_def split: option.splits)
qed

text \<open>The first call on a file.\<close>

lemma ready_between:
  assumes "start = 1" "reads (yy_input sc) f content" "length content < 2 ^ 29"
  obtains g where "ready sc (scanner_on f) = Some g" "between g content"
proof -
  have m: "yyrealloc sc (YY_BUF_SIZE + 2)" by (rule memory) (simp add: YY_BUF_SIZE_def)
  define g where "g = the (ready sc (scanner_on f))"
  have "ready sc (scanner_on f) = Some g"
    using m by (simp add: g_def ready_def yy_create_buffer_def scanner_on_def)
  moreover have "between g content"
    using m assms unfolding between_def shape_def
    by (simp add: g_def ready_def yy_create_buffer_def scanner_on_def yy_init_buffer_def yy_flush_buffer_def yy_load_buffer_state_def
        ended_by_NULs_def buffered_def bytes_at_def YY_BUF_SIZE_def)
  ultimately show ?thesis using that by blast
qed

theorem feeds_file:
  assumes "start = 1" "reads (yy_input sc) f content" "length content < 2 ^ 29" "lexes content ts"
  shows "feeds (flex_lex sc) (scanner_on f) ts"
proof -
  obtain g where g: "ready sc (scanner_on f) = Some g" "between g content" using ready_between [OF assms(1-3)] .
  then have "flex_lex sc v (scanner_on f) = flex_lex sc v g" for v
    using between_ready [OF g(2)] by (simp add: flex_lex_def)
  then show ?thesis using feeds_between [OF assms(4) g(2)] feeds_cong [of "flex_lex sc" "scanner_on f" g] by simp
qed

end

end
