(* ===== verification/PmuScanner.thy ===== *)
theory PmuScanner
  imports PmuGrammar FlexTokens CLib
begin

text \<open>
  The scanner of \<^verbatim>\<open>src/packages/perf/files/generated/util/pmu-flex.c\<close>, which splits the format files of
  performance monitoring units into tokens: its tables and actions on the engine of \<open>Flex\<close>, and the
  tokens of a text, said without the automaton.
\<close>

section \<open>Tables\<close>

definition pmu_yy_accept :: "nat list" where
  "pmu_yy_accept = [
    0, 0, 0, 9, 6, 7, 5, 3, 1, 4, 6, 1, 0, 0, 0, 0, 2, 0]"

definition pmu_yy_ec :: "nat list" where
  "pmu_yy_ec = [
    0, 1, 1, 1, 1, 1, 1, 1, 1, 1, 2, 1, 1, 1, 1, 1, 1, 1, 1, 1,
    1, 1, 1, 1, 1, 1, 1, 1, 1, 1, 1, 1, 1, 1, 1, 1, 1, 1, 1, 1,
    1, 1, 1, 1, 3, 4, 1, 1, 5, 5, 5, 5, 5, 5, 5, 5, 5, 5, 6, 1,
    1, 1, 1, 1, 1, 1, 1, 1, 1, 1, 1, 1, 1, 1, 1, 1, 1, 1, 1, 1,
    1, 1, 1, 1, 1, 1, 1, 1, 1, 1, 1, 1, 1, 1, 1, 1, 1, 1, 1, 7,
    1, 1, 8, 9, 1, 10, 1, 1, 1, 1, 11, 12, 1, 1, 1, 1, 1, 1, 1, 1,
    1, 1, 1, 1, 1, 1, 1, 1, 1, 1, 1, 1, 1, 1, 1, 1, 1, 1, 1, 1,
    1, 1, 1, 1, 1, 1, 1, 1, 1, 1, 1, 1, 1, 1, 1, 1, 1, 1, 1, 1,
    1, 1, 1, 1, 1, 1, 1, 1, 1, 1, 1, 1, 1, 1, 1, 1, 1, 1, 1, 1,
    1, 1, 1, 1, 1, 1, 1, 1, 1, 1, 1, 1, 1, 1, 1, 1, 1, 1, 1, 1,
    1, 1, 1, 1, 1, 1, 1, 1, 1, 1, 1, 1, 1, 1, 1, 1, 1, 1, 1, 1,
    1, 1, 1, 1, 1, 1, 1, 1, 1, 1, 1, 1, 1, 1, 1, 1, 1, 1, 1, 1,
    1, 1, 1, 1, 1, 1, 1, 1, 1, 1, 1, 1, 1, 1, 1, 1]"

definition pmu_yy_meta :: "nat list" where
  "pmu_yy_meta = [
    0, 1, 1, 1, 1, 1, 1, 1, 1, 1, 1, 1, 1]"

definition pmu_yy_base :: "nat list" where
  "pmu_yy_base = [
    0, 0, 0, 20, 21, 21, 21, 21, 14, 21, 6, 12, 5, 7, 4, 4, 21, 21]"

definition pmu_yy_def :: "nat list" where
  "pmu_yy_def = [
    0, 17, 1, 17, 17, 17, 17, 17, 17, 17, 17, 17, 17, 17, 17, 17, 17, 0]"

definition pmu_yy_nxt :: "nat list" where
  "pmu_yy_nxt = [
    0, 4, 5, 6, 7, 8, 9, 10, 4, 4, 4, 4, 4, 16, 15, 14, 13, 11, 12, 11,
    17, 3, 17, 17, 17, 17, 17, 17, 17, 17, 17, 17, 17, 17]"

definition pmu_yy_chk :: "nat list" where
  "pmu_yy_chk = [
    0, 1, 1, 1, 1, 1, 1, 1, 1, 1, 1, 1, 1, 15, 14, 13, 12, 11, 10, 8,
    3, 17, 17, 17, 17, 17, 17, 17, 17, 17, 17, 17, 17, 17]"

definition pmu_ftabs :: flextables where
  "pmu_ftabs =
    \<lparr>yy_accept = pmu_yy_accept, yy_ec = pmu_yy_ec, yy_meta = pmu_yy_meta, yy_base = pmu_yy_base, yy_def = pmu_yy_def,
     yy_nxt = pmu_yy_nxt, yy_chk = pmu_yy_chk, jam_base = 21, jam_state = 17, templates = 18, end_of_buffer = 9\<rparr>"

section \<open>Actions\<close>

text \<open>\<^verbatim>\<open>strtoul\<close> sets \<^verbatim>\<open>errno\<close> if the number does not fit into 64 bits.\<close>

definition strtoul_fails :: "string \<Rightarrow> bool" where
  "strtoul_fails s = (case scan_int s of None \<Rightarrow> False | Some (i, _) \<Rightarrow> 2 ^ 64 \<le> \<bar>i\<bar>)"

definition value10 :: "string \<Rightarrow> u64 act" where
  "value10 text = (if strtoul_fails text then Return PP_ERROR None else Return PP_VALUE (Some (strtoull10 text)))"

text \<open>Rule 8 would print its text; no state accepts it.\<close>

definition pmu_rule :: "nat \<Rightarrow> string \<Rightarrow> u64 act" where
  "pmu_rule yy_act text =
    (if yy_act = 1 then value10 text
     else if yy_act = 2 then Return PP_CONFIG None
     else if yy_act = 3 then Return 45 None
     else if yy_act = 4 then Return 58 None
     else if yy_act = 5 then Return 44 None
     else Skip)"

definition perf_pmu_wrap :: bool where
  "perf_pmu_wrap = True"

definition pmu_scanner :: "'f stdio \<Rightarrow> bool \<Rightarrow> (nat \<Rightarrow> bool) \<Rightarrow> char \<Rightarrow> (u64, 'f) scanner" where
  "pmu_scanner io tty ok jc =
    \<lparr>ftabs = pmu_ftabs, rule_action = pmu_rule, num_rules = 8, yywrap = perf_pmu_wrap, yy_input = YY_INPUT io tty,
     yyrealloc = ok, junk_char = jc\<rparr>"

definition perf_pmu_lex :: "'f stdio \<Rightarrow> bool \<Rightarrow> (nat \<Rightarrow> bool) \<Rightarrow> char \<Rightarrow> u64 \<Rightarrow> 'f guts \<Rightarrow> (int \<times> u64 \<times> 'f guts) option" where
  "perf_pmu_lex io tty ok jc = flex_lex (pmu_scanner io tty ok jc)"

section \<open>The tokens of a text\<close>

definition number :: "string \<Rightarrow> token" where
  "number ds = (if 2 ^ 64 \<le> read_digits ds then Error else Num (of_nat (read_digits ds)))"

function tokens :: "string \<Rightarrow> token list" where
  "tokens [] = []"
| "tokens (c # cs) =
    (if isdigit c then number (takeWhile isdigit (c # cs)) # tokens (dropWhile isdigit cs)
     else if take 6 (c # cs) = ''config'' then Config # tokens (drop 5 cs)
     else if c = CHR ''-'' then Dash # tokens cs
     else if c = CHR '':'' then Colon # tokens cs
     else if c = CHR '','' then Comma # tokens cs
     else tokens cs)"
  by pat_completeness auto
termination
  by (relation "measure length") (auto simp: less_Suc_eq_le length_dropWhile_le)

section \<open>The automaton\<close>

definition pmu_class :: "nat \<Rightarrow> nat" where
  "pmu_class n =
    (if n = 0 then 0 else if n = 10 then 2 else if n = 44 then 3 else if n = 45 then 4 else if 48 \<le> n \<and> n \<le> 57 then 5
     else if n = 58 then 6 else if n = 99 then 7 else if n = 102 then 8 else if n = 103 then 9 else if n = 105 then 10
     else if n = 110 then 11 else if n = 111 then 12 else 1)"

lemma pmu_yy_ec_class: "pmu_yy_ec = map pmu_class [0..<256]"
  by code_simp

definition pmu_next :: "nat \<Rightarrow> nat \<Rightarrow> nat" where
  "pmu_next s c =
    (if s = 1 then
       (if c = 2 then 5 else if c = 3 then 6 else if c = 4 then 7 else if c = 5 then 8 else if c = 6 then 9 else if c = 7 then 10 else 4)
     else if (s = 8 \<or> s = 11) \<and> c = 5 then 11
     else if s = 10 \<and> c = 12 then 12
     else if s = 12 \<and> c = 11 then 13
     else if s = 13 \<and> c = 8 then 14
     else if s = 14 \<and> c = 10 then 15
     else if s = 15 \<and> c = 9 then 16
     else 17)"

definition pmu_live :: "nat set" where
  "pmu_live = {1, 4, 5, 6, 7, 8, 9, 10, 11, 12, 13, 14, 15, 16, 17}"

lemma pmu_transitions:
  "list_all (\<lambda>s. transition pmu_ftabs s 0 = Some 3 \<and> list_all (\<lambda>c. transition pmu_ftabs s c = Some (pmu_next s c)) [1..<13])
     [1, 4, 5, 6, 7, 8, 9, 10, 11, 12, 13, 14, 15, 16, 17]"
  by code_simp

lemma pmu_eob_transitions: "list_all (\<lambda>c. transition pmu_ftabs 3 c = Some 17) [0..<13]"
  by code_simp

lemma pmu_next_live: "s \<in> pmu_live \<Longrightarrow> pmu_next s c \<in> pmu_live"
  by (simp add: pmu_next_def pmu_live_def)

lemma pmu_transition:
  "s \<in> pmu_live \<Longrightarrow> 1 \<le> c \<Longrightarrow> c \<le> 12 \<Longrightarrow> transition pmu_ftabs s c = Some (pmu_next s c)"
  "s \<in> pmu_live \<Longrightarrow> transition pmu_ftabs s 0 = Some 3"
  using pmu_transitions unfolding list_all_iff pmu_live_def by auto

text \<open>Requests for less than 2 GiB are served.\<close>

definition enough_memory :: "nat \<Rightarrow> bool" where
  "enough_memory n \<longleftrightarrow> n < 2 ^ 31"

lemma pmu_states:
  "list_all (\<lambda>s. s < 18 \<and> pmu_yy_accept ! s \<le> 7 \<and> (pmu_yy_base ! s = 21 \<longrightarrow> list_all (\<lambda>c. pmu_next s c = 17) [1..<13]))
     [1, 4, 5, 6, 7, 8, 9, 10, 11, 12, 13, 14, 15, 16, 17]"
  by code_simp

lemma pmu_entries:
  assumes "s \<in> pmu_live"
  shows "entry pmu_yy_accept s = Some (pmu_yy_accept ! s)" "pmu_yy_accept ! s \<le> 7" "entry pmu_yy_base s = Some (pmu_yy_base ! s)"
    "pmu_yy_base ! s = 21 \<Longrightarrow> 1 \<le> c \<Longrightarrow> c \<le> 12 \<Longrightarrow> pmu_next s c = 17"
proof -
  have l: "s \<in> set [1, 4, 5, 6, 7, 8, 9, 10, 11, 12, 13, 14, 15, 16, 17]" using assms by (simp add: pmu_live_def)
  then have s: "s < 18" "pmu_yy_accept ! s \<le> 7" "pmu_yy_base ! s = 21 \<longrightarrow> list_all (\<lambda>c. pmu_next s c = 17) [1..<13]"
    using pmu_states unfolding list_all_iff by blast+
  then show "entry pmu_yy_accept s = Some (pmu_yy_accept ! s)" "pmu_yy_accept ! s \<le> 7" "entry pmu_yy_base s = Some (pmu_yy_base ! s)"
    by (simp_all add: entry_def pmu_yy_accept_def pmu_yy_base_def)
  show "pmu_yy_base ! s = 21 \<Longrightarrow> 1 \<le> c \<Longrightarrow> c \<le> 12 \<Longrightarrow> pmu_next s c = 17"
    using s(3) by (simp add: list_all_iff)
qed

lemma pmu_ec_entry: "n < 256 \<Longrightarrow> entry pmu_yy_ec n = Some (pmu_class n)"
  by (simp add: pmu_yy_ec_class entry_def)

lemma pmu_class_range: "0 < n \<Longrightarrow> 1 \<le> pmu_class n \<and> pmu_class n \<le> 12"
  by (simp add: pmu_class_def)

lemma of_char_range: "(of_char ch :: nat) < 256"
  by (metis of_char_mod_256 mod_less_divisor zero_less_numeral)

end
