(* ===== verification/PmuTokens.thy ===== *)
theory PmuTokens
  imports PmuScanner
begin

text \<open>
  The scanner of the format files delivers the tokens of the text, whatever the buffer boundaries.
\<close>

lemma pmu_ftabs_simps [simp]:
  "yy_accept pmu_ftabs = pmu_yy_accept" "yy_ec pmu_ftabs = pmu_yy_ec" "yy_base pmu_ftabs = pmu_yy_base"
  "jam_base pmu_ftabs = 21" "jam_state pmu_ftabs = 17" "end_of_buffer pmu_ftabs = 9"
  by (simp_all add: pmu_ftabs_def)

lemma pmu_scanner_simps [simp]:
  "ftabs (pmu_scanner io tty ok jc) = pmu_ftabs" "rule_action (pmu_scanner io tty ok jc) = pmu_rule"
  "num_rules (pmu_scanner io tty ok jc) = 8" "yywrap (pmu_scanner io tty ok jc)"
  "yy_input (pmu_scanner io tty ok jc) = YY_INPUT io tty" "yyrealloc (pmu_scanner io tty ok jc) = ok"
  by (simp_all add: pmu_scanner_def perf_pmu_wrap_def)

lemma of_char_zero: "(of_char ch :: nat) = 0 \<longleftrightarrow> ch = NUL"
  using of_char_eq_iff [of ch NUL, where ?'a = nat] by (simp add: NUL_def)

interpretation pmu_dfa: automaton pmu_ftabs pmu_live 3 12
proof unfold_locales
  show "\<exists>c. entry (yy_ec pmu_ftabs) (of_char ch) = Some c \<and> 1 \<le> c \<and> c \<le> 12" if "ch \<noteq> NUL" for ch
    using that pmu_ec_entry [OF of_char_range, of ch] pmu_class_range of_char_zero [of ch] by (simp add:)
  show "\<exists>s'\<in>pmu_live. transition pmu_ftabs s c = Some s'" if "s \<in> pmu_live" "1 \<le> c" "c \<le> 12" for s c
    using that pmu_transition pmu_next_live by auto
  show "\<exists>a. entry (yy_accept pmu_ftabs) s = Some a \<and> a \<noteq> end_of_buffer pmu_ftabs" if "s \<in> pmu_live" for s
    using pmu_entries(1,2) [OF that] by (auto simp:)
  show "transition pmu_ftabs 3 c = Some (jam_state pmu_ftabs)" if "c \<le> 12" for c
    using that pmu_eob_transitions by (auto simp: list_all_iff)
  show "transition pmu_ftabs s c = Some (jam_state pmu_ftabs)"
    if "s \<in> pmu_live" "entry (yy_base pmu_ftabs) s = Some (jam_base pmu_ftabs)" "1 \<le> c" "c \<le> 12" for s c
    using that pmu_transition pmu_entries(3,4) by (auto simp:)
  show "entry (yy_ec pmu_ftabs) 0 = Some 0" using pmu_ec_entry [of 0] by (simp add: pmu_class_def)
qed (use pmu_transition in \<open>auto simp: pmu_live_def pmu_yy_accept_def pmu_yy_base_def entry_def\<close>)

text \<open>The classes of characters, as the rules name them.\<close>

definition pmu_char :: "char \<Rightarrow> nat" where
  "pmu_char ch = (if ch = NUL then 1 else pmu_class (of_char ch))"

lemma pmu_class_num: "pmu_dfa.class_num ch = pmu_char ch"
  using pmu_ec_entry [OF of_char_range, of ch] by (simp add: pmu_dfa.class_num_def class_of_def pmu_char_def)

lemma pmu_delta: "s \<in> pmu_live \<Longrightarrow> pmu_dfa.delta s ch = pmu_next s (pmu_char ch)"
  using pmu_transition pmu_dfa.class_bounds [of ch] by (simp add: pmu_dfa.delta_def pmu_class_num)

lemma pmu_accepts: "s \<in> pmu_live \<Longrightarrow> pmu_dfa.accepts s = pmu_yy_accept ! s"
  using pmu_entries(1) by (simp add: pmu_dfa.accepts_def)

interpretation pmu_lex: flex_scanner "pmu_scanner io tty enough_memory jc" pmu_live 3 12 1
  for io :: "'f stdio" and tty jc
proof (intro flex_scanner.intro flex_scanner_axioms.intro)
  have one: "1 \<in> pmu_live" by (simp add: pmu_live_def)
  then show "1 \<in> pmu_live" .
  show "automaton (ftabs (pmu_scanner io tty enough_memory jc)) pmu_live 3 12" using pmu_dfa.automaton_axioms by simp
  show "automaton.accepts (ftabs (pmu_scanner io tty enough_memory jc)) 1 = 0"
    using pmu_accepts [OF one] by (simp add: pmu_yy_accept_def)
  show "automaton.accepts (ftabs (pmu_scanner io tty enough_memory jc))
      (automaton.delta (ftabs (pmu_scanner io tty enough_memory jc)) 1 ch) \<noteq> 0" for ch
  proof -
    have "pmu_dfa.delta 1 ch \<in> {4, 5, 6, 7, 8, 9, 10}" using pmu_delta [OF one] by (simp add: pmu_next_def)
    then show ?thesis by (auto simp: pmu_accepts pmu_live_def pmu_yy_accept_def)
  qed
  show "automaton.accepts (ftabs (pmu_scanner io tty enough_memory jc)) s \<le> num_rules (pmu_scanner io tty enough_memory jc)"
    if "s \<in> pmu_live" for s
    using pmu_entries(2) [OF that] pmu_accepts [OF that] by simp
qed (simp_all add: enough_memory_def)

section \<open>Longest matches\<close>

lemma pmu_munch: "flex_scanner.munch (pmu_scanner io tty enough_memory jc) 1 w = pmu_dfa.longest 1 0 (0, 0) w"
  by (simp only: pmu_lex.munch_def pmu_scanner_simps)

lemma live_states [simp]:
  "Suc 0 \<in> pmu_live" "1 \<in> pmu_live" "4 \<in> pmu_live" "5 \<in> pmu_live" "6 \<in> pmu_live" "7 \<in> pmu_live" "8 \<in> pmu_live" "9 \<in> pmu_live" "10 \<in> pmu_live"
  "11 \<in> pmu_live" "12 \<in> pmu_live" "13 \<in> pmu_live" "14 \<in> pmu_live" "15 \<in> pmu_live" "16 \<in> pmu_live" "17 \<in> pmu_live"
  by (simp_all add: pmu_live_def)

lemma pmu_char_digit: "pmu_char ch = 5 \<longleftrightarrow> isdigit ch"
  by (auto simp: pmu_char_def pmu_class_def isdigit_def NUL_def)

lemma pmu_class_codes:
  "pmu_class n = 2 \<longleftrightarrow> n = 10" "pmu_class n = 3 \<longleftrightarrow> n = 44" "pmu_class n = 4 \<longleftrightarrow> n = 45" "pmu_class n = 6 \<longleftrightarrow> n = 58"
  "pmu_class n = 7 \<longleftrightarrow> n = 99" "pmu_class n = 8 \<longleftrightarrow> n = 102" "pmu_class n = 9 \<longleftrightarrow> n = 103" "pmu_class n = 10 \<longleftrightarrow> n = 105"
  "pmu_class n = 11 \<longleftrightarrow> n = 110" "pmu_class n = 12 \<longleftrightarrow> n = 111"
  by (simp_all add: pmu_class_def)

lemma pmu_char_code:
  assumes "pmu_class (of_char ch) = k \<longleftrightarrow> (of_char ch :: nat) = of_char c" "k \<noteq> 1" "c \<noteq> NUL"
  shows "pmu_char ch = k \<longleftrightarrow> ch = c"
  using assms by (auto simp: pmu_char_def)

lemma pmu_char_letters:
  "pmu_char ch = 2 \<longleftrightarrow> ch = CHR 0x0A" "pmu_char ch = 3 \<longleftrightarrow> ch = CHR '',''" "pmu_char ch = 4 \<longleftrightarrow> ch = CHR ''-''"
  "pmu_char ch = 6 \<longleftrightarrow> ch = CHR '':''" "pmu_char ch = 7 \<longleftrightarrow> ch = CHR ''c''" "pmu_char ch = 8 \<longleftrightarrow> ch = CHR ''f''"
  "pmu_char ch = 9 \<longleftrightarrow> ch = CHR ''g''" "pmu_char ch = 10 \<longleftrightarrow> ch = CHR ''i''" "pmu_char ch = 11 \<longleftrightarrow> ch = CHR ''n''"
  "pmu_char ch = 12 \<longleftrightarrow> ch = CHR ''o''"
  by (rule pmu_char_code; simp add: pmu_class_codes NUL_def)+

lemma note_accepting: "s \<in> pmu_live \<Longrightarrow> pmu_yy_accept ! s \<noteq> 0 \<Longrightarrow> note_accept pmu_ftabs s p la = (s, p)"
  by (simp add: pmu_dfa.note_accept_live pmu_accepts)

text \<open>A run of digits.\<close>

lemma digits_state: "s \<in> {8, 11} \<Longrightarrow> list_all isdigit ds \<Longrightarrow> pmu_dfa.state_after s ds \<in> {8, 11}"
proof (induction ds arbitrary: s)
  case (Cons d ds)
  have "pmu_char d = 5" using Cons.prems(2) by (simp add: pmu_char_digit)
  then have "pmu_dfa.delta s d = 11" using Cons.prems(1) by (auto simp: pmu_delta pmu_next_def)
  then show ?case using Cons.IH [of 11] Cons.prems(2) by simp
qed simp

lemma munch_digits:
  assumes "isdigit d" "list_all isdigit ds" "rest = [] \<or> \<not> isdigit (hd rest)"
  shows "\<exists>q\<in>{8, 11}. pmu_dfa.longest 1 0 (0, 0) (d # ds @ rest) = (q, Suc (length ds))"
proof -
  have "pmu_char d = 5" using assms(1) by (simp add: pmu_char_digit)
  then have "pmu_dfa.delta 1 d = 8" by (simp add: pmu_delta pmu_next_def)
  then have q: "pmu_dfa.state_after 1 (d # ds) \<in> {8, 11}" (is "?q \<in> _") using digits_state [of 8 ds] assms(2) by simp
  have "pmu_dfa.longest 1 0 (0, 0) ((d # ds) @ rest) = pmu_dfa.longest ?q (0 + length (d # ds)) (pmu_dfa.trail 1 0 (0, 0) (d # ds)) rest"
    by (rule pmu_dfa.longest_append)
  also have "\<dots> = note_accept pmu_ftabs ?q (0 + length (d # ds)) (pmu_dfa.trail 1 0 (0, 0) (d # ds))"
    using q assms(3) pmu_char_digit [of "hd rest"] by (intro pmu_dfa.stuck) (auto simp: pmu_delta pmu_next_def)
  also have "\<dots> = (?q, Suc (length ds))" using q by (subst note_accepting) (auto simp: pmu_yy_accept_def)
  finally show ?thesis using q by auto
qed

text \<open>Any other character alone, or a \<^verbatim>\<open>config\<close>.\<close>

lemma munch_single:
  assumes "\<not> isdigit c" "c \<noteq> CHR ''c''"
  shows "pmu_dfa.longest 1 0 (0, 0) (c # cs) = (pmu_dfa.delta 1 c, 1)"
proof -
  have q: "pmu_dfa.delta 1 c \<in> {4, 5, 6, 7, 9}"
    using assms pmu_char_digit [of c] pmu_char_letters(5) [of c] by (auto simp: pmu_delta pmu_next_def)
  then have "pmu_dfa.longest (pmu_dfa.delta 1 c) 1 (0, 0) cs = note_accept pmu_ftabs (pmu_dfa.delta 1 c) 1 (0, 0)"
    by (intro pmu_dfa.dead_end) (auto simp: entry_def pmu_yy_base_def)
  moreover have "note_accept pmu_ftabs (pmu_dfa.delta 1 c) 1 (0, 0) = (pmu_dfa.delta 1 c, 1)"
    using q by (intro note_accepting) (auto simp: pmu_yy_accept_def)
  ultimately show ?thesis using pmu_lex.longest_start [of undefined undefined undefined 0 "(0, 0)" c cs] by simp
qed

lemma longest_jam: "pmu_dfa.longest 17 p la w = la"
  using pmu_dfa.dead_end [of 17 p la w] by (simp add: pmu_dfa.note_accept_live pmu_accepts entry_def pmu_yy_base_def pmu_yy_accept_def)

lemma longest_on:
  "s \<in> pmu_live \<Longrightarrow> pmu_dfa.longest s p la (y # ys) =
     pmu_dfa.longest (pmu_next s (pmu_char y)) (p + 1) (if pmu_yy_accept ! s = 0 then la else (s, p)) ys"
  "s \<in> pmu_live \<Longrightarrow> pmu_dfa.longest s p la [] = (if pmu_yy_accept ! s = 0 then la else (s, p))"
  by (simp_all add: pmu_dfa.longest_def pmu_dfa.note_accept_live pmu_accepts pmu_delta)

lemma longest_16: "pmu_dfa.longest 16 p la w = (16, p)"
  using pmu_dfa.dead_end [of 16 p la w] by (simp add: pmu_dfa.note_accept_live pmu_accepts entry_def pmu_yy_base_def pmu_yy_accept_def)

lemma longest_15: "pmu_dfa.longest 15 p la w = (if take 1 w = ''g'' then (16, p + 1) else la)"
  by (cases w) (simp_all add: longest_on pmu_next_def pmu_char_letters pmu_yy_accept_def longest_16 longest_jam)

lemma longest_14: "pmu_dfa.longest 14 p la w = (if take 2 w = ''ig'' then (16, p + 2) else la)"
  by (cases w) (simp_all add: longest_on pmu_next_def pmu_char_letters pmu_yy_accept_def longest_15 longest_jam numeral_2_eq_2)

lemma longest_13: "pmu_dfa.longest 13 p la w = (if take 3 w = ''fig'' then (16, p + 3) else la)"
  by (cases w) (simp_all add: longest_on pmu_next_def pmu_char_letters pmu_yy_accept_def longest_14 longest_jam)

lemma longest_12: "pmu_dfa.longest 12 p la w = (if take 4 w = ''nfig'' then (16, p + 4) else la)"
  by (cases w) (simp_all add: longest_on pmu_next_def pmu_char_letters pmu_yy_accept_def longest_13 longest_jam)

lemma longest_10: "pmu_dfa.longest 10 p la w = (if take 5 w = ''onfig'' then (16, p + 5) else (10, p))"
  by (cases w) (simp_all add: longest_on pmu_next_def pmu_char_letters pmu_yy_accept_def longest_12 longest_jam)

lemma munch_c: "pmu_dfa.longest 1 0 (0, 0) (CHR ''c'' # cs) = (if take 6 (CHR ''c'' # cs) = ''config'' then (16, 6) else (10, 1))"
proof -
  have "pmu_char (CHR ''c'') = 7" by (simp add: pmu_char_letters)
  then have "pmu_dfa.longest 1 0 (0, 0) (CHR ''c'' # cs) = pmu_dfa.longest 10 1 (0, 0) cs"
    by (simp add: longest_on pmu_next_def pmu_yy_accept_def)
  then show ?thesis by (simp add: longest_10)
qed

section \<open>Tokens\<close>

lemma number_token:
  assumes "ds \<noteq> []" "list_all isdigit ds"
  shows "value10 ds = Return (fst (tok_of (number ds))) (snd (tok_of (number ds)))"
proof -
  have "dropWhile isspace ds = ds" "takeWhile isdigit ds = ds" "hd ds \<noteq> CHR ''-''" "hd ds \<noteq> CHR ''+''"
    using assms isdigit_not_space by (cases ds; auto simp: list_all_iff)+
  then have "scan_int ds = Some (int (read_digits ds), dropWhile isdigit ds)"
    using assms(1) by (simp add: scan_int_def Let_def del: takeWhile_eq_all_conv)
  then show ?thesis by (auto simp: value10_def strtoul_fails_def strtoull10_def number_def)
qed

text \<open>The rule of a character that is a token of its own.\<close>

definition single :: "char \<Rightarrow> token list" where
  "single c = (if c = CHR ''-'' then [Dash] else if c = CHR '':'' then [Colon] else if c = CHR '','' then [Comma] else [])"

lemma single_rule:
  assumes "\<not> isdigit c" "c \<noteq> CHR ''c''"
  shows "pmu_rule (pmu_yy_accept ! pmu_next 1 (pmu_char c)) text =
    (case single c of [] \<Rightarrow> Skip | t # _ \<Rightarrow> Return (fst (tok_of t)) (snd (tok_of t)))"
proof -
  consider "pmu_char c = 4" | "pmu_char c = 6" | "pmu_char c = 3" | "pmu_char c \<notin> {3, 4, 5, 6, 7}"
    using assms by (auto simp: pmu_char_digit pmu_char_letters)
  then show ?thesis
  proof cases
    case 1
    then have "single c = [Dash]" by (simp add: single_def pmu_char_letters)
    then show ?thesis using 1 by (simp add: pmu_next_def pmu_yy_accept_def pmu_rule_def)
  next
    case 2
    then have "single c = [Colon]" by (simp add: single_def pmu_char_letters)
    then show ?thesis using 2 by (simp add: pmu_next_def pmu_yy_accept_def pmu_rule_def)
  next
    case 3
    then have "single c = [Comma]" by (simp add: single_def pmu_char_letters)
    then show ?thesis using 3 by (simp add: pmu_next_def pmu_yy_accept_def pmu_rule_def)
  next
    case 4
    then have "pmu_next 1 (pmu_char c) \<in> {4, 5}" by (simp add: pmu_next_def)
    moreover have "single c = []" using 4 by (simp add: single_def pmu_char_letters)
    ultimately show ?thesis by (auto simp: pmu_yy_accept_def pmu_rule_def)
  qed
qed

abbreviation "pmu_lexes io tty jc \<equiv> flex_scanner.lexes (pmu_scanner io tty enough_memory jc) 1"

lemma pmu_lexes_step:
  assumes "pmu_dfa.longest 1 0 (0, 0) (c # cs) = (q, k)" "q \<in> pmu_live"
    "pmu_rule (pmu_yy_accept ! q) (take k (c # cs)) = (case now of [] \<Rightarrow> Skip | t # _ \<Rightarrow> Return (fst (tok_of t)) (snd (tok_of t)))"
    "length now \<le> 1" "pmu_lexes io tty jc (drop k (c # cs)) (map tok_of ts)"
  shows "pmu_lexes io tty jc (c # cs) (map tok_of (now @ ts))"
proof -
  have m: "flex_scanner.munch (pmu_scanner io tty enough_memory jc) 1 (c # cs) = (q, k)" using assms(1) pmu_munch by metis
  show ?thesis
  proof (cases now)
    case Nil
    then show ?thesis using assms pmu_accepts [OF assms(2)] by (intro pmu_lex.lexes_Skip [OF _ m]) simp_all
  next
    case (Cons t us)
    then have "us = []" using assms(4) by simp
    moreover have "pmu_lexes io tty jc (c # cs) ((fst (tok_of t), snd (tok_of t)) # map tok_of ts)"
      using assms Cons pmu_accepts [OF assms(2)] by (intro pmu_lex.lexes_Return [OF _ m]) simp_all
    ultimately show ?thesis using Cons by simp
  qed
qed

lemma lexes_tokens: "pmu_lexes io tty jc content (map tok_of (tokens content))"
proof (induction content rule: tokens.induct)
  case 1
  show ?case using pmu_lex.lexes_Nil by simp
next
  case (2 c cs)
  consider "isdigit c" | "\<not> isdigit c" "c = CHR ''c''" | "\<not> isdigit c" "c \<noteq> CHR ''c''" by blast
  then show ?case
  proof cases
    case 1
    let ?ds = "takeWhile isdigit cs" and ?rest = "dropWhile isdigit cs"
    have a: "list_all isdigit ?ds" "?rest = [] \<or> \<not> isdigit (hd ?rest)"
      using hd_dropWhile [of isdigit cs] by (auto simp: list_all_iff dest: set_takeWhileD)
    obtain q where q: "q \<in> {8, 11}" "pmu_dfa.longest 1 0 (0, 0) (c # cs) = (q, Suc (length ?ds))"
      using munch_digits [OF 1 a] by auto
    have d: "take (Suc (length ?ds)) (c # cs) = c # ?ds" "drop (Suc (length ?ds)) (c # cs) = ?rest"
      by (simp_all add: takeWhile_eq_take [symmetric] dropWhile_eq_drop)
    have "pmu_lexes io tty jc (c # cs) (map tok_of ([number (c # ?ds)] @ tokens ?rest))"
      using q(1) d 1 a(1) "2.IH"(1) [OF 1] number_token [of "c # ?ds"]
      by (intro pmu_lexes_step [OF q(2)]) (auto simp: pmu_yy_accept_def pmu_rule_def)
    then show ?thesis using 1 by simp
  next
    case 2
    show ?thesis
    proof (cases "take 6 (c # cs) = ''config''")
      case True
      have "pmu_lexes io tty jc (c # cs) (map tok_of ([Config] @ tokens (drop 5 cs)))"
        using "2.IH"(2) [OF 2(1) True] True 2 munch_c [of cs]
        by (intro pmu_lexes_step [of c cs 16 6]) (simp_all add: pmu_yy_accept_def pmu_rule_def)
      then show ?thesis using 2 True by simp
    next
      case False
      have "pmu_lexes io tty jc (c # cs) (map tok_of ([] @ tokens cs))"
        using "2.IH"(6) 2 False munch_c [of cs]
        by (intro pmu_lexes_step [of c cs 10 1]) (simp_all add: pmu_yy_accept_def pmu_rule_def)
      then show ?thesis using 2 False by simp
    qed
  next
    case 3
    have n: "take 6 (c # cs) \<noteq> ''config''" using 3 by (auto simp: take_Cons')
    have "pmu_lexes io tty jc (c # cs) (map tok_of (single c @ tokens cs))"
      using "2.IH"(3-6) 3 n munch_single [OF 3, of cs] single_rule [OF 3]
      by (intro pmu_lexes_step [of c cs "pmu_next 1 (pmu_char c)" 1]) (auto simp: pmu_delta pmu_next_live single_def)
    moreover have "tokens (c # cs) = single c @ tokens cs" using 3 n by (simp add: single_def)
    ultimately show ?thesis by (simp only:)
  qed
qed

lemma feeds_tokens:
  assumes "holds io f content" "length content < 2 ^ 29"
  shows "feeds (perf_pmu_lex io tty enough_memory jc) (scanner_on f) (map tok_of (tokens content))"
  unfolding perf_pmu_lex_def
  by (rule pmu_lex.feeds_file [OF refl _ assms(2) lexes_tokens]) (simp add: reads_YY_INPUT [OF assms(1)])

end
