(* ===== verification/PmuSpec.thy ===== *)
theory PmuSpec
  imports PmuSim PmuTokens
begin

text \<open>
  Scanner and parser together, on the text of a format file: what is computed for every text, and that
  the text of a description of bit ranges yields exactly these ranges.
\<close>

section \<open>Descriptions and their text\<close>

text \<open>A term says which bits of which configuration word hold a field: the number of the word, or none
  for the plain one, and ranges of bits.\<close>

type_synonym range = "nat \<times> nat"
type_synonym description = "nat option \<times> range list"

fun range_text :: "range \<Rightarrow> string" where
  "range_text (lo, hi) = decimal_nat lo @ (if lo = hi then [] else CHR ''-'' # decimal_nat hi)"

definition ranges_text :: "range list \<Rightarrow> string" where
  "ranges_text rs = range_text (hd rs) @ concat (map (\<lambda>r. CHR '','' # range_text r) (tl rs))"

fun term_text :: "description \<Rightarrow> string" where
  "term_text (w, rs) = ''config'' @ (case w of None \<Rightarrow> [] | Some n \<Rightarrow> decimal_nat n) @ CHR '':'' # ranges_text rs"

definition format_text :: "description list \<Rightarrow> string" where
  "format_text ds = concat (map (\<lambda>d. term_text d @ [CHR 0x0A]) ds)"

fun range_ok :: "range \<Rightarrow> bool" where
  "range_ok (lo, hi) \<longleftrightarrow> lo \<le> hi \<and> hi < 64"

fun description_ok :: "description \<Rightarrow> bool" where
  "description_ok (w, rs) \<longleftrightarrow> (case w of None \<Rightarrow> True | Some n \<Rightarrow> n < 2 ^ 64) \<and> rs \<noteq> [] \<and> list_all range_ok rs"

text \<open>The bitmap of the ranges and the call that reports a term.\<close>

definition bitmap :: "range list \<Rightarrow> u64" where
  "bitmap rs = foldr set_bit (concat (map (\<lambda>(lo, hi). [lo..<hi + 1]) rs)) 0"

fun reported :: "description \<Rightarrow> set_value" where
  "reported (None, rs) = Set_value_config (bitmap rs)"
| "reported (Some n, rs) = Set_value (of_nat n) (bitmap rs)"

section \<open>Bits\<close>

lemma bit_foldr_set_bit: "n < 64 \<Longrightarrow> bit (foldr set_bit xs (w :: u64)) n \<longleftrightarrow> n \<in> set xs \<or> bit w n"
  by (induction xs) (auto simp: bit_set_bit_iff)

lemma in_ranges: "n \<in> set (concat (map (\<lambda>(lo, hi). [lo..<hi + 1]) rs)) \<longleftrightarrow> (\<exists>(lo, hi)\<in>set rs. lo \<le> n \<and> n \<le> hi)"
  by (induction rs) auto

lemma bit_bitmap: "n < 64 \<Longrightarrow> bit (bitmap rs) n \<longleftrightarrow> (\<exists>(lo, hi)\<in>set rs. lo \<le> n \<and> n \<le> hi)"
  unfolding bitmap_def by (simp only: bit_foldr_set_bit in_ranges) simp

lemma bitmap_Cons: "bitmap (r # rs) = bitmap [r] OR bitmap rs"
  by (rule bit_word_eqI) (auto simp: bit_bitmap bit_or_iff)

lemma set_bits_range:
  assumes "0 \<le> b" "hi < 64"
  shows "set_bits b hi w = Some (foldr set_bit [nat b..<nat (hi + 1)] w)"
  using assms
proof (induction b hi w rule: set_bits.induct)
  case (1 b hi w)
  show ?case
  proof (cases "b \<le> hi")
    case True
    have "foldr set_bit [nat (b + 1)..<nat (hi + 1)] (set_bit (nat b) w) = foldr set_bit [nat b..<nat (hi + 1)] w"
      by (rule bit_word_eqI) (use "1.prems" True in \<open>auto simp: bit_foldr_set_bit bit_set_bit_iff\<close>)
    then show ?thesis using 1 True by (subst set_bits.simps) simp
  next
    case False
    then show ?thesis by (subst set_bits.simps) simp
  qed
qed

lemma sint_small: "n < 64 \<Longrightarrow> sint (of_nat n :: u64) = int n"
  by (simp add: signed_of_nat signed_take_bit_int_eq_self)

lemma bits_range_bitmap:
  assumes "lo \<le> hi" "hi < 64"
  shows "bits_range (of_nat lo) (if lo = hi then 0 else of_nat hi) us = Match (bitmap [(lo, hi)]) us"
proof -
  have "perf_pmu__set_format (int lo) (if lo = hi then 0 else int hi) = Some (bitmap [(lo, hi)])"
    using assms set_bits_range [of "int lo" "int hi" 0]
    by (auto simp: perf_pmu__set_format_def bitmap_def Let_def nat_add_distrib)
  then show ?thesis using assms by (cases "lo = hi") (simp_all add: bits_range_def sint_small)
qed

section \<open>Tokens of the text\<close>

fun range_tokens :: "range \<Rightarrow> token list" where
  "range_tokens (lo, hi) = Num (of_nat lo) # (if lo = hi then [] else [Dash, Num (of_nat hi)])"

definition ranges_tokens :: "range list \<Rightarrow> token list" where
  "ranges_tokens rs = range_tokens (hd rs) @ concat (map (\<lambda>r. Comma # range_tokens r) (tl rs))"

fun term_tokens :: "description \<Rightarrow> token list" where
  "term_tokens (w, rs) = Config # (case w of None \<Rightarrow> [] | Some n \<Rightarrow> [Num (of_nat n)]) @ Colon # ranges_tokens rs"

definition stops :: "string \<Rightarrow> bool" where
  "stops rest \<longleftrightarrow> rest = [] \<or> \<not> isdigit (hd rest)"

lemma stops_Cons [simp]: "stops (CHR ''-'' # rest)" "stops (CHR '':'' # rest)" "stops (CHR '','' # rest)" "stops (CHR 0x0A # rest)"
  by (simp_all add: stops_def isdigit_def)

lemma tokens_number:
  assumes "n < 2 ^ 64" "stops rest"
  shows "tokens (decimal_nat n @ rest) = Num (of_nat n) # tokens rest"
proof -
  obtain c cs where d: "decimal_nat n = c # cs" using decimal_nat_nonempty by (cases "decimal_nat n") auto
  have g: "isdigit x" if "x \<in> set (c # cs)" for x using that d decimal_nat_isdigit [of x n] by simp
  have r: "takeWhile isdigit rest = []" "dropWhile isdigit rest = rest" using assms(2) by (cases rest; auto simp: stops_def)+
  have "takeWhile isdigit (c # cs @ rest) = c # cs" "dropWhile isdigit (cs @ rest) = rest"
    using g r by (auto simp: takeWhile_append2 dropWhile_append2)
  then have "tokens (c # cs @ rest) = number (c # cs) # tokens rest" using g [of c] by simp
  then show ?thesis using d assms(1) read_decimal_nat [of n] by (simp add: number_def)
qed

lemma tokens_range: "range_ok r \<Longrightarrow> stops rest \<Longrightarrow> tokens (range_text r @ rest) = range_tokens r @ tokens rest"
  by (cases r) (auto simp: tokens_number isdigit_def)

lemma tokens_commas:
  "list_all range_ok rs \<Longrightarrow> tokens (concat (map (\<lambda>r. CHR '','' # range_text r) rs) @ CHR 0x0A # rest) =
    concat (map (\<lambda>r. Comma # range_tokens r) rs) @ tokens rest \<and>
    stops (concat (map (\<lambda>r. CHR '','' # range_text r) rs) @ CHR 0x0A # rest)"
  by (induction rs) (simp_all add: tokens_range isdigit_def)

lemma tokens_term:
  assumes "description_ok d"
  shows "tokens (term_text d @ CHR 0x0A # rest) = term_tokens d @ tokens rest"
proof -
  obtain w r rs where d: "d = (w, r # rs)" using assms by (cases d) (auto simp: neq_Nil_conv)
  have "tokens (ranges_text (r # rs) @ CHR 0x0A # rest) = ranges_tokens (r # rs) @ tokens rest"
    using assms d tokens_commas [of rs rest] by (simp add: ranges_text_def ranges_tokens_def tokens_range)
  then show ?thesis using assms d by (auto simp: tokens_number isdigit_def split: option.splits)
qed

lemma tokens_format: "list_all description_ok ds \<Longrightarrow> tokens (format_text ds) = concat (map term_tokens ds)"
  by (induction ds) (simp_all add: format_text_def tokens_term)

section \<open>Parsing them\<close>

definition plain_end :: "token list \<Rightarrow> bool" where
  "plain_end us \<longleftrightarrow> us = [] \<or> hd us = Config"

lemma bit_term_range:
  assumes "range_ok r" "us = [] \<or> hd us \<noteq> Dash"
  shows "bit_term (range_tokens r @ us) = Match (bitmap [r]) us"
proof -
  obtain lo hi where r: "r = (lo, hi)" by (cases r)
  show ?thesis
    using assms r bits_range_bitmap [of lo hi us]
    by (cases "lo = hi"; cases us) (auto simp: bit_term_def split: token.splits)
qed

lemma more_bits_ranges:
  "list_all range_ok rs \<Longrightarrow> plain_end us \<Longrightarrow>
    more_bits acc (concat (map (\<lambda>r. Comma # range_tokens r) rs) @ us) = Match (acc OR bitmap rs) us"
proof (induction rs arbitrary: acc)
  case Nil
  then show ?case by (cases us) (auto simp: more_bits_end plain_end_def bitmap_def)
next
  case (Cons r rs)
  let ?us = "concat (map (\<lambda>r. Comma # range_tokens r) rs) @ us"
  have "?us = [] \<or> hd ?us \<noteq> Dash" using Cons.prems(2) by (cases rs) (auto simp: plain_end_def)
  then have "bit_term (range_tokens r @ ?us) = Match (bitmap [r]) ?us"
    using Cons.prems(1) by (intro bit_term_range) simp_all
  then show ?case using Cons by (simp add: more_bits_Comma bitmap_Cons [of r rs] or.assoc)
qed

lemma format_term_description:
  assumes "description_ok d" "plain_end us"
  shows "format_term (term_tokens d @ us) = Match (reported d) us"
proof -
  obtain w r rs where d: "d = (w, r # rs)" using assms(1) by (cases d) (auto simp: neq_Nil_conv)
  let ?us = "concat (map (\<lambda>r. Comma # range_tokens r) rs) @ us"
  have "?us = [] \<or> hd ?us \<noteq> Dash" using assms(2) by (cases rs) (auto simp: plain_end_def)
  then have "bits (ranges_tokens (r # rs) @ us) = Match (bitmap (r # rs)) us"
    using assms d bit_term_range [of r ?us] more_bits_ranges [of rs us]
    by (simp add: bits_def ranges_tokens_def bitmap_Cons [of r rs])
  then show ?thesis using d by (auto simp: format_term_def split: option.splits)
qed

lemma term_tokens_Config: "\<exists>us. term_tokens d = Config # us"
  by (cases d) simp

lemma format_descriptions:
  "ds \<noteq> [] \<Longrightarrow> list_all description_ok ds \<Longrightarrow>
    format calls (concat (map term_tokens ds)) = Some (0, calls @ map reported ds)"
proof (induction ds arbitrary: calls)
  case (Cons d ds)
  let ?us = "concat (map term_tokens ds)"
  have "?us = [] \<and> ds = [] \<or> (\<exists>us. ?us = Config # us) \<and> ds \<noteq> []" using term_tokens_Config [of "hd ds"] by (cases ds) auto
  moreover from this have "format_term (term_tokens d @ ?us) = Match (reported d) ?us"
    using Cons.prems(2) by (intro format_term_description) (auto simp: plain_end_def)
  ultimately show ?case using Cons by (subst format.simps) auto
qed simp

section \<open>A file that is interrupted\<close>

text \<open>A file whose every \<^verbatim>\<open>fread\<close> is interrupted once and then yields a single character. The state is
  whether the next one is interrupted, the error flag and what is left.\<close>

definition slow_io :: "(bool \<times> bool \<times> string) stdio" where
  "slow_io =
    \<lparr>getc = (\<lambda>(p, e, s). case s of [] \<Rightarrow> (None, (p, e, [])) | c # cs \<Rightarrow> (Some c, (p, e, cs))),
     fread = (\<lambda>n (p, e, s). if p then ([], (False, True, s)) else (take 1 s, (True, e, drop 1 s))),
     ferror = (\<lambda>(p, e, s). e), errno_EINTR = (\<lambda>(p, e, s). e), clearerr = (\<lambda>(p, e, s). (p, False, s))\<rparr>"

lemma slow_io_simps:
  "getc slow_io (p, e, s) = (case s of [] \<Rightarrow> (None, (p, e, [])) | c # cs \<Rightarrow> (Some c, (p, e, cs)))"
  "fread slow_io n (p, e, s) = (if p then ([], (False, True, s)) else (take 1 s, (True, e, drop 1 s)))"
  "ferror slow_io (p, e, s) = e" "errno_EINTR slow_io (p, e, s) = e" "clearerr slow_io (p, e, s) = (p, False, s)"
  by (simp_all add: slow_io_def)

lemma slow_io_fread:
  "\<exists>k f1. interrupted slow_io n k (p, False, s) f1 \<and> fread slow_io n f1 = (take 1 s, (True, False, drop 1 s))"
proof (cases p)
  case True
  then show ?thesis by (intro exI [of _ "Suc 0"] exI [of _ "(False, False, s)"]) (simp add: slow_io_simps)
next
  case False
  then show ?thesis by (intro exI [of _ 0] exI [of _ "(False, False, s)"]) (simp add: slow_io_simps)
qed

lemma slow_io_holds: "holds slow_io (p, False, s) s"
proof (rule holds.coinduct [where X = "\<lambda>f s. \<exists>p. f = (p, False, s)"])
  show "\<exists>q. (p, False, s) = (q, False, s)" by simp
next
  fix f :: "bool \<times> bool \<times> string" and s assume "\<exists>p. f = (p, False, s)"
  then obtain p where f: "f = (p, False, s)" by blast
  let ?X = "\<lambda>f s. (\<exists>p. f = (p, False, s)) \<or> holds slow_io f s"
  have "\<exists>f'. getc slow_io f = (Some ch, f') \<and> ?X f' rest" if "s = ch # rest" for ch rest
    using that f by (simp add: slow_io_simps)
  moreover have "\<exists>f'. getc slow_io f = (None, f') \<and> \<not> ferror slow_io f' \<and> ?X f' []" if "s = []"
    using that f by (simp add: slow_io_simps)
  moreover have "\<exists>k f1 new f' rest. interrupted slow_io n k f f1 \<and> fread slow_io n f1 = (new, f') \<and> \<not> ferror slow_io f' \<and>
      s = new @ rest \<and> length new \<le> n \<and> (new = [] \<longrightarrow> s = []) \<and> ?X f' rest" if n: "1 \<le> n" for n
  proof -
    obtain k f1 where k: "interrupted slow_io n k f f1" "fread slow_io n f1 = (take 1 s, (True, False, drop 1 s))"
      using slow_io_fread f by blast
    show ?thesis
      by (rule exI [of _ k], rule exI [of _ f1], rule exI [of _ "take 1 s"], rule exI [of _ "(True, False, drop 1 s)"],
          rule exI [of _ "drop 1 s"]) (use k n in \<open>auto simp: slow_io_simps\<close>)
  qed
  ultimately show "\<exists>content f'. f = f' \<and> s = content \<and>
      (\<forall>ch rest. content = ch # rest \<longrightarrow> (\<exists>f''. getc slow_io f' = (Some ch, f'') \<and> ?X f'' rest)) \<and>
      (content = [] \<longrightarrow> (\<exists>f''. getc slow_io f' = (None, f'') \<and> \<not> ferror slow_io f'' \<and> ?X f'' [])) \<and>
      (\<forall>n\<ge>1. \<exists>k f1 new f'' rest. interrupted slow_io n k f' f1 \<and> fread slow_io n f1 = (new, f'') \<and> \<not> ferror slow_io f'' \<and>
        content = new @ rest \<and> length new \<le> n \<and> (new = [] \<longrightarrow> content = []) \<and> ?X f'' rest)"
    by blast
qed

section \<open>Properties\<close>

text \<open>C6: The scanner of format files yields, call by call and then for ever the end of the file, the tokens
  of the content of the file, in order and with their values. This holds for every content of less than
  2^29 characters, NUL characters among them, for a terminal and for other files, however the file is cut into
  reads, wherever the buffer ends within a token and however often it has to grow, and if reads are
  interrupted.\<close>

theorem pmu_scanner_tokens:
  assumes "holds io f content" "length content < 2 ^ 29"
  shows "feeds (perf_pmu_lex io tty enough_memory jc) (scanner_on f) (map tok_of (tokens content))"
  using assms by (rule feeds_tokens)

theorem pmu_scanner_tokens_witness:
  "feeds (perf_pmu_lex slow_io False enough_memory NUL) (scanner_on (True, False, ''config1:0-7,x32''))
     (map tok_of [Config, Num 1, Colon, Num 0, Dash, Num 7, Comma, Num 32])"
  using pmu_scanner_tokens [OF slow_io_holds [of True "''config1:0-7,x32''"], of False NUL]
  by (simp add: isdigit_def number_def read_digits_def)

text \<open>C5: Parsing a format file with scanner and parser as they are compiled - table-driven, with their buffers
  and stacks - ends for every content and computes what the recursive descent over the tokens of the
  content computes: the same result, 0 or 1, after the same reports of bitmaps, or an access outside the
  bitmap.\<close>

theorem pmu_parse_text:
  assumes "holds io f content" "length content < 2 ^ 29"
  shows "computes (format [] (tokens content)) (perf_pmu_parse (perf_pmu_lex io tty enough_memory jc) rm jk (scanner_on f))"
  using feeds_tokens [OF assms] by (rule parse_format)

theorem pmu_parse_text_witness:
  "computes (format [] (tokens ''config:x'')) (perf_pmu_parse (perf_pmu_lex slow_io False enough_memory NUL) (\<lambda>_. True) 0
     (scanner_on (True, False, ''config:x'')))"
  using pmu_parse_text [OF slow_io_holds [of True "''config:x''"], of False NUL "\<lambda>_. True" 0] by simp

text \<open>C7: The text of a list of descriptions - terms \<^verbatim>\<open>config:\<close> or \<^verbatim>\<open>config\<close> and a number, with ranges of bits
  below 64, one term in a line - is accepted, and exactly the configuration words and bitmaps of these
  descriptions are reported, in order.\<close>

theorem pmu_format_roundtrip:
  assumes "holds io f (format_text ds)" "length (format_text ds) < 2 ^ 29" "ds \<noteq> []" "list_all description_ok ds"
  shows "\<exists>st. perf_pmu_parse (perf_pmu_lex io tty enough_memory jc) rm jk (scanner_on f) = Some (Done 0 st) \<and>
    outer st = map reported ds"
  using parse_format [OF feeds_tokens [OF assms(1,2)], of tty jc rm jk] tokens_format [OF assms(4)]
    format_descriptions [OF assms(3,4), of "[]"] by (simp add: computes_def)

theorem pmu_format_roundtrip_witness:
  "\<exists>st. perf_pmu_parse (perf_pmu_lex slow_io False enough_memory NUL) (\<lambda>_. True) 0
      (scanner_on (True, False, format_text [(None, [(0, 2), (5, 5)]), (Some 1, [(0, 0)])])) = Some (Done 0 st) \<and>
    outer st = [Set_value_config 39, Set_value 1 1]"
proof -
  let ?ds = "[(None, [(0, 2), (5, 5)]), (Some 1, [(0, 0)])] :: description list"
  have t: "format_text ?ds = ''config:0-2,5'' @ [CHR 0x0A] @ ''config1:0'' @ [CHR 0x0A]"
    by code_simp
  have r: "map reported ?ds = [Set_value_config 39, Set_value 1 1]" by (simp add: bitmap_def upt_rec set_bit_eq_or)
  have "length (format_text ?ds) < 2 ^ 29" unfolding t by simp
  then show ?thesis
    using pmu_format_roundtrip [OF slow_io_holds [of True "format_text ?ds"], of False NUL "\<lambda>_. True" 0] r by simp
qed

text \<open>C40: The parser does not check that the bits of a format fit into its bitmap of 64 bits: for the text
  \<^verbatim>\<open>config:\<close> and a number from 64 up to 2^63 it writes outside the bitmap.\<close>

theorem pmu_bit_outside:
  assumes "holds io f (''config:'' @ decimal_nat n)" "64 \<le> n" "n < 2 ^ 63"
  shows "perf_pmu_parse (perf_pmu_lex io tty enough_memory jc) rm jk (scanner_on f) = Some Bad"
proof -
  have "length (decimal_nat n) \<le> Suc 18" using assms(3) by (intro length_decimal_nat) simp
  then have l: "length (''config:'' @ decimal_nat n) < 2 ^ 29" by simp
  have t: "tokens (''config:'' @ decimal_nat n) = [Config, Colon, Num (of_nat n)]"
    using tokens_number [of n "[]"] assms(3) by (simp add: stops_def isdigit_def)
  have "sint (of_nat n :: u64) = int n" using assms(3) by (simp add: signed_of_nat signed_take_bit_int_eq_self)
  then have "format [] [Config, Colon, Num (of_nat n)] = None"
    using assms(2) by (subst format.simps) (simp add: format_term_def bits_def bit_term_def bits_range_def perf_pmu__set_format_def
        set_bits.simps)
  then show ?thesis using parse_format [OF feeds_tokens [OF assms(1) l], of tty jc rm jk] t by (simp add: computes_def)
qed

theorem pmu_bit_outside_witness:
  "perf_pmu_parse (perf_pmu_lex slow_io False enough_memory NUL) (\<lambda>_. True) 0 (scanner_on (True, False, ''config:64'')) = Some Bad"
proof -
  have "''config:'' @ decimal_nat 64 = ''config:64''" by code_simp
  then show ?thesis using pmu_bit_outside [of slow_io "(True, False, ''config:64'')" 64] slow_io_holds [of True "''config:64''"] by simp
qed

end
