(* ===== verification/Spec2Isabelle.thy ===== *)
theory Spec2Isabelle
  imports JumpLabelSpec InitSpec NtpSpec TcpSpec DeviceSpec SeatSample CrcSpec ErrorTables ErrnoSpec SyscallSpec Sandbox PmuSpec
begin

text \<open>
  Verification of the C programs of the Laputa distribution.

  \<^bold>\<open>The programs and how they interact.\<close> The C sources under \<^verbatim>\<open>src/\<close> are build tools, the guest programs of
  the test machines with their peers, and generated tables that packages are built with.

  \<^item> The kernel package is built with \<^verbatim>\<open>packages/linux/files/x86-jump-label-patch.c\<close>, which rewrites the
    branches of static keys to NOPs in object files.
  \<^item> A test guest starts in \<^verbatim>\<open>guest/asterinas/initramfs/init.c\<close>, which mounts the root file system and
    executes \<^verbatim>\<open>/init\<close>. In the guest run probes that talk to programs on the host: \<^verbatim>\<open>clock/ntp-probe.c\<close>
    with \<^verbatim>\<open>ntp-oracle.c\<close> or \<^verbatim>\<open>ntp-peer.c\<close>, \<^verbatim>\<open>dhcp/tcp-client.c\<close> with \<^verbatim>\<open>peer-tcp.c\<close>. \<^verbatim>\<open>device/device-probe.c\<close>
    checks the device tree and the kernel events of its guest.
  \<^item> The seat daemon is tested by two clients of its socket protocol, \<^verbatim>\<open>seatd-rs/harness/vm-probe.c\<close> and
    \<^verbatim>\<open>mdevd-rs/tools/combined-seat-client.c\<close>.
  \<^item> The PTP daemon locks itself into the system call filter of \<^verbatim>\<open>ntpd-rs/statime-seccomp/seccomp.c\<close>.
  \<^item> The ext4 tools are built with the generated \<^verbatim>\<open>crc32c_table.h\<close>, \<^verbatim>\<open>prof_err.c\<close> and \<^verbatim>\<open>ext2_err.c\<close>, perf with
    \<^verbatim>\<open>arch_errno_name_array.c\<close>, \<^verbatim>\<open>syscalltbl.c\<close> and with generated scanners and parsers, among them \<^verbatim>\<open>pmu-flex.c\<close> and
    \<^verbatim>\<open>pmu-bison.c\<close>, which read the files that say in which bits of its configuration words a performance
    monitoring unit expects a field.

  \<^bold>\<open>Conventions.\<close> C integers whose width matters are words, signed values that the code keeps in range are
  integers. A byte buffer is a list of bytes and an access outside it is a value of the result type
  (\<open>Oob\<close> of \<open>run\<close>, \<open>Undefined\<close> of \<open>flow\<close>, the error constructor of a component's result), never an
  unspecified element. System calls, libraries and the network are parameters: either a record of
  functions on a state of their own, with their contract as a predicate that the theorem assumes and
  the witness establishes for a concrete instance, or the list of results that the calls of a run
  return. A loop over data is a structural recursion; a loop with another measure is a \<open>function\<close> with
  its termination proof; a loop that need not end is a \<open>partial_function\<close> or consumes the list of events.

  \<^bold>\<open>Theories.\<close>

  \<^item> \<^bold>\<open>Prelude, CLib\<close> Byte strings, reads and writes of buffers; decimal printing, decimal text and scanning, the string
    functions of the C library that the programs use. \<open>StringSearch\<close>: order of strings and binary search.
  \<^item> \<^bold>\<open>JumpLabel\<close> The patcher: ELF records, table lookup (\<open>locate\<close>), site resolution, patching of one
    instruction, clearing of relocations, the loop, file access and \<open>patch_main\<close>. \<open>JumpLabelAccess\<close> and
    \<open>JumpLabelImage\<close> give the reads and writes of every step and the file as one image of its patched
    sites; \<open>JumpLabelSpec\<close> proves that a successful run yields exactly that image, stays inside the
    buffer for files whose tables do not overlap, and is idempotent, and shows three defects.
  \<^item> \<^bold>\<open>InitHandoff\<close> The handoff over an arbitrary kernel with its trace of calls. \<open>InitPlan\<close> states it as a plan,
    a list of required calls with their phases; \<open>InitSpec\<close> proves that the program refines the plan, that
    \<^verbatim>\<open>/init\<close> is executed only after every earlier call succeeded, and that numbers are printed as plain decimal
    text.
  \<^item> \<^bold>\<open>NtpWire, NtpServers, NtpProbe\<close> Time stamps, the two servers and the probe. \<open>NtpSpec\<close> proves accuracy of
    a sample through either server (locale \<open>ntp_server\<close>), the round trip of time stamps (locale
    \<open>stamp_encoder\<close>), service under garbage, and the pause protocol.
  \<^item> \<^bold>\<open>TcpTransfer\<close> Payload server and client. \<open>TcpSpec\<close>: the transfer end to end over any cut of the stream, the
    detection of every difference, the disrupted transfer, the bounded wait.
  \<^item> \<^bold>\<open>DeviceProbe\<close> The sysfs and event checks. \<open>DeviceSpec\<close>: what a zero exit status means, which events are
    accepted, independence of device paths from the transport, and one defect.
  \<^item> \<^bold>\<open>SeatWire, VmProbe, SeatClient\<close> Framing, descriptor passing and the two clients in a state and result
    monad over a parameter system. \<open>SeatSpec\<close>: reading frames back however the stream is cut (locale
    \<open>framed_reader\<close>), the exact course of replies taken and requests sent, in which every device is closed
    by the identity in the reply that opened it, buffer bounds and one overrun; \<open>SeatSample\<close>: a daemon
    that answers.
  \<^item> \<^bold>\<open>CrcTable, CrcSpec\<close> The two tables of eight rows and 256 entries, and that every entry is the remainder of
    a bit-serial shift register (locale \<open>shift_register\<close>).
  \<^item> \<^bold>\<open>ErrorText, ErrorTables\<close> Messages, codes and registration of the error tables: a linked list at
    addresses, with failing allocations.
  \<^item> \<^bold>\<open>ErrnoNames, ErrnoSpec\<close> Names of error numbers by machine, injective and portable.
  \<^item> \<^bold>\<open>SyscallTable, SyscallTablesA to D, SyscallTables\<close> The system call tables of \<^verbatim>\<open>syscalltbl.c\<close>: names by number
    and numbers sorted by name for twenty machines, with a checker for such a pair, and the array that collects
    them for every choice of macros. \<open>SyscallSpec\<close>: binary search by name inverts every table.
  \<^item> \<^bold>\<open>Bison, BisonSpec\<close> The parser engine of \<^verbatim>\<open>pmu-bison.c\<close>, one definition for every label of \<^verbatim>\<open>yyparse\<close>, over tables,
    semantic actions and a scanner as parameters; a scanner that delivers given tokens is as good as their
    list.
  \<^item> \<^bold>\<open>Flex, FlexSpec, FlexTokens\<close> The scanner engine of \<^verbatim>\<open>pmu-flex.c\<close>: matching, backing up, the two end-of-buffer
    characters, refilling and growing the buffer, \<^verbatim>\<open>YY_INPUT\<close>. The locale \<open>automaton\<close> states what the compressed
    tables have to satisfy, \<open>flex_scanner\<close> proves that every call yields the longest match of what is left of
    the file, whatever its reads and the state of the buffer.
  \<^item> \<^bold>\<open>PmuParser, PmuGrammar, PmuSim\<close> Tables and actions of the format parser, its grammar as a recursive
    descent, and that the tables compute the descent for every list of tokens.
  \<^item> \<^bold>\<open>PmuScanner, PmuTokens\<close> Tables and actions of the format scanner, the tokens of a text, and the interpretations
    of the two locales for these tables. \<open>PmuSpec\<close>: scanner and parser together, the round trip from bit
    ranges to text and back, and one defect.
  \<^item> \<^bold>\<open>Sandbox\<close> The system call filter: all or nothing, no leaked context.

  \<^bold>\<open>Bounds and fuel.\<close> No definition uses fuel except the explicit event lists of server loops, which stand for
  the results of the calls in a run: a loop that has consumed them is waiting (\<open>Waiting\<close>), and the liveness
  theorem of the oracle says that it then has answered. The chain of defaults in a transition of the scanner is
  followed for at most as many steps as the automaton has states; the interpretation for the tables shows
  that this is enough. Texts of format files are shorter than \<open>2 ^ 29\<close> characters, so that the size of the buffer
  does not overflow an \<^verbatim>\<open>int\<close>, and allocations of less than \<open>2 ^ 31\<close> bytes succeed (\<open>enough_memory\<close>). \<open>wait_for\<close> makes at most 900 looks, as the code does.

  \<^bold>\<open>Not modelled.\<close> Rust and shell sources, test fixtures, configuration headers and macro constants; constant
  tables for code that is not part of the repository (instruction attributes, terminal capabilities,
  register definitions); the other generated parsers and scanners of perf and libxkbcommon, whose
  actions call functions that are not part of the repository; of \<^verbatim>\<open>pmu-flex.c\<close> the functions the scanner of
  files does not call (\<^verbatim>\<open>yyunput\<close>, \<^verbatim>\<open>input\<close>, the buffer stack, strings as input, accessors); \<^verbatim>\<open>udev-consumer.c\<close>, which only prints what a library
  delivers; the alarm that limits the run of \<^verbatim>\<open>tcp-client.c\<close>.
\<close>

end
